(* ===== verification/Mirai_Prelude.thy ===== *)
theory Mirai_Prelude
  imports Main "HOL-Library.Word"
begin

text \<open>
  Shared ground of the development: machine integers, the ways a C++ call can
  fail to return a value, sequencing of fallible and stateful calls, and decimal
  output of integers as \<open>"{}"\<close> prints them.  Strings are C++ byte strings,
  that is, lists of 8-bit characters.
\<close>

section \<open>Named collections\<close>

named_theorems res_simps \<open>evaluation of sequenced fallible calls\<close>
named_theorems writer_simps \<open>output of the JSON and text writers\<close>
named_theorems reader_simps \<open>evaluation of the JSON readers\<close>

section \<open>Machine integers\<close>

type_synonym u8 = "8 word"
type_synonym i32 = "32 word"
type_synonym u32 = "32 word"
type_synonym i64 = "64 word"
type_synonym u64 = "64 word"

text \<open>
  A signed integer is kept as its bit pattern and read with \<open>sint\<close>; the C++20
  conversions between integer types keep the low bits.
\<close>

definition i64_to_i32 :: "i64 \<Rightarrow> i32" where
  "i64_to_i32 w = ucast w"

definition u64_to_u32 :: "u64 \<Rightarrow> u32" where
  "u64_to_u32 w = ucast w"

lemma sint_i64_to_i32:
  "sint (i64_to_i32 w) = signed_take_bit 31 (sint w)"
  unfolding i64_to_i32_def
  by (rule bit_eqI) (simp add: bit_simps min_def)

lemma i64_to_i32_of_int [simp]: "i64_to_i32 (word_of_int i) = word_of_int i"
  unfolding i64_to_i32_def by (rule bit_word_eqI) (simp add: bit_simps)

lemma sint_inject [simp]: "sint (a :: 'a::len word) = sint b \<longleftrightarrow> a = b"
  by (rule word_eq_iff_signed [symmetric])

section \<open>Failures\<close>

text \<open>
  Error codes of simdjson, as far as the code distinguishes them.
\<close>

datatype simdjson_error = NO_SUCH_FIELD | INCORRECT_TYPE | OTHER_ERROR nat

text \<open>
  Exceptions the code throws or lets through.  A \<open>Mirai_exception\<close> carries the
  bit pattern of its \<open>MiraiStatus\<close>, a \<open>Http_status_exception\<close> the status
  number and the reason phrase, a \<open>System_error\<close> an error code of the network
  library, a \<open>User_exception\<close> whatever a caller's callback throws.
\<close>

datatype exn =
    Runtime_error string
  | Out_of_range
  | Simdjson_error simdjson_error
  | Mirai_exception i32
  | Http_status_exception nat string
  | System_error nat
  | User_exception nat

text \<open>
  A call that does not return a value throws, calls \<open>std::terminate\<close>, has
  undefined behaviour (a null or dangling pointer is followed), or, in a coroutine,
  completes with the done signal, which unwinds like an exception no handler catches.
  \<open>Out_of_fuel\<close> is not a behaviour of the code: it marks a recursion of the model
  that was given too little fuel, and is proved not to occur.
\<close>

datatype failure = Throw exn | Stopped | Terminate | Undefined_behaviour | Out_of_fuel

type_synonym 'a res = "failure + 'a"

definition throw :: "exn \<Rightarrow> 'a res" where
  "throw e = Inl (Throw e)"

definition bindE :: "'a res \<Rightarrow> ('a \<Rightarrow> 'b res) \<Rightarrow> 'b res" where
  "bindE m f = (case m of Inl e \<Rightarrow> Inl e | Inr x \<Rightarrow> f x)"

lemma bindE_Inl [simp, res_simps]: "bindE (Inl e) f = Inl e"
  by (simp add: bindE_def)

lemma bindE_Inr [simp, res_simps]: "bindE (Inr x) f = f x"
  by (simp add: bindE_def)

lemma bindE_throw [simp, res_simps]: "bindE (throw e) f = throw e"
  by (simp add: throw_def)

lemma throw_neq_Inr [simp]: "throw e \<noteq> Inr x" "Inr x \<noteq> throw e"
  by (simp_all add: throw_def)

lemma throw_eq_Inl [simp]: "throw e = Inl f \<longleftrightarrow> f = Throw e"
  by (auto simp: throw_def)

lemma bindE_eq_Inr [simp]:
  "bindE m f = Inr y \<longleftrightarrow> (\<exists>x. m = Inr x \<and> f x = Inr y)"
  by (cases m) auto

lemma bindE_eq_Inl:
  "bindE m f = Inl e \<longleftrightarrow> m = Inl e \<or> (\<exists>x. m = Inr x \<and> f x = Inl e)"
  by (cases m) auto

lemma bindE_assoc: "bindE (bindE m f) g = bindE m (\<lambda>x. bindE (f x) g)"
  by (cases m) auto

lemma bindE_cong [fundef_cong]:
  "m = m' \<Longrightarrow> (\<And>x. m' = Inr x \<Longrightarrow> f x = f' x) \<Longrightarrow> bindE m f = bindE m' f'"
  by (cases m') auto

text \<open>A loop that appends one converted element per iteration and stops at the first failure.\<close>

fun traverseE :: "('a \<Rightarrow> 'b res) \<Rightarrow> 'a list \<Rightarrow> 'b list res" where
  "traverseE f [] = Inr []"
| "traverseE f (x # xs) = bindE (f x) (\<lambda>y. bindE (traverseE f xs) (\<lambda>ys. Inr (y # ys)))"

lemma traverseE_cong [fundef_cong]:
  "xs = ys \<Longrightarrow> (\<And>x. x \<in> set ys \<Longrightarrow> f x = g x) \<Longrightarrow> traverseE f xs = traverseE g ys"
  by (induction ys arbitrary: xs) auto

lemma traverseE_eq_Inr:
  "traverseE f xs = Inr ys \<longleftrightarrow> list_all2 (\<lambda>x y. f x = Inr y) xs ys"
  by (induction xs arbitrary: ys) (auto simp: list_all2_Cons1)

lemma traverseE_map [simp]: "traverseE f (map g xs) = traverseE (\<lambda>x. f (g x)) xs"
  by (induction xs) auto

lemma traverseE_all_Inr: "(\<And>x. x \<in> set xs \<Longrightarrow> f x = Inr (g x)) \<Longrightarrow> traverseE f xs = Inr (map g xs)"
  by (induction xs) auto

lemma traverseE_fails:
  "traverseE f xs = Inl e \<Longrightarrow> \<exists>x\<in>set xs. f x = Inl e"
  by (induction xs) (auto simp: bindE_eq_Inl)

section \<open>Fuel\<close>

text \<open>
  \<open>fuelled r\<close>: the model's recursion did not run dry.  \<open>fuel_le r r'\<close>: with
  more fuel the result \<open>r\<close>, where it is one, stays the same.
\<close>

named_theorems fuel_intros \<open>introduction rules for the two fuel predicates\<close>

definition fuelled :: "'a res \<Rightarrow> bool" where
  "fuelled r \<longleftrightarrow> r \<noteq> Inl Out_of_fuel"

definition fuel_le :: "'a res \<Rightarrow> 'a res \<Rightarrow> bool" where
  "fuel_le r r' \<longleftrightarrow> r = Inl Out_of_fuel \<or> r = r'"

lemma fuelled_Inr [simp, fuel_intros]: "fuelled (Inr x)"
  by (simp add: fuelled_def)

lemma fuelled_throw [simp, fuel_intros]: "fuelled (throw e)"
  by (simp add: fuelled_def)

lemma fuelled_bindE [fuel_intros]:
  "fuelled m \<Longrightarrow> (\<And>x. m = Inr x \<Longrightarrow> fuelled (f x)) \<Longrightarrow> fuelled (bindE m f)"
  by (cases m) (auto simp: fuelled_def)

lemma fuelled_traverseE [fuel_intros]:
  "(\<And>x. x \<in> set xs \<Longrightarrow> fuelled (f x)) \<Longrightarrow> fuelled (traverseE f xs)"
  by (induction xs) (auto intro!: fuelled_bindE)

lemma fuel_le_refl [simp, fuel_intros]: "fuel_le r r"
  by (simp add: fuel_le_def)

lemma fuel_le_empty [simp]: "fuel_le (Inl Out_of_fuel) r"
  by (simp add: fuel_le_def)

lemma fuel_le_bindE [fuel_intros]:
  "fuel_le m m' \<Longrightarrow> (\<And>x. m' = Inr x \<Longrightarrow> fuel_le (f x) (f' x)) \<Longrightarrow> fuel_le (bindE m f) (bindE m' f')"
  by (cases m') (auto simp: fuel_le_def)

lemma fuel_le_traverseE [fuel_intros]:
  "(\<And>x. x \<in> set xs \<Longrightarrow> fuel_le (f x) (g x)) \<Longrightarrow> fuel_le (traverseE f xs) (traverseE g xs)"
  by (induction xs) (auto intro!: fuel_le_bindE)

lemma fuel_le_fuelled: "fuel_le r r' \<Longrightarrow> fuelled r \<Longrightarrow> r' = r"
  by (auto simp: fuel_le_def fuelled_def)

section \<open>Failures that stop the program\<close>

text \<open>
  \<open>graceful r\<close>: the call returns or throws; it neither aborts the program nor has
  undefined behaviour, and is not stopped.
\<close>

named_theorems graceful_intros \<open>introduction rules for calls that return or throw\<close>

definition graceful :: "'a res \<Rightarrow> bool" where
  "graceful r \<longleftrightarrow> r \<noteq> Inl Terminate \<and> r \<noteq> Inl Undefined_behaviour \<and> r \<noteq> Inl Stopped"

lemma graceful_Inr [simp, graceful_intros]: "graceful (Inr x)"
  by (simp add: graceful_def)

lemma graceful_throw [simp, graceful_intros]: "graceful (throw e)"
  by (simp add: graceful_def)

lemma graceful_empty [simp, graceful_intros]: "graceful (Inl Out_of_fuel)"
  by (simp add: graceful_def)

lemma graceful_bindE [graceful_intros]:
  "graceful m \<Longrightarrow> (\<And>x. m = Inr x \<Longrightarrow> graceful (f x)) \<Longrightarrow> graceful (bindE m f)"
  by (cases m) (auto simp: graceful_def)

lemma graceful_traverseE [graceful_intros]:
  "(\<And>x. x \<in> set xs \<Longrightarrow> graceful (f x)) \<Longrightarrow> graceful (traverseE f xs)"
  by (induction xs) (auto intro!: graceful_intros)

lemma graceful_fuelled: "graceful r \<Longrightarrow> fuelled r \<Longrightarrow> (\<exists>x. r = Inr x) \<or> (\<exists>e. r = throw e)"
  by (cases r) (auto simp: graceful_def fuelled_def throw_def intro: failure.exhaust)

section \<open>Stateful calls\<close>

text \<open>
  A stateful call takes the state and returns its outcome and the state it leaves.
  A failure keeps the effects that happened before it.  Calls into a library fail with
  an exception only (\<open>io\<close>).
\<close>

type_synonym ('s, 'e, 'a) fallible = "'s \<Rightarrow> ('e + 'a) \<times> 's"
type_synonym ('s, 'a) act = "('s, failure, 'a) fallible"
type_synonym ('s, 'a) io = "('s, exn, 'a) fallible"

definition returnS :: "'a \<Rightarrow> ('s, 'e, 'a) fallible" where
  "returnS x = (\<lambda>s. (Inr x, s))"

definition liftS :: "'e + 'a \<Rightarrow> ('s, 'e, 'a) fallible" where
  "liftS r = (\<lambda>s. (r, s))"

definition bindS :: "('s, 'e, 'a) fallible \<Rightarrow> ('a \<Rightarrow> ('s, 'e, 'b) fallible) \<Rightarrow> ('s, 'e, 'b) fallible" where
  "bindS m f = (\<lambda>s. case m s of (Inl e, s') \<Rightarrow> (Inl e, s') | (Inr x, s') \<Rightarrow> f x s')"

text \<open>Reading the state, changing it, and running a call on a part of it.\<close>

definition askS :: "('s \<Rightarrow> 'e + 'a) \<Rightarrow> ('s, 'e, 'a) fallible" where
  "askS f = (\<lambda>s. (f s, s))"

definition updS :: "('s \<Rightarrow> 's) \<Rightarrow> ('s, 'e, unit) fallible" where
  "updS f = (\<lambda>s. (Inr (), f s))"

definition throw_of :: "exn + 'a \<Rightarrow> 'a res" where
  "throw_of r = (case r of Inl e \<Rightarrow> throw e | Inr x \<Rightarrow> Inr x)"

text \<open>
  \<open>catch (...)\<close>: only exceptions are caught.  A destructor runs however the scope is
  left, by return or by an exception; an exception that leaves it ends the program.
\<close>

definition catchS :: "('s, 'a) act \<Rightarrow> (exn \<Rightarrow> ('s, 'a) act) \<Rightarrow> ('s, 'a) act" where
  "catchS m h = (\<lambda>s. case m s of (Inl (Throw e), s') \<Rightarrow> h e s' | (r, s') \<Rightarrow> (r, s'))"

definition noexceptS :: "('s, 'a) act \<Rightarrow> ('s, 'a) act" where
  "noexceptS m = catchS m (\<lambda>_. liftS (Inl Terminate))"

definition unwinds :: "failure \<Rightarrow> bool" where
  "unwinds f \<longleftrightarrow> (case f of Throw e \<Rightarrow> True | Stopped \<Rightarrow> True | _ \<Rightarrow> False)"

definition scopeS :: "('s, 'a) act \<Rightarrow> ('s, unit) act \<Rightarrow> ('s, 'a) act" where
  "scopeS m exit = (\<lambda>s. case m s of
     (Inl f, s') \<Rightarrow> if unwinds f then bindS (noexceptS exit) (\<lambda>_. liftS (Inl f)) s' else (Inl f, s')
   | (Inr x, s') \<Rightarrow> bindS (noexceptS exit) (\<lambda>_. returnS x) s')"

lemma returnS_apply [simp, res_simps]: "returnS x s = (Inr x, s)"
  by (simp add: returnS_def)

lemma liftS_apply [simp, res_simps]: "liftS r s = (r, s)"
  by (simp add: liftS_def)

lemma askS_apply [simp, res_simps]: "askS f s = (f s, s)"
  by (simp add: askS_def)

lemma updS_apply [simp, res_simps]: "updS f s = (Inr (), f s)"
  by (simp add: updS_def)

lemma throw_of_simps [simp, res_simps]: "throw_of (Inl e) = throw e" "throw_of (Inr x) = Inr x"
  by (simp_all add: throw_of_def)

lemma bindS_liftS_Inr [simp, res_simps]: "bindS (liftS (Inr x)) f = f x"
  by (rule ext) (simp add: bindS_def)

lemma bindS_liftS_Inl [simp, res_simps]: "bindS (liftS (Inl e)) f = liftS (Inl e)"
  by (rule ext) (simp add: bindS_def)

lemma bindS_returnS [simp, res_simps]: "bindS (returnS x) f = f x"
  by (rule ext) (simp add: bindS_def)

lemma bindS_Inl [res_simps]: "m s = (Inl e, s') \<Longrightarrow> bindS m f s = (Inl e, s')"
  by (simp add: bindS_def)

lemma bindS_Inr [res_simps]: "m s = (Inr x, s') \<Longrightarrow> bindS m f s = f x s'"
  by (simp add: bindS_def)

lemma bindS_eq_Inr:
  "bindS m f s = (Inr y, t) \<longleftrightarrow> (\<exists>x u. m s = (Inr x, u) \<and> f x u = (Inr y, t))"
  by (auto simp: bindS_def split: prod.splits sum.splits)

lemma bindS_eq_Inl:
  "bindS m f s = (Inl e, t) \<longleftrightarrow>
     m s = (Inl e, t) \<or> (\<exists>x u. m s = (Inr x, u) \<and> f x u = (Inl e, t))"
  by (auto simp: bindS_def split: prod.splits sum.splits)

lemma bindS_assoc: "bindS (bindS m f) g = bindS m (\<lambda>x. bindS (f x) g)"
  by (rule ext) (auto simp: bindS_def split: prod.splits sum.splits)

lemma bindS_return [simp]: "bindS m returnS = m"
  by (rule ext) (auto simp: bindS_def split: prod.splits sum.splits)

section \<open>Decimal output\<close>

definition dec_digit :: "nat \<Rightarrow> char" where
  "dec_digit d = ''0123456789'' ! d"

fun dec_nat :: "nat \<Rightarrow> string" where
  "dec_nat n = (if n < 10 then [dec_digit n] else dec_nat (n div 10) @ [dec_digit (n mod 10)])"

declare dec_nat.simps [simp del]

definition dec_int :: "int \<Rightarrow> string" where
  "dec_int i = (if i < 0 then ''-'' @ dec_nat (nat (- i)) else dec_nat (nat i))"

definition dec_i64 :: "i64 \<Rightarrow> string" where
  "dec_i64 w = dec_int (sint w)"

definition dec_i32 :: "i32 \<Rightarrow> string" where
  "dec_i32 w = dec_int (sint w)"

definition dec_u64 :: "u64 \<Rightarrow> string" where
  "dec_u64 w = dec_nat (unat w)"

lemma dec_nat_nonempty [simp]: "dec_nat n \<noteq> []"
  by (subst dec_nat.simps) simp

end
