(* ===== verification/Common_Types.thy ===== *)
theory Common_Types
  imports Mirai_Prelude
begin

text \<open>
  \<open>lib/include/mirai/core/common.h\<close>: the strongly typed identifiers, their
  validity and ordering, the kind of a message target and the literal operators.
\<close>

section \<open>Identifiers\<close>

datatype UserId = UserId (uid_id: i64)
datatype GroupId = GroupId (gid_id: i64)
datatype TempId = TempId (tid_uid: UserId) (tid_gid: GroupId)
datatype MessageId = MessageId (mid_id: i32)

definition UserId_default :: UserId where "UserId_default = UserId 0"
definition GroupId_default :: GroupId where "GroupId_default = GroupId 0"
definition TempId_default :: TempId where "TempId_default = TempId UserId_default GroupId_default"
definition MessageId_default :: MessageId where "MessageId_default = MessageId 0"

definition UserId_valid :: "UserId \<Rightarrow> bool" where
  "UserId_valid u \<longleftrightarrow> uid_id u \<noteq> 0"

definition GroupId_valid :: "GroupId \<Rightarrow> bool" where
  "GroupId_valid g \<longleftrightarrow> gid_id g \<noteq> 0"

text \<open>
  The defaulted \<open><=>\<close> compares the fields in order, as signed integers.
\<close>

instantiation UserId :: linorder
begin
definition less_eq_UserId where "(a::UserId) \<le> b \<longleftrightarrow> sint (uid_id a) \<le> sint (uid_id b)"
definition less_UserId where "(a::UserId) < b \<longleftrightarrow> sint (uid_id a) < sint (uid_id b)"
instance
proof
  fix a b :: UserId
  assume "a \<le> b" and "b \<le> a"
  then show "a = b" by (cases a; cases b) (simp add: less_eq_UserId_def)
qed (auto simp: less_eq_UserId_def less_UserId_def)
end

instantiation GroupId :: linorder
begin
definition less_eq_GroupId where "(a::GroupId) \<le> b \<longleftrightarrow> sint (gid_id a) \<le> sint (gid_id b)"
definition less_GroupId where "(a::GroupId) < b \<longleftrightarrow> sint (gid_id a) < sint (gid_id b)"
instance
proof
  fix a b :: GroupId
  assume "a \<le> b" and "b \<le> a"
  then show "a = b" by (cases a; cases b) (simp add: less_eq_GroupId_def)
qed (auto simp: less_eq_GroupId_def less_GroupId_def)
end

instantiation MessageId :: linorder
begin
definition less_eq_MessageId where "(a::MessageId) \<le> b \<longleftrightarrow> sint (mid_id a) \<le> sint (mid_id b)"
definition less_MessageId where "(a::MessageId) < b \<longleftrightarrow> sint (mid_id a) < sint (mid_id b)"
instance
proof
  fix a b :: MessageId
  assume "a \<le> b" and "b \<le> a"
  then show "a = b" by (cases a; cases b) (simp add: less_eq_MessageId_def)
qed (auto simp: less_eq_MessageId_def less_MessageId_def)
end

instantiation TempId :: linorder
begin
definition less_TempId where
  "(a::TempId) < b \<longleftrightarrow> tid_uid a < tid_uid b \<or> (tid_uid a = tid_uid b \<and> tid_gid a < tid_gid b)"
definition less_eq_TempId where
  "(a::TempId) \<le> b \<longleftrightarrow> tid_uid a < tid_uid b \<or> (tid_uid a = tid_uid b \<and> tid_gid a \<le> tid_gid b)"
instance
proof
  fix a b :: TempId
  assume "a \<le> b" and "b \<le> a"
  then show "a = b" by (auto simp: less_eq_TempId_def TempId.expand)
qed (auto simp: less_eq_TempId_def less_TempId_def)
end

section \<open>Message targets and literals\<close>

datatype TargetType = TargetType_friend | TargetType_group | TargetType_temp

fun TargetType_to_string_view :: "TargetType \<Rightarrow> string" where
  "TargetType_to_string_view TargetType_friend = ''friend''"
| "TargetType_to_string_view TargetType_group = ''group''"
| "TargetType_to_string_view TargetType_temp = ''temp''"

text \<open>
  The literal operators take an \<open>unsigned long long\<close> and cast it to
  \<open>int64_t\<close>: on bit patterns the cast is the identity.
\<close>

definition literal_uid :: "u64 \<Rightarrow> UserId" where
  "literal_uid v = UserId v"

definition literal_gid :: "u64 \<Rightarrow> GroupId" where
  "literal_gid v = GroupId v"

lemma UserId_valid_default [simp]: "\<not> UserId_valid UserId_default"
  by (simp add: UserId_valid_def UserId_default_def)

lemma GroupId_valid_default [simp]: "\<not> GroupId_valid GroupId_default"
  by (simp add: GroupId_valid_def GroupId_default_def)

lemma UserId_not_valid_iff: "\<not> UserId_valid u \<longleftrightarrow> u = UserId_default"
  by (cases u) (simp add: UserId_valid_def UserId_default_def)

end
