(* ===== verification/Json_Spec.thy ===== *)
theory Json_Spec
  imports Mirai_Prelude
begin

text \<open>
  The abstract side of the JSON layer: JSON values, their compact text as RFC 8259
  prescribes it, and the decoding of string literals.  Nothing here is code of the
  repository; the writers of \<open>lib/src/detail/json.h\<close> are measured against it.
\<close>

section \<open>JSON values\<close>

datatype json =
    JNull
  | JBool bool
  | JNum int
  | JStr string
  | JArr "json list"
  | JObj "(string \<times> json) list"

section \<open>String literals\<close>

definition dquote :: char where "dquote = CHR 0x22"
definition bslash :: char where "bslash = CHR 0x5C"

definition is_control :: "char \<Rightarrow> bool" where
  "is_control c \<longleftrightarrow> of_char c < (32 :: nat)"

text \<open>The two-character escapes: the letter after the backslash, and what it stands for.\<close>

definition simple_escapes :: "(char \<times> char) list" where
  "simple_escapes =
     [(CHR 0x22, CHR 0x22), (CHR 0x5C, CHR 0x5C), (CHR ''/'', CHR ''/''),
      (CHR ''b'', CHR 0x08), (CHR ''f'', CHR 0x0C), (CHR ''n'', CHR 0x0A),
      (CHR ''r'', CHR 0x0D), (CHR ''t'', CHR 0x09)]"

definition hex_digit :: "nat \<Rightarrow> char" where
  "hex_digit n = ''0123456789abcdef'' ! n"

definition hex_val :: "char \<Rightarrow> nat option" where
  "hex_val c =
     (let n = of_char c :: nat in
      if 48 \<le> n \<and> n \<le> 57 then Some (n - 48)
      else if 65 \<le> n \<and> n \<le> 70 then Some (n - 55)
      else if 97 \<le> n \<and> n \<le> 102 then Some (n - 87)
      else None)"

fun hex4 :: "char \<Rightarrow> char \<Rightarrow> char \<Rightarrow> char \<Rightarrow> nat option" where
  "hex4 a b c d =
     (case (hex_val a, hex_val b, hex_val c, hex_val d) of
        (Some a', Some b', Some c', Some d') \<Rightarrow> Some (((a' * 16 + b') * 16 + c') * 16 + d')
      | _ \<Rightarrow> None)"

text \<open>UTF-8 bytes of one 16-bit code unit.\<close>

definition utf8_unit :: "nat \<Rightarrow> string" where
  "utf8_unit n =
     (if n < 128 then [char_of n]
      else if n < 2048 then [char_of (192 + n div 64), char_of (128 + n mod 64)]
      else [char_of (224 + n div 4096), char_of (128 + n div 64 mod 64), char_of (128 + n mod 64)])"

text \<open>
  \<open>json_unquote\<close> reads a string literal whose opening quote has been consumed and
  returns the decoded bytes and the text after the closing quote; \<open>None\<close> where the
  text is no string literal (an unescaped control character, an unknown escape, no
  closing quote).
\<close>

fun json_unquote :: "string \<Rightarrow> (string \<times> string) option" where
  "json_unquote [] = None"
| "json_unquote (c # cs) =
     (if c = dquote then Some ([], cs)
      else if c = bslash then
        (case cs of
           [] \<Rightarrow> None
         | e # cs' \<Rightarrow>
             (case map_of simple_escapes e of
                Some d \<Rightarrow> map_option (\<lambda>(s, r). (d # s, r)) (json_unquote cs')
              | None \<Rightarrow>
                  (if e = CHR ''u'' then
                     (case cs' of
                        h1 # h2 # h3 # h4 # cs'' \<Rightarrow>
                          (case hex4 h1 h2 h3 h4 of
                             Some n \<Rightarrow> map_option (\<lambda>(s, r). (utf8_unit n @ s, r)) (json_unquote cs'')
                           | None \<Rightarrow> None)
                      | _ \<Rightarrow> None)
                   else None)))
      else if is_control c then None
      else map_option (\<lambda>(s, r). (c # s, r)) (json_unquote cs))"

text \<open>Escaping as the grammar demands it, with the short forms where there are any.\<close>

definition json_escape :: "char \<Rightarrow> string" where
  "json_escape c =
     (if c = dquote then [bslash, dquote]
      else if c = bslash then [bslash, bslash]
      else if c = CHR 0x08 then [bslash, CHR ''b'']
      else if c = CHR 0x0C then [bslash, CHR ''f'']
      else if c = CHR 0x0A then [bslash, CHR ''n'']
      else if c = CHR 0x0D then [bslash, CHR ''r'']
      else if c = CHR 0x09 then [bslash, CHR ''t'']
      else if is_control c then
        [bslash, CHR ''u'', CHR ''0'', CHR ''0'', hex_digit (of_char c div 16), hex_digit (of_char c mod 16)]
      else [c])"

definition json_escapes :: "string \<Rightarrow> string" where
  "json_escapes s = concat (map json_escape s)"

definition json_quote :: "string \<Rightarrow> string" where
  "json_quote s = [dquote] @ json_escapes s @ [dquote]"

section \<open>Compact rendering\<close>

fun commas :: "string list \<Rightarrow> string" where
  "commas [] = []"
| "commas [x] = x"
| "commas (x # y # zs) = x @ '','' @ commas (y # zs)"

fun json_render :: "json \<Rightarrow> string" where
  "json_render JNull = ''null''"
| "json_render (JBool b) = (if b then ''true'' else ''false'')"
| "json_render (JNum i) = dec_int i"
| "json_render (JStr s) = json_quote s"
| "json_render (JArr vs) = ''['' @ commas (map json_render vs) @ '']''"
| "json_render (JObj kvs) =
     ''{'' @ commas (map (\<lambda>(k, v). json_quote k @ '':'' @ json_render v) kvs) @ ''}''"

section \<open>Escaping and decoding are inverse\<close>

lemma hex_digit_val: "n < 16 \<Longrightarrow> hex_val (hex_digit n) = Some n"
proof -
  have "\<forall>n\<in>set [0..<16]. hex_val (hex_digit n) = Some n" by code_simp
  then show "n < 16 \<Longrightarrow> hex_val (hex_digit n) = Some n" by simp
qed

lemma hex_val_0: "hex_val (CHR ''0'') = Some 0"
  by (simp add: hex_val_def)

lemma hex_digit_plain:
  assumes "n < 16" shows "hex_digit n \<noteq> dquote" "hex_digit n \<noteq> bslash"
proof -
  have "\<forall>n\<in>set [0..<16]. hex_digit n \<noteq> dquote \<and> hex_digit n \<noteq> bslash" by code_simp
  with assms show "hex_digit n \<noteq> dquote" "hex_digit n \<noteq> bslash" by simp_all
qed

declare json_unquote.simps [simp del]

lemma dquote_neq_bslash [simp]: "dquote \<noteq> bslash" "bslash \<noteq> dquote"
  by (simp_all add: dquote_def bslash_def)

lemma json_unquote_Nil [simp]: "json_unquote [] = None"
  by (simp add: json_unquote.simps)

lemma json_unquote_dquote [simp]: "json_unquote (dquote # cs) = Some ([], cs)"
  by (simp add: json_unquote.simps)

lemma json_unquote_plain:
  "c \<noteq> dquote \<Longrightarrow> c \<noteq> bslash \<Longrightarrow> \<not> is_control c \<Longrightarrow>
   json_unquote (c # cs) = map_option (\<lambda>(s, r). (c # s, r)) (json_unquote cs)"
  by (simp add: json_unquote.simps)

lemma json_unquote_control_None: "is_control c \<Longrightarrow> json_unquote (c # cs) = None"
  by (auto simp: json_unquote.simps is_control_def dquote_def bslash_def)

lemma json_unquote_simple:
  "map_of simple_escapes e = Some d \<Longrightarrow>
   json_unquote (bslash # e # cs) = map_option (\<lambda>(s, r). (d # s, r)) (json_unquote cs)"
  by (simp add: json_unquote.simps)

lemma json_unquote_unicode:
  "hex4 h1 h2 h3 h4 = Some n \<Longrightarrow>
   json_unquote (bslash # CHR ''u'' # h1 # h2 # h3 # h4 # cs) =
     map_option (\<lambda>(s, r). (utf8_unit n @ s, r)) (json_unquote cs)"
  by (simp add: json_unquote.simps simple_escapes_def)

lemma json_escape_control:
  assumes "is_control c" and "c \<notin> {CHR 0x08, CHR 0x0C, CHR 0x0A, CHR 0x0D, CHR 0x09}"
  shows "json_unquote (json_escape c @ r) = map_option (\<lambda>(s, r). (c # s, r)) (json_unquote r)"
proof -
  let ?n = "of_char c :: nat"
  from assms(1) have n: "?n < 32" by (simp add: is_control_def)
  then have "hex_val (hex_digit (?n div 16)) = Some (?n div 16)"
    and "hex_val (hex_digit (?n mod 16)) = Some (?n mod 16)"
    by (auto intro!: hex_digit_val)
  then have "hex4 (CHR ''0'') (CHR ''0'') (hex_digit (?n div 16)) (hex_digit (?n mod 16)) = Some ?n"
    by (simp add: hex_val_0)
  moreover have "utf8_unit ?n = [c]" using n by (simp add: utf8_unit_def)
  moreover have "c \<noteq> dquote" "c \<noteq> bslash"
    using n by (auto simp: dquote_def bslash_def)
  ultimately show ?thesis
    using assms by (simp add: json_escape_def json_unquote_unicode)
qed

lemma json_escape_simple:
  assumes "c \<in> {dquote, bslash, CHR 0x08, CHR 0x0C, CHR 0x0A, CHR 0x0D, CHR 0x09}"
  obtains e where "json_escape c = [bslash, e]" and "map_of simple_escapes e = Some c"
  using assms by (auto simp: json_escape_def simple_escapes_def dquote_def bslash_def)

lemma json_escape_other:
  "c \<notin> {dquote, bslash, CHR 0x08, CHR 0x0C, CHR 0x0A, CHR 0x0D, CHR 0x09} \<Longrightarrow> \<not> is_control c \<Longrightarrow>
   json_escape c = [c]"
  by (simp add: json_escape_def)

lemma json_unquote_escape:
  "json_unquote (json_escape c @ r) = map_option (\<lambda>(s, r). (c # s, r)) (json_unquote r)"
proof (cases "c \<in> {dquote, bslash, CHR 0x08, CHR 0x0C, CHR 0x0A, CHR 0x0D, CHR 0x09}")
  case True
  then obtain e where "json_escape c = [bslash, e]" and "map_of simple_escapes e = Some c"
    by (rule json_escape_simple)
  then show ?thesis by (simp add: json_unquote_simple)
next
  case False
  then show ?thesis
    by (cases "is_control c")
      (simp_all add: json_escape_control json_escape_other json_unquote_plain)
qed

lemma json_unquote_escapes: "json_unquote (json_escapes s @ dquote # r) = Some (s, r)"
  by (induction s) (simp_all add: json_escapes_def json_unquote_escape)

lemma json_quote_decodes: "json_unquote (tl (json_quote s) @ r) = Some (s, r)"
  using json_unquote_escapes [of s r] by (simp add: json_quote_def)

lemma json_quote_inject [simp]: "json_quote s = json_quote t \<longleftrightarrow> s = t"
  by (metis json_quote_decodes append_Nil2 option.inject prod.inject)

end
