(* ===== verification/Json_Writer.thy ===== *)
theory Json_Writer
  imports Json_Spec
begin

text \<open>
  The serialisation half of \<open>lib/src/detail/json.h\<close>.  A writer appends to the
  output buffer of a \<open>fmt::format_context\<close>; the buffer is a string and a writer a
  function on it.  \<open>jarg\<close> lists the kinds of values \<open>format_to_json\<close>
  dispatches on at compile time.
\<close>

type_synonym writer = "string \<Rightarrow> string"

definition fmt_out :: "string \<Rightarrow> writer" where
  "fmt_out s = (\<lambda>ctx. ctx @ s)"

section \<open>Quoted strings\<close>

text \<open>
  One round of the loop of \<open>formatter<JsonQuoted>::format\<close>.  The cases for the
  double quote and the backslash emit the character itself: the C++ literals there are
  \<open>"\""\<close> and \<open>"\\"\<close>, one character each.
\<close>

definition json_quoted_char :: "char \<Rightarrow> string" where
  "json_quoted_char c =
     (if c = CHR 0x08 then [CHR 0x5C, CHR ''b'']
      else if c = CHR 0x0C then [CHR 0x5C, CHR ''f'']
      else if c = CHR 0x0A then [CHR 0x5C, CHR ''n'']
      else if c = CHR 0x0D then [CHR 0x5C, CHR ''r'']
      else if c = CHR 0x09 then [CHR 0x5C, CHR ''t'']
      else if c = CHR 0x22 then [CHR 0x22]
      else if c = CHR 0x5C then [CHR 0x5C]
      else [c])"

fun json_quoted_loop :: "string \<Rightarrow> writer" where
  "json_quoted_loop [] ctx = ctx"
| "json_quoted_loop (c # cs) ctx = json_quoted_loop cs (ctx @ json_quoted_char c)"

definition JsonQuoted_format :: "string \<Rightarrow> writer" where
  "JsonQuoted_format content ctx =
     fmt_out [CHR 0x22] (json_quoted_loop content (fmt_out [CHR 0x22] ctx))"

section \<open>Object and array scopes\<close>

record json_scope =
  scope_ctx :: string
  scope_first :: bool

definition obj_scope_open :: "string \<Rightarrow> json_scope" where
  "obj_scope_open ctx = \<lparr>scope_ctx = fmt_out ''{'' ctx, scope_first = True\<rparr>"

definition obj_scope_close :: "json_scope \<Rightarrow> string" where
  "obj_scope_close sc = fmt_out ''}'' (scope_ctx sc)"

definition obj_add_entry_with :: "string \<Rightarrow> writer \<Rightarrow> json_scope \<Rightarrow> json_scope" where
  "obj_add_entry_with key val sc =
     \<lparr>scope_ctx = val (fmt_out ((if scope_first sc then [] else '','') @ [CHR 0x22] @ key @ [CHR 0x22] @ '':'')
                       (scope_ctx sc)),
      scope_first = False\<rparr>"

definition arr_scope_open :: "string \<Rightarrow> json_scope" where
  "arr_scope_open ctx = \<lparr>scope_ctx = fmt_out ''['' ctx, scope_first = True\<rparr>"

definition arr_scope_close :: "json_scope \<Rightarrow> string" where
  "arr_scope_close sc = fmt_out '']'' (scope_ctx sc)"

definition arr_add_entry_with :: "writer \<Rightarrow> json_scope \<Rightarrow> json_scope" where
  "arr_add_entry_with val sc =
     \<lparr>scope_ctx = val (fmt_out (if scope_first sc then [] else '','') (scope_ctx sc)),
      scope_first = False\<rparr>"

section \<open>The generic writer\<close>

datatype jarg =
    J_serializable writer
  | J_bool bool
  | J_int int
  | J_text string
  | J_range "jarg list"
  | J_opt "jarg option"

fun format_to_json :: "jarg \<Rightarrow> writer" where
  "format_to_json (J_serializable w) = w"
| "format_to_json (J_bool b) = fmt_out (if b then ''true'' else ''false'')"
| "format_to_json (J_int i) = fmt_out (dec_int i)"
| "format_to_json (J_text s) = JsonQuoted_format s"
| "format_to_json (J_range xs) =
     (\<lambda>ctx. arr_scope_close (fold (\<lambda>x. arr_add_entry_with (format_to_json x)) xs (arr_scope_open ctx)))"
| "format_to_json (J_opt (Some v)) = format_to_json v"
| "format_to_json (J_opt None) = fmt_out ''null''"

definition obj_add_entry :: "string \<Rightarrow> jarg \<Rightarrow> json_scope \<Rightarrow> json_scope" where
  "obj_add_entry key v = obj_add_entry_with key (format_to_json v)"

definition arr_add_entry :: "jarg \<Rightarrow> json_scope \<Rightarrow> json_scope" where
  "arr_add_entry v = arr_add_entry_with (format_to_json v)"

text \<open>
  A block that opens a \<open>JsonObjScope\<close>, adds the entries in order and leaves the
  scope.
\<close>

definition write_obj :: "(string \<times> jarg) list \<Rightarrow> writer" where
  "write_obj es ctx =
     obj_scope_close (fold (\<lambda>(k, v). obj_add_entry k v) es (obj_scope_open ctx))"

text \<open>\<open>perform_format\<close> runs a writer on a fresh buffer.\<close>

definition perform_format :: "writer \<Rightarrow> string" where
  "perform_format w = w []"

section \<open>Output of the scopes\<close>

text \<open>
  Both scopes keep one contract: between the brackets stand the entries, separated by
  commas.  An entry is admissible when its value writer only appends.
\<close>

definition appends :: "writer \<Rightarrow> string \<Rightarrow> bool" where
  "appends w s \<longleftrightarrow> (\<forall>ctx. w ctx = ctx @ s)"

lemma appendsI [intro?]: "(\<And>ctx. w ctx = ctx @ s) \<Longrightarrow> appends w s"
  by (simp add: appends_def)

lemma appendsD: "appends w s \<Longrightarrow> w ctx = ctx @ s"
  by (simp add: appends_def)

lemma appends_fmt_out [simp, writer_simps]: "appends (fmt_out s) t \<longleftrightarrow> s = t"
  by (auto simp: appends_def fmt_out_def)

locale comma_scope =
  fixes opn :: "string \<Rightarrow> json_scope"
    and add :: "'e \<Rightarrow> json_scope \<Rightarrow> json_scope"
    and cls :: "json_scope \<Rightarrow> string"
    and lbr rbr :: string
    and piece :: "'e \<Rightarrow> string \<Rightarrow> bool"
  assumes opn_ctx: "scope_ctx (opn ctx) = ctx @ lbr"
    and opn_first: "scope_first (opn ctx)"
    and add_ctx: "piece e p \<Longrightarrow>
          scope_ctx (add e sc) = scope_ctx sc @ (if scope_first sc then [] else '','') @ p"
    and add_first: "\<not> scope_first (add e sc)"
    and cls_out: "cls sc = scope_ctx sc @ rbr"
begin

lemma fold_add_ctx:
  assumes "list_all2 piece es ps"
  shows "scope_ctx (fold add es sc) =
           scope_ctx sc @ (if scope_first sc \<or> es = [] then [] else '','') @ commas ps"
  using assms
proof (induction es ps arbitrary: sc rule: list_all2_induct)
  case Nil
  then show ?case by simp
next
  case (Cons e es p ps)
  from Cons.hyps(2) have "es = [] \<longleftrightarrow> ps = []" by auto
  then show ?case
    using Cons.hyps(1) Cons.IH [of "add e sc"]
    by (cases ps) (simp_all add: add_ctx add_first)
qed

lemma scope_output:
  "list_all2 piece es ps \<Longrightarrow> cls (fold add es (opn ctx)) = ctx @ lbr @ commas ps @ rbr"
  by (simp add: cls_out fold_add_ctx opn_ctx opn_first)

end

interpretation obj_scope: comma_scope
  obj_scope_open "\<lambda>(k, v). obj_add_entry k v" obj_scope_close "''{''" "''}''"
  "\<lambda>(k, v) p. \<exists>s. appends (format_to_json v) s \<and> p = [CHR 0x22] @ k @ [CHR 0x22] @ '':'' @ s"
  by unfold_locales
    (auto simp: obj_scope_open_def obj_scope_close_def obj_add_entry_def obj_add_entry_with_def
      fmt_out_def appends_def)

interpretation arr_scope: comma_scope
  arr_scope_open arr_add_entry arr_scope_close "''[''" "'']''"
  "\<lambda>v p. appends (format_to_json v) p"
  by unfold_locales
    (auto simp: arr_scope_open_def arr_scope_close_def arr_add_entry_def arr_add_entry_with_def
      fmt_out_def appends_def)

section \<open>Which strings are quoted correctly\<close>

text \<open>
  A byte string survives quoting when it has no double quote, no backslash, and no
  control character besides the five with a short escape.
\<close>

definition short_control :: "char \<Rightarrow> bool" where
  "short_control c \<longleftrightarrow> c \<in> {CHR 0x08, CHR 0x0C, CHR 0x0A, CHR 0x0D, CHR 0x09}"

definition plain_char :: "char \<Rightarrow> bool" where
  "plain_char c \<longleftrightarrow> c \<noteq> dquote \<and> c \<noteq> bslash \<and> (is_control c \<longrightarrow> short_control c)"

definition plain_text :: "string \<Rightarrow> bool" where
  "plain_text s \<longleftrightarrow> list_all plain_char s"

lemma plain_text_simps [simp]:
  "plain_text []" "plain_text (c # s) \<longleftrightarrow> plain_char c \<and> plain_text s"
  by (simp_all add: plain_text_def)

lemma plain_text_append [simp]: "plain_text (s @ t) \<longleftrightarrow> plain_text s \<and> plain_text t"
  by (simp add: plain_text_def)

lemma json_quoted_loop_out: "json_quoted_loop s ctx = ctx @ concat (map json_quoted_char s)"
  by (induction s arbitrary: ctx) simp_all

lemma JsonQuoted_format_out:
  "JsonQuoted_format s ctx = ctx @ dquote # concat (map json_quoted_char s) @ [dquote]"
  by (simp add: JsonQuoted_format_def json_quoted_loop_out fmt_out_def dquote_def)

lemma plain_char_quoted: "plain_char c \<Longrightarrow> json_quoted_char c = json_escape c"
  by (auto simp: plain_char_def short_control_def json_quoted_char_def json_escape_def
      dquote_def bslash_def)

lemma plain_text_quoted: "plain_text s \<Longrightarrow> concat (map json_quoted_char s) = json_escapes s"
  by (induction s) (simp_all add: json_escapes_def plain_char_quoted)

lemma JsonQuoted_plain: "plain_text s \<Longrightarrow> JsonQuoted_format s ctx = ctx @ json_quote s"
  by (simp add: JsonQuoted_format_out plain_text_quoted json_quote_def)

section \<open>Writers of JSON values\<close>

definition writes :: "writer \<Rightarrow> json \<Rightarrow> bool" where
  "writes w v \<longleftrightarrow> appends w (json_render v)"

lemma writesD: "writes w v \<Longrightarrow> w ctx = ctx @ json_render v"
  by (simp add: writes_def appendsD)

lemma writes_serializable [writer_simps]: "writes (format_to_json (J_serializable w)) v \<longleftrightarrow> writes w v"
  by simp

lemma writes_bool [writer_simps]: "writes (format_to_json (J_bool b)) (JBool b)"
  by (simp add: writes_def)

lemma writes_int [writer_simps]: "writes (format_to_json (J_int i)) (JNum i)"
  by (simp add: writes_def)

lemma writes_text [writer_simps]: "plain_text s \<Longrightarrow> writes (format_to_json (J_text s)) (JStr s)"
  by (simp add: writes_def appends_def JsonQuoted_plain)

lemma writes_opt_None [writer_simps]: "writes (format_to_json (J_opt None)) JNull"
  by (simp add: writes_def)

lemma writes_opt_Some [writer_simps]:
  "writes (format_to_json (J_opt (Some a))) v \<longleftrightarrow> writes (format_to_json a) v"
  by simp

lemma writes_range:
  assumes "list_all2 (\<lambda>a v. writes (format_to_json a) v) xs vs"
  shows "writes (format_to_json (J_range xs)) (JArr vs)"
proof -
  have "list_all2 (\<lambda>v p. appends (format_to_json v) p) xs (map json_render vs)"
    using assms by (simp add: list_all2_map2 writes_def)
  from arr_scope.scope_output [OF this] show ?thesis
    by (simp add: writes_def appends_def arr_add_entry_def [abs_def])
qed

text \<open>
  Keys are emitted without any escaping, so a key has to be free of control characters
  as well.  An object is written correctly when its keys are such and its values are
  written correctly.
\<close>

definition bare_text :: "string \<Rightarrow> bool" where
  "bare_text k \<longleftrightarrow> list_all (\<lambda>c. c \<noteq> dquote \<and> c \<noteq> bslash \<and> \<not> is_control c) k"

definition writes_entry :: "string \<times> jarg \<Rightarrow> string \<times> json \<Rightarrow> bool" where
  "writes_entry e f \<longleftrightarrow>
     fst e = fst f \<and> bare_text (fst e) \<and> writes (format_to_json (snd e)) (snd f)"

lemma writes_entry_pair [writer_simps]:
  "writes_entry (k, a) (k', v) \<longleftrightarrow> k = k' \<and> bare_text k \<and> writes (format_to_json a) v"
  by (simp add: writes_entry_def)

lemma bare_text_plain: "bare_text k \<Longrightarrow> plain_text k"
  by (auto simp: bare_text_def plain_text_def plain_char_def list_all_iff)

lemma json_quote_bare: "bare_text k \<Longrightarrow> json_quote k = [dquote] @ k @ [dquote]"
proof -
  assume "bare_text k"
  then have "json_escapes k = k"
    by (induction k)
      (auto simp: bare_text_def json_escapes_def json_escape_def is_control_def)
  then show ?thesis by (simp add: json_quote_def)
qed

lemma writes_obj:
  assumes "list_all2 writes_entry es kvs"
  shows "writes (write_obj es) (JObj kvs)"
proof -
  have "list_all2 (\<lambda>(k, v) p. \<exists>s. appends (format_to_json v) s \<and> p = [CHR 0x22] @ k @ [CHR 0x22] @ '':'' @ s)
      es (map (\<lambda>(k, v). json_quote k @ '':'' @ json_render v) kvs)"
    using assms
    by (induction es kvs rule: list_all2_induct)
      (auto simp: writes_entry_def writes_def json_quote_bare dquote_def)
  from obj_scope.scope_output [OF this] show ?thesis
    by (simp add: writes_def appends_def write_obj_def)
qed

lemma writes_obj_serializable [writer_simps]:
  "list_all2 writes_entry es kvs \<Longrightarrow> writes (format_to_json (J_serializable (write_obj es))) (JObj kvs)"
  by (simp add: writes_obj)

section \<open>Quoting is correct on plain text only\<close>

text \<open>
  Decoding what the quoting of \<open>t\<close> produced never yields more characters than
  \<open>t\<close> has: a backslash passed through joins with what follows it, a double quote
  ends the literal early.
\<close>

abbreviation quoted_chars :: "string \<Rightarrow> string" where
  "quoted_chars s \<equiv> concat (map json_quoted_char s)"

lemma json_quoted_char_short:
  assumes "short_control c"
  obtains e where "json_quoted_char c = [bslash, e]" "map_of simple_escapes e = Some c"
    "e \<noteq> dquote \<and> e \<noteq> bslash \<and> \<not> is_control e"
  using assms
  by (auto simp: json_quoted_char_def short_control_def simple_escapes_def bslash_def dquote_def
      is_control_def)

lemma map_of_simple_bslash: "map_of simple_escapes bslash = Some bslash"
  by (simp add: simple_escapes_def bslash_def)

lemma short_control_plain: "short_control c \<Longrightarrow> plain_char c"
  by (auto simp: plain_char_def short_control_def dquote_def bslash_def)

lemma json_quoted_char_self: "\<not> short_control c \<Longrightarrow> json_quoted_char c = [c]"
  by (simp add: json_quoted_char_def short_control_def)

lemma hex_val_plain: "hex_val h = Some n \<Longrightarrow> h \<noteq> dquote \<and> h \<noteq> bslash"
  by (auto simp: hex_val_def dquote_def bslash_def)

lemma quoted_hex_step:
  assumes "quoted_chars t @ [dquote] = h # cs" and "hex_val h = Some n"
  obtains t' where "t = h # t'" and "cs = quoted_chars t' @ [dquote]"
proof (cases t)
  case Nil
  with assms hex_val_plain show ?thesis by fastforce
next
  case (Cons c t')
  show ?thesis
  proof (cases "short_control c")
    case True
    then obtain e where "json_quoted_char c = [bslash, e]" by (rule json_quoted_char_short)
    with Cons assms hex_val_plain show ?thesis by fastforce
  next
    case False
    with Cons assms that show ?thesis by (simp add: json_quoted_char_self)
  qed
qed

lemma quoted_hex4:
  assumes "quoted_chars t @ [dquote] = h1 # h2 # h3 # h4 # cs" and "hex4 h1 h2 h3 h4 = Some n"
  obtains t' where "t = h1 # h2 # h3 # h4 # t'" and "cs = quoted_chars t' @ [dquote]"
proof -
  from assms(2) obtain a b c d where
    h: "hex_val h1 = Some a" "hex_val h2 = Some b" "hex_val h3 = Some c" "hex_val h4 = Some d"
    by (auto split: option.splits)
  show ?thesis
    by (rule quoted_hex_step [OF assms(1) h(1)], erule quoted_hex_step [OF sym h(2)],
        erule quoted_hex_step [OF sym h(3)], erule quoted_hex_step [OF sym h(4)])
      (simp add: that)
qed

lemma utf8_unit_length: "length (utf8_unit n) \<le> 3"
  by (simp add: utf8_unit_def)

lemma json_unquote_bslash:
  "json_unquote (bslash # cs) = Some (d, r) \<Longrightarrow>
   (\<exists>e cs' x d'. cs = e # cs' \<and> map_of simple_escapes e = Some x \<and> d = x # d' \<and>
      json_unquote cs' = Some (d', r)) \<or>
   (\<exists>h1 h2 h3 h4 n cs' d'. cs = CHR ''u'' # h1 # h2 # h3 # h4 # cs' \<and> hex4 h1 h2 h3 h4 = Some n \<and>
      d = utf8_unit n @ d' \<and> json_unquote cs' = Some (d', r))"
  by (subst (asm) json_unquote.simps)
    (auto simp del: hex4.simps split: list.splits option.splits if_splits)

text \<open>After a backslash that was passed through, one source character is consumed with it.\<close>

lemma quoted_after_bslash:
  assumes "json_unquote (bslash # quoted_chars t @ [dquote]) = Some (d, r)"
  shows "\<exists>t' x d'. length t' < length t \<and> d = x @ d' \<and>
           json_unquote (quoted_chars t' @ [dquote]) = Some (d', r) \<and>
           length x + length t' \<le> Suc (length t) \<and>
           (length x + length t' \<le> length t \<or> (\<exists>e. x = [bslash, e] \<and> hd t \<noteq> e))"
  using json_unquote_bslash [OF assms]
proof (elim disjE exE conjE)
  fix e cs' x d'
  assume a: "quoted_chars t @ [dquote] = e # cs'" "map_of simple_escapes e = Some x" "d = x # d'"
    "json_unquote cs' = Some (d', r)"
  show ?thesis
  proof (cases t)
    case Nil
    with a show ?thesis by auto
  next
    case (Cons c t')
    show ?thesis
    proof (cases "short_control c")
      case True
      then obtain e' where q: "json_quoted_char c = [bslash, e']"
        "e' \<noteq> dquote \<and> e' \<noteq> bslash \<and> \<not> is_control e'" by (rule json_quoted_char_short)
      from True q have "c \<noteq> e'" by (auto simp: short_control_def is_control_def)
      moreover from q Cons a obtain d'' where
        "json_unquote (quoted_chars t' @ [dquote]) = Some (d'', r)" "d' = e' # d''"
        by (auto simp: json_unquote_plain)
      moreover have "x = bslash" using q Cons a by (auto simp: map_of_simple_bslash)
      ultimately show ?thesis
        using Cons a by - (rule exI [of _ t'], rule exI [of _ "[bslash, e']"], rule exI [of _ d''], auto)
    next
      case False
      with Cons a show ?thesis
        by - (rule exI [of _ t'], rule exI [of _ "[x]"], rule exI [of _ d'],
            auto simp: json_quoted_char_self)
    qed
  qed
next
  fix h1 h2 h3 h4 n cs' d'
  assume a: "quoted_chars t @ [dquote] = CHR ''u'' # h1 # h2 # h3 # h4 # cs'"
    "hex4 h1 h2 h3 h4 = Some n" "d = utf8_unit n @ d'" "json_unquote cs' = Some (d', r)"
  obtain c t1 where t: "t = c # t1" using a(1) by (cases t) (auto simp: dquote_def)
  moreover have "\<not> short_control c"
    using a(1) t by (auto elim!: json_quoted_char_short simp: bslash_def)
  ultimately have "quoted_chars t1 @ [dquote] = h1 # h2 # h3 # h4 # cs'"
    using a(1) by (simp add: json_quoted_char_self)
  then obtain t' where "t1 = h1 # h2 # h3 # h4 # t'" "cs' = quoted_chars t' @ [dquote]"
    using a(2) by (rule quoted_hex4)
  with t a utf8_unit_length [of n] show ?thesis
    by - (rule exI [of _ t'], rule exI [of _ "utf8_unit n"], rule exI [of _ d'], auto)
qed

lemma quoted_length:
  "json_unquote (quoted_chars t @ [dquote]) = Some (d, r) \<Longrightarrow> length d \<le> length t"
proof (induction t arbitrary: d r rule: length_induct)
  case (1 t)
  show ?case
  proof (cases t)
    case Nil
    with "1.prems" show ?thesis by simp
  next
    case (Cons c t1)
    consider "short_control c" | "c = dquote" | "c = bslash"
      | "\<not> short_control c" "c \<noteq> dquote" "c \<noteq> bslash" by blast
    then show ?thesis
    proof cases
      case 1
      then obtain e where "json_quoted_char c = [bslash, e]" "map_of simple_escapes e = Some c"
        by (rule json_quoted_char_short)
      with Cons "1.prems" "1.IH" show ?thesis by (auto simp: json_unquote_simple)
    next
      case 2
      then have "json_quoted_char c = [dquote]"
        by (simp add: json_quoted_char_self short_control_def dquote_def)
      with Cons "1.prems" show ?thesis by simp
    next
      case 3
      then have "json_quoted_char c = [bslash]"
        by (simp add: json_quoted_char_self short_control_def bslash_def)
      with Cons "1.prems" have "json_unquote (bslash # quoted_chars t1 @ [dquote]) = Some (d, r)"
        by simp
      from quoted_after_bslash [OF this] obtain t' x d' where t':
        "length t' < length t1" "length x + length t' \<le> Suc (length t1)" "d = x @ d'"
        "json_unquote (quoted_chars t' @ [dquote]) = Some (d', r)" by blast
      with Cons "1.IH" have "length d' \<le> length t'" by auto
      with Cons t' show ?thesis by simp
    next
      case 4
      with Cons "1.prems" "1.IH" show ?thesis
        by (cases "is_control c")
          (auto simp: json_quoted_char_self json_unquote_plain json_unquote_control_None)
    qed
  qed
qed

lemma quoted_decodes_back:
  "json_unquote (quoted_chars s @ [dquote]) = Some (s, r) \<Longrightarrow> plain_text s \<and> r = []"
proof (induction s)
  case Nil
  then show ?case by simp
next
  case (Cons c s)
  consider "short_control c" | "c = dquote" | "c = bslash"
    | "\<not> short_control c" "c \<noteq> dquote" "c \<noteq> bslash" by blast
  then show ?case
  proof cases
    case 1
    then obtain e where "json_quoted_char c = [bslash, e]" "map_of simple_escapes e = Some c"
      by (rule json_quoted_char_short)
    with short_control_plain [OF 1] Cons show ?thesis by (auto simp: json_unquote_simple)
  next
    case 2
    then have "json_quoted_char c = [dquote]"
      by (simp add: json_quoted_char_self short_control_def dquote_def)
    with Cons.prems show ?thesis by simp
  next
    case 3
    then have q: "json_quoted_char c = [bslash]"
      by (simp add: json_quoted_char_self short_control_def bslash_def)
    with Cons.prems have "json_unquote (bslash # quoted_chars s @ [dquote]) = Some (c # s, r)"
      by simp
    from quoted_after_bslash [OF this] obtain t' x d' where t: "c # s = x @ d'"
      "json_unquote (quoted_chars t' @ [dquote]) = Some (d', r)"
      "length x + length t' \<le> length s \<or> (\<exists>e. x = [bslash, e] \<and> hd s \<noteq> e)" by blast
    from t(1) have "length x + length d' = Suc (length s)" by (metis length_Cons length_append)
    with t quoted_length [OF t(2)] have False by auto
    then show ?thesis ..
  next
    case 4
    with Cons show ?thesis
      by (cases "is_control c")
        (auto simp: json_quoted_char_self json_unquote_plain json_unquote_control_None plain_char_def)
  qed
qed

declare format_to_json.simps [simp del]

text \<open>
  C33: a JSON reader gets a string back from its quoted form, with
  nothing left over, exactly when the string contains no double quote, no backslash and
  no control character other than backspace, form feed, newline, carriage return and
  tab.  The two missing escapes are those of the double quote and the backslash.
\<close>

theorem JsonQuoted_correct_iff:
  "json_unquote (tl (JsonQuoted_format s [])) = Some (s, []) \<longleftrightarrow> plain_text s"
proof
  assume "json_unquote (tl (JsonQuoted_format s [])) = Some (s, [])"
  then show "plain_text s" by (auto simp: JsonQuoted_format_out dest: quoted_decodes_back)
next
  assume "plain_text s"
  then show "json_unquote (tl (JsonQuoted_format s [])) = Some (s, [])"
    using json_quote_decodes [of s "[]"] by (simp add: JsonQuoted_plain)
qed

end
