(* ===== verification/Type_Erasure.thy ===== *)
theory Type_Erasure
  imports Mirai_Prelude
begin

text \<open>
  The contract shared by the two type-erasing classes of the library, \<open>Segment\<close>
  and \<open>Event\<close>: a run-time type tag, an unchecked cast to one concrete type, a
  throwing accessor \<open>get<T>\<close> and a pointer-returning accessor
  \<open>get_if<T>\<close>.  The tag decides the dynamic type, so the cast behind the accessors
  is never applied to an object of another type.
\<close>

locale type_erased =
  fixes dyn :: "'s \<Rightarrow> 't"
    and tag :: 't
    and cast :: "'s \<Rightarrow> 'a option"
    and inject :: "'a \<Rightarrow> 's"
    and get :: "'s \<Rightarrow> 'a res"
    and get_if :: "'s \<Rightarrow> 'a option"
  assumes dyn_inject: "dyn (inject a) = tag"
    and cast_inject: "cast (inject a) = Some a"
    and tag_decides: "dyn s = tag \<Longrightarrow> \<exists>a. s = inject a"
    and get_match: "dyn s = tag \<Longrightarrow>
          get s = (case cast s of Some a \<Rightarrow> Inr a | None \<Rightarrow> Inl Undefined_behaviour)"
    and get_mismatch: "dyn s \<noteq> tag \<Longrightarrow> \<exists>e. get s = throw e"
    and get_if_eq: "get_if s = (if dyn s = tag then cast s else None)"
begin

lemma get_inject [simp]: "get (inject a) = Inr a"
  by (simp add: get_match dyn_inject cast_inject)

lemma get_if_inject [simp]: "get_if (inject a) = Some a"
  by (simp add: get_if_eq dyn_inject cast_inject)

lemma get_if_Some: "get_if s = Some a \<longleftrightarrow> s = inject a"
proof
  assume "get_if s = Some a"
  then have "dyn s = tag" and "cast s = Some a" by (auto simp: get_if_eq split: if_splits)
  then show "s = inject a" using tag_decides cast_inject by fastforce
qed simp

lemma get_if_None: "get_if s = None \<longleftrightarrow> dyn s \<noteq> tag"
proof (cases "dyn s = tag")
  case True
  then show ?thesis using tag_decides [OF True] by auto
qed (simp add: get_if_eq)

lemma get_Inr: "get s = Inr a \<longleftrightarrow> s = inject a"
proof (cases "dyn s = tag")
  case True
  then show ?thesis using tag_decides [OF True] cast_inject by (auto simp: get_match dyn_inject)
next
  case False
  then show ?thesis using get_mismatch [OF False] dyn_inject by auto
qed

lemma get_defined: "get s \<noteq> Inl Undefined_behaviour"
proof (cases "dyn s = tag")
  case True
  then show ?thesis using tag_decides [OF True] by auto
next
  case False
  then show ?thesis using get_mismatch [OF False] by (auto simp: throw_def)
qed

lemma inject_inj: "inject a = inject b \<longleftrightarrow> a = b"
  by (metis cast_inject option.inject)

end

end
