(* ===== verification/Segment_Types.thy ===== *)
theory Segment_Types
  imports Common_Types Json_Writer Type_Erasure
begin

text \<open>
  The message segments of \<open>lib/include/mirai/message/segment_types.h\<close>, the type
  \<open>Segment\<close> of \<open>lib/include/mirai/message/segment.h\<close> that holds any one of
  them, their comparisons and their text output
  (\<open>lib/src/message/segment_types.cpp\<close>).
\<close>

section \<open>The concrete segments\<close>

record At =
  at_target :: UserId
  at_display :: string

record Face =
  face_id :: "i32 option"
  face_name :: "string option"

record Plain =
  pl_text :: string

record Image =
  img_id :: "string option"
  img_url :: "string option"
  img_path :: "string option"

record FlashImage =
  flash_id :: "string option"
  flash_url :: "string option"
  flash_path :: "string option"

record Voice =
  voice_id :: "string option"
  voice_url :: "string option"
  voice_path :: "string option"

record Xml =
  xml_xml :: string

record Json =
  json_json :: string

record App =
  app_content :: string

record Poke =
  poke_name :: string

text \<open>
  A \<open>Segment\<close> owns a model of one concrete type.  A \<open>Forward\<close> holds
  forwarded messages, whose content is a message, that is, a vector of segments.
  \<open>File\<close> has a \<open>SegmentType\<close> but neither comparison nor output, so no
  \<open>Segment\<close> can be built from it.
\<close>

datatype Segment =
    SegAt At
  | SegAtAll
  | SegFace Face
  | SegPlain Plain
  | SegImage Image
  | SegFlashImage FlashImage
  | SegVoice Voice
  | SegXml Xml
  | SegJson Json
  | SegApp App
  | SegPoke Poke
  | SegForward Forward
and Forward =
    Forward (fwd_title: string) (fwd_brief: string) (fwd_source: string) (fwd_summary: string)
      (fwd_messages: "ForwardedMessage list")
and ForwardedMessage =
    ForwardedMessage (fm_sender: UserId) (fm_time: i32) (fm_sender_name: string)
      (fm_content: "Segment list")

type_synonym Message = "Segment list"

datatype SegmentType =
    SegmentType_at
  | SegmentType_at_all
  | SegmentType_face
  | SegmentType_plain
  | SegmentType_image
  | SegmentType_flash_image
  | SegmentType_voice
  | SegmentType_xml
  | SegmentType_json
  | SegmentType_app
  | SegmentType_poke
  | SegmentType_forward
  | SegmentType_file

fun Segment_type :: "Segment \<Rightarrow> SegmentType" where
  "Segment_type (SegAt x) = SegmentType_at"
| "Segment_type SegAtAll = SegmentType_at_all"
| "Segment_type (SegFace x) = SegmentType_face"
| "Segment_type (SegPlain x) = SegmentType_plain"
| "Segment_type (SegImage x) = SegmentType_image"
| "Segment_type (SegFlashImage x) = SegmentType_flash_image"
| "Segment_type (SegVoice x) = SegmentType_voice"
| "Segment_type (SegXml x) = SegmentType_xml"
| "Segment_type (SegJson x) = SegmentType_json"
| "Segment_type (SegApp x) = SegmentType_app"
| "Segment_type (SegPoke x) = SegmentType_poke"
| "Segment_type (SegForward x) = SegmentType_forward"

section \<open>Typed access\<close>

text \<open>
  \<open>T\<close> in \<open>get<T>\<close> and \<open>get_if<T>\<close> is one of the concrete types: its
  \<open>type\<close> constant and the \<open>static_cast\<close> of the model to
  \<open>ModelImpl<T>\<close>, which is undefined (\<open>None\<close>) on a model of another type.
\<close>

record 'a segment_class =
  sc_type :: SegmentType
  sc_cast :: "Segment \<Rightarrow> 'a option"

definition Segment_get :: "'a segment_class \<Rightarrow> Segment \<Rightarrow> 'a res" where
  "Segment_get T self =
     (if Segment_type self \<noteq> sc_type T
      then throw (Runtime_error
        [CHR 0xE6, CHR 0xB6, CHR 0x88, CHR 0xE6, CHR 0x81, CHR 0xAF, CHR 0xE6, CHR 0xAE, CHR
        0xB5, CHR 0xE7, CHR 0xB1, CHR 0xBB, CHR 0xE5, CHR 0x9E, CHR 0x8B, CHR 0xE4, CHR 0xB8,
        CHR 0x8D, CHR 0xE5, CHR 0x8C, CHR 0xB9, CHR 0xE9, CHR 0x85, CHR 0x8D])
      else (case sc_cast T self of Some data \<Rightarrow> Inr data | None \<Rightarrow> Inl Undefined_behaviour))"

definition Segment_get_if :: "'a segment_class \<Rightarrow> Segment \<Rightarrow> 'a option" where
  "Segment_get_if T self =
     (if Segment_type self = sc_type T then sc_cast T self else None)"

definition At_class :: "At segment_class" where
  "At_class = \<lparr>sc_type = SegmentType_at, sc_cast = (\<lambda>s. case s of SegAt x \<Rightarrow> Some x | _ \<Rightarrow> None)\<rparr>"

definition AtAll_class :: "unit segment_class" where
  "AtAll_class = \<lparr>sc_type = SegmentType_at_all, sc_cast = (\<lambda>s. case s of SegAtAll \<Rightarrow> Some () | _ \<Rightarrow> None)\<rparr>"

definition Face_class :: "Face segment_class" where
  "Face_class = \<lparr>sc_type = SegmentType_face, sc_cast = (\<lambda>s. case s of SegFace x \<Rightarrow> Some x | _ \<Rightarrow> None)\<rparr>"

definition Plain_class :: "Plain segment_class" where
  "Plain_class = \<lparr>sc_type = SegmentType_plain, sc_cast = (\<lambda>s. case s of SegPlain x \<Rightarrow> Some x | _ \<Rightarrow> None)\<rparr>"

definition Image_class :: "Image segment_class" where
  "Image_class = \<lparr>sc_type = SegmentType_image, sc_cast = (\<lambda>s. case s of SegImage x \<Rightarrow> Some x | _ \<Rightarrow> None)\<rparr>"

definition FlashImage_class :: "FlashImage segment_class" where
  "FlashImage_class = \<lparr>sc_type = SegmentType_flash_image, sc_cast = (\<lambda>s. case s of SegFlashImage x \<Rightarrow> Some x | _ \<Rightarrow> None)\<rparr>"

definition Voice_class :: "Voice segment_class" where
  "Voice_class = \<lparr>sc_type = SegmentType_voice, sc_cast = (\<lambda>s. case s of SegVoice x \<Rightarrow> Some x | _ \<Rightarrow> None)\<rparr>"

definition Xml_class :: "Xml segment_class" where
  "Xml_class = \<lparr>sc_type = SegmentType_xml, sc_cast = (\<lambda>s. case s of SegXml x \<Rightarrow> Some x | _ \<Rightarrow> None)\<rparr>"

definition Json_class :: "Json segment_class" where
  "Json_class = \<lparr>sc_type = SegmentType_json, sc_cast = (\<lambda>s. case s of SegJson x \<Rightarrow> Some x | _ \<Rightarrow> None)\<rparr>"

definition App_class :: "App segment_class" where
  "App_class = \<lparr>sc_type = SegmentType_app, sc_cast = (\<lambda>s. case s of SegApp x \<Rightarrow> Some x | _ \<Rightarrow> None)\<rparr>"

definition Poke_class :: "Poke segment_class" where
  "Poke_class = \<lparr>sc_type = SegmentType_poke, sc_cast = (\<lambda>s. case s of SegPoke x \<Rightarrow> Some x | _ \<Rightarrow> None)\<rparr>"

definition Forward_class :: "Forward segment_class" where
  "Forward_class = \<lparr>sc_type = SegmentType_forward, sc_cast = (\<lambda>s. case s of SegForward x \<Rightarrow> Some x | _ \<Rightarrow> None)\<rparr>"

lemmas segment_class_defs =
  At_class_def AtAll_class_def Face_class_def Plain_class_def Image_class_def FlashImage_class_def
  Voice_class_def Xml_class_def Json_class_def App_class_def Poke_class_def Forward_class_def

interpretation at_erased: type_erased Segment_type SegmentType_at "sc_cast At_class" "SegAt"
  "Segment_get At_class" "Segment_get_if At_class"
  by unfold_locales (auto simp: Segment_get_def Segment_get_if_def At_class_def split: Segment.splits
      elim: Segment_type.elims)

interpretation atall_erased: type_erased Segment_type SegmentType_at_all "sc_cast AtAll_class" "(\<lambda>_. SegAtAll)"
  "Segment_get AtAll_class" "Segment_get_if AtAll_class"
  by unfold_locales (auto simp: Segment_get_def Segment_get_if_def AtAll_class_def split: Segment.splits
      elim: Segment_type.elims)

interpretation face_erased: type_erased Segment_type SegmentType_face "sc_cast Face_class" "SegFace"
  "Segment_get Face_class" "Segment_get_if Face_class"
  by unfold_locales (auto simp: Segment_get_def Segment_get_if_def Face_class_def split: Segment.splits
      elim: Segment_type.elims)

interpretation plain_erased: type_erased Segment_type SegmentType_plain "sc_cast Plain_class" "SegPlain"
  "Segment_get Plain_class" "Segment_get_if Plain_class"
  by unfold_locales (auto simp: Segment_get_def Segment_get_if_def Plain_class_def split: Segment.splits
      elim: Segment_type.elims)

interpretation image_erased: type_erased Segment_type SegmentType_image "sc_cast Image_class" "SegImage"
  "Segment_get Image_class" "Segment_get_if Image_class"
  by unfold_locales (auto simp: Segment_get_def Segment_get_if_def Image_class_def split: Segment.splits
      elim: Segment_type.elims)

interpretation flashimage_erased: type_erased Segment_type SegmentType_flash_image "sc_cast FlashImage_class" "SegFlashImage"
  "Segment_get FlashImage_class" "Segment_get_if FlashImage_class"
  by unfold_locales (auto simp: Segment_get_def Segment_get_if_def FlashImage_class_def split: Segment.splits
      elim: Segment_type.elims)

interpretation voice_erased: type_erased Segment_type SegmentType_voice "sc_cast Voice_class" "SegVoice"
  "Segment_get Voice_class" "Segment_get_if Voice_class"
  by unfold_locales (auto simp: Segment_get_def Segment_get_if_def Voice_class_def split: Segment.splits
      elim: Segment_type.elims)

interpretation xml_erased: type_erased Segment_type SegmentType_xml "sc_cast Xml_class" "SegXml"
  "Segment_get Xml_class" "Segment_get_if Xml_class"
  by unfold_locales (auto simp: Segment_get_def Segment_get_if_def Xml_class_def split: Segment.splits
      elim: Segment_type.elims)

interpretation json_erased: type_erased Segment_type SegmentType_json "sc_cast Json_class" "SegJson"
  "Segment_get Json_class" "Segment_get_if Json_class"
  by unfold_locales (auto simp: Segment_get_def Segment_get_if_def Json_class_def split: Segment.splits
      elim: Segment_type.elims)

interpretation app_erased: type_erased Segment_type SegmentType_app "sc_cast App_class" "SegApp"
  "Segment_get App_class" "Segment_get_if App_class"
  by unfold_locales (auto simp: Segment_get_def Segment_get_if_def App_class_def split: Segment.splits
      elim: Segment_type.elims)

interpretation poke_erased: type_erased Segment_type SegmentType_poke "sc_cast Poke_class" "SegPoke"
  "Segment_get Poke_class" "Segment_get_if Poke_class"
  by unfold_locales (auto simp: Segment_get_def Segment_get_if_def Poke_class_def split: Segment.splits
      elim: Segment_type.elims)

interpretation forward_erased: type_erased Segment_type SegmentType_forward "sc_cast Forward_class" "SegForward"
  "Segment_get Forward_class" "Segment_get_if Forward_class"
  by unfold_locales (auto simp: Segment_get_def Segment_get_if_def Forward_class_def split: Segment.splits
      elim: Segment_type.elims)

section \<open>Comparison\<close>

definition At_eq :: "At \<Rightarrow> At \<Rightarrow> bool" where
  "At_eq this other \<longleftrightarrow> at_target this = at_target other"

definition Face_eq :: "Face \<Rightarrow> Face \<Rightarrow> bool" where
  "Face_eq this other \<longleftrightarrow>
     (if face_id this \<noteq> None \<and> face_id this = face_id other then True
      else face_name this = face_name other)"

definition Image_eq :: "Image \<Rightarrow> Image \<Rightarrow> bool" where
  "Image_eq this other \<longleftrightarrow>
     (if img_id this \<noteq> None \<and> img_id this = img_id other then True
      else if img_url this \<noteq> None \<and> img_url this = img_url other then True
      else img_path this = img_path other)"

definition FlashImage_eq :: "FlashImage \<Rightarrow> FlashImage \<Rightarrow> bool" where
  "FlashImage_eq this other \<longleftrightarrow>
     (if flash_id this \<noteq> None \<and> flash_id this = flash_id other then True
      else if flash_url this \<noteq> None \<and> flash_url this = flash_url other then True
      else flash_path this = flash_path other)"

definition Voice_eq :: "Voice \<Rightarrow> Voice \<Rightarrow> bool" where
  "Voice_eq this other \<longleftrightarrow>
     (if voice_id this \<noteq> None \<and> voice_id this = voice_id other then True
      else if voice_url this \<noteq> None \<and> voice_url this = voice_url other then True
      else voice_path this = voice_path other)"

text \<open>
  \<open>Segment::operator==\<close> compares the models: of the same type, and the other's data
  equal to one's own by the concrete type's comparison.  The comparisons of
  \<open>Forward\<close>, \<open>ForwardedMessage\<close> and \<open>Message\<close> are defaulted, that
  is, memberwise; vectors are equal when they have the same length and equal elements.
\<close>

function (sequential) Segment_eq :: "Segment \<Rightarrow> Segment \<Rightarrow> bool"
  and Forward_eq :: "Forward \<Rightarrow> Forward \<Rightarrow> bool"
  and ForwardedMessages_eq :: "ForwardedMessage list \<Rightarrow> ForwardedMessage list \<Rightarrow> bool"
  and ForwardedMessage_eq :: "ForwardedMessage \<Rightarrow> ForwardedMessage \<Rightarrow> bool"
  and Message_eq :: "Message \<Rightarrow> Message \<Rightarrow> bool"
where
  "Segment_eq (SegAt this) base = (case base of SegAt data \<Rightarrow> At_eq data this | _ \<Rightarrow> False)"
| "Segment_eq SegAtAll base = (case base of SegAtAll \<Rightarrow> True | _ \<Rightarrow> False)"
| "Segment_eq (SegFace this) base = (case base of SegFace data \<Rightarrow> Face_eq data this | _ \<Rightarrow> False)"
| "Segment_eq (SegPlain this) base = (case base of SegPlain data \<Rightarrow> data = this | _ \<Rightarrow> False)"
| "Segment_eq (SegImage this) base = (case base of SegImage data \<Rightarrow> Image_eq data this | _ \<Rightarrow> False)"
| "Segment_eq (SegFlashImage this) base = (case base of SegFlashImage data \<Rightarrow> FlashImage_eq data this | _ \<Rightarrow> False)"
| "Segment_eq (SegVoice this) base = (case base of SegVoice data \<Rightarrow> Voice_eq data this | _ \<Rightarrow> False)"
| "Segment_eq (SegXml this) base = (case base of SegXml data \<Rightarrow> data = this | _ \<Rightarrow> False)"
| "Segment_eq (SegJson this) base = (case base of SegJson data \<Rightarrow> data = this | _ \<Rightarrow> False)"
| "Segment_eq (SegApp this) base = (case base of SegApp data \<Rightarrow> data = this | _ \<Rightarrow> False)"
| "Segment_eq (SegPoke this) base = (case base of SegPoke data \<Rightarrow> data = this | _ \<Rightarrow> False)"
| "Segment_eq (SegForward this) base = (case base of SegForward data \<Rightarrow> Forward_eq data this | _ \<Rightarrow> False)"
| "Forward_eq (Forward title brief source summary messages) (Forward title' brief' source' summary' messages') =
     (title = title' \<and> brief = brief' \<and> source = source' \<and> summary = summary' \<and>
      ForwardedMessages_eq messages messages')"
| "ForwardedMessages_eq [] [] = True"
| "ForwardedMessages_eq (m # ms) (n # ns) = (ForwardedMessage_eq m n \<and> ForwardedMessages_eq ms ns)"
| "ForwardedMessages_eq _ _ = False"
| "ForwardedMessage_eq (ForwardedMessage sender time name content) (ForwardedMessage sender' time' name' content') =
     (sender = sender' \<and> time = time' \<and> name = name' \<and> Message_eq content content')"
| "Message_eq [] [] = True"
| "Message_eq (s # ss) (t # ts) = (Segment_eq s t \<and> Message_eq ss ts)"
| "Message_eq _ _ = False"
  by pat_completeness auto
termination
  by size_change

text \<open>Comparison of a segment with a text and with a concrete segment.\<close>

definition Segment_compare_with_sv :: "Segment \<Rightarrow> string \<Rightarrow> bool" where
  "Segment_compare_with_sv self sv =
     (case Segment_get_if Plain_class self of Some ptr \<Rightarrow> pl_text ptr = sv | None \<Rightarrow> False)"

definition Segment_eq_concrete :: "'a segment_class \<Rightarrow> ('a \<Rightarrow> 'a \<Rightarrow> bool) \<Rightarrow> Segment \<Rightarrow> 'a \<Rightarrow> bool" where
  "Segment_eq_concrete T eq self other =
     (case Segment_get_if T self of Some ptr \<Rightarrow> eq ptr other | None \<Rightarrow> False)"

lemma Image_eq_refl: "Image_eq a a" and Image_eq_sym: "Image_eq a b = Image_eq b a"
  by (auto simp: Image_eq_def)

lemma FlashImage_eq_refl: "FlashImage_eq a a" and FlashImage_eq_sym: "FlashImage_eq a b = FlashImage_eq b a"
  by (auto simp: FlashImage_eq_def)

lemma Voice_eq_refl: "Voice_eq a a" and Voice_eq_sym: "Voice_eq a b = Voice_eq b a"
  by (auto simp: Voice_eq_def)

lemma Face_eq_refl: "Face_eq a a" and Face_eq_sym: "Face_eq a b = Face_eq b a"
  by (auto simp: Face_eq_def)

lemma At_eq_refl: "At_eq a a" and At_eq_sym: "At_eq a b = At_eq b a"
  by (auto simp: At_eq_def)

lemmas concrete_eq_refl = Image_eq_refl FlashImage_eq_refl Voice_eq_refl Face_eq_refl At_eq_refl
lemmas concrete_eq_sym = Image_eq_sym FlashImage_eq_sym Voice_eq_sym Face_eq_sym At_eq_sym

lemma segments_eq_refl:
  "Segment_eq s s" "Forward_eq f f" "ForwardedMessage_eq m m"
proof (induction s and f and m rule: Segment.induct Forward.induct ForwardedMessage.induct)
  case (Forward t b src su ms)
  then show ?case by (induction ms) auto
next
  case (ForwardedMessage u t n c)
  then show ?case by (induction c) auto
qed (simp_all add: concrete_eq_refl)

lemma Message_eq_refl: "Message_eq m m"
  by (induction m) (simp_all add: segments_eq_refl)

lemma segments_eq_sym:
  "Segment_eq s t = Segment_eq t s"
  "Forward_eq f g = Forward_eq g f"
  "ForwardedMessages_eq ms ns = ForwardedMessages_eq ns ms"
  "ForwardedMessage_eq m n = ForwardedMessage_eq n m"
  "Message_eq ss ts = Message_eq ts ss"
proof (induction s t and f g and ms ns and m n and ss ts
    rule: Segment_eq_Forward_eq_ForwardedMessages_eq_ForwardedMessage_eq_Message_eq.induct)
qed (auto split: Segment.splits simp: concrete_eq_sym)

section \<open>Text output\<close>

definition At_format_to :: "At \<Rightarrow> writer" where
  "At_format_to a ctx =
     fmt_out (''@'' @ dec_i64 (uid_id (at_target a)))
       (if at_display a \<noteq> [] then fmt_out (at_display a) ctx else ctx)"

definition AtAll_format_to :: writer where
  "AtAll_format_to = fmt_out (''@'' @ [CHR 0xE5, CHR 0x85, CHR 0xA8, CHR 0xE4, CHR 0xBD, CHR 0x93, CHR 0xE6, CHR 0x88, CHR 0x90, CHR 0xE5, CHR 0x91, CHR 0x98])"

definition Face_format_to :: "Face \<Rightarrow> writer" where
  "Face_format_to f =
     (case face_name f of
        Some name \<Rightarrow> fmt_out ((''['' @ [CHR 0xE8, CHR 0xA1, CHR 0xA8, CHR 0xE6, CHR 0x83, CHR 0x85] @ '' '') @ name @ '']'')
      | None \<Rightarrow>
          (case face_id f of
             Some i \<Rightarrow> fmt_out ((''['' @ [CHR 0xE8, CHR 0xA1, CHR 0xA8, CHR 0xE6, CHR 0x83, CHR 0x85] @ '' '') @ dec_i32 i @ '']'')
           | None \<Rightarrow> fmt_out (''['' @ [CHR 0xE8, CHR 0xA1, CHR 0xA8, CHR 0xE6, CHR 0x83, CHR 0x85] @ '']'')))"

definition Image_format_to :: "Image \<Rightarrow> writer" where
  "Image_format_to i =
     (case img_id i of
        Some s \<Rightarrow> fmt_out s
      | None \<Rightarrow>
          (case img_url i of
             Some s \<Rightarrow> fmt_out s
           | None \<Rightarrow> (case img_path i of Some s \<Rightarrow> fmt_out s | None \<Rightarrow> fmt_out ''null'')))"

definition FlashImage_format_to :: "FlashImage \<Rightarrow> writer" where
  "FlashImage_format_to i =
     (case flash_id i of
        Some s \<Rightarrow> fmt_out ((''['' @ [CHR 0xE5, CHR 0x9B, CHR 0xBE, CHR 0xE7, CHR 0x89, CHR 0x87] @ '' '') @ s @ '']'')
      | None \<Rightarrow>
          (case flash_url i of
             Some s \<Rightarrow> fmt_out ((''['' @ [CHR 0xE5, CHR 0x9B, CHR 0xBE, CHR 0xE7, CHR 0x89, CHR 0x87] @ '' '') @ s @ '']'')
           | None \<Rightarrow>
               (case flash_path i of
                  Some s \<Rightarrow> fmt_out ((''['' @ [CHR 0xE5, CHR 0x9B, CHR 0xBE, CHR 0xE7, CHR 0x89, CHR 0x87] @ '' '') @ s @ '']'')
                | None \<Rightarrow> fmt_out (''['' @ [CHR 0xE5, CHR 0x9B, CHR 0xBE, CHR 0xE7, CHR 0x89, CHR 0x87] @ '']''))))"

definition Voice_format_to :: "Voice \<Rightarrow> writer" where
  "Voice_format_to i =
     (case voice_id i of
        Some s \<Rightarrow> fmt_out ((''['' @ [CHR 0xE8, CHR 0xAF, CHR 0xAD, CHR 0xE9, CHR 0x9F, CHR 0xB3] @ '' '') @ s @ '']'')
      | None \<Rightarrow>
          (case voice_url i of
             Some s \<Rightarrow> fmt_out ((''['' @ [CHR 0xE8, CHR 0xAF, CHR 0xAD, CHR 0xE9, CHR 0x9F, CHR 0xB3] @ '' '') @ s @ '']'')
           | None \<Rightarrow>
               (case voice_path i of
                  Some s \<Rightarrow> fmt_out ((''['' @ [CHR 0xE8, CHR 0xAF, CHR 0xAD, CHR 0xE9, CHR 0x9F, CHR 0xB3] @ '' '') @ s @ '']'')
                | None \<Rightarrow> fmt_out (''['' @ [CHR 0xE8, CHR 0xAF, CHR 0xAD, CHR 0xE9, CHR 0x9F, CHR 0xB3] @ '']''))))"

definition Poke_format_to :: "Poke \<Rightarrow> writer" where
  "Poke_format_to p = fmt_out ((''['' @ [CHR 0xE6, CHR 0x88, CHR 0xB3, CHR 0xE4, CHR 0xB8, CHR 0x80, CHR 0xE6, CHR 0x88, CHR 0xB3] @ '' '') @ poke_name p @ '']'')"

definition Forward_format_to :: "Forward \<Rightarrow> writer" where
  "Forward_format_to f = fmt_out (fwd_brief f)"

fun Segment_format_to :: "Segment \<Rightarrow> writer" where
  "Segment_format_to (SegAt x) = At_format_to x"
| "Segment_format_to SegAtAll = AtAll_format_to"
| "Segment_format_to (SegFace x) = Face_format_to x"
| "Segment_format_to (SegPlain x) = fmt_out (pl_text x)"
| "Segment_format_to (SegImage x) = Image_format_to x"
| "Segment_format_to (SegFlashImage x) = FlashImage_format_to x"
| "Segment_format_to (SegVoice x) = Voice_format_to x"
| "Segment_format_to (SegXml x) = fmt_out (xml_xml x)"
| "Segment_format_to (SegJson x) = fmt_out (json_json x)"
| "Segment_format_to (SegApp x) = fmt_out (app_content x)"
| "Segment_format_to (SegPoke x) = Poke_format_to x"
| "Segment_format_to (SegForward x) = Forward_format_to x"

text \<open>Every segment's text output only appends to the buffer.\<close>

lemmas format_to_defs =
  At_format_to_def AtAll_format_to_def Face_format_to_def Image_format_to_def
  FlashImage_format_to_def Voice_format_to_def Poke_format_to_def Forward_format_to_def

lemma Segment_format_to_appends: "\<exists>t. appends (Segment_format_to s) t"
proof (cases s)
  case (SegAt a)
  have "appends (Segment_format_to s)
          (at_display a @ ''@'' @ dec_i64 (uid_id (at_target a)))"
    using SegAt by (simp add: At_format_to_def appends_def fmt_out_def)
  then show ?thesis ..
qed (auto simp: format_to_defs split: option.split)

lemma Image_eq_not_transitive:
  "\<exists>a b c. Image_eq a b \<and> Image_eq b c \<and> \<not> Image_eq a c"
  by (rule exI [of _ "\<lparr>img_id = Some ''a'', img_url = None, img_path = None\<rparr>"],
      rule exI [of _ "\<lparr>img_id = Some ''b'', img_url = None, img_path = None\<rparr>"],
      rule exI [of _ "\<lparr>img_id = Some ''b'', img_url = None, img_path = Some ''p''\<rparr>"])
    (simp add: Image_eq_def)

text \<open>
  \<open>Segment::operator==\<close> is reflexive and symmetric, for
  nested forwarded messages as well.
\<close>

theorem Segment_eq_refl_sym:
  "Segment_eq s s \<and> Segment_eq s t = Segment_eq t s"
  using segments_eq_refl(1) segments_eq_sym(1) by blast

text \<open>
  two images without a local path compare equal whatever their
  ids and links are: the final comparison of the paths holds of two absent paths.
\<close>

theorem Image_eq_ignores_ids:
  assumes "img_path a = None" and "img_path b = None"
  shows "Segment_eq (SegImage a) (SegImage b)"
  using assms by (simp add: Image_eq_def)

theorem Image_eq_ignores_ids_witness:
  "Segment_eq (SegImage \<lparr>img_id = Some ''a'', img_url = None, img_path = None\<rparr>)
     (SegImage \<lparr>img_id = Some ''b'', img_url = None, img_path = None\<rparr>)"
  by (rule Image_eq_ignores_ids) simp_all

end
