(* ===== verification/Json_Reader.thy ===== *)
theory Json_Reader
  imports Json_Spec
begin

text \<open>
  The deserialisation half of \<open>lib/src/detail/json.h\<close>.  The DOM of simdjson and the
  hash of clu are not code of the repository: they are the fields of a record that every
  reader takes as its argument.
\<close>

unbundle bit_operations_syntax

section \<open>The libraries the readers call\<close>

text \<open>
  \<open>sj_parse\<close> is \<open>dom::parser::parse\<close>, \<open>sj_max_depth\<close> the parser's
  \<open>max_depth\<close>, \<open>sj_at_key\<close> and \<open>sj_at_pointer\<close> element access, the
  \<open>sj_get\<close> fields the typed accessors of an element (\<open>sj_get_array\<close> with
  the elements in iteration order), \<open>clu_fnv1a\<close> the string hash.
\<close>

record 'j deps =
  sj_parse :: "string \<Rightarrow> simdjson_error + 'j"
  sj_max_depth :: nat
  sj_at_key :: "'j \<Rightarrow> string \<Rightarrow> simdjson_error + 'j"
  sj_at_pointer :: "'j \<Rightarrow> string \<Rightarrow> simdjson_error + 'j"
  sj_get_bool :: "'j \<Rightarrow> simdjson_error + bool"
  sj_get_int64 :: "'j \<Rightarrow> simdjson_error + i64"
  sj_get_uint64 :: "'j \<Rightarrow> simdjson_error + u64"
  sj_get_string :: "'j \<Rightarrow> simdjson_error + string"
  sj_get_array :: "'j \<Rightarrow> simdjson_error + 'j list"
  sj_is_null :: "'j \<Rightarrow> bool"
  clu_fnv1a :: "string \<Rightarrow> u64"

text \<open>\<open>JsonRes\<close>, a \<open>simdjson_result<element>\<close>: an element or an error code.\<close>

type_synonym 'j json_res = "simdjson_error + 'j"

text \<open>
  Operations on a \<open>simdjson_result\<close> hand an error on; conversions to a value throw
  it.
\<close>

definition res_at :: "'j deps \<Rightarrow> 'j json_res \<Rightarrow> string \<Rightarrow> 'j json_res" where
  "res_at D r key = (case r of Inl e \<Rightarrow> Inl e | Inr j \<Rightarrow> sj_at_key D j key)"

definition res_at_pointer :: "'j deps \<Rightarrow> 'j json_res \<Rightarrow> string \<Rightarrow> 'j json_res" where
  "res_at_pointer D r path = (case r of Inl e \<Rightarrow> Inl e | Inr j \<Rightarrow> sj_at_pointer D j path)"

definition throwing :: "simdjson_error + 'a \<Rightarrow> 'a res" where
  "throwing r = (case r of Inl e \<Rightarrow> throw (Simdjson_error e) | Inr x \<Rightarrow> Inr x)"

definition json_value :: "'j json_res \<Rightarrow> 'j res" where
  "json_value r = throwing r"

definition json_conv :: "('j \<Rightarrow> simdjson_error + 'a) \<Rightarrow> 'j json_res \<Rightarrow> 'a res" where
  "json_conv get r = (case r of Inl e \<Rightarrow> throw (Simdjson_error e) | Inr j \<Rightarrow> throwing (get j))"

section \<open>Typed readers\<close>

definition from_json_bool :: "'j deps \<Rightarrow> 'j json_res \<Rightarrow> bool res" where
  "from_json_bool D r = json_conv (sj_get_bool D) r"

definition from_json_u64 :: "'j deps \<Rightarrow> 'j json_res \<Rightarrow> u64 res" where
  "from_json_u64 D r = json_conv (sj_get_uint64 D) r"

definition from_json_u32 :: "'j deps \<Rightarrow> 'j json_res \<Rightarrow> u32 res" where
  "from_json_u32 D r = bindE (json_conv (sj_get_uint64 D) r) (\<lambda>w. Inr (u64_to_u32 w))"

definition from_json_i64 :: "'j deps \<Rightarrow> 'j json_res \<Rightarrow> i64 res" where
  "from_json_i64 D r = json_conv (sj_get_int64 D) r"

definition from_json_i32 :: "'j deps \<Rightarrow> 'j json_res \<Rightarrow> i32 res" where
  "from_json_i32 D r = bindE (json_conv (sj_get_int64 D) r) (\<lambda>w. Inr (i64_to_i32 w))"

definition from_json_string :: "'j deps \<Rightarrow> 'j json_res \<Rightarrow> string res" where
  "from_json_string D r = json_conv (sj_get_string D) r"

text \<open>
  Two instances the library does not use.  \<open>get_double\<close> is the accessor for
  floating point numbers and \<open>cast\<close> the conversion from \<open>double\<close>.  A
  \<open>string_view\<close> is what reading it gives; the one returned refers to a temporary
  string that is gone.
\<close>

definition from_json_floating :: "('j \<Rightarrow> simdjson_error + 'd) \<Rightarrow> ('d \<Rightarrow> 'f) \<Rightarrow> 'j json_res \<Rightarrow> 'f res" where
  "from_json_floating get_double cast r = bindE (json_conv get_double r) (\<lambda>x. Inr (cast x))"

definition from_json_string_view :: "'j deps \<Rightarrow> 'j json_res \<Rightarrow> (unit \<Rightarrow> string res) res" where
  "from_json_string_view D r = bindE (from_json_string D r) (\<lambda>_. Inr (\<lambda>_. Inl Undefined_behaviour))"

text \<open>A type with a static \<open>from_json\<close> is read from the element itself.\<close>

definition from_json_class :: "('j \<Rightarrow> 'a res) \<Rightarrow> 'j json_res \<Rightarrow> 'a res" where
  "from_json_class f r = bindE (json_value r) f"

text \<open>
  \<open>is_null\<close> of a \<open>simdjson_result\<close> holding an error is false, so every error
  but \<open>NO_SUCH_FIELD\<close> reaches the reader of the contained type and is thrown there.
\<close>

definition res_is_null :: "'j deps \<Rightarrow> 'j json_res \<Rightarrow> bool" where
  "res_is_null D r = (case r of Inl e \<Rightarrow> False | Inr j \<Rightarrow> sj_is_null D j)"

definition from_json_optional ::
  "'j deps \<Rightarrow> ('j json_res \<Rightarrow> 'a res) \<Rightarrow> 'j json_res \<Rightarrow> 'a option res" where
  "from_json_optional D f r =
     (if r = Inl NO_SUCH_FIELD \<or> res_is_null D r then Inr None
      else bindE (f r) (\<lambda>x. Inr (Some x)))"

definition from_json_vector ::
  "'j deps \<Rightarrow> ('j json_res \<Rightarrow> 'a res) \<Rightarrow> 'j json_res \<Rightarrow> 'a list res" where
  "from_json_vector D f r =
     bindE (json_conv (sj_get_array D) r) (traverseE (\<lambda>elem. f (Inr elem)))"

section \<open>Switching on hashed labels\<close>

text \<open>
  \<open>switch (clu::fnv1a(s)) { case "L"_fnv1a: ... }\<close>: the first (and, in a program
  that compiles, only) label whose hash is that of the argument is taken.
\<close>

fun switch_fnv1a :: "'j deps \<Rightarrow> string \<Rightarrow> (string \<times> 'a) list \<Rightarrow> 'a \<Rightarrow> 'a" where
  "switch_fnv1a D s [] dflt = dflt"
| "switch_fnv1a D s ((label, x) # cases) dflt =
     (if clu_fnv1a D s = clu_fnv1a D label then x else switch_fnv1a D s cases dflt)"

text \<open>
  Two equal case labels are a compile-time error, so the labels of one switch have
  different hashes.
\<close>

definition labels_compile :: "'j deps \<Rightarrow> string list \<Rightarrow> bool" where
  "labels_compile D labels \<longleftrightarrow> distinct (map (clu_fnv1a D) labels)"

lemma switch_fnv1a_cong [fundef_cong]:
  "s = s' \<Longrightarrow> cs = cs' \<Longrightarrow> d = d' \<Longrightarrow> switch_fnv1a D s cs d = switch_fnv1a D s' cs' d'"
  by simp

lemma switch_fnv1a_label:
  assumes "labels_compile D (map fst cs)" and "(label, x) \<in> set cs"
  shows "switch_fnv1a D label cs d = x"
  using assms by (induction D label cs d rule: switch_fnv1a.induct) (force simp: labels_compile_def)+

lemma switch_fnv1a_default:
  "clu_fnv1a D s \<notin> clu_fnv1a D ` fst ` set cs \<Longrightarrow> switch_fnv1a D s cs d = d"
  by (induction D s cs d rule: switch_fnv1a.induct) auto

text \<open>What holds of every case of a switch, relative to its label, holds of the case taken.\<close>

lemma switch_fnv1a_typed:
  assumes "list_all2 (\<lambda>c l. fst c = fst l \<and> (\<forall>y. snd c = Inr y \<longrightarrow> P y (snd l))) cs ls"
    and "switch_fnv1a D s cs (throw e) = Inr y"
  shows "\<exists>l t. (l, t) \<in> set ls \<and> clu_fnv1a D s = clu_fnv1a D l \<and> P y t"
  using assms by (induction cs ls rule: list_all2_induct) (fastforce split: if_splits)+

lemma labels_compile_unique:
  assumes "labels_compile D (map fst ls)" and "(l, t) \<in> set ls" and "(l', t') \<in> set ls"
    and "clu_fnv1a D l = clu_fnv1a D l'"
  shows "t = t'"
proof -
  have "inj_on (clu_fnv1a D) (fst ` set ls)" and keys: "distinct (map fst ls)"
    using assms(1) by (auto simp: labels_compile_def distinct_map intro: inj_on_imageI inj_on_imageI2)
  moreover have "l \<in> fst ` set ls" "l' \<in> fst ` set ls"
    using assms(2,3) by force+
  ultimately have "l = l'" using assms(4) by (auto dest: inj_onD)
  with keys assms(2,3) show ?thesis by (auto dest: eq_key_imp_eq_value)
qed

lemma switch_fnv1a_cases:
  "switch_fnv1a D s cs d = d \<or> (\<exists>(label, x) \<in> set cs. clu_fnv1a D s = clu_fnv1a D label \<and> switch_fnv1a D s cs d = x)"
  by (induction D s cs d rule: switch_fnv1a.induct) auto

section \<open>What the readers rely on\<close>

text \<open>
  A parsed document is a finite tree no deeper than the parser allows.
\<close>

locale json_dom =
  fixes D :: "'j deps" and depth :: "'j \<Rightarrow> nat"
  assumes depth_at_key: "sj_at_key D j key = Inr v \<Longrightarrow> depth v < depth j"
    and depth_array: "sj_get_array D j = Inr es \<Longrightarrow> e \<in> set es \<Longrightarrow> depth e < depth j"
    and depth_parse: "sj_parse D s = Inr j \<Longrightarrow> depth j \<le> sj_max_depth D"
begin

lemma depth_res_at:
  "res_at D (Inr j) key = Inr v \<Longrightarrow> depth v < depth j"
  by (simp add: res_at_def depth_at_key)

end

section \<open>Evaluation lemmas\<close>

lemma throwing_simps [simp, reader_simps]:
  "throwing (Inl e) = throw (Simdjson_error e)" "throwing (Inr x) = Inr x"
  by (simp_all add: throwing_def)

lemma json_value_simps [simp, reader_simps]:
  "json_value (Inl e) = throw (Simdjson_error e)" "json_value (Inr x) = Inr x"
  by (simp_all add: json_value_def)

lemma json_conv_simps [simp, reader_simps]:
  "json_conv get (Inl e) = throw (Simdjson_error e)" "json_conv get (Inr j) = throwing (get j)"
  by (simp_all add: json_conv_def)

lemma res_at_simps [simp, reader_simps]:
  "res_at D (Inl e) key = Inl e" "res_at D (Inr j) key = sj_at_key D j key"
  by (simp_all add: res_at_def)

lemma res_is_null_simps [simp, reader_simps]:
  "res_is_null D (Inl e) = False" "res_is_null D (Inr j) = sj_is_null D j"
  by (simp_all add: res_is_null_def)

lemma throwing_eq_Inr [simp]: "throwing r = Inr x \<longleftrightarrow> r = Inr x"
  by (cases r) simp_all

lemma json_conv_eq_Inr [simp]: "json_conv get r = Inr x \<longleftrightarrow> (\<exists>j. r = Inr j \<and> get j = Inr x)"
  by (cases r) simp_all

lemmas from_json_defs =
  from_json_bool_def from_json_u64_def from_json_u32_def from_json_i64_def from_json_i32_def
  from_json_string_def from_json_class_def from_json_optional_def from_json_vector_def

text \<open>Reading never runs out of fuel or aborts by itself.\<close>

lemma throwing_neq [simp]:
  "throwing r \<noteq> Inl Out_of_fuel" "throwing r \<noteq> Inl Terminate" "throwing r \<noteq> Inl Undefined_behaviour"
  "throwing r \<noteq> Inl Stopped"
  by (cases r; simp)+

lemma json_conv_neq [simp]:
  "json_conv get r \<noteq> Inl Out_of_fuel" "json_conv get r \<noteq> Inl Terminate"
  "json_conv get r \<noteq> Inl Undefined_behaviour" "json_conv get r \<noteq> Inl Stopped"
  by (cases r; simp)+

section \<open>Fuel of the readers\<close>

lemma fuelled_json_conv [fuel_intros]: "fuelled (json_conv get r)"
  by (simp add: fuelled_def)

lemma fuelled_throwing [fuel_intros]: "fuelled (throwing r)"
  by (simp add: fuelled_def)

lemma fuelled_readers [fuel_intros]:
  "fuelled (from_json_bool D r)" "fuelled (from_json_u64 D r)" "fuelled (from_json_u32 D r)"
  "fuelled (from_json_i64 D r)" "fuelled (from_json_i32 D r)" "fuelled (from_json_string D r)"
  by (auto simp: from_json_defs intro!: fuel_intros)

lemma fuelled_class [fuel_intros]:
  "(\<And>j. r = Inr j \<Longrightarrow> fuelled (f j)) \<Longrightarrow> fuelled (from_json_class f r)"
  by (cases r) (auto simp: from_json_class_def)

lemma fuelled_optional [fuel_intros]:
  "fuelled (f r) \<Longrightarrow> fuelled (from_json_optional D f r)"
  by (auto simp: from_json_optional_def intro!: fuel_intros)

lemma fuelled_vector [fuel_intros]:
  "(\<And>j es e. r = Inr j \<Longrightarrow> sj_get_array D j = Inr es \<Longrightarrow> e \<in> set es \<Longrightarrow> fuelled (f (Inr e))) \<Longrightarrow>
   fuelled (from_json_vector D f r)"
  by (cases r) (auto simp: from_json_vector_def intro!: fuel_intros)

lemma fuelled_switch [fuel_intros]:
  "(\<And>l x. (l, x) \<in> set cs \<Longrightarrow> fuelled x) \<Longrightarrow> fuelled d \<Longrightarrow> fuelled (switch_fnv1a D s cs d)"
  by (induction D s cs d rule: switch_fnv1a.induct) auto

lemma fuel_le_class [fuel_intros]:
  "(\<And>j. r = Inr j \<Longrightarrow> fuel_le (f j) (g j)) \<Longrightarrow> fuel_le (from_json_class f r) (from_json_class g r)"
  by (cases r) (auto simp: from_json_class_def)

lemma fuel_le_vector [fuel_intros]:
  "(\<And>e. fuel_le (f (Inr e)) (g (Inr e))) \<Longrightarrow> fuel_le (from_json_vector D f r) (from_json_vector D g r)"
  by (auto simp: from_json_vector_def intro!: fuel_intros)

lemma fuel_le_switch:
  "list_all2 (\<lambda>c c'. fst c = fst c' \<and> fuel_le (snd c) (snd c')) cs cs' \<Longrightarrow>
   fuel_le (switch_fnv1a D s cs d) (switch_fnv1a D s cs' d)"
  by (induction cs cs' rule: list_all2_induct) (auto split: prod.splits)

section \<open>Readers return or throw\<close>

lemma graceful_json_conv [graceful_intros]: "graceful (json_conv get r)"
  by (simp add: graceful_def)

lemma graceful_throwing [graceful_intros]: "graceful (throwing r)"
  by (simp add: graceful_def)

lemma graceful_readers [graceful_intros]:
  "graceful (from_json_bool D r)" "graceful (from_json_u64 D r)" "graceful (from_json_u32 D r)"
  "graceful (from_json_i64 D r)" "graceful (from_json_i32 D r)" "graceful (from_json_string D r)"
  by (auto simp: from_json_defs intro!: graceful_intros)

lemma graceful_class [graceful_intros]:
  "(\<And>j. r = Inr j \<Longrightarrow> graceful (f j)) \<Longrightarrow> graceful (from_json_class f r)"
  by (cases r) (auto simp: from_json_class_def)

lemma graceful_optional [graceful_intros]:
  "graceful (f r) \<Longrightarrow> graceful (from_json_optional D f r)"
  by (auto simp: from_json_optional_def intro!: graceful_intros)

lemma graceful_vector [graceful_intros]:
  "(\<And>e. graceful (f (Inr e))) \<Longrightarrow> graceful (from_json_vector D f r)"
  by (auto simp: from_json_vector_def intro!: graceful_intros)

lemma graceful_switch [graceful_intros]:
  "(\<And>l x. (l, x) \<in> set cs \<Longrightarrow> clu_fnv1a D s = clu_fnv1a D l \<Longrightarrow> graceful x) \<Longrightarrow> graceful d \<Longrightarrow>
   graceful (switch_fnv1a D s cs d)"
  by (induction D s cs d rule: switch_fnv1a.induct) auto

section \<open>A reference DOM over JSON values\<close>

text \<open>
  The accessors as simdjson documents them, over the values of \<open>Json_Spec\<close>: the
  first field of the given name, integers within the range of the requested type, and no
  conversion between types.  \<open>p\<close> is the text-to-value function of the parser; a
  document nested deeper than 1024 is rejected.
\<close>

fun json_depth :: "json \<Rightarrow> nat" where
  "json_depth (JArr vs) = Suc (fold max (map json_depth vs) 0)"
| "json_depth (JObj kvs) = Suc (fold max (map (\<lambda>(k, v). json_depth v) kvs) 0)"
| "json_depth _ = 0"

fun ref_at_key :: "json \<Rightarrow> string \<Rightarrow> simdjson_error + json" where
  "ref_at_key (JObj kvs) key =
     (case map_of kvs key of None \<Rightarrow> Inl NO_SUCH_FIELD | Some v \<Rightarrow> Inr v)"
| "ref_at_key _ key = Inl INCORRECT_TYPE"

fun split_slash :: "string \<Rightarrow> string list" where
  "split_slash [] = [[]]"
| "split_slash (c # cs) =
     (if c = CHR ''/'' then [] # split_slash cs
      else (case split_slash cs of [] \<Rightarrow> [[c]] | w # ws \<Rightarrow> (c # w) # ws))"

fun ref_walk :: "json \<Rightarrow> string list \<Rightarrow> simdjson_error + json" where
  "ref_walk j [] = Inr j"
| "ref_walk j (k # ks) = (case ref_at_key j k of Inl e \<Rightarrow> Inl e | Inr v \<Rightarrow> ref_walk v ks)"

definition ref_at_pointer :: "json \<Rightarrow> string \<Rightarrow> simdjson_error + json" where
  "ref_at_pointer j path = ref_walk j (tl (split_slash path))"

fun ref_get_bool :: "json \<Rightarrow> simdjson_error + bool" where
  "ref_get_bool (JBool b) = Inr b"
| "ref_get_bool _ = Inl INCORRECT_TYPE"

fun ref_get_int64 :: "json \<Rightarrow> simdjson_error + i64" where
  "ref_get_int64 (JNum i) =
     (if - (2 ^ 63) \<le> i \<and> i < 2 ^ 63 then Inr (word_of_int i) else Inl (OTHER_ERROR 9))"
| "ref_get_int64 _ = Inl INCORRECT_TYPE"

fun ref_get_uint64 :: "json \<Rightarrow> simdjson_error + u64" where
  "ref_get_uint64 (JNum i) =
     (if 0 \<le> i \<and> i < 2 ^ 64 then Inr (word_of_int i) else Inl (OTHER_ERROR 9))"
| "ref_get_uint64 _ = Inl INCORRECT_TYPE"

fun ref_get_string :: "json \<Rightarrow> simdjson_error + string" where
  "ref_get_string (JStr s) = Inr s"
| "ref_get_string _ = Inl INCORRECT_TYPE"

fun ref_get_array :: "json \<Rightarrow> simdjson_error + json list" where
  "ref_get_array (JArr vs) = Inr vs"
| "ref_get_array _ = Inl INCORRECT_TYPE"

definition ref_parse :: "(string \<Rightarrow> json option) \<Rightarrow> string \<Rightarrow> simdjson_error + json" where
  "ref_parse p s =
     (case p s of
        None \<Rightarrow> Inl (OTHER_ERROR 3)
      | Some j \<Rightarrow> if json_depth j \<le> 1024 then Inr j else Inl (OTHER_ERROR 4))"

definition ref_fnv1a :: "string \<Rightarrow> u64" where
  "ref_fnv1a s =
     foldl (\<lambda>h c. (h XOR of_char c) * 1099511628211) 14695981039346656037 s"

definition ref_deps :: "(string \<Rightarrow> json option) \<Rightarrow> json deps" where
  "ref_deps p =
     \<lparr>sj_parse = ref_parse p, sj_max_depth = 1024,
      sj_at_key = ref_at_key, sj_at_pointer = ref_at_pointer,
      sj_get_bool = ref_get_bool, sj_get_int64 = ref_get_int64, sj_get_uint64 = ref_get_uint64,
      sj_get_string = ref_get_string, sj_get_array = ref_get_array,
      sj_is_null = (\<lambda>j. j = JNull), clu_fnv1a = ref_fnv1a\<rparr>"

lemma ref_deps_simps [simp, reader_simps]:
  "sj_parse (ref_deps p) = ref_parse p" "sj_max_depth (ref_deps p) = 1024"
  "sj_at_key (ref_deps p) = ref_at_key" "sj_at_pointer (ref_deps p) = ref_at_pointer"
  "sj_get_bool (ref_deps p) = ref_get_bool" "sj_get_int64 (ref_deps p) = ref_get_int64"
  "sj_get_uint64 (ref_deps p) = ref_get_uint64" "sj_get_string (ref_deps p) = ref_get_string"
  "sj_get_array (ref_deps p) = ref_get_array" "sj_is_null (ref_deps p) = (\<lambda>j. j = JNull)"
  "clu_fnv1a (ref_deps p) = ref_fnv1a"
  by (simp_all add: ref_deps_def)

lemma le_fold_max: "(m :: nat) \<le> fold max ys m"
proof (induction ys arbitrary: m)
  case Nil
  then show ?case by simp
next
  case (Cons y ys)
  from Cons.IH [of "max y m"] show ?case by simp
qed

lemma fold_max_less: "x \<in> set xs \<Longrightarrow> x < Suc (fold max xs (n :: nat))"
proof (induction xs arbitrary: n)
  case Nil
  then show ?case by simp
next
  case (Cons y ys)
  with le_fold_max [of "max y n" ys] show ?case by auto
qed

lemma json_depth_at_key: "ref_at_key j key = Inr v \<Longrightarrow> json_depth v < json_depth j"
  by (cases "(j, key)" rule: ref_at_key.cases)
    (force split: option.splits intro: fold_max_less dest: map_of_SomeD)+

lemma json_depth_array: "ref_get_array j = Inr es \<Longrightarrow> e \<in> set es \<Longrightarrow> json_depth e < json_depth j"
  by (cases j) (auto intro: fold_max_less)

interpretation ref_dom: json_dom "ref_deps p" json_depth
  by unfold_locales
    (auto simp: ref_parse_def json_depth_at_key json_depth_array split: option.splits if_splits)

end
