(* ===== verification/Segment_Json.thy ===== *)
theory Segment_Json
  imports Segment_Types Json_Reader
begin

text \<open>
  Segments, forwarded messages and messages as JSON, in both directions:
  \<open>format_as_json\<close> and \<open>from_json\<close> of \<open>lib/src/message/segment_types.cpp\<close>,
  \<open>segment.cpp\<close>, \<open>forwarded_message.cpp\<close> and of \<open>Message\<close> in
  \<open>message.cpp\<close>.
\<close>

section \<open>Writing\<close>

definition At_format_as_json :: "At \<Rightarrow> writer" where
  "At_format_as_json a =
     write_obj [(''type'', J_text ''At''), (''target'', J_int (sint (uid_id (at_target a))))]"

definition AtAll_format_as_json :: writer where
  "AtAll_format_as_json =
     fmt_out (''{'' @ [CHR 0x22] @ ''type'' @ [CHR 0x22] @ '':'' @ [CHR 0x22] @ ''AtAll'' @ [CHR 0x22] @ ''}'')"

definition Face_format_as_json :: "Face \<Rightarrow> writer" where
  "Face_format_as_json f =
     write_obj
       [(''type'', J_text ''Face''),
        (''faceId'', J_opt (map_option (\<lambda>i. J_int (sint i)) (face_id f))),
        (''name'', J_opt (map_option J_text (face_name f)))]"

definition Plain_format_as_json :: "Plain \<Rightarrow> writer" where
  "Plain_format_as_json p = write_obj [(''type'', J_text ''Plain''), (''text'', J_text (pl_text p))]"

definition Image_format_as_json :: "Image \<Rightarrow> writer" where
  "Image_format_as_json i =
     write_obj ((''type'', J_text ''Image'') #
       (if img_id i \<noteq> None then [(''imageId'', J_opt (map_option J_text (img_id i)))]
        else if img_url i \<noteq> None then [(''url'', J_opt (map_option J_text (img_url i)))]
        else if img_path i \<noteq> None then [(''path'', J_opt (map_option J_text (img_path i)))]
        else []))"

definition FlashImage_format_as_json :: "FlashImage \<Rightarrow> writer" where
  "FlashImage_format_as_json i =
     write_obj ((''type'', J_text ''FlashImage'') #
       (if flash_id i \<noteq> None then [(''imageId'', J_opt (map_option J_text (flash_id i)))]
        else if flash_url i \<noteq> None then [(''url'', J_opt (map_option J_text (flash_url i)))]
        else if flash_path i \<noteq> None then [(''path'', J_opt (map_option J_text (flash_path i)))]
        else []))"

definition Voice_format_as_json :: "Voice \<Rightarrow> writer" where
  "Voice_format_as_json i =
     write_obj ((''type'', J_text ''Voice'') #
       (if voice_id i \<noteq> None then [(''voiceId'', J_opt (map_option J_text (voice_id i)))]
        else if voice_url i \<noteq> None then [(''url'', J_opt (map_option J_text (voice_url i)))]
        else if voice_path i \<noteq> None then [(''path'', J_opt (map_option J_text (voice_path i)))]
        else []))"

definition Xml_format_as_json :: "Xml \<Rightarrow> writer" where
  "Xml_format_as_json x = write_obj [(''type'', J_text ''Xml''), (''xml'', J_text (xml_xml x))]"

definition Json_format_as_json :: "Json \<Rightarrow> writer" where
  "Json_format_as_json x = write_obj [(''type'', J_text ''Json''), (''json'', J_text (json_json x))]"

definition App_format_as_json :: "App \<Rightarrow> writer" where
  "App_format_as_json x = write_obj [(''type'', J_text ''App''), (''content'', J_text (app_content x))]"

definition Poke_format_as_json :: "Poke \<Rightarrow> writer" where
  "Poke_format_as_json x = write_obj [(''type'', J_text ''Poke''), (''name'', J_text (poke_name x))]"

text \<open>
  A message writes its segments into an array scope; the list of forwarded messages goes
  through the generic writer of ranges.
\<close>

fun Segment_format_as_json :: "Segment \<Rightarrow> writer"
  and Forward_format_as_json :: "Forward \<Rightarrow> writer"
  and ForwardedMessage_format_as_json :: "ForwardedMessage \<Rightarrow> writer"
  and Message_format_as_json :: "Message \<Rightarrow> writer"
where
  "Segment_format_as_json (SegAt x) = At_format_as_json x"
| "Segment_format_as_json SegAtAll = AtAll_format_as_json"
| "Segment_format_as_json (SegFace x) = Face_format_as_json x"
| "Segment_format_as_json (SegPlain x) = Plain_format_as_json x"
| "Segment_format_as_json (SegImage x) = Image_format_as_json x"
| "Segment_format_as_json (SegFlashImage x) = FlashImage_format_as_json x"
| "Segment_format_as_json (SegVoice x) = Voice_format_as_json x"
| "Segment_format_as_json (SegXml x) = Xml_format_as_json x"
| "Segment_format_as_json (SegJson x) = Json_format_as_json x"
| "Segment_format_as_json (SegApp x) = App_format_as_json x"
| "Segment_format_as_json (SegPoke x) = Poke_format_as_json x"
| "Segment_format_as_json (SegForward x) = Forward_format_as_json x"
| "Forward_format_as_json (Forward title brief source summary messages) =
     write_obj
       [(''type'', J_text ''Forward''), (''title'', J_text title), (''brief'', J_text brief),
        (''source'', J_text source), (''summary'', J_text summary),
        (''nodeList'', J_range (map (\<lambda>m. J_serializable (ForwardedMessage_format_as_json m)) messages))]"
| "ForwardedMessage_format_as_json (ForwardedMessage sender time sender_name content) =
     write_obj
       [(''senderId'', J_int (sint (uid_id sender))), (''time'', J_int (sint time)),
        (''senderName'', J_text sender_name),
        (''messageChain'', J_serializable (Message_format_as_json content))]"
| "Message_format_as_json segs =
     (\<lambda>ctx. arr_scope_close
        (fold (\<lambda>seg. arr_add_entry (J_serializable (Segment_format_as_json seg))) segs (arr_scope_open ctx)))"

section \<open>Reading\<close>

definition At_from_json :: "'j deps \<Rightarrow> 'j \<Rightarrow> At res" where
  "At_from_json D json =
     bindE (from_json_i64 D (sj_at_key D json ''target'')) (\<lambda>target.
     bindE (from_json_string D (sj_at_key D json ''display'')) (\<lambda>display.
     Inr \<lparr>at_target = UserId target, at_display = display\<rparr>))"

definition AtAll_from_json :: "'j deps \<Rightarrow> 'j \<Rightarrow> unit res" where
  "AtAll_from_json D json = Inr ()"

text \<open>
  The face id is read as an optional \<open>uint32_t\<close> and stored as an \<open>int32_t\<close>;
  the name is read as a string that has to be present.
\<close>

definition Face_from_json :: "'j deps \<Rightarrow> 'j \<Rightarrow> Face res" where
  "Face_from_json D json =
     bindE (from_json_optional D (from_json_u32 D) (sj_at_key D json ''faceId'')) (\<lambda>i.
     bindE (from_json_string D (sj_at_key D json ''name'')) (\<lambda>name.
     Inr \<lparr>face_id = i, face_name = Some name\<rparr>))"

definition Plain_from_json :: "'j deps \<Rightarrow> 'j \<Rightarrow> Plain res" where
  "Plain_from_json D json =
     bindE (from_json_string D (sj_at_key D json ''text'')) (\<lambda>text. Inr \<lparr>pl_text = text\<rparr>)"

definition Image_from_json :: "'j deps \<Rightarrow> 'j \<Rightarrow> Image res" where
  "Image_from_json D json =
     bindE (from_json_optional D (from_json_string D) (sj_at_key D json ''imageId'')) (\<lambda>i.
     bindE (from_json_optional D (from_json_string D) (sj_at_key D json ''url'')) (\<lambda>url.
     bindE (from_json_optional D (from_json_string D) (sj_at_key D json ''path'')) (\<lambda>path.
     Inr \<lparr>img_id = i, img_url = url, img_path = path\<rparr>)))"

definition FlashImage_from_json :: "'j deps \<Rightarrow> 'j \<Rightarrow> FlashImage res" where
  "FlashImage_from_json D json =
     bindE (from_json_optional D (from_json_string D) (sj_at_key D json ''imageId'')) (\<lambda>i.
     bindE (from_json_optional D (from_json_string D) (sj_at_key D json ''url'')) (\<lambda>url.
     bindE (from_json_optional D (from_json_string D) (sj_at_key D json ''path'')) (\<lambda>path.
     Inr \<lparr>flash_id = i, flash_url = url, flash_path = path\<rparr>)))"

definition Voice_from_json :: "'j deps \<Rightarrow> 'j \<Rightarrow> Voice res" where
  "Voice_from_json D json =
     bindE (from_json_optional D (from_json_string D) (sj_at_key D json ''voiceId'')) (\<lambda>i.
     bindE (from_json_optional D (from_json_string D) (sj_at_key D json ''url'')) (\<lambda>url.
     bindE (from_json_optional D (from_json_string D) (sj_at_key D json ''path'')) (\<lambda>path.
     Inr \<lparr>voice_id = i, voice_url = url, voice_path = path\<rparr>)))"

definition Xml_from_json :: "'j deps \<Rightarrow> 'j \<Rightarrow> Xml res" where
  "Xml_from_json D json =
     bindE (from_json_string D (sj_at_key D json ''xml'')) (\<lambda>s. Inr \<lparr>xml_xml = s\<rparr>)"

definition Json_from_json :: "'j deps \<Rightarrow> 'j \<Rightarrow> Json res" where
  "Json_from_json D json =
     bindE (from_json_string D (sj_at_key D json ''json'')) (\<lambda>s. Inr \<lparr>json_json = s\<rparr>)"

definition App_from_json :: "'j deps \<Rightarrow> 'j \<Rightarrow> App res" where
  "App_from_json D json =
     bindE (from_json_string D (sj_at_key D json ''content'')) (\<lambda>s. Inr \<lparr>app_content = s\<rparr>)"

definition Poke_from_json :: "'j deps \<Rightarrow> 'j \<Rightarrow> Poke res" where
  "Poke_from_json D json =
     bindE (from_json_string D (sj_at_key D json ''name'')) (\<lambda>s. Inr \<lparr>poke_name = s\<rparr>)"

text \<open>
  Both \<open>Message::from_json\<close> and \<open>collapse_adjacent_text\<close> append a segment
  to the result unless it is text and the result ends in text, in which case the texts
  are joined.
\<close>

definition append_collapsed :: "Segment list \<Rightarrow> Segment \<Rightarrow> Segment list" where
  "append_collapsed result segment =
     (case Segment_get_if Plain_class segment of
        Some ptr \<Rightarrow>
          (if result \<noteq> [] then
             (case Segment_get_if Plain_class (last result) of
                Some back \<Rightarrow> butlast result @ [SegPlain (back\<lparr>pl_text := pl_text back @ pl_text ptr\<rparr>)]
              | None \<Rightarrow> result @ [segment])
           else result @ [segment])
      | None \<Rightarrow> result @ [segment])"

fun read_collapsed :: "('j \<Rightarrow> Segment res) \<Rightarrow> Segment list \<Rightarrow> 'j list \<Rightarrow> Message res" where
  "read_collapsed read result [] = Inr result"
| "read_collapsed read result (elem # elems) =
     bindE (read elem) (\<lambda>segment. read_collapsed read (append_collapsed result segment) elems)"

text \<open>
  The readers of segments, forwards and messages call each other.  The recursion follows
  the nesting of the document; \<open>fuel\<close> bounds it and is spent at every call.
\<close>

fun Segment_from_json :: "nat \<Rightarrow> 'j deps \<Rightarrow> 'j \<Rightarrow> Segment res"
  and Forward_from_json :: "nat \<Rightarrow> 'j deps \<Rightarrow> 'j \<Rightarrow> Forward res"
  and ForwardedMessage_from_json :: "nat \<Rightarrow> 'j deps \<Rightarrow> 'j \<Rightarrow> ForwardedMessage res"
  and Message_from_json :: "nat \<Rightarrow> 'j deps \<Rightarrow> 'j \<Rightarrow> Message res"
where
  "Segment_from_json 0 D json = Inl Out_of_fuel"
| "Segment_from_json (Suc fuel) D json =
     bindE (from_json_string D (sj_at_key D json ''type'')) (\<lambda>type.
       switch_fnv1a D type
         [(''At'', bindE (At_from_json D json) (\<lambda>x. Inr (SegAt x))),
          (''AtAll'', bindE (AtAll_from_json D json) (\<lambda>_. Inr SegAtAll)),
          (''Face'', bindE (Face_from_json D json) (\<lambda>x. Inr (SegFace x))),
          (''Plain'', bindE (Plain_from_json D json) (\<lambda>x. Inr (SegPlain x))),
          (''Image'', bindE (Image_from_json D json) (\<lambda>x. Inr (SegImage x))),
          (''FlashImage'', bindE (FlashImage_from_json D json) (\<lambda>x. Inr (SegFlashImage x))),
          (''Voice'', bindE (Voice_from_json D json) (\<lambda>x. Inr (SegVoice x))),
          (''Xml'', bindE (Xml_from_json D json) (\<lambda>x. Inr (SegXml x))),
          (''Json'', bindE (Json_from_json D json) (\<lambda>x. Inr (SegJson x))),
          (''App'', bindE (App_from_json D json) (\<lambda>x. Inr (SegApp x))),
          (''Poke'', bindE (Poke_from_json D json) (\<lambda>x. Inr (SegPoke x))),
          (''Forward'', bindE (Forward_from_json fuel D json) (\<lambda>x. Inr (SegForward x)))]
         (throw (Runtime_error
           [CHR 0xE6, CHR 0x9C, CHR 0xAA, CHR 0xE7, CHR 0x9F, CHR 0xA5, CHR 0xE7, CHR 0x9A, CHR
           0x84, CHR 0xE6, CHR 0xB6, CHR 0x88, CHR 0xE6, CHR 0x81, CHR 0xAF, CHR 0xE6, CHR
           0xAE, CHR 0xB5, CHR 0xE7, CHR 0xB1, CHR 0xBB, CHR 0xE5, CHR 0x9E, CHR 0x8B])))"
| "Forward_from_json 0 D json = Inl Out_of_fuel"
| "Forward_from_json (Suc fuel) D json =
     bindE (from_json_string D (sj_at_key D json ''title'')) (\<lambda>title.
     bindE (from_json_string D (sj_at_key D json ''brief'')) (\<lambda>brief.
     bindE (from_json_string D (sj_at_key D json ''source'')) (\<lambda>source.
     bindE (from_json_string D (sj_at_key D json ''summary'')) (\<lambda>summary.
     bindE (from_json_vector D (from_json_class (\<lambda>e. ForwardedMessage_from_json fuel D e))
              (sj_at_key D json ''nodeList'')) (\<lambda>messages.
     Inr (Forward title brief source summary messages))))))"
| "ForwardedMessage_from_json 0 D json = Inl Out_of_fuel"
| "ForwardedMessage_from_json (Suc fuel) D json =
     bindE (from_json_i64 D (sj_at_key D json ''senderId'')) (\<lambda>sender.
     bindE (from_json_i32 D (sj_at_key D json ''time'')) (\<lambda>time.
     bindE (from_json_string D (sj_at_key D json ''senderName'')) (\<lambda>sender_name.
     bindE (from_json_class (\<lambda>e. Message_from_json fuel D e) (sj_at_key D json ''messageChain'')) (\<lambda>content.
     Inr (ForwardedMessage (UserId sender) time sender_name content)))))"
| "Message_from_json 0 D json = Inl Out_of_fuel"
| "Message_from_json (Suc fuel) D json =
     bindE (throwing (sj_get_array D json)) (\<lambda>elems.
       read_collapsed (\<lambda>e. Segment_from_json fuel D e) [] elems)"

definition segment_labels :: "string list" where
  "segment_labels =
     [''At'', ''AtAll'', ''Face'', ''Plain'', ''Image'', ''FlashImage'', ''Voice'', ''Xml'', ''Json'', ''App'', ''Poke'', ''Forward'']"

end
