(* ===== verification/Segment_Json_Facts.thy ===== *)
theory Segment_Json_Facts
  imports Segment_Json
begin

text \<open>
  What the JSON form of segments and messages is, that the writers produce it, that the
  readers need no more fuel than the document is deep, and which segments the readers get
  back from it.
\<close>

section \<open>The JSON value of a segment\<close>

fun opt_json :: "('a \<Rightarrow> json) \<Rightarrow> 'a option \<Rightarrow> json" where
  "opt_json f None = JNull"
| "opt_json f (Some x) = f x"

text \<open>Of an id, a link and a path the first that is present is sent.\<close>

fun media_fields :: "string \<Rightarrow> string option \<Rightarrow> string option \<Rightarrow> string option \<Rightarrow> (string \<times> json) list" where
  "media_fields key (Some i) url path = [(key, JStr i)]"
| "media_fields key None (Some u) path = [(''url'', JStr u)]"
| "media_fields key None None (Some p) = [(''path'', JStr p)]"
| "media_fields key None None None = []"

fun Segment_json :: "Segment \<Rightarrow> json"
  and Forward_json :: "Forward \<Rightarrow> json"
  and ForwardedMessage_json :: "ForwardedMessage \<Rightarrow> json"
where
  "Segment_json (SegAt x) =
     JObj [(''type'', JStr ''At''), (''target'', JNum (sint (uid_id (at_target x))))]"
| "Segment_json SegAtAll = JObj [(''type'', JStr ''AtAll'')]"
| "Segment_json (SegFace x) =
     JObj [(''type'', JStr ''Face''), (''faceId'', opt_json (\<lambda>i. JNum (sint i)) (face_id x)),
           (''name'', opt_json JStr (face_name x))]"
| "Segment_json (SegPlain x) = JObj [(''type'', JStr ''Plain''), (''text'', JStr (pl_text x))]"
| "Segment_json (SegImage x) =
     JObj ((''type'', JStr ''Image'') # media_fields ''imageId'' (img_id x) (img_url x) (img_path x))"
| "Segment_json (SegFlashImage x) =
     JObj ((''type'', JStr ''FlashImage'') # media_fields ''imageId'' (flash_id x) (flash_url x) (flash_path x))"
| "Segment_json (SegVoice x) =
     JObj ((''type'', JStr ''Voice'') # media_fields ''voiceId'' (voice_id x) (voice_url x) (voice_path x))"
| "Segment_json (SegXml x) = JObj [(''type'', JStr ''Xml''), (''xml'', JStr (xml_xml x))]"
| "Segment_json (SegJson x) = JObj [(''type'', JStr ''Json''), (''json'', JStr (json_json x))]"
| "Segment_json (SegApp x) = JObj [(''type'', JStr ''App''), (''content'', JStr (app_content x))]"
| "Segment_json (SegPoke x) = JObj [(''type'', JStr ''Poke''), (''name'', JStr (poke_name x))]"
| "Segment_json (SegForward x) = Forward_json x"
| "Forward_json (Forward title brief source summary messages) =
     JObj [(''type'', JStr ''Forward''), (''title'', JStr title), (''brief'', JStr brief),
           (''source'', JStr source), (''summary'', JStr summary),
           (''nodeList'', JArr (map (\<lambda>m. ForwardedMessage_json m) messages))]"
| "ForwardedMessage_json (ForwardedMessage sender time sender_name content) =
     JObj [(''senderId'', JNum (sint (uid_id sender))), (''time'', JNum (sint time)),
           (''senderName'', JStr sender_name), (''messageChain'', JArr (map (\<lambda>s. Segment_json s) content))]"

definition Message_json :: "Message \<Rightarrow> json" where
  "Message_json m = JArr (map Segment_json m)"

text \<open>A value all of whose strings survive quoting.\<close>

fun json_plain :: "json \<Rightarrow> bool" where
  "json_plain (JStr s) = plain_text s"
| "json_plain (JArr vs) = list_all json_plain vs"
| "json_plain (JObj kvs) = list_all (\<lambda>(k, v). bare_text k \<and> json_plain v) kvs"
| "json_plain _ = True"

section \<open>The writers produce it\<close>

lemmas bare_text_eval = bare_text_def is_control_def dquote_def bslash_def

lemma bare_text_keys [simp]:
  "bare_text ''type''" "bare_text ''target''" "bare_text ''faceId''" "bare_text ''name''"
  "bare_text ''text''" "bare_text ''imageId''" "bare_text ''voiceId''" "bare_text ''url''"
  "bare_text ''path''" "bare_text ''xml''" "bare_text ''json''" "bare_text ''content''"
  "bare_text ''title''" "bare_text ''brief''" "bare_text ''source''" "bare_text ''summary''"
  "bare_text ''nodeList''" "bare_text ''senderId''" "bare_text ''time''" "bare_text ''senderName''"
  "bare_text ''messageChain''"
  by (simp_all add: bare_text_eval)

lemma bare_text_labels [simp]:
  "bare_text ''At''" "bare_text ''AtAll''" "bare_text ''Face''" "bare_text ''Plain''"
  "bare_text ''Image''" "bare_text ''FlashImage''" "bare_text ''Voice''" "bare_text ''Xml''"
  "bare_text ''Json''" "bare_text ''App''" "bare_text ''Poke''" "bare_text ''Forward''"
  by (simp_all add: bare_text_eval)

lemma writes_bare [writer_simps]: "bare_text s \<Longrightarrow> writes (format_to_json (J_text s)) (JStr s)"
  by (rule writes_text [OF bare_text_plain])

lemma writes_opt_text [writer_simps]:
  "json_plain (opt_json JStr x) \<Longrightarrow> writes (format_to_json (J_opt (map_option J_text x))) (opt_json JStr x)"
  by (cases x) (simp_all add: writer_simps)

lemma writes_opt_i32 [writer_simps]:
  "writes (format_to_json (J_opt (map_option (\<lambda>i. J_int (sint i)) x))) (opt_json (\<lambda>i. JNum (sint (i :: i32))) x)"
  by (cases x) (simp_all add: writer_simps)

text \<open>The early returns of the three media segments.\<close>

definition media_entries ::
  "string \<Rightarrow> string option \<Rightarrow> string option \<Rightarrow> string option \<Rightarrow> (string \<times> jarg) list" where
  "media_entries key i url path =
     (if i \<noteq> None then [(key, J_opt (map_option J_text i))]
      else if url \<noteq> None then [(''url'', J_opt (map_option J_text url))]
      else if path \<noteq> None then [(''path'', J_opt (map_option J_text path))]
      else [])"

lemma writes_media:
  "bare_text key \<Longrightarrow> list_all (\<lambda>(k, v). bare_text k \<and> json_plain v) (media_fields key i url path) \<Longrightarrow>
   list_all2 writes_entry (media_entries key i url path) (media_fields key i url path)"
  by (cases "(key, i, url, path)" rule: media_fields.cases)
    (simp_all add: media_entries_def writer_simps)

lemma Message_writer_range:
  "Message_format_as_json segs =
     format_to_json (J_range (map (\<lambda>s. J_serializable (Segment_format_as_json s)) segs))"
  by (rule ext) (simp add: fold_map comp_def arr_add_entry_def format_to_json.simps)

lemma writes_AtAll: "writes AtAll_format_as_json (JObj [(''type'', JStr ''AtAll'')])"
  by (simp add: AtAll_format_as_json_def writes_def json_quote_bare dquote_def)

lemmas writer_defs =
  At_format_as_json_def Face_format_as_json_def Plain_format_as_json_def
  Image_format_as_json_def FlashImage_format_as_json_def Voice_format_as_json_def
  Xml_format_as_json_def Json_format_as_json_def App_format_as_json_def Poke_format_as_json_def

lemmas media_writer_defs =
  media_entries_def [symmetric] Image_format_as_json_def FlashImage_format_as_json_def
  Voice_format_as_json_def

lemma writes_serializable_map:
  assumes "\<And>x. x \<in> set xs \<Longrightarrow> writes (w x) (v x)"
  shows "writes (format_to_json (J_range (map (\<lambda>x. J_serializable (w x)) xs))) (JArr (map v xs))"
  using assms
  by (auto intro!: writes_range simp: list_all2_map1 list_all2_map2 list_all2_same writer_simps)

lemma segments_written:
  "json_plain (Segment_json s) \<Longrightarrow> writes (Segment_format_as_json s) (Segment_json s)"
  "json_plain (Forward_json f) \<Longrightarrow> writes (Forward_format_as_json f) (Forward_json f)"
  "json_plain (ForwardedMessage_json m) \<Longrightarrow>
   writes (ForwardedMessage_format_as_json m) (ForwardedMessage_json m)"
proof (induction s and f and m rule: Segment.induct Forward.induct ForwardedMessage.induct)
  case (Forward t b src su ms)
  then have "writes (format_to_json (J_range (map (\<lambda>m. J_serializable (ForwardedMessage_format_as_json m)) ms)))
      (JArr (map ForwardedMessage_json ms))"
    by (intro writes_serializable_map) (auto simp: list_all_iff)
  with Forward.prems show ?case
    by (auto intro!: writes_obj simp: writer_simps bare_text_plain)
next
  case (ForwardedMessage u t n c)
  then have "writes (Message_format_as_json c) (JArr (map Segment_json c))"
    unfolding Message_writer_range by (intro writes_serializable_map) (auto simp: list_all_iff)
  with ForwardedMessage.prems show ?case
    by (auto intro!: writes_obj simp: writer_simps bare_text_plain
        simp del: Message_format_as_json.simps)
qed (auto intro!: writes_obj writes_media
      simp: writer_defs media_entries_def [symmetric] writer_simps bare_text_plain writes_AtAll)

section \<open>Fuel is enough\<close>

text \<open>
  A segment and its forward share one element; a forwarded message lies two levels below,
  its message one more, that message's segments one more.
\<close>

definition segment_fuel :: "nat \<Rightarrow> nat" where
  "segment_fuel depth = 2 * depth + 2"

lemma fuelled_read_collapsed:
  "(\<And>e. e \<in> set es \<Longrightarrow> fuelled (f e)) \<Longrightarrow> fuelled (read_collapsed f acc es)"
  by (induction es arbitrary: acc) (auto intro!: fuel_intros)

lemma fuel_le_read_collapsed:
  "(\<And>e. fuel_le (f e) (g e)) \<Longrightarrow> fuel_le (read_collapsed f acc es) (read_collapsed g acc es)"
  by (induction es arbitrary: acc) (auto intro!: fuel_intros)

lemma fuelled_concrete_readers [fuel_intros]:
  "fuelled (At_from_json D j)" "fuelled (AtAll_from_json D j)" "fuelled (Face_from_json D j)"
  "fuelled (Plain_from_json D j)" "fuelled (Image_from_json D j)" "fuelled (FlashImage_from_json D j)"
  "fuelled (Voice_from_json D j)" "fuelled (Xml_from_json D j)" "fuelled (Json_from_json D j)"
  "fuelled (App_from_json D j)" "fuelled (Poke_from_json D j)"
  by (auto simp: At_from_json_def AtAll_from_json_def Face_from_json_def Plain_from_json_def
      Image_from_json_def FlashImage_from_json_def Voice_from_json_def Xml_from_json_def
      Json_from_json_def App_from_json_def Poke_from_json_def intro!: fuel_intros)

context json_dom
begin

lemma readers_fuelled:
  "(2 * depth j + 2 \<le> n \<longrightarrow> fuelled (Segment_from_json n D j)) \<and>
   (2 * depth j + 1 \<le> n \<longrightarrow> fuelled (Forward_from_json n D j)) \<and>
   (2 * depth j + 1 \<le> n \<longrightarrow> fuelled (ForwardedMessage_from_json n D j)) \<and>
   (2 * depth j + 1 \<le> n \<longrightarrow> fuelled (Message_from_json n D j))"
proof (induction n arbitrary: j)
  case 0
  then show ?case by simp
next
  case (Suc n)
  have seg: "fuelled (Segment_from_json n D e)" if "2 * depth e + 2 \<le> n" for e
    using Suc.IH that by blast
  have fwd: "fuelled (Forward_from_json n D e)" if "2 * depth e + 1 \<le> n" for e
    using Suc.IH that by blast
  have fm: "fuelled (ForwardedMessage_from_json n D e)" if "2 * depth e + 1 \<le> n" for e
    using Suc.IH that by blast
  have msg: "fuelled (Message_from_json n D e)" if "2 * depth e + 1 \<le> n" for e
    using Suc.IH that by blast
  have "fuelled (Segment_from_json (Suc n) D j)" if "2 * depth j + 2 \<le> Suc n"
    using that by (auto intro!: fuel_intros fwd)
  moreover have "fuelled (Forward_from_json (Suc n) D j)" if "2 * depth j + 1 \<le> Suc n"
    using that by (fastforce intro!: fuel_intros fm dest: depth_at_key depth_array)
  moreover have "fuelled (ForwardedMessage_from_json (Suc n) D j)" if "2 * depth j + 1 \<le> Suc n"
    using that by (fastforce intro!: fuel_intros msg dest: depth_at_key)
  moreover have "fuelled (Message_from_json (Suc n) D j)" if "2 * depth j + 1 \<le> Suc n"
    using that by (fastforce intro!: fuel_intros fuelled_read_collapsed seg dest: depth_array)
  ultimately show ?case by blast
qed

lemma Segment_from_json_fuelled:
  "depth j \<le> d \<Longrightarrow> fuelled (Segment_from_json (segment_fuel d) D j)"
  using readers_fuelled [of j "segment_fuel d"] by (simp add: segment_fuel_def)

lemma Message_from_json_fuelled:
  "depth j \<le> d \<Longrightarrow> fuelled (Message_from_json (segment_fuel d) D j)"
  using readers_fuelled [of j "segment_fuel d"] by (simp add: segment_fuel_def)

end

text \<open>More fuel never changes a result.\<close>

lemma readers_fuel_Suc:
  "fuel_le (Segment_from_json n D j) (Segment_from_json (Suc n) D j) \<and>
   fuel_le (Forward_from_json n D j) (Forward_from_json (Suc n) D j) \<and>
   fuel_le (ForwardedMessage_from_json n D j) (ForwardedMessage_from_json (Suc n) D j) \<and>
   fuel_le (Message_from_json n D j) (Message_from_json (Suc n) D j)"
proof (induction n arbitrary: j)
  case 0
  then show ?case by simp
next
  case (Suc n)
  note seg = Suc.IH [THEN conjunct1]
    and fwd = Suc.IH [THEN conjunct2, THEN conjunct1]
    and fm = Suc.IH [THEN conjunct2, THEN conjunct2, THEN conjunct1]
    and msg = Suc.IH [THEN conjunct2, THEN conjunct2, THEN conjunct2]
  have "fuel_le (Segment_from_json (Suc n) D j) (Segment_from_json (Suc (Suc n)) D j)"
    by (simp only: Segment_from_json.simps(2))
      (intro fuel_intros fuel_le_switch list.rel_intros; auto intro!: fuel_intros fwd
        simp del: Segment_from_json.simps Forward_from_json.simps)
  moreover have "fuel_le (Forward_from_json (Suc n) D j) (Forward_from_json (Suc (Suc n)) D j)"
    by (simp only: Forward_from_json.simps(2)) (intro fuel_intros fm)
  moreover have "fuel_le (ForwardedMessage_from_json (Suc n) D j) (ForwardedMessage_from_json (Suc (Suc n)) D j)"
    by (simp only: ForwardedMessage_from_json.simps(2)) (intro fuel_intros msg)
  moreover have "fuel_le (Message_from_json (Suc n) D j) (Message_from_json (Suc (Suc n)) D j)"
    by (simp only: Message_from_json.simps(2)) (intro fuel_intros fuel_le_read_collapsed seg)
  ultimately show ?case by blast
qed

lemma fuel_le_chain:
  assumes "\<And>n. fuel_le (f n) (f (Suc n))" and "fuelled (f m)" and "m \<le> n"
  shows "f n = f m"
  using assms(3)
proof (induction n rule: dec_induct)
  case base
  show ?case ..
next
  case (step n)
  with assms(1) [of n] assms(2) show ?case by (metis fuel_le_fuelled)
qed

section \<open>The readers return or throw\<close>

lemma graceful_read_collapsed [graceful_intros]:
  "(\<And>e. graceful (f e)) \<Longrightarrow> graceful (read_collapsed f acc es)"
  by (induction es arbitrary: acc) (auto intro!: graceful_intros)

lemma graceful_concrete_readers [graceful_intros]:
  "graceful (At_from_json D j)" "graceful (AtAll_from_json D j)" "graceful (Face_from_json D j)"
  "graceful (Plain_from_json D j)" "graceful (Image_from_json D j)" "graceful (FlashImage_from_json D j)"
  "graceful (Voice_from_json D j)" "graceful (Xml_from_json D j)" "graceful (Json_from_json D j)"
  "graceful (App_from_json D j)" "graceful (Poke_from_json D j)"
  by (auto simp: At_from_json_def AtAll_from_json_def Face_from_json_def Plain_from_json_def
      Image_from_json_def FlashImage_from_json_def Voice_from_json_def Xml_from_json_def
      Json_from_json_def App_from_json_def Poke_from_json_def intro!: graceful_intros)

lemma readers_graceful:
  "graceful (Segment_from_json n D j) \<and> graceful (Forward_from_json n D j) \<and>
   graceful (ForwardedMessage_from_json n D j) \<and> graceful (Message_from_json n D j)"
proof (induction n arbitrary: j)
  case 0
  then show ?case by simp
next
  case (Suc n)
  then show ?case by (auto intro!: graceful_intros)
qed

end
