(* ===== verification/Segment_Roundtrip.thy ===== *)
theory Segment_Roundtrip
  imports Segment_Json_Facts
begin

text \<open>
  Dispatch of \<open>Segment::from_json\<close> on the type label, and what the readers return on
  the output of the writers, over the reference DOM.
\<close>

section \<open>Dispatch\<close>

declare Segment_from_json.simps(2) [simp del]

lemma Segment_from_json_At:
  "labels_compile D segment_labels \<Longrightarrow> from_json_string D (sj_at_key D json ''type'') = Inr ''At'' \<Longrightarrow>
   Segment_from_json (Suc fuel) D json =
     bindE (At_from_json D json) (\<lambda>x. Inr (SegAt x))"
  by (simp only: Segment_from_json.simps bindE_Inr)
    (rule switch_fnv1a_label; simp add: segment_labels_def)

lemma Segment_from_json_AtAll:
  "labels_compile D segment_labels \<Longrightarrow> from_json_string D (sj_at_key D json ''type'') = Inr ''AtAll'' \<Longrightarrow>
   Segment_from_json (Suc fuel) D json =
     bindE (AtAll_from_json D json) (\<lambda>_. Inr SegAtAll)"
  by (simp only: Segment_from_json.simps bindE_Inr)
    (rule switch_fnv1a_label; simp add: segment_labels_def)

lemma Segment_from_json_Face:
  "labels_compile D segment_labels \<Longrightarrow> from_json_string D (sj_at_key D json ''type'') = Inr ''Face'' \<Longrightarrow>
   Segment_from_json (Suc fuel) D json =
     bindE (Face_from_json D json) (\<lambda>x. Inr (SegFace x))"
  by (simp only: Segment_from_json.simps bindE_Inr)
    (rule switch_fnv1a_label; simp add: segment_labels_def)

lemma Segment_from_json_Plain:
  "labels_compile D segment_labels \<Longrightarrow> from_json_string D (sj_at_key D json ''type'') = Inr ''Plain'' \<Longrightarrow>
   Segment_from_json (Suc fuel) D json =
     bindE (Plain_from_json D json) (\<lambda>x. Inr (SegPlain x))"
  by (simp only: Segment_from_json.simps bindE_Inr)
    (rule switch_fnv1a_label; simp add: segment_labels_def)

lemma Segment_from_json_Image:
  "labels_compile D segment_labels \<Longrightarrow> from_json_string D (sj_at_key D json ''type'') = Inr ''Image'' \<Longrightarrow>
   Segment_from_json (Suc fuel) D json =
     bindE (Image_from_json D json) (\<lambda>x. Inr (SegImage x))"
  by (simp only: Segment_from_json.simps bindE_Inr)
    (rule switch_fnv1a_label; simp add: segment_labels_def)

lemma Segment_from_json_FlashImage:
  "labels_compile D segment_labels \<Longrightarrow> from_json_string D (sj_at_key D json ''type'') = Inr ''FlashImage'' \<Longrightarrow>
   Segment_from_json (Suc fuel) D json =
     bindE (FlashImage_from_json D json) (\<lambda>x. Inr (SegFlashImage x))"
  by (simp only: Segment_from_json.simps bindE_Inr)
    (rule switch_fnv1a_label; simp add: segment_labels_def)

lemma Segment_from_json_Voice:
  "labels_compile D segment_labels \<Longrightarrow> from_json_string D (sj_at_key D json ''type'') = Inr ''Voice'' \<Longrightarrow>
   Segment_from_json (Suc fuel) D json =
     bindE (Voice_from_json D json) (\<lambda>x. Inr (SegVoice x))"
  by (simp only: Segment_from_json.simps bindE_Inr)
    (rule switch_fnv1a_label; simp add: segment_labels_def)

lemma Segment_from_json_Xml:
  "labels_compile D segment_labels \<Longrightarrow> from_json_string D (sj_at_key D json ''type'') = Inr ''Xml'' \<Longrightarrow>
   Segment_from_json (Suc fuel) D json =
     bindE (Xml_from_json D json) (\<lambda>x. Inr (SegXml x))"
  by (simp only: Segment_from_json.simps bindE_Inr)
    (rule switch_fnv1a_label; simp add: segment_labels_def)

lemma Segment_from_json_Json:
  "labels_compile D segment_labels \<Longrightarrow> from_json_string D (sj_at_key D json ''type'') = Inr ''Json'' \<Longrightarrow>
   Segment_from_json (Suc fuel) D json =
     bindE (Json_from_json D json) (\<lambda>x. Inr (SegJson x))"
  by (simp only: Segment_from_json.simps bindE_Inr)
    (rule switch_fnv1a_label; simp add: segment_labels_def)

lemma Segment_from_json_App:
  "labels_compile D segment_labels \<Longrightarrow> from_json_string D (sj_at_key D json ''type'') = Inr ''App'' \<Longrightarrow>
   Segment_from_json (Suc fuel) D json =
     bindE (App_from_json D json) (\<lambda>x. Inr (SegApp x))"
  by (simp only: Segment_from_json.simps bindE_Inr)
    (rule switch_fnv1a_label; simp add: segment_labels_def)

lemma Segment_from_json_Poke:
  "labels_compile D segment_labels \<Longrightarrow> from_json_string D (sj_at_key D json ''type'') = Inr ''Poke'' \<Longrightarrow>
   Segment_from_json (Suc fuel) D json =
     bindE (Poke_from_json D json) (\<lambda>x. Inr (SegPoke x))"
  by (simp only: Segment_from_json.simps bindE_Inr)
    (rule switch_fnv1a_label; simp add: segment_labels_def)

lemma Segment_from_json_Forward:
  "labels_compile D segment_labels \<Longrightarrow> from_json_string D (sj_at_key D json ''type'') = Inr ''Forward'' \<Longrightarrow>
   Segment_from_json (Suc fuel) D json =
     bindE (Forward_from_json fuel D json) (\<lambda>x. Inr (SegForward x))"
  by (simp only: Segment_from_json.simps bindE_Inr)
    (rule switch_fnv1a_label; simp add: segment_labels_def)

lemmas Segment_from_json_label =
  Segment_from_json_At
  Segment_from_json_AtAll
  Segment_from_json_Face
  Segment_from_json_Plain
  Segment_from_json_Image
  Segment_from_json_FlashImage
  Segment_from_json_Voice
  Segment_from_json_Xml
  Segment_from_json_Json
  Segment_from_json_App
  Segment_from_json_Poke
  Segment_from_json_Forward

fun SegmentType_label :: "SegmentType \<Rightarrow> string option" where
  "SegmentType_label SegmentType_at = Some ''At''"
| "SegmentType_label SegmentType_at_all = Some ''AtAll''"
| "SegmentType_label SegmentType_face = Some ''Face''"
| "SegmentType_label SegmentType_plain = Some ''Plain''"
| "SegmentType_label SegmentType_image = Some ''Image''"
| "SegmentType_label SegmentType_flash_image = Some ''FlashImage''"
| "SegmentType_label SegmentType_voice = Some ''Voice''"
| "SegmentType_label SegmentType_xml = Some ''Xml''"
| "SegmentType_label SegmentType_json = Some ''Json''"
| "SegmentType_label SegmentType_app = Some ''App''"
| "SegmentType_label SegmentType_poke = Some ''Poke''"
| "SegmentType_label SegmentType_forward = Some ''Forward''"
| "SegmentType_label SegmentType_file = None"

lemma Segment_from_json_read_type:
  assumes "labels_compile D segment_labels"
    and "from_json_string D (sj_at_key D json ''type'') = Inr type" and "type \<in> set segment_labels"
    and "Segment_from_json (Suc fuel) D json = Inr s"
  shows "SegmentType_label (Segment_type s) = Some type"
  using assms(3) assms(1,2,4)
  by (simp only: segment_labels_def list.set insert_iff empty_iff simp_thms, elim disjE)
    (auto simp only: segment_labels_def [symmetric] Segment_from_json_label bindE_eq_Inr
      Inr_inject Sum_Type.sum.inject Segment_type.simps SegmentType_label.simps)

section \<open>The reference DOM\<close>

lemma ref_labels_compile: "labels_compile (ref_deps p) segment_labels"
proof -
  have "distinct (map ref_fnv1a segment_labels)" by code_simp
  then show ?thesis by (simp add: labels_compile_def)
qed

text \<open>
  Segments the readers get back: an at segment is written without the display name its
  reader demands, a face needs a name and an id that is not negative.
\<close>

fun readable :: "Segment \<Rightarrow> bool"
  and readable_forward :: "Forward \<Rightarrow> bool"
  and readable_forwarded :: "ForwardedMessage \<Rightarrow> bool"
where
  "readable (SegAt x) = False"
| "readable (SegFace x) = (face_name x \<noteq> None \<and> (\<forall>i \<in> set_option (face_id x). 0 \<le> sint i))"
| "readable (SegForward x) = readable_forward x"
| "readable _ = True"
| "readable_forward (Forward t b s su messages) = list_all readable_forwarded messages"
| "readable_forwarded (ForwardedMessage sender time name content) = list_all readable content"

text \<open>
  What comes back: of a media segment the one field that was sent, of a forwarded message
  the content with adjacent texts joined.
\<close>

fun keep_sent :: "string option \<Rightarrow> string option \<Rightarrow> string option \<Rightarrow> string option \<times> string option \<times> string option" where
  "keep_sent (Some i) url path = (Some i, None, None)"
| "keep_sent None (Some u) path = (None, Some u, None)"
| "keep_sent None None path = (None, None, path)"

fun reread :: "Segment \<Rightarrow> Segment"
  and reread_forward :: "Forward \<Rightarrow> Forward"
  and reread_forwarded :: "ForwardedMessage \<Rightarrow> ForwardedMessage"
where
  "reread (SegImage x) =
     (case keep_sent (img_id x) (img_url x) (img_path x) of
        (i, u, p) \<Rightarrow> SegImage \<lparr>img_id = i, img_url = u, img_path = p\<rparr>)"
| "reread (SegFlashImage x) =
     (case keep_sent (flash_id x) (flash_url x) (flash_path x) of
        (i, u, p) \<Rightarrow> SegFlashImage \<lparr>flash_id = i, flash_url = u, flash_path = p\<rparr>)"
| "reread (SegVoice x) =
     (case keep_sent (voice_id x) (voice_url x) (voice_path x) of
        (i, u, p) \<Rightarrow> SegVoice \<lparr>voice_id = i, voice_url = u, voice_path = p\<rparr>)"
| "reread (SegForward x) = SegForward (reread_forward x)"
| "reread s = s"
| "reread_forward (Forward t b s su messages) =
     Forward t b s su (map (\<lambda>m. reread_forwarded m) messages)"
| "reread_forwarded (ForwardedMessage sender time name content) =
     ForwardedMessage sender time name (foldl append_collapsed [] (map (\<lambda>s. reread s) content))"

lemma read_collapsed_map:
  "read_collapsed f acc (map g es) = read_collapsed (\<lambda>e. f (g e)) acc es"
  by (induction es arbitrary: acc) (auto simp: bindE_def split: sum.splits)

lemma read_collapsed_all_Inr:
  "(\<And>e. e \<in> set es \<Longrightarrow> f e = Inr (g e)) \<Longrightarrow>
   read_collapsed f acc es = Inr (foldl append_collapsed acc (map g es))"
  by (induction es arbitrary: acc) auto

lemma sint_range:
  "- (2 ^ 63) \<le> sint (w :: i64)" "sint w < 2 ^ 63"
  using sint_ge [of w] sint_lt [of w] by simp_all

lemma sint_range32:
  "- (2 ^ 31) \<le> sint (w :: i32)" "sint w < 2 ^ 31"
  using sint_ge [of w] sint_lt [of w] by simp_all

lemma ref_int64_i64 [simp]: "ref_get_int64 (JNum (sint (w :: i64))) = Inr w"
  using sint_range [of w] by simp

lemma ref_int64_i32 [simp]: "ref_get_int64 (JNum (sint (w :: i32))) = Inr (scast w)"
  using sint_range32 [of w] by simp

lemma ref_uint64_i32 [simp]:
  "0 \<le> sint (w :: i32) \<Longrightarrow> ref_get_uint64 (JNum (sint w)) = Inr (scast w)"
  using sint_range32 [of w] by simp

lemma narrow_scast [simp]:
  "i64_to_i32 (scast (w :: i32)) = w" "u64_to_u32 (scast (w :: i32)) = w"
  unfolding i64_to_i32_def u64_to_u32_def by (rule bit_word_eqI; simp add: bit_simps)+

declare ref_get_int64.simps(1) [simp del] ref_get_uint64.simps(1) [simp del]

lemmas concrete_reader_defs =
  At_from_json_def AtAll_from_json_def Face_from_json_def Plain_from_json_def
  Image_from_json_def FlashImage_from_json_def Voice_from_json_def Xml_from_json_def
  Json_from_json_def App_from_json_def Poke_from_json_def

lemma from_json_string_type:
  "from_json_string (ref_deps p) (ref_at_key (JObj ((''type'', JStr t) # kvs)) ''type'') = Inr t"
  by (simp add: from_json_string_def)

lemma media_read_back:
  assumes "key \<in> {''imageId'', ''voiceId''}"
  shows "from_json_optional (ref_deps p) (from_json_string (ref_deps p))
           (ref_at_key (JObj ((''type'', v) # media_fields key i u q)) key) = Inr (fst (keep_sent i u q))"
    and "from_json_optional (ref_deps p) (from_json_string (ref_deps p))
           (ref_at_key (JObj ((''type'', v) # media_fields key i u q)) ''url'') = Inr (fst (snd (keep_sent i u q)))"
    and "from_json_optional (ref_deps p) (from_json_string (ref_deps p))
           (ref_at_key (JObj ((''type'', v) # media_fields key i u q)) ''path'') = Inr (snd (snd (keep_sent i u q)))"
  using assms
  by (cases "(key, i, u, q)" rule: media_fields.cases;
      auto simp: from_json_optional_def from_json_string_def res_is_null_def)+

definition eventually_reads :: "(nat \<Rightarrow> 'a res) \<Rightarrow> 'a \<Rightarrow> bool" where
  "eventually_reads f v \<longleftrightarrow> eventually (\<lambda>n. f (Suc n) = Inr v) sequentially"

lemma eventually_reads_prev:
  "eventually_reads f v \<Longrightarrow> eventually (\<lambda>n. f n = Inr v) sequentially"
  using eventually_sequentially_Suc [of "\<lambda>n. f n = Inr v"] by (simp add: eventually_reads_def)

lemma eventually_reads_all:
  "(\<And>x. x \<in> set xs \<Longrightarrow> eventually_reads (f x) (v x)) \<Longrightarrow>
   eventually (\<lambda>n. \<forall>x \<in> set xs. f x n = Inr (v x)) sequentially"
  by (rule eventually_ball_finite) (auto intro: eventually_reads_prev)

lemma segments_read_back:
  "readable s \<Longrightarrow> eventually_reads (\<lambda>n. Segment_from_json n (ref_deps p) (Segment_json s)) (reread s)"
  "readable_forward f \<Longrightarrow>
   eventually_reads (\<lambda>n. Forward_from_json n (ref_deps p) (Forward_json f)) (reread_forward f)"
  "readable_forwarded m \<Longrightarrow>
   eventually_reads (\<lambda>n. ForwardedMessage_from_json n (ref_deps p) (ForwardedMessage_json m)) (reread_forwarded m)"
proof (induction s and f and m rule: Segment.induct Forward.induct ForwardedMessage.induct)
  case (SegForward x)
  then have "eventually (\<lambda>n. Forward_from_json n (ref_deps p) (Forward_json x) = Inr (reread_forward x)) sequentially"
    by (auto dest: eventually_reads_prev)
  then show ?case unfolding eventually_reads_def
    by (rule eventually_mono)
      (cases x, simp add: Segment_from_json_Forward [OF ref_labels_compile] from_json_string_def)
next
  case (Forward t b src su ms)
  then have "eventually (\<lambda>n. \<forall>m \<in> set ms. ForwardedMessage_from_json n (ref_deps p) (ForwardedMessage_json m) =
      Inr (reread_forwarded m)) sequentially"
    by (intro eventually_reads_all) (auto simp: list_all_iff)
  then show ?case unfolding eventually_reads_def
    by (rule eventually_mono)
      (simp add: from_json_string_def from_json_vector_def from_json_class_def traverseE_all_Inr)
next
  case (ForwardedMessage u t nm c)
  then have "eventually (\<lambda>n. \<forall>s \<in> set c. Segment_from_json n (ref_deps p) (Segment_json s) = Inr (reread s)) sequentially"
    by (intro eventually_reads_all) (auto simp: list_all_iff)
  then have "eventually (\<lambda>n. Message_from_json (Suc n) (ref_deps p) (JArr (map (\<lambda>s. Segment_json s) c)) =
      Inr (foldl append_collapsed [] (map (\<lambda>s. reread s) c))) sequentially"
    by (rule eventually_mono) (simp add: read_collapsed_map read_collapsed_all_Inr)
  then have "eventually (\<lambda>n. Message_from_json n (ref_deps p) (JArr (map (\<lambda>s. Segment_json s) c)) =
      Inr (foldl append_collapsed [] (map (\<lambda>s. reread s) c))) sequentially"
    using eventually_sequentially_Suc [of "\<lambda>n. Message_from_json n (ref_deps p)
        (JArr (map (\<lambda>s. Segment_json s) c)) = Inr (foldl append_collapsed [] (map (\<lambda>s. reread s) c))"]
    by blast
  then show ?case unfolding eventually_reads_def
    by (rule eventually_mono)
      (simp add: from_json_string_def from_json_i64_def from_json_i32_def from_json_class_def)
next
  case (SegImage x)
  show ?case
    by (simp add: eventually_reads_def Segment_from_json_Image [OF ref_labels_compile] from_json_string_type
        Image_from_json_def media_read_back split: prod.split del: ref_at_key.simps)
next
  case (SegFlashImage x)
  show ?case
    by (simp add: eventually_reads_def Segment_from_json_FlashImage [OF ref_labels_compile] from_json_string_type
        FlashImage_from_json_def media_read_back split: prod.split del: ref_at_key.simps)
next
  case (SegVoice x)
  show ?case
    by (simp add: eventually_reads_def Segment_from_json_Voice [OF ref_labels_compile] from_json_string_type
        Voice_from_json_def media_read_back split: prod.split del: ref_at_key.simps)
next
  case (SegFace x)
  then show ?case
    by (cases "face_id x")
      (auto simp: eventually_reads_def Segment_from_json_Face [OF ref_labels_compile] from_json_defs
        Face_from_json_def)
qed (auto simp: eventually_reads_def Segment_from_json_label [OF ref_labels_compile] from_json_defs
      concrete_reader_defs)

section \<open>Properties\<close>

lemma Segment_from_json_chain:
  assumes "fuelled (Segment_from_json m D j)" and "m \<le> n"
  shows "Segment_from_json n D j = Segment_from_json m D j"
  by (rule fuel_le_chain [where f = "\<lambda>n. Segment_from_json n D j",
        OF readers_fuel_Suc [THEN conjunct1] assms])

lemma json_escapes_bare: "bare_text k \<Longrightarrow> json_escapes k = k"
  using json_quote_bare [of k] by (simp add: json_quote_def)

lemma Segment_reads_with:
  assumes "eventually_reads (\<lambda>n. Segment_from_json n D j) v" and "fuelled (Segment_from_json m D j)"
  shows "Segment_from_json m D j = Inr v"
proof -
  from eventually_reads_prev [OF assms(1)] obtain N where "\<And>n. N \<le> n \<Longrightarrow> Segment_from_json n D j = Inr v"
    by (auto simp: eventually_sequentially)
  then have "Segment_from_json (max N m) D j = Inr v" by simp
  with Segment_from_json_chain [OF assms(2), of "max N m"] show ?thesis by simp
qed

text \<open>
  A forwarded message with an image, used by the witnesses.
\<close>

definition example_forward :: Segment where
  "example_forward =
     SegForward (Forward ''t'' ''b'' ''s'' ''u''
       [ForwardedMessage (UserId 42) 7 ''n''
          [SegPlain \<lparr>pl_text = ''a''\<rparr>, SegPlain \<lparr>pl_text = ''b''\<rparr>,
           SegImage \<lparr>img_id = Some ''i'', img_url = Some ''w'', img_path = None\<rparr>]])"

text \<open>
  C31: over any DOM whose elements are finite trees, the mutual
  recursion of the readers of segments, forwards, forwarded messages and messages stops:
  with fuel for the depth of the element it returns a segment or throws, and more fuel
  gives the same result.
\<close>

theorem Segment_from_json_terminates:
  assumes "json_dom D depth" and "depth j \<le> d" and "segment_fuel d \<le> n"
  shows "Segment_from_json n D j \<noteq> Inl Out_of_fuel \<and>
         Segment_from_json n D j = Segment_from_json (segment_fuel d) D j"
  using json_dom.Segment_from_json_fuelled [OF assms(1,2)]
    Segment_from_json_chain [OF json_dom.Segment_from_json_fuelled [OF assms(1,2)] assms(3)]
  by (simp add: fuelled_def)

theorem Segment_from_json_terminates_witness:
  "Segment_from_json 100 (ref_deps Map.empty) (Segment_json example_forward) \<noteq> Inl Out_of_fuel \<and>
   Segment_from_json 100 (ref_deps Map.empty) (Segment_json example_forward) =
     Segment_from_json (segment_fuel 10) (ref_deps Map.empty) (Segment_json example_forward)"
  by (rule Segment_from_json_terminates [OF ref_dom.json_dom_axioms])
    (simp_all add: example_forward_def segment_fuel_def)

text \<open>
  C29: the JSON writer of a segment of any kind, forwards with their nested
  messages included, appends exactly the compact JSON text of the segment's value, provided
  no string in it needs an escape the quoting does not make.
\<close>

theorem Segment_written:
  assumes "json_plain (Segment_json s)"
  shows "Segment_format_as_json s ctx = ctx @ json_render (Segment_json s)"
  using segments_written(1) [OF assms] by (rule writesD)

theorem Segment_written_witness:
  "Segment_format_as_json example_forward ''x'' = ''x'' @ json_render (Segment_json example_forward)"
  by (rule Segment_written)
    (simp add: example_forward_def plain_text_def plain_char_def is_control_def dquote_def bslash_def
      bare_text_def)

text \<open>
  C7: a segment that is written, sent as text, parsed and read comes
  back, with the fields that were not sent dropped and the adjacent texts of forwarded
  messages joined, if it is readable and plain.  Readable: neither it nor a segment it
  forwards is an \<open>At\<close> (which is written without the display name that its reader asks for)
  or a face that has no name or a negative id.  Plain: its strings have no double quote, no
  backslash and no control character other than backspace, form feed, newline, carriage
  return and tab, the others not being quoted correctly.  The parser is a parameter: it has
  to return the value of the one text it is given, and accepts a depth of 1024, which the
  segment must not exceed.\<close>

theorem Segment_text_roundtrip:
  assumes "readable s" and "json_plain (Segment_json s)" and "json_depth (Segment_json s) \<le> 1024"
    and "p (json_render (Segment_json s)) = Some (Segment_json s)"
  shows "bindE (throwing (sj_parse (ref_deps p) (perform_format (Segment_format_as_json s))))
           (Segment_from_json (segment_fuel (sj_max_depth (ref_deps p))) (ref_deps p)) = Inr (reread s)"
proof -
  have "perform_format (Segment_format_as_json s) = json_render (Segment_json s)"
    using segments_written(1) [OF assms(2)] by (simp add: perform_format_def writesD)
  moreover have "Segment_from_json (segment_fuel 1024) (ref_deps p) (Segment_json s) = Inr (reread s)"
    by (rule Segment_reads_with [OF segments_read_back(1) [OF assms(1)]
          ref_dom.Segment_from_json_fuelled [OF assms(3)]])
  ultimately show ?thesis using assms(3,4) by (simp add: ref_parse_def)
qed

theorem Segment_text_roundtrip_witness:
  "let p = [json_render (Segment_json example_forward) \<mapsto> Segment_json example_forward] in
   bindE (throwing (sj_parse (ref_deps p) (perform_format (Segment_format_as_json example_forward))))
     (Segment_from_json (segment_fuel (sj_max_depth (ref_deps p))) (ref_deps p)) = Inr (reread example_forward)"
  unfolding Let_def
  by (rule Segment_text_roundtrip)
    (simp_all add: example_forward_def plain_text_def plain_char_def is_control_def dquote_def bslash_def
      bare_text_def)

text \<open>
  an at segment never comes back: its writer sends no display name,
  and its reader throws without one.
\<close>

theorem At_not_read_back:
  "At_from_json (ref_deps p) (Segment_json (SegAt a)) = throw (Simdjson_error NO_SUCH_FIELD)"
  by (simp add: At_from_json_def from_json_defs)

text \<open>
  C37: because quoting passes double quotes through, the text of a
  plain segment can close its own string literal: the text below is sent as an object with
  one more field, whose name and value the text chooses.
\<close>

theorem Plain_injects_field:
  assumes "plain_text x" and "bare_text k" and "plain_text v"
  shows "perform_format (Plain_format_as_json
           \<lparr>pl_text = x @ [dquote] @ '','' @ [dquote] @ k @ [dquote] @ '':'' @ [dquote] @ v\<rparr>) =
         json_render (JObj [(''type'', JStr ''Plain''), (''text'', JStr x), (k, JStr v)])"
  using assms
  by (simp add: Plain_format_as_json_def perform_format_def write_obj_def obj_scope_open_def
      obj_scope_close_def obj_add_entry_def obj_add_entry_with_def format_to_json.simps fmt_out_def
      JsonQuoted_format_out plain_text_quoted json_quote_bare json_quoted_char_self json_quote_def
      short_control_def dquote_def bare_text_plain json_escapes_bare)

theorem Plain_injects_field_witness:
  "perform_format (Plain_format_as_json \<lparr>pl_text =
     ''hi'' @ [dquote] @ '','' @ [dquote] @ ''type'' @ [dquote] @ '':'' @ [dquote] @ ''AtAll''\<rparr>) =
   json_render (JObj [(''type'', JStr ''Plain''), (''text'', JStr ''hi''), (''type'', JStr ''AtAll'')])"
  by (rule Plain_injects_field)
    (simp_all add: plain_text_def plain_char_def bare_text_def is_control_def dquote_def bslash_def)

end
