(* ===== verification/Messages.thy ===== *)
theory Messages
  imports Segment_Json_Facts
begin

text \<open>
  \<open>Message\<close> (\<open>lib/include/mirai/message/message.h\<close>,
  \<open>lib/src/message/message.cpp\<close>): access, concatenation, comparison, prefix and
  suffix tests, collection of texts and the joining of adjacent texts; and received
  messages (\<open>sent_message.h\<close>, \<open>sent_message.cpp\<close>).
\<close>

section \<open>Access and concatenation\<close>

text \<open>\<open>at\<close> checks its index; the subscript, \<open>front\<close> and \<open>back\<close> do not.\<close>

definition Message_at :: "Message \<Rightarrow> nat \<Rightarrow> Segment res" where
  "Message_at m i = (if i < length m then Inr (m ! i) else throw Out_of_range)"

definition Message_subscript :: "Message \<Rightarrow> nat \<Rightarrow> Segment res" where
  "Message_subscript m i = (if i < length m then Inr (m ! i) else Inl Undefined_behaviour)"

definition Message_front :: "Message \<Rightarrow> Segment res" where
  "Message_front m = (case m of [] \<Rightarrow> Inl Undefined_behaviour | s # _ \<Rightarrow> Inr s)"

definition Message_back :: "Message \<Rightarrow> Segment res" where
  "Message_back m = (if m = [] then Inl Undefined_behaviour else Inr (last m))"

definition Message_size :: "Message \<Rightarrow> nat" where
  "Message_size m = length m"

definition Message_empty :: "Message \<Rightarrow> bool" where
  "Message_empty m \<longleftrightarrow> m = []"

definition Message_push :: "Message \<Rightarrow> Segment \<Rightarrow> Message" where
  "Message_push m segment = m @ [segment]"

definition Message_append :: "Message \<Rightarrow> Message \<Rightarrow> Message" where
  "Message_append m other = m @ other"

definition Message_plus_segment :: "Message \<Rightarrow> Segment \<Rightarrow> Message" where
  "Message_plus_segment m segment = Message_push m segment"

definition Message_plus :: "Message \<Rightarrow> Message \<Rightarrow> Message" where
  "Message_plus lhs rhs = Message_append lhs rhs"

definition Message_of_segments :: "Segment list \<Rightarrow> Message" where
  "Message_of_segments segments = foldl Message_push [] segments"

definition Message_swap :: "Message \<Rightarrow> Message \<Rightarrow> Message \<times> Message" where
  "Message_swap lhs rhs = (rhs, lhs)"

definition Message_clear :: "Message \<Rightarrow> Message" where
  "Message_clear m = []"

section \<open>Comparison with segments and texts\<close>

definition Message_eq_segment :: "Message \<Rightarrow> Segment \<Rightarrow> bool" where
  "Message_eq_segment m other \<longleftrightarrow> length m = 1 \<and> Segment_eq (hd m) other"

definition Message_eq_text :: "Message \<Rightarrow> string \<Rightarrow> bool" where
  "Message_eq_text m other \<longleftrightarrow>
     (if length m \<noteq> 1 then False
      else (case Segment_get_if Plain_class (hd m) of Some ptr \<Rightarrow> pl_text ptr = other | None \<Rightarrow> False))"

section \<open>Prefix, suffix and substring\<close>

text \<open>
  \<open>std::string_view::substr\<close> throws when the position lies beyond the end; the
  length arithmetic of \<open>ends_with_sv\<close> is that of \<open>size_t\<close>.
\<close>

definition sv_substr :: "string \<Rightarrow> u64 \<Rightarrow> nat \<Rightarrow> string res" where
  "sv_substr s pos n =
     (if unat pos > length s then throw Out_of_range else Inr (take n (drop (unat pos) s)))"

fun sv_find :: "string \<Rightarrow> string \<Rightarrow> bool" where
  "sv_find sv [] = (sv = [])"
| "sv_find sv (c # cs) = (take (length sv) (c # cs) = sv \<or> sv_find sv cs)"

definition Message_starts_with_sv :: "Message \<Rightarrow> string \<Rightarrow> bool" where
  "Message_starts_with_sv m sv =
     (if sv = [] then True
      else if Message_empty m then False
      else (case Segment_get_if Plain_class (hd m) of
              Some ptr \<Rightarrow> take (length sv) (pl_text ptr) = sv
            | None \<Rightarrow> False))"

definition Message_ends_with_sv :: "Message \<Rightarrow> string \<Rightarrow> bool res" where
  "Message_ends_with_sv m sv =
     (if sv = [] then Inr True
      else if Message_empty m then Inr False
      else (case Segment_get_if Plain_class (hd m) of
              Some ptr \<Rightarrow>
                (let full = pl_text ptr in
                 bindE (sv_substr full (of_nat (length full) - of_nat (length sv)) (length sv))
                   (\<lambda>suffix. Inr (suffix = sv)))
            | None \<Rightarrow> Inr False))"

definition Message_contains_sv :: "Message \<Rightarrow> string \<Rightarrow> bool" where
  "Message_contains_sv m sv =
     (if sv = [] then True
      else list_ex (\<lambda>seg. case Segment_get_if Plain_class seg of
                             Some ptr \<Rightarrow> sv_find sv (pl_text ptr)
                           | None \<Rightarrow> False) m)"

definition Message_starts_with_segment :: "Message \<Rightarrow> Segment \<Rightarrow> bool" where
  "Message_starts_with_segment m prefix =
     (case Segment_get_if Plain_class prefix of
        Some ptr \<Rightarrow> Message_starts_with_sv m (pl_text ptr)
      | None \<Rightarrow> m \<noteq> [] \<and> Segment_eq (hd m) prefix)"

text \<open>Not implemented in the code: always false.\<close>

definition Message_starts_with_message :: "Message \<Rightarrow> Message \<Rightarrow> bool" where
  "Message_starts_with_message m prefix = False"

section \<open>Collecting and joining texts\<close>

definition Message_collect :: "'a segment_class \<Rightarrow> Message \<Rightarrow> 'a list res" where
  "Message_collect T m =
     traverseE (Segment_get T) (filter (\<lambda>seg. Segment_type seg = sc_type T) m)"

definition Message_collect_text :: "Message \<Rightarrow> string res" where
  "Message_collect_text m =
     bindE (Message_collect Plain_class m) (\<lambda>plains. Inr (foldl (\<lambda>result p. result @ pl_text p) [] plains))"

definition Message_collapse_adjacent_text :: "Message \<Rightarrow> Message" where
  "Message_collapse_adjacent_text m = foldl append_collapsed [] m"

definition Message_format_to :: "Message \<Rightarrow> writer" where
  "Message_format_to m ctx = foldl (\<lambda>ctx seg. Segment_format_to seg ctx) ctx m"

section \<open>Received messages\<close>

record Source =
  src_id :: MessageId
  src_time :: i32

record Quote =
  qt_id :: MessageId
  qt_sender :: UserId
  qt_time :: i32
  qt_msg :: Message

record SentMessage =
  sm_source :: Source
  sm_quote :: "Quote option"
  sm_content :: Message

definition Source_default :: Source where
  "Source_default = \<lparr>src_id = MessageId_default, src_time = 0\<rparr>"

definition SentMessage_default :: SentMessage where
  "SentMessage_default = \<lparr>sm_source = Source_default, sm_quote = None, sm_content = []\<rparr>"

text \<open>Quotes compare by id, received messages by source.\<close>

definition Quote_eq :: "Quote \<Rightarrow> Quote \<Rightarrow> bool" where
  "Quote_eq this other \<longleftrightarrow> qt_id this = qt_id other"

definition SentMessage_eq :: "SentMessage \<Rightarrow> SentMessage \<Rightarrow> bool" where
  "SentMessage_eq this other \<longleftrightarrow> sm_source this = sm_source other"

definition Source_from_json :: "'j deps \<Rightarrow> 'j \<Rightarrow> Source res" where
  "Source_from_json D json =
     bindE (from_json_i32 D (sj_at_key D json ''id'')) (\<lambda>i.
     bindE (from_json_i32 D (sj_at_key D json ''time'')) (\<lambda>time.
     Inr \<lparr>src_id = MessageId i, src_time = time\<rparr>))"

text \<open>
  One iteration of the loop of \<open>SentMessage::from_json\<close>, given the reader of quotes:
  a source or a quote replaces the one read before, anything else is a segment that is
  appended to the content.
\<close>

definition sent_step ::
  "nat \<Rightarrow> 'j deps \<Rightarrow> ('j \<Rightarrow> Quote res) \<Rightarrow> SentMessage \<Rightarrow> 'j \<Rightarrow> SentMessage res" where
  "sent_step fuel D read_quote result elem =
     bindE (from_json_string D (sj_at_key D elem ''type'')) (\<lambda>type.
       switch_fnv1a D type
         [(''Source'', bindE (Source_from_json D elem) (\<lambda>s. Inr (result\<lparr>sm_source := s\<rparr>))),
          (''Quote'', bindE (read_quote elem) (\<lambda>q. Inr (result\<lparr>sm_quote := Some q\<rparr>)))]
         (bindE (Segment_from_json fuel D elem)
            (\<lambda>s. Inr (result\<lparr>sm_content := Message_push (sm_content result) s\<rparr>))))"

fun sent_loop :: "(SentMessage \<Rightarrow> 'j \<Rightarrow> SentMessage res) \<Rightarrow> SentMessage \<Rightarrow> 'j list \<Rightarrow> SentMessage res" where
  "sent_loop step result [] = Inr result"
| "sent_loop step result (elem # elems) =
     bindE (step result elem) (\<lambda>result'. sent_loop step result' elems)"

fun SentMessage_from_json :: "nat \<Rightarrow> 'j deps \<Rightarrow> 'j \<Rightarrow> SentMessage res"
  and Quote_from_json :: "nat \<Rightarrow> 'j deps \<Rightarrow> 'j \<Rightarrow> Quote res"
where
  "SentMessage_from_json 0 D json = Inl Out_of_fuel"
| "SentMessage_from_json (Suc fuel) D json =
     bindE (throwing (sj_get_array D json)) (\<lambda>elems.
       sent_loop (sent_step fuel D (\<lambda>e. Quote_from_json fuel D e)) SentMessage_default elems)"
| "Quote_from_json 0 D json = Inl Out_of_fuel"
| "Quote_from_json (Suc fuel) D json =
     bindE (from_json_class (\<lambda>e. SentMessage_from_json fuel D e) (sj_at_key D json ''origin'')) (\<lambda>sent.
     bindE (from_json_i32 D (sj_at_key D json ''id'')) (\<lambda>i.
     bindE (from_json_i64 D (sj_at_key D json ''senderId'')) (\<lambda>sender.
     Inr \<lparr>qt_id = MessageId i, qt_sender = UserId sender,
          qt_time = src_time (sm_source sent), qt_msg = sm_content sent\<rparr>)))"

section \<open>Facts about access by type\<close>

lemma plain_cases:
  obtains (plain) p where "s = SegPlain p" "Segment_get_if Plain_class s = Some p"
  | (other) "Segment_get_if Plain_class s = None" "\<And>p. s \<noteq> SegPlain p"
  using plain_erased.get_if_Some by (cases "Segment_get_if Plain_class s") fastforce+

lemma append_collapsed_simps [simp]:
  "append_collapsed [] s = [s]"
  "append_collapsed (r @ [SegPlain p]) (SegPlain q) = r @ [SegPlain (p\<lparr>pl_text := pl_text p @ pl_text q\<rparr>)]"
  by (cases s rule: plain_cases; simp add: append_collapsed_def)+

lemma append_collapsed_push:
  assumes "r = [] \<or> (\<forall>p. last r \<noteq> SegPlain p) \<or> (\<forall>p. s \<noteq> SegPlain p)"
  shows "append_collapsed r s = r @ [s]"
  using assms
  by (cases s rule: plain_cases; cases "last r" rule: plain_cases) (auto simp: append_collapsed_def)

section \<open>Joining adjacent texts\<close>

text \<open>
  The reference: from the right, a text is joined with the text at the head of the rest.
\<close>

fun merge_texts :: "Message \<Rightarrow> Message" where
  "merge_texts [] = []"
| "merge_texts (s # rest) =
     (case (s, merge_texts rest) of
        (SegPlain p, SegPlain q # r) \<Rightarrow> SegPlain \<lparr>pl_text = pl_text p @ pl_text q\<rparr> # r
      | (_, r) \<Rightarrow> s # r)"

abbreviation is_text :: "Segment \<Rightarrow> bool" where
  "is_text s \<equiv> Segment_type s = SegmentType_plain"

definition no_adjacent_texts :: "Message \<Rightarrow> bool" where
  "no_adjacent_texts m \<longleftrightarrow> successively (\<lambda>s t. \<not> (is_text s \<and> is_text t)) m"

text \<open>The text of a segment, empty for a segment that is no text.\<close>

definition segment_text :: "Segment \<Rightarrow> string" where
  "segment_text s = (case s of SegPlain p \<Rightarrow> pl_text p | _ \<Rightarrow> [])"

definition message_text :: "Message \<Rightarrow> string" where
  "message_text m = concat (map segment_text m)"

lemma is_text_iff: "is_text s \<longleftrightarrow> (\<exists>p. s = SegPlain p)"
  by (cases s) auto

lemma Plain_update [simp]: "(p :: Plain)\<lparr>pl_text := x\<rparr> = \<lparr>pl_text = x\<rparr>"
  by (cases p) simp

lemma segment_text_simps [simp]:
  "segment_text (SegPlain p) = pl_text p" "\<not> is_text s \<Longrightarrow> segment_text s = []"
  by (simp_all add: segment_text_def is_text_iff split: Segment.split)

lemma merge_texts_push:
  "\<not> is_text s \<Longrightarrow> merge_texts (s # m) = s # merge_texts m"
  by (cases s) (auto split: list.split)

lemma merge_texts_before:
  "\<not> is_text t \<Longrightarrow> merge_texts (s # t # m) = s # merge_texts (t # m)"
  by (cases t; cases s) (auto split: list.split)

lemma merge_texts_join:
  "merge_texts (SegPlain p # SegPlain q # m) = merge_texts (SegPlain \<lparr>pl_text = pl_text p @ pl_text q\<rparr> # m)"
  by (simp split: list.split Segment.split)

lemma foldl_append_collapsed:
  "foldl append_collapsed (r @ [s]) m = r @ merge_texts (s # m)"
proof (induction m arbitrary: r s)
  case Nil
  then show ?case by (cases s) simp_all
next
  case (Cons t m)
  consider (join) p q where "s = SegPlain p" "t = SegPlain q" | (left) "\<not> is_text s" | (right) "\<not> is_text t"
    by (auto simp: is_text_iff)
  then show ?case
  proof cases
    case join
    then show ?thesis using Cons.IH by (simp add: merge_texts_join del: merge_texts.simps)
  next
    case left
    then show ?thesis
      using Cons.IH [of "r @ [s]" t] append_collapsed_push [of "r @ [s]" t]
      by (simp add: is_text_iff merge_texts_push del: merge_texts.simps)
  next
    case right
    then show ?thesis
      using Cons.IH [of "r @ [s]" t] append_collapsed_push [of "r @ [s]" t]
      by (simp add: is_text_iff merge_texts_before del: merge_texts.simps)
  qed
qed

lemma collapse_merge: "Message_collapse_adjacent_text m = merge_texts m"
  using foldl_append_collapsed [of "[]"]
  by (cases m) (simp_all add: Message_collapse_adjacent_text_def del: merge_texts.simps(2))

lemma merge_texts_no_adjacent: "no_adjacent_texts (merge_texts m)"
  by (induction m)
    (auto simp: no_adjacent_texts_def successively_Cons split: Segment.split list.split)

lemma merge_texts_id: "no_adjacent_texts m \<Longrightarrow> merge_texts m = m"
  by (induction m)
    (auto simp: no_adjacent_texts_def successively_Cons split: Segment.split list.split)

lemma merge_texts_text: "message_text (merge_texts m) = message_text m"
proof (induction m)
  case (Cons s m)
  show ?case
  proof (cases "\<exists>p q r. s = SegPlain p \<and> merge_texts m = SegPlain q # r")
    case True
    with Cons show ?thesis by (auto simp: message_text_def)
  next
    case False
    then have "merge_texts (s # m) = s # merge_texts m" by (auto split: Segment.split list.split)
    with Cons show ?thesis by (simp add: message_text_def)
  qed
qed simp

lemma merge_texts_others:
  "filter (\<lambda>s. \<not> is_text s) (merge_texts m) = filter (\<lambda>s. \<not> is_text s) m"
  by (induction m) (auto split: Segment.split list.split)

lemma collect_plain:
  "Message_collect Plain_class m = Inr (map (\<lambda>s. \<lparr>pl_text = segment_text s\<rparr>) (filter is_text m))"
  by (auto simp: Message_collect_def is_text_iff Plain_class_def Segment_get_def
      intro!: traverseE_all_Inr)

lemma foldl_plain_text: "foldl (\<lambda>result p. result @ pl_text p) acc ps = acc @ concat (map pl_text ps)"
  by (induction ps arbitrary: acc) simp_all

lemma collect_text_eq: "Message_collect_text m = Inr (message_text m)"
proof -
  have "concat (map pl_text (map (\<lambda>s. \<lparr>pl_text = segment_text s\<rparr>) (filter is_text m))) = message_text m"
    by (induction m) (simp_all add: message_text_def)
  then show ?thesis
    by (simp add: Message_collect_text_def collect_plain foldl_plain_text del: foldl_map map_map)
qed

section \<open>Properties of messages\<close>

text \<open>
  C39: \<open>collapse_adjacent_text\<close> leaves no two texts next to each
  other, keeps the text of the message and its other segments in order, does nothing to a
  message without adjacent texts, and is the one-pass reference.
\<close>

theorem collapse_correct:
  "let m' = Message_collapse_adjacent_text m in
   no_adjacent_texts m' \<and> Message_collect_text m' = Message_collect_text m \<and>
   filter (\<lambda>s. \<not> is_text s) m' = filter (\<lambda>s. \<not> is_text s) m \<and>
   Message_collapse_adjacent_text m' = m' \<and> m' = merge_texts m"
  unfolding Let_def collapse_merge
  using merge_texts_no_adjacent [of m] merge_texts_id [OF merge_texts_no_adjacent [of m]]
    merge_texts_text [of m] merge_texts_others [of m]
  by (simp add: collect_text_eq)

lemma read_collapsed_traverse:
  "read_collapsed f acc es = bindE (traverseE f es) (\<lambda>ss. Inr (foldl append_collapsed acc ss))"
proof (induction es arbitrary: acc)
  case (Cons e es)
  then show ?case by (cases "f e") (simp_all add: bindE_assoc)
qed simp

text \<open>
  reading a message is reading every element of the array
  in order, stopping at the first that fails, and joining adjacent texts of the segments
  read.
\<close>

theorem Message_from_json_collapses:
  "Message_from_json (Suc fuel) D json =
     bindE (throwing (sj_get_array D json)) (\<lambda>elems.
     bindE (traverseE (Segment_from_json fuel D) elems) (\<lambda>segments.
     Inr (Message_collapse_adjacent_text segments)))"
  by (cases "sj_get_array D json")
    (simp_all add: read_collapsed_traverse Message_collapse_adjacent_text_def)

lemma take_prefix_iff: "take (length sv) x = sv \<longleftrightarrow> (\<exists>t. x = sv @ t)"
  by (metis append_eq_conv_conj append_take_drop_id)

text \<open>
  a message starts with a text exactly when the text is empty or
  the message's first segment is a text with that prefix.
\<close>

theorem starts_with_sv_correct:
  "Message_starts_with_sv m sv \<longleftrightarrow>
     sv = [] \<or> (\<exists>p rest t. m = SegPlain p # rest \<and> pl_text p = sv @ t)"
proof (cases m)
  case Nil
  then show ?thesis by (simp add: Message_starts_with_sv_def Message_empty_def)
next
  case (Cons s rest)
  then show ?thesis
    by (cases s rule: plain_cases)
      (auto simp: Message_starts_with_sv_def Message_empty_def take_prefix_iff)
qed

lemma wrapped_position:
  assumes "a < b" and "b < 2 ^ 63"
  shows "a < unat (of_nat a - of_nat b :: u64)"
proof -
  have "unat (of_nat a :: u64) = a" "unat (of_nat b :: u64) = b"
    using assms by (simp_all add: unat_of_nat)
  with assms show ?thesis by (simp add: unat_sub_if' word_size)
qed

lemma take_suffix_iff:
  assumes "length sv \<le> length x"
  shows "take (length sv) (drop (length x - length sv) x) = sv \<longleftrightarrow> (\<exists>t. x = t @ sv)"
proof
  assume "take (length sv) (drop (length x - length sv) x) = sv"
  with assms have "drop (length x - length sv) x = sv" by simp
  then show "\<exists>t. x = t @ sv" by (metis append_take_drop_id)
qed auto

text \<open>
  C40: \<open>ends_with_sv\<close> tests the suffix of the first
  segment, not of the last, and where the text there is shorter than the suffix its
  position wraps around in \<open>size_t\<close> and \<open>substr\<close> throws
  \<open>std::out_of_range\<close> instead of answering no.
\<close>

theorem ends_with_sv_first_segment:
  assumes "length (pl_text p) < 2 ^ 63" and "length sv < 2 ^ 63"
  shows "Message_ends_with_sv (SegPlain p # rest) sv =
           (if length (pl_text p) < length sv then throw Out_of_range
            else Inr (\<exists>t. pl_text p = t @ sv))"
proof (cases "length (pl_text p) < length sv")
  case True
  with wrapped_position [OF True assms(2)] show ?thesis
    by (auto simp: Message_ends_with_sv_def Message_empty_def sv_substr_def)
next
  case False
  then have "unat (of_nat (length (pl_text p)) - of_nat (length sv) :: u64) = length (pl_text p) - length sv"
    using assms by (simp add: unat_sub_if' unat_of_nat word_size)
  with False take_suffix_iff [of sv "pl_text p"] show ?thesis
    by (auto simp: Message_ends_with_sv_def Message_empty_def sv_substr_def Let_def)
qed

theorem ends_with_sv_first_segment_witness:
  "Message_ends_with_sv [SegPlain \<lparr>pl_text = ''a''\<rparr>] ''ba'' = throw Out_of_range \<and>
   Message_ends_with_sv [SegPlain \<lparr>pl_text = ''ba''\<rparr>, SegAtAll] ''a'' = Inr True"
  using ends_with_sv_first_segment [of "\<lparr>pl_text = ''a''\<rparr>" "''ba''" "[]"]
    ends_with_sv_first_segment [of "\<lparr>pl_text = ''ba''\<rparr>" "''a''" "[SegAtAll]"]
  by simp

section \<open>Properties of received messages\<close>

lemma fuelled_Source [fuel_intros]: "fuelled (Source_from_json D j)"
  by (auto simp: Source_from_json_def intro!: fuel_intros)

lemma graceful_Source [graceful_intros]: "graceful (Source_from_json D j)"
  by (auto simp: Source_from_json_def intro!: graceful_intros)

lemma graceful_sent_loop [graceful_intros]:
  "(\<And>r e. graceful (step r e)) \<Longrightarrow> graceful (sent_loop step r es)"
  by (induction es arbitrary: r) (auto intro!: graceful_intros)

lemma sent_readers_graceful:
  "graceful (SentMessage_from_json n D j) \<and> graceful (Quote_from_json n D j)"
proof (induction n arbitrary: j)
  case 0
  then show ?case by simp
next
  case (Suc n)
  then show ?case by (auto simp: sent_step_def readers_graceful intro!: graceful_intros)
qed

lemma fuelled_sent_loop:
  "(\<And>r e. e \<in> set es \<Longrightarrow> fuelled (step r e)) \<Longrightarrow> fuelled (sent_loop step r es)"
  by (induction es arbitrary: r) (auto intro!: fuel_intros)

context json_dom
begin

lemma sent_readers_fuelled:
  "(2 * depth j + 2 \<le> n \<longrightarrow> fuelled (SentMessage_from_json n D j)) \<and>
   (2 * depth j + 2 \<le> n \<longrightarrow> fuelled (Quote_from_json n D j))"
proof (induction n arbitrary: j)
  case 0
  then show ?case by simp
next
  case (Suc n)
  have sent: "fuelled (SentMessage_from_json n D e)" if "depth e < depth j" "2 * depth j + 2 \<le> Suc n" for e
    using Suc.IH [of e] that by simp
  have quote: "fuelled (Quote_from_json n D e)" if "depth e < depth j" "2 * depth j + 2 \<le> Suc n" for e
    using Suc.IH [of e] that by simp
  have seg: "fuelled (Segment_from_json n D e)" if "depth e < depth j" "2 * depth j + 2 \<le> Suc n" for e
    using readers_fuelled [of e n] that by simp
  have step: "fuelled (sent_step n D (\<lambda>e. Quote_from_json n D e) r e)"
    if "depth e < depth j" "2 * depth j + 2 \<le> Suc n" for r e
    using quote [OF that] seg [OF that] by (auto simp: sent_step_def intro!: fuel_intros)
  have "fuelled (SentMessage_from_json (Suc n) D j)" if "2 * depth j + 2 \<le> Suc n"
    using that by (auto intro!: fuel_intros fuelled_sent_loop step dest: depth_array)
  moreover have "fuelled (Quote_from_json (Suc n) D j)" if "2 * depth j + 2 \<le> Suc n"
    using that by (auto intro!: fuel_intros sent dest: depth_at_key)
  ultimately show ?case by blast
qed

lemma SentMessage_from_json_fuelled:
  "depth j \<le> d \<Longrightarrow> fuelled (SentMessage_from_json (segment_fuel d) D j)"
  using sent_readers_fuelled [of j "segment_fuel d"] by (simp add: segment_fuel_def)

end

text \<open>
  the mutual recursion of received messages and the
  quotes in them stops as well: with fuel for the depth of the element the reader returns
  or throws.
\<close>

theorem SentMessage_from_json_terminates:
  assumes "json_dom D depth" and "depth j \<le> d"
  shows "SentMessage_from_json (segment_fuel d) D j \<noteq> Inl Out_of_fuel"
  using json_dom.SentMessage_from_json_fuelled [OF assms] by (simp add: fuelled_def)

theorem SentMessage_from_json_terminates_witness:
  "SentMessage_from_json (segment_fuel 5) (ref_deps Map.empty)
     (JArr [JObj [(''type'', JStr ''Quote''), (''origin'', JArr [])]]) \<noteq> Inl Out_of_fuel"
  by (rule SentMessage_from_json_terminates [OF ref_dom.json_dom_axioms]) simp

text \<open>The elements of a message chain that are neither its source nor its quote.\<close>

definition is_content :: "'j deps \<Rightarrow> 'j \<Rightarrow> bool" where
  "is_content D e =
     (case from_json_string D (sj_at_key D e ''type'') of
        Inr type \<Rightarrow> clu_fnv1a D type \<noteq> clu_fnv1a D ''Source'' \<and> clu_fnv1a D type \<noteq> clu_fnv1a D ''Quote''
      | Inl _ \<Rightarrow> False)"

lemma sent_step_Inr:
  assumes "sent_step n D rq r e = Inr r'"
  shows "if is_content D e
         then \<exists>s. Segment_from_json n D e = Inr s \<and> sm_content r' = sm_content r @ [s]
         else sm_content r' = sm_content r"
proof -
  from assms obtain type where type: "from_json_string D (sj_at_key D e ''type'') = Inr type"
    by (auto simp: sent_step_def)
  then have content: "is_content D e \<longleftrightarrow>
      clu_fnv1a D type \<noteq> clu_fnv1a D ''Source'' \<and> clu_fnv1a D type \<noteq> clu_fnv1a D ''Quote''"
    by (simp add: is_content_def)
  consider "clu_fnv1a D type = clu_fnv1a D ''Source''"
    | "clu_fnv1a D type \<noteq> clu_fnv1a D ''Source''" "clu_fnv1a D type = clu_fnv1a D ''Quote''"
    | "clu_fnv1a D type \<noteq> clu_fnv1a D ''Source''" "clu_fnv1a D type \<noteq> clu_fnv1a D ''Quote''"
    by blast
  then show ?thesis
    by cases (use assms type content in \<open>auto simp: sent_step_def Message_push_def\<close>)
qed

lemma sent_loop_content:
  assumes "sent_loop (sent_step n D rq) r es = Inr r'"
  shows "\<exists>ss. traverseE (Segment_from_json n D) (filter (is_content D) es) = Inr ss \<and>
              sm_content r' = sm_content r @ ss"
  using assms
proof (induction es arbitrary: r)
  case (Cons e es)
  then obtain r1 where r1: "sent_step n D rq r e = Inr r1" "sent_loop (sent_step n D rq) r1 es = Inr r'"
    by auto
  from Cons.IH [OF r1(2)] sent_step_Inr [OF r1(1)] show ?case by (auto split: if_splits)
qed simp

text \<open>
  C38: the content of a received message is the segments of its chain
  in order, without the source and the quote; adjacent texts are not joined, unlike in
  \<open>Message::from_json\<close>.
\<close>

theorem SentMessage_content:
  assumes "SentMessage_from_json (Suc fuel) D json = Inr sent" and "sj_get_array D json = Inr elems"
  shows "traverseE (Segment_from_json fuel D) (filter (is_content D) elems) = Inr (sm_content sent)"
proof -
  have "sent_loop (sent_step fuel D (\<lambda>e. Quote_from_json fuel D e)) SentMessage_default elems = Inr sent"
    using assms by simp
  from sent_loop_content [OF this] show ?thesis by (simp add: SentMessage_default_def)
qed

definition example_chain :: json where
  "example_chain =
     JArr [JObj [(''type'', JStr ''Source''), (''id'', JNum 5), (''time'', JNum 9)],
           JObj [(''type'', JStr ''Plain''), (''text'', JStr ''a'')],
           JObj [(''type'', JStr ''Plain''), (''text'', JStr ''b'')]]"

definition example_sent :: SentMessage where
  "example_sent =
     \<lparr>sm_source = \<lparr>src_id = MessageId 5, src_time = 9\<rparr>, sm_quote = None,
      sm_content = [SegPlain \<lparr>pl_text = ''a''\<rparr>, SegPlain \<lparr>pl_text = ''b''\<rparr>]\<rparr>"

lemma example_chain_read:
  "SentMessage_from_json (Suc 3) (ref_deps Map.empty) example_chain = Inr example_sent"
  by code_simp

theorem SentMessage_content_witness:
  "traverseE (Segment_from_json 3 (ref_deps Map.empty))
     (filter (is_content (ref_deps Map.empty)) (case example_chain of JArr es \<Rightarrow> es | _ \<Rightarrow> [])) =
   Inr (sm_content example_sent)"
  using SentMessage_content [OF example_chain_read]
  by (simp add: example_chain_def)

end
