(* ===== verification/Info_Types.thy ===== *)
theory Info_Types
  imports Common_Types Json_Reader Json_Writer
begin

text \<open>
  The plain data the service reports and accepts: friends, groups, members and their
  permissions (\<open>lib/include/mirai/core/info_types.h\<close>,
  \<open>lib/src/core/info_types.cpp\<close>), and the configuration records
  (\<open>config_types.h\<close>, \<open>config_types.cpp\<close>).
\<close>

section \<open>Permissions, friends, groups, members\<close>

datatype Permission = Permission_member | Permission_admin | Permission_owner

definition permission_from_string :: "'j deps \<Rightarrow> string \<Rightarrow> Permission res" where
  "permission_from_string D str =
     switch_fnv1a D str
       [(''MEMBER'', Inr Permission_member),
        (''ADMINISTRATOR'', Inr Permission_admin),
        (''OWNER'', Inr Permission_owner)]
       (throw (Runtime_error
         [CHR 0xE6, CHR 0x9C, CHR 0xAA, CHR 0xE7, CHR 0x9F, CHR 0xA5, CHR 0xE7, CHR 0x9A, CHR
         0x84, CHR 0xE6, CHR 0x9D, CHR 0x83, CHR 0xE9, CHR 0x99, CHR 0x90, CHR 0xE7, CHR 0xB1,
         CHR 0xBB, CHR 0xE5, CHR 0x9E, CHR 0x8B]))"

record Friend =
  fr_id :: UserId
  fr_name :: string
  fr_remark :: string

record Group =
  gr_id :: GroupId
  gr_name :: string
  gr_permission :: Permission

record Member =
  mb_group :: Group
  mb_id :: UserId
  mb_name :: string
  mb_permission :: Permission

text \<open>Friends compare by id.\<close>

definition Friend_eq :: "Friend \<Rightarrow> Friend \<Rightarrow> bool" where
  "Friend_eq this other \<longleftrightarrow> fr_id this = fr_id other"

definition Friend_from_json :: "'j deps \<Rightarrow> 'j \<Rightarrow> Friend res" where
  "Friend_from_json D json =
     bindE (from_json_i64 D (sj_at_key D json ''id'')) (\<lambda>i.
     bindE (from_json_string D (sj_at_key D json ''nickname'')) (\<lambda>name.
     bindE (from_json_string D (sj_at_key D json ''remark'')) (\<lambda>remark.
     Inr \<lparr>fr_id = UserId i, fr_name = name, fr_remark = remark\<rparr>)))"

definition Group_from_json :: "'j deps \<Rightarrow> 'j \<Rightarrow> Group res" where
  "Group_from_json D json =
     bindE (from_json_i64 D (sj_at_key D json ''id'')) (\<lambda>i.
     bindE (from_json_string D (sj_at_key D json ''name'')) (\<lambda>name.
     bindE (from_json_string D (sj_at_key D json ''permission'')) (\<lambda>str.
     bindE (permission_from_string D str) (\<lambda>permission.
     Inr \<lparr>gr_id = GroupId i, gr_name = name, gr_permission = permission\<rparr>))))"

definition Member_from_json :: "'j deps \<Rightarrow> 'j \<Rightarrow> Member res" where
  "Member_from_json D json =
     bindE (from_json_class (Group_from_json D) (sj_at_key D json ''group'')) (\<lambda>group.
     bindE (from_json_i64 D (sj_at_key D json ''id'')) (\<lambda>i.
     bindE (from_json_string D (sj_at_key D json ''memberName'')) (\<lambda>name.
     bindE (from_json_string D (sj_at_key D json ''permission'')) (\<lambda>str.
     bindE (permission_from_string D str) (\<lambda>permission.
     Inr \<lparr>mb_group = group, mb_id = UserId i, mb_name = name, mb_permission = permission\<rparr>)))))"

section \<open>Configurations\<close>

record SessionConfig =
  sc_cache_size :: "i32 option"
  sc_enable_websocket :: "bool option"

record GroupConfig =
  gc_name :: "string option"
  gc_announcement :: "string option"
  gc_allow_confess_talk :: "bool option"
  gc_allow_member_invitation :: "bool option"
  gc_auto_approve :: "bool option"
  gc_allow_anonymous_chat :: "bool option"

record MemberInfo =
  mi_name :: "string option"
  mi_special_title :: "string option"

definition SessionConfig_from_json :: "'j deps \<Rightarrow> 'j \<Rightarrow> SessionConfig res" where
  "SessionConfig_from_json D json =
     bindE (from_json_optional D (from_json_i32 D) (sj_at_key D json ''cacheSize'')) (\<lambda>size.
     bindE (from_json_optional D (from_json_bool D) (sj_at_key D json ''enableWebsocket'')) (\<lambda>ws.
     Inr \<lparr>sc_cache_size = size, sc_enable_websocket = ws\<rparr>))"

definition GroupConfig_from_json :: "'j deps \<Rightarrow> 'j \<Rightarrow> GroupConfig res" where
  "GroupConfig_from_json D json =
     bindE (from_json_optional D (from_json_string D) (sj_at_key D json ''name'')) (\<lambda>name.
     bindE (from_json_optional D (from_json_string D) (sj_at_key D json ''announcement'')) (\<lambda>announcement.
     bindE (from_json_optional D (from_json_bool D) (sj_at_key D json ''confessTalk'')) (\<lambda>confess.
     bindE (from_json_optional D (from_json_bool D) (sj_at_key D json ''allowMemberInvite'')) (\<lambda>invite.
     bindE (from_json_optional D (from_json_bool D) (sj_at_key D json ''autoApprove'')) (\<lambda>approve.
     bindE (from_json_optional D (from_json_bool D) (sj_at_key D json ''anonymousChat'')) (\<lambda>anonymous.
     Inr \<lparr>gc_name = name, gc_announcement = announcement, gc_allow_confess_talk = confess,
          gc_allow_member_invitation = invite, gc_auto_approve = approve,
          gc_allow_anonymous_chat = anonymous\<rparr>))))))"

definition GroupConfig_format_as_json :: "GroupConfig \<Rightarrow> writer" where
  "GroupConfig_format_as_json c =
     write_obj
       [(''name'', J_opt (map_option J_text (gc_name c))),
        (''announcement'', J_opt (map_option J_text (gc_announcement c))),
        (''confessTalk'', J_opt (map_option J_bool (gc_allow_confess_talk c))),
        (''allowMemberInvite'', J_opt (map_option J_bool (gc_allow_member_invitation c))),
        (''autoApprove'', J_opt (map_option J_bool (gc_auto_approve c))),
        (''anonymousChat'', J_opt (map_option J_bool (gc_allow_anonymous_chat c)))]"

definition MemberInfo_from_json :: "'j deps \<Rightarrow> 'j \<Rightarrow> MemberInfo res" where
  "MemberInfo_from_json D json =
     bindE (from_json_optional D (from_json_string D) (sj_at_key D json ''name'')) (\<lambda>name.
     bindE (from_json_optional D (from_json_string D) (sj_at_key D json ''specialTitle'')) (\<lambda>title.
     Inr \<lparr>mi_name = name, mi_special_title = title\<rparr>))"

definition MemberInfo_format_as_json :: "MemberInfo \<Rightarrow> writer" where
  "MemberInfo_format_as_json i =
     write_obj
       [(''name'', J_opt (map_option J_text (mi_name i))),
        (''specialTitle'', J_opt (map_option J_text (mi_special_title i)))]"

section \<open>Facts about the readers\<close>

lemma permission_from_string_known:
  assumes "labels_compile D [''MEMBER'', ''ADMINISTRATOR'', ''OWNER'']"
  shows "permission_from_string D ''MEMBER'' = Inr Permission_member"
    and "permission_from_string D ''ADMINISTRATOR'' = Inr Permission_admin"
    and "permission_from_string D ''OWNER'' = Inr Permission_owner"
  using assms by (auto simp: permission_from_string_def labels_compile_def)

lemma fuelled_info_readers [fuel_intros]:
  "fuelled (permission_from_string D s)" "fuelled (Friend_from_json D j)"
  "fuelled (Group_from_json D j)" "fuelled (Member_from_json D j)"
  by (auto simp: permission_from_string_def Friend_from_json_def Group_from_json_def
      Member_from_json_def intro!: fuel_intros)

lemma graceful_info_readers [graceful_intros]:
  "graceful (permission_from_string D s)" "graceful (Friend_from_json D j)"
  "graceful (Group_from_json D j)" "graceful (Member_from_json D j)"
  by (auto simp: permission_from_string_def Friend_from_json_def Group_from_json_def
      Member_from_json_def intro!: graceful_intros)

lemma graceful_config_readers [graceful_intros]:
  "graceful (SessionConfig_from_json D j)" "graceful (GroupConfig_from_json D j)"
  "graceful (MemberInfo_from_json D j)"
  by (auto simp: SessionConfig_from_json_def GroupConfig_from_json_def MemberInfo_from_json_def
      intro!: graceful_intros)

lemma fuelled_config_readers [fuel_intros]:
  "fuelled (SessionConfig_from_json D j)" "fuelled (GroupConfig_from_json D j)"
  "fuelled (MemberInfo_from_json D j)"
  by (auto simp: SessionConfig_from_json_def GroupConfig_from_json_def MemberInfo_from_json_def
      intro!: fuel_intros)

end
