(* ===== verification/Event_Types.thy ===== *)
theory Event_Types
  imports Messages Info_Types Type_Erasure
begin

text \<open>
  The events of \<open>lib/include/mirai/event\<close>: the base classes
  (\<open>event_base.h\<close>, \<open>event_bases.h\<close>), the concrete events
  (\<open>event_types.h\<close>) and the type-erasing \<open>Event\<close> (\<open>event.h\<close>).
  A derived class is a record that extends the record of its base.
\<close>

section \<open>Base classes\<close>

text \<open>
  \<open>bot_\<close> is the address of the bot that received the event, a null pointer
  (\<open>None\<close>) until \<open>Bot::parse_event\<close> sets it.
\<close>

record EventBase =
  ev_bot :: "nat option"

definition EventBase_default :: EventBase where
  "EventBase_default = \<lparr>ev_bot = None\<rparr>"

text \<open>\<open>bot()\<close> follows the pointer.\<close>

definition EventBase_bot :: "'a EventBase_scheme \<Rightarrow> nat res" where
  "EventBase_bot e = (case ev_bot e of None \<Rightarrow> Inl Undefined_behaviour | Some b \<Rightarrow> Inr b)"

record MessageEventBase = EventBase +
  me_msg :: SentMessage

definition MessageEventBase_msgid :: "'a MessageEventBase_scheme \<Rightarrow> MessageId" where
  "MessageEventBase_msgid e = src_id (sm_source (me_msg e))"

definition MessageEventBase_content :: "'a MessageEventBase_scheme \<Rightarrow> Message" where
  "MessageEventBase_content e = sm_content (me_msg e)"

record GroupEventBase = EventBase +
  ge_group :: Group

record ExecutorEventBase = EventBase +
  ee_executor :: Member

definition At_of :: "UserId \<Rightarrow> At" where
  "At_of u = \<lparr>at_target = u, at_display = []\<rparr>"

definition ExecutorEventBase_at_executor :: "'a ExecutorEventBase_scheme \<Rightarrow> At" where
  "ExecutorEventBase_at_executor e = At_of (mb_id (ee_executor e))"

record GroupExecutorEventBase = GroupEventBase +
  gx_executor :: "Member option"

record MemberEventBase = EventBase +
  mbe_member :: Member

definition MemberEventBase_at_member :: "'a MemberEventBase_scheme \<Rightarrow> At" where
  "MemberEventBase_at_member e = At_of (mb_id (mbe_member e))"

record MemberExecutorEventBase = MemberEventBase +
  mx_executor :: "Member option"

text \<open>
  \<open>at_executor\<close> of the two bases with an optional executor falls back to the bot's
  own id; \<open>bot_id\<close> gives the id of the bot at an address.
\<close>

definition GroupExecutorEventBase_at_executor ::
  "(nat \<Rightarrow> UserId) \<Rightarrow> 'a GroupExecutorEventBase_scheme \<Rightarrow> At res" where
  "GroupExecutorEventBase_at_executor bot_id e =
     (case gx_executor e of
        Some m \<Rightarrow> Inr (At_of (mb_id m))
      | None \<Rightarrow> bindE (EventBase_bot e) (\<lambda>b. Inr (At_of (bot_id b))))"

definition MemberExecutorEventBase_at_executor ::
  "(nat \<Rightarrow> UserId) \<Rightarrow> 'a MemberExecutorEventBase_scheme \<Rightarrow> At res" where
  "MemberExecutorEventBase_at_executor bot_id e =
     (case mx_executor e of
        Some m \<Rightarrow> Inr (At_of (mb_id m))
      | None \<Rightarrow> bindE (EventBase_bot e) (\<lambda>b. Inr (At_of (bot_id b))))"

section \<open>Concrete events\<close>

datatype BotOnlineSubType = Online_login | Online_relogin
datatype BotOfflineSubType = Offline_active | Offline_forced | Offline_dropped
datatype GroupConfigSubType =
  Config_mute_all | Config_anonymous_chat | Config_confess_talk | Config_member_invite

record FriendMessageEvent = MessageEventBase +
  fme_sender :: Friend

record GroupMessageEvent = MessageEventBase +
  gme_sender :: Member

record TempMessageEvent = MessageEventBase +
  tme_sender :: Member

record BotOnlineEvent = EventBase +
  bon_subtype :: BotOnlineSubType
  bon_id :: UserId

record BotOfflineEvent = EventBase +
  bof_subtype :: BotOfflineSubType
  bof_id :: UserId

record BotGroupPermissionChangeEvent = GroupEventBase +
  bgp_original :: Permission
  bgp_current :: Permission

record BotMutedEvent = ExecutorEventBase +
  bmu_duration :: i64

type_synonym BotUnmutedEvent = ExecutorEventBase

type_synonym BotJoinGroupEvent = GroupEventBase

type_synonym BotQuitEvent = GroupEventBase

type_synonym BotKickedEvent = GroupEventBase

record GroupRecallEvent = GroupExecutorEventBase +
  grc_sender_id :: UserId
  grc_msg_id :: MessageId
  grc_time :: i32

record FriendRecallEvent = EventBase +
  frc_sender_id :: UserId
  frc_msg_id :: MessageId
  frc_time :: i32

record GroupNameChangeEvent = GroupExecutorEventBase +
  gnc_original :: string
  gnc_current :: string

record GroupEntranceAnnouncementChangeEvent = GroupExecutorEventBase +
  gea_original :: string
  gea_current :: string

record GroupConfigEvent = GroupExecutorEventBase +
  gcf_subtype :: GroupConfigSubType
  gcf_original :: bool
  gcf_current :: bool

type_synonym MemberJoinEvent = MemberEventBase

type_synonym MemberQuitEvent = MemberEventBase

type_synonym MemberKickedEvent = MemberExecutorEventBase

record MemberCardChangeEvent = MemberExecutorEventBase +
  mcc_original :: string
  mcc_current :: string

record MemberSpecialTitleChangeEvent = MemberEventBase +
  mst_original :: string
  mst_current :: string

record MemberPermissionChangeEvent = MemberEventBase +
  mpc_original :: Permission
  mpc_current :: Permission

record MemberMutedEvent = MemberExecutorEventBase +
  mmu_duration :: i64

type_synonym MemberUnmutedEvent = MemberExecutorEventBase

record NewFriendRequestEvent = EventBase +
  nfr_id :: i64
  nfr_from_id :: UserId
  nfr_group_id :: GroupId
  nfr_name :: string
  nfr_message :: string

record MemberJoinRequestEvent = EventBase +
  mjr_id :: i64
  mjr_from_id :: UserId
  mjr_group_id :: GroupId
  mjr_group_name :: string
  mjr_name :: string
  mjr_message :: string

record BotInvitedJoinGroupRequestEvent = EventBase +
  bij_id :: i64
  bij_from_id :: UserId
  bij_group_id :: GroupId
  bij_group_name :: string
  bij_name :: string
  bij_message :: string

definition GroupMessageEvent_at_sender :: "GroupMessageEvent \<Rightarrow> At" where
  "GroupMessageEvent_at_sender e = At_of (mb_id (gme_sender e))"

definition GroupRecallEvent_at_sender :: "GroupRecallEvent \<Rightarrow> At" where
  "GroupRecallEvent_at_sender e = At_of (grc_sender_id e)"

text \<open>Answers to requests, with the number that is sent.\<close>

datatype NewFriendResponseType =
  NewFriend_approve | NewFriend_reject | NewFriend_reject_and_blacklist

fun NewFriendResponseType_code :: "NewFriendResponseType \<Rightarrow> u64" where
  "NewFriendResponseType_code NewFriend_approve = 0"
| "NewFriendResponseType_code NewFriend_reject = 1"
| "NewFriendResponseType_code NewFriend_reject_and_blacklist = 2"

datatype MemberJoinResponseType =
  MemberJoin_approve | MemberJoin_reject | MemberJoin_ignore
| MemberJoin_reject_and_blacklist | MemberJoin_ignore_and_blacklist

fun MemberJoinResponseType_code :: "MemberJoinResponseType \<Rightarrow> u64" where
  "MemberJoinResponseType_code MemberJoin_approve = 0"
| "MemberJoinResponseType_code MemberJoin_reject = 1"
| "MemberJoinResponseType_code MemberJoin_ignore = 2"
| "MemberJoinResponseType_code MemberJoin_reject_and_blacklist = 3"
| "MemberJoinResponseType_code MemberJoin_ignore_and_blacklist = 4"

datatype BotInvitedJoinGroupResponseType = BotInvited_approve | BotInvited_reject

fun BotInvitedJoinGroupResponseType_code :: "BotInvitedJoinGroupResponseType \<Rightarrow> u64" where
  "BotInvitedJoinGroupResponseType_code BotInvited_approve = 0"
| "BotInvitedJoinGroupResponseType_code BotInvited_reject = 1"

section \<open>Event\<close>

datatype EventType =
    EventType_friend_message
  | EventType_group_message
  | EventType_temp_message
  | EventType_bot_online
  | EventType_bot_offline
  | EventType_bot_group_permission_change
  | EventType_bot_muted
  | EventType_bot_unmuted
  | EventType_bot_join_group
  | EventType_bot_quit
  | EventType_bot_kicked
  | EventType_group_recall
  | EventType_friend_recall
  | EventType_group_name_change
  | EventType_group_entrance_announcement_change
  | EventType_group_config
  | EventType_member_join
  | EventType_member_quit
  | EventType_member_kicked
  | EventType_member_card_change
  | EventType_member_special_title_change
  | EventType_member_permission_change
  | EventType_member_muted
  | EventType_member_unmuted
  | EventType_new_friend_request
  | EventType_member_join_request
  | EventType_bot_invited_join_group_request

datatype Event =
    Ev_friend_message FriendMessageEvent
  | Ev_group_message GroupMessageEvent
  | Ev_temp_message TempMessageEvent
  | Ev_bot_online BotOnlineEvent
  | Ev_bot_offline BotOfflineEvent
  | Ev_bot_group_permission_change BotGroupPermissionChangeEvent
  | Ev_bot_muted BotMutedEvent
  | Ev_bot_unmuted BotUnmutedEvent
  | Ev_bot_join_group BotJoinGroupEvent
  | Ev_bot_quit BotQuitEvent
  | Ev_bot_kicked BotKickedEvent
  | Ev_group_recall GroupRecallEvent
  | Ev_friend_recall FriendRecallEvent
  | Ev_group_name_change GroupNameChangeEvent
  | Ev_group_entrance_announcement_change GroupEntranceAnnouncementChangeEvent
  | Ev_group_config GroupConfigEvent
  | Ev_member_join MemberJoinEvent
  | Ev_member_quit MemberQuitEvent
  | Ev_member_kicked MemberKickedEvent
  | Ev_member_card_change MemberCardChangeEvent
  | Ev_member_special_title_change MemberSpecialTitleChangeEvent
  | Ev_member_permission_change MemberPermissionChangeEvent
  | Ev_member_muted MemberMutedEvent
  | Ev_member_unmuted MemberUnmutedEvent
  | Ev_new_friend_request NewFriendRequestEvent
  | Ev_member_join_request MemberJoinRequestEvent
  | Ev_bot_invited_join_group_request BotInvitedJoinGroupRequestEvent

fun Event_type :: "Event \<Rightarrow> EventType" where
  "Event_type (Ev_friend_message x) = EventType_friend_message"
| "Event_type (Ev_group_message x) = EventType_group_message"
| "Event_type (Ev_temp_message x) = EventType_temp_message"
| "Event_type (Ev_bot_online x) = EventType_bot_online"
| "Event_type (Ev_bot_offline x) = EventType_bot_offline"
| "Event_type (Ev_bot_group_permission_change x) = EventType_bot_group_permission_change"
| "Event_type (Ev_bot_muted x) = EventType_bot_muted"
| "Event_type (Ev_bot_unmuted x) = EventType_bot_unmuted"
| "Event_type (Ev_bot_join_group x) = EventType_bot_join_group"
| "Event_type (Ev_bot_quit x) = EventType_bot_quit"
| "Event_type (Ev_bot_kicked x) = EventType_bot_kicked"
| "Event_type (Ev_group_recall x) = EventType_group_recall"
| "Event_type (Ev_friend_recall x) = EventType_friend_recall"
| "Event_type (Ev_group_name_change x) = EventType_group_name_change"
| "Event_type (Ev_group_entrance_announcement_change x) = EventType_group_entrance_announcement_change"
| "Event_type (Ev_group_config x) = EventType_group_config"
| "Event_type (Ev_member_join x) = EventType_member_join"
| "Event_type (Ev_member_quit x) = EventType_member_quit"
| "Event_type (Ev_member_kicked x) = EventType_member_kicked"
| "Event_type (Ev_member_card_change x) = EventType_member_card_change"
| "Event_type (Ev_member_special_title_change x) = EventType_member_special_title_change"
| "Event_type (Ev_member_permission_change x) = EventType_member_permission_change"
| "Event_type (Ev_member_muted x) = EventType_member_muted"
| "Event_type (Ev_member_unmuted x) = EventType_member_unmuted"
| "Event_type (Ev_new_friend_request x) = EventType_new_friend_request"
| "Event_type (Ev_member_join_request x) = EventType_member_join_request"
| "Event_type (Ev_bot_invited_join_group_request x) = EventType_bot_invited_join_group_request"

fun Event_bot :: "Event \<Rightarrow> nat res" where
  "Event_bot (Ev_friend_message x) = EventBase_bot x"
| "Event_bot (Ev_group_message x) = EventBase_bot x"
| "Event_bot (Ev_temp_message x) = EventBase_bot x"
| "Event_bot (Ev_bot_online x) = EventBase_bot x"
| "Event_bot (Ev_bot_offline x) = EventBase_bot x"
| "Event_bot (Ev_bot_group_permission_change x) = EventBase_bot x"
| "Event_bot (Ev_bot_muted x) = EventBase_bot x"
| "Event_bot (Ev_bot_unmuted x) = EventBase_bot x"
| "Event_bot (Ev_bot_join_group x) = EventBase_bot x"
| "Event_bot (Ev_bot_quit x) = EventBase_bot x"
| "Event_bot (Ev_bot_kicked x) = EventBase_bot x"
| "Event_bot (Ev_group_recall x) = EventBase_bot x"
| "Event_bot (Ev_friend_recall x) = EventBase_bot x"
| "Event_bot (Ev_group_name_change x) = EventBase_bot x"
| "Event_bot (Ev_group_entrance_announcement_change x) = EventBase_bot x"
| "Event_bot (Ev_group_config x) = EventBase_bot x"
| "Event_bot (Ev_member_join x) = EventBase_bot x"
| "Event_bot (Ev_member_quit x) = EventBase_bot x"
| "Event_bot (Ev_member_kicked x) = EventBase_bot x"
| "Event_bot (Ev_member_card_change x) = EventBase_bot x"
| "Event_bot (Ev_member_special_title_change x) = EventBase_bot x"
| "Event_bot (Ev_member_permission_change x) = EventBase_bot x"
| "Event_bot (Ev_member_muted x) = EventBase_bot x"
| "Event_bot (Ev_member_unmuted x) = EventBase_bot x"
| "Event_bot (Ev_new_friend_request x) = EventBase_bot x"
| "Event_bot (Ev_member_join_request x) = EventBase_bot x"
| "Event_bot (Ev_bot_invited_join_group_request x) = EventBase_bot x"

text \<open>\<open>event_base().bot_ = b\<close> on the object inside.\<close>

fun Event_set_bot :: "nat \<Rightarrow> Event \<Rightarrow> Event" where
  "Event_set_bot b (Ev_friend_message x) = Ev_friend_message (x\<lparr>ev_bot := Some b\<rparr>)"
| "Event_set_bot b (Ev_group_message x) = Ev_group_message (x\<lparr>ev_bot := Some b\<rparr>)"
| "Event_set_bot b (Ev_temp_message x) = Ev_temp_message (x\<lparr>ev_bot := Some b\<rparr>)"
| "Event_set_bot b (Ev_bot_online x) = Ev_bot_online (x\<lparr>ev_bot := Some b\<rparr>)"
| "Event_set_bot b (Ev_bot_offline x) = Ev_bot_offline (x\<lparr>ev_bot := Some b\<rparr>)"
| "Event_set_bot b (Ev_bot_group_permission_change x) = Ev_bot_group_permission_change (x\<lparr>ev_bot := Some b\<rparr>)"
| "Event_set_bot b (Ev_bot_muted x) = Ev_bot_muted (x\<lparr>ev_bot := Some b\<rparr>)"
| "Event_set_bot b (Ev_bot_unmuted x) = Ev_bot_unmuted (x\<lparr>ev_bot := Some b\<rparr>)"
| "Event_set_bot b (Ev_bot_join_group x) = Ev_bot_join_group (x\<lparr>ev_bot := Some b\<rparr>)"
| "Event_set_bot b (Ev_bot_quit x) = Ev_bot_quit (x\<lparr>ev_bot := Some b\<rparr>)"
| "Event_set_bot b (Ev_bot_kicked x) = Ev_bot_kicked (x\<lparr>ev_bot := Some b\<rparr>)"
| "Event_set_bot b (Ev_group_recall x) = Ev_group_recall (x\<lparr>ev_bot := Some b\<rparr>)"
| "Event_set_bot b (Ev_friend_recall x) = Ev_friend_recall (x\<lparr>ev_bot := Some b\<rparr>)"
| "Event_set_bot b (Ev_group_name_change x) = Ev_group_name_change (x\<lparr>ev_bot := Some b\<rparr>)"
| "Event_set_bot b (Ev_group_entrance_announcement_change x) = Ev_group_entrance_announcement_change (x\<lparr>ev_bot := Some b\<rparr>)"
| "Event_set_bot b (Ev_group_config x) = Ev_group_config (x\<lparr>ev_bot := Some b\<rparr>)"
| "Event_set_bot b (Ev_member_join x) = Ev_member_join (x\<lparr>ev_bot := Some b\<rparr>)"
| "Event_set_bot b (Ev_member_quit x) = Ev_member_quit (x\<lparr>ev_bot := Some b\<rparr>)"
| "Event_set_bot b (Ev_member_kicked x) = Ev_member_kicked (x\<lparr>ev_bot := Some b\<rparr>)"
| "Event_set_bot b (Ev_member_card_change x) = Ev_member_card_change (x\<lparr>ev_bot := Some b\<rparr>)"
| "Event_set_bot b (Ev_member_special_title_change x) = Ev_member_special_title_change (x\<lparr>ev_bot := Some b\<rparr>)"
| "Event_set_bot b (Ev_member_permission_change x) = Ev_member_permission_change (x\<lparr>ev_bot := Some b\<rparr>)"
| "Event_set_bot b (Ev_member_muted x) = Ev_member_muted (x\<lparr>ev_bot := Some b\<rparr>)"
| "Event_set_bot b (Ev_member_unmuted x) = Ev_member_unmuted (x\<lparr>ev_bot := Some b\<rparr>)"
| "Event_set_bot b (Ev_new_friend_request x) = Ev_new_friend_request (x\<lparr>ev_bot := Some b\<rparr>)"
| "Event_set_bot b (Ev_member_join_request x) = Ev_member_join_request (x\<lparr>ev_bot := Some b\<rparr>)"
| "Event_set_bot b (Ev_bot_invited_join_group_request x) = Ev_bot_invited_join_group_request (x\<lparr>ev_bot := Some b\<rparr>)"

section \<open>Typed access\<close>

record 'a event_class =
  et_type :: EventType
  et_cast :: "Event \<Rightarrow> 'a option"

definition Event_get :: "'a event_class \<Rightarrow> Event \<Rightarrow> 'a res" where
  "Event_get T self =
     (if Event_type self \<noteq> et_type T
      then throw (Runtime_error
        [CHR 0xE4, CHR 0xBA, CHR 0x8B, CHR 0xE4, CHR 0xBB, CHR 0xB6, CHR 0xE7, CHR 0xB1, CHR
        0xBB, CHR 0xE5, CHR 0x9E, CHR 0x8B, CHR 0xE4, CHR 0xB8, CHR 0x8D, CHR 0xE5, CHR 0x8C,
        CHR 0xB9, CHR 0xE9, CHR 0x85, CHR 0x8D])
      else (case et_cast T self of Some data \<Rightarrow> Inr data | None \<Rightarrow> Inl Undefined_behaviour))"

definition Event_get_if :: "'a event_class \<Rightarrow> Event \<Rightarrow> 'a option" where
  "Event_get_if T self =
     (if Event_type self = et_type T then et_cast T self else None)"

definition FriendMessageEvent_class :: "FriendMessageEvent event_class" where
  "FriendMessageEvent_class =
     \<lparr>et_type = EventType_friend_message, et_cast = (\<lambda>s. case s of Ev_friend_message x \<Rightarrow> Some x | _ \<Rightarrow> None)\<rparr>"

definition GroupMessageEvent_class :: "GroupMessageEvent event_class" where
  "GroupMessageEvent_class =
     \<lparr>et_type = EventType_group_message, et_cast = (\<lambda>s. case s of Ev_group_message x \<Rightarrow> Some x | _ \<Rightarrow> None)\<rparr>"

definition TempMessageEvent_class :: "TempMessageEvent event_class" where
  "TempMessageEvent_class =
     \<lparr>et_type = EventType_temp_message, et_cast = (\<lambda>s. case s of Ev_temp_message x \<Rightarrow> Some x | _ \<Rightarrow> None)\<rparr>"

definition BotOnlineEvent_class :: "BotOnlineEvent event_class" where
  "BotOnlineEvent_class =
     \<lparr>et_type = EventType_bot_online, et_cast = (\<lambda>s. case s of Ev_bot_online x \<Rightarrow> Some x | _ \<Rightarrow> None)\<rparr>"

definition BotOfflineEvent_class :: "BotOfflineEvent event_class" where
  "BotOfflineEvent_class =
     \<lparr>et_type = EventType_bot_offline, et_cast = (\<lambda>s. case s of Ev_bot_offline x \<Rightarrow> Some x | _ \<Rightarrow> None)\<rparr>"

definition BotGroupPermissionChangeEvent_class :: "BotGroupPermissionChangeEvent event_class" where
  "BotGroupPermissionChangeEvent_class =
     \<lparr>et_type = EventType_bot_group_permission_change, et_cast = (\<lambda>s. case s of Ev_bot_group_permission_change x \<Rightarrow> Some x | _ \<Rightarrow> None)\<rparr>"

definition BotMutedEvent_class :: "BotMutedEvent event_class" where
  "BotMutedEvent_class =
     \<lparr>et_type = EventType_bot_muted, et_cast = (\<lambda>s. case s of Ev_bot_muted x \<Rightarrow> Some x | _ \<Rightarrow> None)\<rparr>"

definition BotUnmutedEvent_class :: "BotUnmutedEvent event_class" where
  "BotUnmutedEvent_class =
     \<lparr>et_type = EventType_bot_unmuted, et_cast = (\<lambda>s. case s of Ev_bot_unmuted x \<Rightarrow> Some x | _ \<Rightarrow> None)\<rparr>"

definition BotJoinGroupEvent_class :: "BotJoinGroupEvent event_class" where
  "BotJoinGroupEvent_class =
     \<lparr>et_type = EventType_bot_join_group, et_cast = (\<lambda>s. case s of Ev_bot_join_group x \<Rightarrow> Some x | _ \<Rightarrow> None)\<rparr>"

definition BotQuitEvent_class :: "BotQuitEvent event_class" where
  "BotQuitEvent_class =
     \<lparr>et_type = EventType_bot_quit, et_cast = (\<lambda>s. case s of Ev_bot_quit x \<Rightarrow> Some x | _ \<Rightarrow> None)\<rparr>"

definition BotKickedEvent_class :: "BotKickedEvent event_class" where
  "BotKickedEvent_class =
     \<lparr>et_type = EventType_bot_kicked, et_cast = (\<lambda>s. case s of Ev_bot_kicked x \<Rightarrow> Some x | _ \<Rightarrow> None)\<rparr>"

definition GroupRecallEvent_class :: "GroupRecallEvent event_class" where
  "GroupRecallEvent_class =
     \<lparr>et_type = EventType_group_recall, et_cast = (\<lambda>s. case s of Ev_group_recall x \<Rightarrow> Some x | _ \<Rightarrow> None)\<rparr>"

definition FriendRecallEvent_class :: "FriendRecallEvent event_class" where
  "FriendRecallEvent_class =
     \<lparr>et_type = EventType_friend_recall, et_cast = (\<lambda>s. case s of Ev_friend_recall x \<Rightarrow> Some x | _ \<Rightarrow> None)\<rparr>"

definition GroupNameChangeEvent_class :: "GroupNameChangeEvent event_class" where
  "GroupNameChangeEvent_class =
     \<lparr>et_type = EventType_group_name_change, et_cast = (\<lambda>s. case s of Ev_group_name_change x \<Rightarrow> Some x | _ \<Rightarrow> None)\<rparr>"

definition GroupEntranceAnnouncementChangeEvent_class :: "GroupEntranceAnnouncementChangeEvent event_class" where
  "GroupEntranceAnnouncementChangeEvent_class =
     \<lparr>et_type = EventType_group_entrance_announcement_change, et_cast = (\<lambda>s. case s of Ev_group_entrance_announcement_change x \<Rightarrow> Some x | _ \<Rightarrow> None)\<rparr>"

definition GroupConfigEvent_class :: "GroupConfigEvent event_class" where
  "GroupConfigEvent_class =
     \<lparr>et_type = EventType_group_config, et_cast = (\<lambda>s. case s of Ev_group_config x \<Rightarrow> Some x | _ \<Rightarrow> None)\<rparr>"

definition MemberJoinEvent_class :: "MemberJoinEvent event_class" where
  "MemberJoinEvent_class =
     \<lparr>et_type = EventType_member_join, et_cast = (\<lambda>s. case s of Ev_member_join x \<Rightarrow> Some x | _ \<Rightarrow> None)\<rparr>"

definition MemberQuitEvent_class :: "MemberQuitEvent event_class" where
  "MemberQuitEvent_class =
     \<lparr>et_type = EventType_member_quit, et_cast = (\<lambda>s. case s of Ev_member_quit x \<Rightarrow> Some x | _ \<Rightarrow> None)\<rparr>"

definition MemberKickedEvent_class :: "MemberKickedEvent event_class" where
  "MemberKickedEvent_class =
     \<lparr>et_type = EventType_member_kicked, et_cast = (\<lambda>s. case s of Ev_member_kicked x \<Rightarrow> Some x | _ \<Rightarrow> None)\<rparr>"

definition MemberCardChangeEvent_class :: "MemberCardChangeEvent event_class" where
  "MemberCardChangeEvent_class =
     \<lparr>et_type = EventType_member_card_change, et_cast = (\<lambda>s. case s of Ev_member_card_change x \<Rightarrow> Some x | _ \<Rightarrow> None)\<rparr>"

definition MemberSpecialTitleChangeEvent_class :: "MemberSpecialTitleChangeEvent event_class" where
  "MemberSpecialTitleChangeEvent_class =
     \<lparr>et_type = EventType_member_special_title_change, et_cast = (\<lambda>s. case s of Ev_member_special_title_change x \<Rightarrow> Some x | _ \<Rightarrow> None)\<rparr>"

definition MemberPermissionChangeEvent_class :: "MemberPermissionChangeEvent event_class" where
  "MemberPermissionChangeEvent_class =
     \<lparr>et_type = EventType_member_permission_change, et_cast = (\<lambda>s. case s of Ev_member_permission_change x \<Rightarrow> Some x | _ \<Rightarrow> None)\<rparr>"

definition MemberMutedEvent_class :: "MemberMutedEvent event_class" where
  "MemberMutedEvent_class =
     \<lparr>et_type = EventType_member_muted, et_cast = (\<lambda>s. case s of Ev_member_muted x \<Rightarrow> Some x | _ \<Rightarrow> None)\<rparr>"

definition MemberUnmutedEvent_class :: "MemberUnmutedEvent event_class" where
  "MemberUnmutedEvent_class =
     \<lparr>et_type = EventType_member_unmuted, et_cast = (\<lambda>s. case s of Ev_member_unmuted x \<Rightarrow> Some x | _ \<Rightarrow> None)\<rparr>"

definition NewFriendRequestEvent_class :: "NewFriendRequestEvent event_class" where
  "NewFriendRequestEvent_class =
     \<lparr>et_type = EventType_new_friend_request, et_cast = (\<lambda>s. case s of Ev_new_friend_request x \<Rightarrow> Some x | _ \<Rightarrow> None)\<rparr>"

definition MemberJoinRequestEvent_class :: "MemberJoinRequestEvent event_class" where
  "MemberJoinRequestEvent_class =
     \<lparr>et_type = EventType_member_join_request, et_cast = (\<lambda>s. case s of Ev_member_join_request x \<Rightarrow> Some x | _ \<Rightarrow> None)\<rparr>"

definition BotInvitedJoinGroupRequestEvent_class :: "BotInvitedJoinGroupRequestEvent event_class" where
  "BotInvitedJoinGroupRequestEvent_class =
     \<lparr>et_type = EventType_bot_invited_join_group_request, et_cast = (\<lambda>s. case s of Ev_bot_invited_join_group_request x \<Rightarrow> Some x | _ \<Rightarrow> None)\<rparr>"

text \<open>What every instance of the contract comes down to.\<close>

lemma event_erased:
  assumes "\<And>s. Event_type s = et_type T \<longleftrightarrow> (\<exists>a. s = inject a)"
    and "\<And>a. et_cast T (inject a) = Some a"
  shows "type_erased Event_type (et_type T) (et_cast T) inject (Event_get T) (Event_get_if T)"
  using assms by unfold_locales (auto simp: Event_get_def Event_get_if_def)

interpretation friend_message_erased: type_erased Event_type "et_type FriendMessageEvent_class" "et_cast FriendMessageEvent_class" Ev_friend_message
  "Event_get FriendMessageEvent_class" "Event_get_if FriendMessageEvent_class"
  by (rule event_erased) (auto simp: FriendMessageEvent_class_def elim: Event_type.elims)

interpretation group_message_erased: type_erased Event_type "et_type GroupMessageEvent_class" "et_cast GroupMessageEvent_class" Ev_group_message
  "Event_get GroupMessageEvent_class" "Event_get_if GroupMessageEvent_class"
  by (rule event_erased) (auto simp: GroupMessageEvent_class_def elim: Event_type.elims)

interpretation temp_message_erased: type_erased Event_type "et_type TempMessageEvent_class" "et_cast TempMessageEvent_class" Ev_temp_message
  "Event_get TempMessageEvent_class" "Event_get_if TempMessageEvent_class"
  by (rule event_erased) (auto simp: TempMessageEvent_class_def elim: Event_type.elims)

interpretation bot_online_erased: type_erased Event_type "et_type BotOnlineEvent_class" "et_cast BotOnlineEvent_class" Ev_bot_online
  "Event_get BotOnlineEvent_class" "Event_get_if BotOnlineEvent_class"
  by (rule event_erased) (auto simp: BotOnlineEvent_class_def elim: Event_type.elims)

interpretation bot_offline_erased: type_erased Event_type "et_type BotOfflineEvent_class" "et_cast BotOfflineEvent_class" Ev_bot_offline
  "Event_get BotOfflineEvent_class" "Event_get_if BotOfflineEvent_class"
  by (rule event_erased) (auto simp: BotOfflineEvent_class_def elim: Event_type.elims)

interpretation bot_group_permission_change_erased: type_erased Event_type "et_type BotGroupPermissionChangeEvent_class" "et_cast BotGroupPermissionChangeEvent_class" Ev_bot_group_permission_change
  "Event_get BotGroupPermissionChangeEvent_class" "Event_get_if BotGroupPermissionChangeEvent_class"
  by (rule event_erased) (auto simp: BotGroupPermissionChangeEvent_class_def elim: Event_type.elims)

interpretation bot_muted_erased: type_erased Event_type "et_type BotMutedEvent_class" "et_cast BotMutedEvent_class" Ev_bot_muted
  "Event_get BotMutedEvent_class" "Event_get_if BotMutedEvent_class"
  by (rule event_erased) (auto simp: BotMutedEvent_class_def elim: Event_type.elims)

interpretation bot_unmuted_erased: type_erased Event_type "et_type BotUnmutedEvent_class" "et_cast BotUnmutedEvent_class" Ev_bot_unmuted
  "Event_get BotUnmutedEvent_class" "Event_get_if BotUnmutedEvent_class"
  by (rule event_erased) (auto simp: BotUnmutedEvent_class_def elim: Event_type.elims)

interpretation bot_join_group_erased: type_erased Event_type "et_type BotJoinGroupEvent_class" "et_cast BotJoinGroupEvent_class" Ev_bot_join_group
  "Event_get BotJoinGroupEvent_class" "Event_get_if BotJoinGroupEvent_class"
  by (rule event_erased) (auto simp: BotJoinGroupEvent_class_def elim: Event_type.elims)

interpretation bot_quit_erased: type_erased Event_type "et_type BotQuitEvent_class" "et_cast BotQuitEvent_class" Ev_bot_quit
  "Event_get BotQuitEvent_class" "Event_get_if BotQuitEvent_class"
  by (rule event_erased) (auto simp: BotQuitEvent_class_def elim: Event_type.elims)

interpretation bot_kicked_erased: type_erased Event_type "et_type BotKickedEvent_class" "et_cast BotKickedEvent_class" Ev_bot_kicked
  "Event_get BotKickedEvent_class" "Event_get_if BotKickedEvent_class"
  by (rule event_erased) (auto simp: BotKickedEvent_class_def elim: Event_type.elims)

interpretation group_recall_erased: type_erased Event_type "et_type GroupRecallEvent_class" "et_cast GroupRecallEvent_class" Ev_group_recall
  "Event_get GroupRecallEvent_class" "Event_get_if GroupRecallEvent_class"
  by (rule event_erased) (auto simp: GroupRecallEvent_class_def elim: Event_type.elims)

interpretation friend_recall_erased: type_erased Event_type "et_type FriendRecallEvent_class" "et_cast FriendRecallEvent_class" Ev_friend_recall
  "Event_get FriendRecallEvent_class" "Event_get_if FriendRecallEvent_class"
  by (rule event_erased) (auto simp: FriendRecallEvent_class_def elim: Event_type.elims)

interpretation group_name_change_erased: type_erased Event_type "et_type GroupNameChangeEvent_class" "et_cast GroupNameChangeEvent_class" Ev_group_name_change
  "Event_get GroupNameChangeEvent_class" "Event_get_if GroupNameChangeEvent_class"
  by (rule event_erased) (auto simp: GroupNameChangeEvent_class_def elim: Event_type.elims)

interpretation group_entrance_announcement_change_erased: type_erased Event_type "et_type GroupEntranceAnnouncementChangeEvent_class" "et_cast GroupEntranceAnnouncementChangeEvent_class" Ev_group_entrance_announcement_change
  "Event_get GroupEntranceAnnouncementChangeEvent_class" "Event_get_if GroupEntranceAnnouncementChangeEvent_class"
  by (rule event_erased) (auto simp: GroupEntranceAnnouncementChangeEvent_class_def elim: Event_type.elims)

interpretation group_config_erased: type_erased Event_type "et_type GroupConfigEvent_class" "et_cast GroupConfigEvent_class" Ev_group_config
  "Event_get GroupConfigEvent_class" "Event_get_if GroupConfigEvent_class"
  by (rule event_erased) (auto simp: GroupConfigEvent_class_def elim: Event_type.elims)

interpretation member_join_erased: type_erased Event_type "et_type MemberJoinEvent_class" "et_cast MemberJoinEvent_class" Ev_member_join
  "Event_get MemberJoinEvent_class" "Event_get_if MemberJoinEvent_class"
  by (rule event_erased) (auto simp: MemberJoinEvent_class_def elim: Event_type.elims)

interpretation member_quit_erased: type_erased Event_type "et_type MemberQuitEvent_class" "et_cast MemberQuitEvent_class" Ev_member_quit
  "Event_get MemberQuitEvent_class" "Event_get_if MemberQuitEvent_class"
  by (rule event_erased) (auto simp: MemberQuitEvent_class_def elim: Event_type.elims)

interpretation member_kicked_erased: type_erased Event_type "et_type MemberKickedEvent_class" "et_cast MemberKickedEvent_class" Ev_member_kicked
  "Event_get MemberKickedEvent_class" "Event_get_if MemberKickedEvent_class"
  by (rule event_erased) (auto simp: MemberKickedEvent_class_def elim: Event_type.elims)

interpretation member_card_change_erased: type_erased Event_type "et_type MemberCardChangeEvent_class" "et_cast MemberCardChangeEvent_class" Ev_member_card_change
  "Event_get MemberCardChangeEvent_class" "Event_get_if MemberCardChangeEvent_class"
  by (rule event_erased) (auto simp: MemberCardChangeEvent_class_def elim: Event_type.elims)

interpretation member_special_title_change_erased: type_erased Event_type "et_type MemberSpecialTitleChangeEvent_class" "et_cast MemberSpecialTitleChangeEvent_class" Ev_member_special_title_change
  "Event_get MemberSpecialTitleChangeEvent_class" "Event_get_if MemberSpecialTitleChangeEvent_class"
  by (rule event_erased) (auto simp: MemberSpecialTitleChangeEvent_class_def elim: Event_type.elims)

interpretation member_permission_change_erased: type_erased Event_type "et_type MemberPermissionChangeEvent_class" "et_cast MemberPermissionChangeEvent_class" Ev_member_permission_change
  "Event_get MemberPermissionChangeEvent_class" "Event_get_if MemberPermissionChangeEvent_class"
  by (rule event_erased) (auto simp: MemberPermissionChangeEvent_class_def elim: Event_type.elims)

interpretation member_muted_erased: type_erased Event_type "et_type MemberMutedEvent_class" "et_cast MemberMutedEvent_class" Ev_member_muted
  "Event_get MemberMutedEvent_class" "Event_get_if MemberMutedEvent_class"
  by (rule event_erased) (auto simp: MemberMutedEvent_class_def elim: Event_type.elims)

interpretation member_unmuted_erased: type_erased Event_type "et_type MemberUnmutedEvent_class" "et_cast MemberUnmutedEvent_class" Ev_member_unmuted
  "Event_get MemberUnmutedEvent_class" "Event_get_if MemberUnmutedEvent_class"
  by (rule event_erased) (auto simp: MemberUnmutedEvent_class_def elim: Event_type.elims)

interpretation new_friend_request_erased: type_erased Event_type "et_type NewFriendRequestEvent_class" "et_cast NewFriendRequestEvent_class" Ev_new_friend_request
  "Event_get NewFriendRequestEvent_class" "Event_get_if NewFriendRequestEvent_class"
  by (rule event_erased) (auto simp: NewFriendRequestEvent_class_def elim: Event_type.elims)

interpretation member_join_request_erased: type_erased Event_type "et_type MemberJoinRequestEvent_class" "et_cast MemberJoinRequestEvent_class" Ev_member_join_request
  "Event_get MemberJoinRequestEvent_class" "Event_get_if MemberJoinRequestEvent_class"
  by (rule event_erased) (auto simp: MemberJoinRequestEvent_class_def elim: Event_type.elims)

interpretation bot_invited_join_group_request_erased: type_erased Event_type "et_type BotInvitedJoinGroupRequestEvent_class" "et_cast BotInvitedJoinGroupRequestEvent_class" Ev_bot_invited_join_group_request
  "Event_get BotInvitedJoinGroupRequestEvent_class" "Event_get_if BotInvitedJoinGroupRequestEvent_class"
  by (rule event_erased) (auto simp: BotInvitedJoinGroupRequestEvent_class_def elim: Event_type.elims)

lemma Event_set_bot_type [simp]: "Event_type (Event_set_bot b e) = Event_type e"
  by (cases e) simp_all

lemma Event_set_bot_bot [simp]: "Event_bot (Event_set_bot b e) = Inr b"
  by (cases e) (simp_all add: EventBase_bot_def)

end
