(* ===== verification/Filter_Queue.thy ===== *)
theory Filter_Queue
  imports Event_Types
begin

text \<open>
  The queue of pending event waiters: \<open>detail/filter/filter_queue.h\<close>,
  \<open>filter_queue.cpp\<close> and the node class of \<open>next_event.h\<close>.  The nodes
  live in the frames of the waiting coroutines, so the queue is an intrusive doubly linked
  list through memory it does not own: a store maps addresses to live nodes, and following
  a null pointer or the address of a destroyed node is undefined behaviour.
\<close>

section \<open>Nodes and the queue\<close>

text \<open>
  \<open>nd_match\<close> is \<open>match_filter\<close> of the node's dynamic type, \<open>nd_handle\<close>
  says whether a coroutine handle was stored, \<open>nd_res\<close> is \<open>res_\<close>, what
  the coroutine was resumed with.
\<close>

record NextEventNode =
  nd_queue :: "nat option"
  nd_prev :: "nat option"
  nd_next :: "nat option"
  nd_active :: bool
  nd_match :: "Event \<Rightarrow> bool res"
  nd_handle :: bool
  nd_res :: "Event option"

text \<open>
  \<open>fq_this\<close> is the queue's own address, \<open>fq_posts\<close> the calls of
  \<open>resume_with\<close> posted on the scheduler's \<open>io_context\<close> and not yet run,
  \<open>fq_resumed\<close> the calls of \<open>handle_.resume()\<close> made so far.
\<close>

record FilterQueue =
  fq_this :: nat
  fq_head :: "nat option"
  fq_tail :: "nat option"
  fq_locked :: bool
  fq_heap :: "nat \<Rightarrow> NextEventNode option"
  fq_posts :: "(nat \<times> Event option) list"
  fq_resumed :: "(nat \<times> Event option) list"

definition FilterQueue_init :: "nat \<Rightarrow> FilterQueue" where
  "FilterQueue_init this =
     \<lparr>fq_this = this, fq_head = None, fq_tail = None, fq_locked = False,
      fq_heap = Map.empty, fq_posts = [], fq_resumed = []\<rparr>"

text \<open>\<open>NextEventNode<E, F>\<close>: matches the events of type \<open>E\<close> the filter accepts.\<close>

definition NextEventNode_match_filter ::
  "'a event_class \<Rightarrow> ('a \<Rightarrow> bool res) \<Rightarrow> Event \<Rightarrow> bool res" where
  "NextEventNode_match_filter E filt ev =
     (case Event_get_if E ev of Some ptr \<Rightarrow> filt ptr | None \<Rightarrow> Inr False)"

definition FilterNodeBase_new :: "(Event \<Rightarrow> bool res) \<Rightarrow> NextEventNode" where
  "FilterNodeBase_new matches =
     \<lparr>nd_queue = None, nd_prev = None, nd_next = None, nd_active = True,
      nd_match = matches, nd_handle = False, nd_res = None\<rparr>"

definition NextEventNode_new :: "'a event_class \<Rightarrow> ('a \<Rightarrow> bool res) \<Rightarrow> NextEventNode" where
  "NextEventNode_new E filt = FilterNodeBase_new (NextEventNode_match_filter E filt)"

section \<open>Memory\<close>

definition load :: "nat \<Rightarrow> (FilterQueue, NextEventNode) act" where
  "load p = (\<lambda>s. case fq_heap s p of None \<Rightarrow> (Inl Undefined_behaviour, s) | Some nd \<Rightarrow> (Inr nd, s))"

definition store :: "nat \<Rightarrow> (NextEventNode \<Rightarrow> NextEventNode) \<Rightarrow> (FilterQueue, unit) act" where
  "store p f =
     (\<lambda>s. case fq_heap s p of
            None \<Rightarrow> (Inl Undefined_behaviour, s)
          | Some nd \<Rightarrow> (Inr (), s\<lparr>fq_heap := (fq_heap s)(p \<mapsto> f nd)\<rparr>))"

definition modify :: "(FilterQueue \<Rightarrow> FilterQueue) \<Rightarrow> (FilterQueue, unit) act" where
  "modify f = (\<lambda>s. (Inr (), f s))"

definition gets :: "(FilterQueue \<Rightarrow> 'a) \<Rightarrow> (FilterQueue, 'a) act" where
  "gets f = (\<lambda>s. (Inr (f s), s))"

definition whenS :: "'a option \<Rightarrow> ('a \<Rightarrow> ('s, unit) act) \<Rightarrow> ('s, unit) act" where
  "whenS x f = (case x of None \<Rightarrow> returnS () | Some a \<Rightarrow> f a)"

section \<open>Linking and unlinking\<close>

definition dequeue_with_lock :: "nat \<Rightarrow> (FilterQueue, unit) act" where
  "dequeue_with_lock node =
     bindS (load node) (\<lambda>nd.
     bindS (modify (\<lambda>s. if fq_head s = Some node then s\<lparr>fq_head := nd_next nd\<rparr> else s)) (\<lambda>_.
     bindS (modify (\<lambda>s. if fq_tail s = Some node then s\<lparr>fq_tail := nd_prev nd\<rparr> else s)) (\<lambda>_.
     bindS (whenS (nd_prev nd) (\<lambda>prev. store prev (\<lambda>p. p\<lparr>nd_next := nd_next nd\<rparr>))) (\<lambda>_.
     bindS (load node) (\<lambda>nd.
     whenS (nd_next nd) (\<lambda>next. store next (\<lambda>n. n\<lparr>nd_prev := nd_prev nd\<rparr>)))))))"

definition enqueue_with_lock :: "nat \<Rightarrow> (FilterQueue, unit) act" where
  "enqueue_with_lock node =
     bindS (gets fq_this) (\<lambda>this.
     bindS (store node (\<lambda>n. n\<lparr>nd_queue := Some this\<rparr>)) (\<lambda>_.
     bindS (modify (\<lambda>s. if fq_head s = None then s\<lparr>fq_head := Some node\<rparr> else s)) (\<lambda>_.
     bindS (gets fq_tail) (\<lambda>tail.
     bindS (whenS tail (\<lambda>t.
        bindS (store node (\<lambda>n. n\<lparr>nd_prev := tail\<rparr>)) (\<lambda>_.
        store t (\<lambda>n. n\<lparr>nd_next := Some node\<rparr>)))) (\<lambda>_.
     modify (\<lambda>s. s\<lparr>fq_tail := Some node\<rparr>))))))"

section \<open>Resuming\<close>

text \<open>
  \<open>resume_with\<close> stores the result and resumes the coroutine through the stored
  handle, which is null before \<open>wait\<close> stores one.
\<close>

definition resume_with :: "nat \<Rightarrow> Event option \<Rightarrow> (FilterQueue, unit) act" where
  "resume_with node ev =
     bindS (store node (\<lambda>n. n\<lparr>nd_res := ev\<rparr>)) (\<lambda>_.
     bindS (load node) (\<lambda>nd.
     if nd_handle nd then modify (\<lambda>s. s\<lparr>fq_resumed := fq_resumed s @ [(node, ev)]\<rparr>)
     else liftS (Inl Undefined_behaviour)))"

definition resume_on_scheduler_with :: "nat \<Rightarrow> Event option \<Rightarrow> (FilterQueue, unit) act" where
  "resume_on_scheduler_with node ev =
     bindS (load node) (\<lambda>nd.
     case nd_queue nd of
       None \<Rightarrow> liftS (Inl Undefined_behaviour)
     | Some _ \<Rightarrow> modify (\<lambda>s. s\<lparr>fq_posts := fq_posts s @ [(node, ev)]\<rparr>))"

section \<open>Operations under the lock\<close>

text \<open>
  Taking the mutex, and the guard that gives it back however the body ends.  A coroutine
  that finds the mutex taken is suspended; here the operations are called when it is free.
\<close>

definition lock :: "(FilterQueue, unit) act" where
  "lock = modify (\<lambda>s. s\<lparr>fq_locked := True\<rparr>)"

definition unlock :: "(FilterQueue, unit) act" where
  "unlock = modify (\<lambda>s. s\<lparr>fq_locked := False\<rparr>)"

definition with_lock :: "(FilterQueue, 'a) act \<Rightarrow> (FilterQueue, 'a) act" where
  "with_lock body = (\<lambda>s. case body (s\<lparr>fq_locked := True\<rparr>) of (r, s') \<Rightarrow> (r, s'\<lparr>fq_locked := False\<rparr>))"

text \<open>
  The search of \<open>filter_event\<close> along the \<open>next_\<close> pointers; \<open>fuel\<close>
  bounds the number of nodes visited.
\<close>

fun find_match ::
  "nat \<Rightarrow> (nat \<Rightarrow> 's \<Rightarrow> bool res) \<Rightarrow> (nat \<Rightarrow> 's \<Rightarrow> nat option res) \<Rightarrow> nat option \<Rightarrow> 's \<Rightarrow> nat option res" where
  "find_match 0 matches next ptr s = Inl Out_of_fuel"
| "find_match (Suc fuel) matches next None s = Inr None"
| "find_match (Suc fuel) matches next (Some p) s =
     bindE (matches p s) (\<lambda>b.
       if b then Inr (Some p)
       else bindE (next p s) (\<lambda>q. find_match fuel matches next q s))"

definition node_matches :: "Event \<Rightarrow> nat \<Rightarrow> FilterQueue \<Rightarrow> bool res" where
  "node_matches ev p s = bindE (fst (load p s)) (\<lambda>nd. nd_match nd ev)"

definition node_next :: "nat \<Rightarrow> FilterQueue \<Rightarrow> nat option res" where
  "node_next p s = bindE (fst (load p s)) (\<lambda>nd. Inr (nd_next nd))"

definition filter_event :: "nat \<Rightarrow> Event \<Rightarrow> (FilterQueue, bool) act" where
  "filter_event fuel ev =
     with_lock
       (bindS (\<lambda>s. (find_match fuel (node_matches ev) node_next (fq_head s) s, s)) (\<lambda>found.
        case found of
          None \<Rightarrow> returnS False
        | Some ptr \<Rightarrow>
            bindS (dequeue_with_lock ptr) (\<lambda>_.
            bindS (store ptr (\<lambda>n. n\<lparr>nd_active := False\<rparr>)) (\<lambda>_.
            bindS (resume_on_scheduler_with ptr (Some ev)) (\<lambda>_.
            returnS True)))))"

text \<open>The loop of \<open>cancel_all\<close>: every node is marked and posted in order.\<close>

fun cancel_loop :: "nat \<Rightarrow> (FilterQueue, unit) act" where
  "cancel_loop 0 = liftS (Inl Out_of_fuel)"
| "cancel_loop (Suc fuel) =
     bindS (gets fq_head) (\<lambda>head.
     case head of
       None \<Rightarrow> returnS ()
     | Some h \<Rightarrow>
         bindS (load h) (\<lambda>nd.
         bindS (store h (\<lambda>n. n\<lparr>nd_active := False\<rparr>)) (\<lambda>_.
         bindS (resume_on_scheduler_with h None) (\<lambda>_.
         bindS (modify (\<lambda>s. s\<lparr>fq_head := nd_next nd\<rparr>)) (\<lambda>_.
         cancel_loop fuel)))))"

definition cancel_all :: "nat \<Rightarrow> (FilterQueue, unit) act" where
  "cancel_all fuel =
     with_lock (bindS (cancel_loop fuel) (\<lambda>_. modify (\<lambda>s. s\<lparr>fq_tail := None\<rparr>)))"

text \<open>
  \<open>cancel_task\<close>: takes the lock through the node's queue pointer; a node that is
  still active is unlinked and resumed with nothing after the lock is released.
\<close>

definition cancel_task :: "nat \<Rightarrow> (FilterQueue, unit) act" where
  "cancel_task node =
     bindS (load node) (\<lambda>nd.
     case nd_queue nd of
       None \<Rightarrow> liftS (Inl Undefined_behaviour)
     | Some _ \<Rightarrow>
         bindS lock (\<lambda>_.
         bindS (load node) (\<lambda>nd.
         if nd_active nd then
           bindS (dequeue_with_lock node) (\<lambda>_.
           bindS unlock (\<lambda>_.
           resume_with node None))
         else unlock)))"

text \<open>
  \<open>request_cancel\<close> reaches the scope and the scheduler through the node's queue
  pointer to spawn \<open>cancel_task\<close>; what is spawned is left to the caller.
\<close>

definition request_cancel :: "nat \<Rightarrow> (FilterQueue, unit) act" where
  "request_cancel node =
     bindS (load node) (\<lambda>nd.
     case nd_queue nd of
       None \<Rightarrow> liftS (Inl Undefined_behaviour)
     | Some _ \<Rightarrow> returnS ())"

text \<open>
  The part of \<open>wait\<close> before the coroutine is suspended, and what it returns once
  resumed: nothing (it was stopped) or the event as an \<open>E\<close>.
\<close>

definition NextEventNode_wait :: "nat \<Rightarrow> (FilterQueue, unit) act" where
  "NextEventNode_wait node =
     bindS lock (\<lambda>_.
     bindS (store node (\<lambda>n. n\<lparr>nd_handle := True\<rparr>)) (\<lambda>_.
     bindS (enqueue_with_lock node) (\<lambda>_.
     unlock)))"

definition NextEventNode_wait_result :: "'a event_class \<Rightarrow> NextEventNode \<Rightarrow> 'a option res" where
  "NextEventNode_wait_result E nd =
     (case nd_res nd of
        None \<Rightarrow> Inr None
      | Some ev \<Rightarrow> bindE (Event_get E ev) (\<lambda>e. Inr (Some e)))"

end
