(* ===== verification/Filter_Queue_Facts.thy ===== *)
theory Filter_Queue_Facts
  imports Filter_Queue
begin

text \<open>
  The filter queue is a first-in first-out queue: its linked nodes represent a list of
  addresses, \<open>enqueue_with_lock\<close> appends to it, \<open>dequeue_with_lock\<close> removes
  one address wherever it stands, and the search of \<open>filter_event\<close> visits the list
  in order.
\<close>

section \<open>The contract of the queue\<close>

definition firstd :: "nat list \<Rightarrow> nat option \<Rightarrow> nat option" where
  "firstd xs n = (case xs of [] \<Rightarrow> n | x # _ \<Rightarrow> Some x)"

definition lastd :: "nat list \<Rightarrow> nat option \<Rightarrow> nat option" where
  "lastd xs p = (if xs = [] then p else Some (last xs))"

lemma firstd_simps [simp]: "firstd [] n = n" "firstd (x # xs) n = Some x"
  by (simp_all add: firstd_def)

lemma lastd_simps [simp]: "lastd [] p = p" "lastd (x # xs) p = lastd xs (Some x)" "lastd (xs @ [x]) p = Some x"
  by (simp_all add: lastd_def)

lemma firstd_not_None [simp]: "firstd xs (Some x) \<noteq> None"
  by (cases xs) simp_all

lemma lastd_append: "lastd (xs @ ys) p = lastd ys (lastd xs p)"
  by (induction xs arbitrary: p) simp_all

lemma lastd_outside [simp]: "n \<notin> set xs \<Longrightarrow> lastd xs p = Some n \<longleftrightarrow> xs = [] \<and> p = Some n"
  by (auto simp: lastd_def)

lemma firstd_outside [simp]: "n \<notin> set xs \<Longrightarrow> firstd xs p = Some n \<longleftrightarrow> xs = [] \<and> p = Some n"
  by (cases xs) auto

lemma firstd_append: "firstd (xs @ ys) n = firstd xs (firstd ys n)"
  by (cases xs) simp_all

text \<open>The first address a search in order settles on.\<close>

fun first_match :: "(nat \<Rightarrow> bool res) \<Rightarrow> nat list \<Rightarrow> nat option res" where
  "first_match m [] = Inr None"
| "first_match m (x # xs) = bindE (m x) (\<lambda>b. if b then Inr (Some x) else first_match m xs)"

lemma first_match_Some:
  "first_match m xs = Inr (Some x) \<longleftrightarrow>
     (\<exists>ys zs. xs = ys @ x # zs \<and> m x = Inr True \<and> (\<forall>y\<in>set ys. m y = Inr False))"
proof (induction xs)
  case (Cons a xs)
  have split: "(\<exists>ys zs. a # xs = ys @ x # zs \<and> m x = Inr True \<and> (\<forall>y\<in>set ys. m y = Inr False)) \<longleftrightarrow>
      (a = x \<and> m x = Inr True) \<or>
      (m a = Inr False \<and> (\<exists>ys zs. xs = ys @ x # zs \<and> m x = Inr True \<and> (\<forall>y\<in>set ys. m y = Inr False)))"
    (is "?L \<longleftrightarrow> ?R")
  proof
    show "?L \<Longrightarrow> ?R" by (fastforce simp: Cons_eq_append_conv)
  next
    assume ?R
    then show ?L
    proof
      assume "a = x \<and> m x = Inr True"
      then show ?L by - (rule exI [of _ "[]"], rule exI [of _ xs], simp)
    next
      assume "m a = Inr False \<and> (\<exists>ys zs. xs = ys @ x # zs \<and> m x = Inr True \<and> (\<forall>y\<in>set ys. m y = Inr False))"
      then obtain ys zs where "m a = Inr False" "xs = ys @ x # zs" "m x = Inr True" "\<forall>y\<in>set ys. m y = Inr False"
        by blast
      then show ?L by - (rule exI [of _ "a # ys"], rule exI [of _ zs], simp)
    qed
  qed
  show ?case unfolding split Cons.IH [symmetric] by (cases "m a") auto
qed simp

lemma first_match_None: "first_match m xs = Inr None \<longleftrightarrow> (\<forall>x\<in>set xs. m x = Inr False)"
proof (induction xs)
  case (Cons a xs)
  then show ?case by (cases "m a") auto
qed simp

text \<open>
  What the event loop relies on: \<open>rep s xs\<close> says the state holds the queue of the
  addresses \<open>xs\<close>, oldest first; \<open>fresh\<close> that an address may be appended.
\<close>

locale waiter_queue =
  fixes rep :: "'s \<Rightarrow> nat list \<Rightarrow> bool"
    and fresh :: "'s \<Rightarrow> nat \<Rightarrow> bool"
    and enq :: "nat \<Rightarrow> ('s, unit) act"
    and deq :: "nat \<Rightarrow> ('s, unit) act"
    and head_of :: "'s \<Rightarrow> nat option"
    and next_of :: "nat \<Rightarrow> 's \<Rightarrow> nat option res"
  assumes rep_distinct: "rep s xs \<Longrightarrow> distinct xs"
    and enq_appends: "rep s xs \<Longrightarrow> fresh s n \<Longrightarrow> n \<notin> set xs \<Longrightarrow>
          \<exists>s'. enq n s = (Inr (), s') \<and> rep s' (xs @ [n])"
    and deq_removes: "rep s (xs @ n # ys) \<Longrightarrow> \<exists>s'. deq n s = (Inr (), s') \<and> rep s' (xs @ ys)"
    and head_first: "rep s xs \<Longrightarrow> head_of s = firstd xs None"
    and next_follows: "rep s (xs @ n # ys) \<Longrightarrow> next_of n s = Inr (firstd ys None)"
begin

lemma search_from:
  "rep s (xs @ ys) \<Longrightarrow> length ys < fuel \<Longrightarrow>
   find_match fuel m next_of (firstd ys None) s = first_match (\<lambda>p. m p s) ys"
proof (induction ys arbitrary: xs fuel)
  case Nil
  then show ?case by (cases fuel) simp_all
next
  case (Cons y ys)
  from Cons.prems(2) obtain k where fuel: "fuel = Suc k" "length ys < k" by (cases fuel) auto
  from Cons.IH [of "xs @ [y]" k] Cons.prems(1) fuel(2)
  have rest: "find_match k m next_of (firstd ys None) s = first_match (\<lambda>p. m p s) ys" by simp
  from next_follows [OF Cons.prems(1)] rest fuel(1) show ?case
    by (cases "m y s") simp_all
qed

lemma search_in_order:
  "rep s xs \<Longrightarrow> length xs < fuel \<Longrightarrow>
   find_match fuel m next_of (head_of s) s = first_match (\<lambda>p. m p s) xs"
  using search_from [of s "[]" xs fuel m] by (simp add: head_first)

lemma deq_member: "rep s xs \<Longrightarrow> n \<in> set xs \<Longrightarrow> \<exists>s'. deq n s = (Inr (), s') \<and> rep s' (remove1 n xs)"
proof -
  assume r: "rep s xs" and "n \<in> set xs"
  then obtain ys zs where xs: "xs = ys @ n # zs" by (auto dest: split_list)
  with rep_distinct [OF r] have "remove1 n xs = ys @ zs" by (simp add: remove1_append)
  with deq_removes r xs show ?thesis by simp
qed

end

section \<open>Doubly linked segments\<close>

fun lseg :: "(nat \<Rightarrow> NextEventNode option) \<Rightarrow> nat option \<Rightarrow> nat list \<Rightarrow> nat option \<Rightarrow> bool" where
  "lseg h p [] n = True"
| "lseg h p (x # xs) n =
     (\<exists>nd. h x = Some nd \<and> nd_prev nd = p \<and> nd_next nd = firstd xs n \<and> lseg h (Some x) xs n)"

lemma lseg_append: "lseg h p (xs @ ys) n \<longleftrightarrow> lseg h p xs (firstd ys n) \<and> lseg h (lastd xs p) ys n"
  by (induction xs arbitrary: p) (auto simp: firstd_append)

lemma lseg_cong: "(\<And>x. x \<in> set xs \<Longrightarrow> h x = h' x) \<Longrightarrow> lseg h p xs n = lseg h' p xs n"
  by (induction xs arbitrary: p) auto

lemma lseg_outside [simp]: "q \<notin> set xs \<Longrightarrow> lseg (h(q := v)) p xs n = lseg h p xs n"
  by (rule lseg_cong) auto

lemma lseg_relink_last:
  assumes "lseg h p (xs @ [y]) n" and "y \<notin> set xs" and "h y = Some nd"
  shows "lseg (h(y \<mapsto> nd\<lparr>nd_next := m\<rparr>)) p (xs @ [y]) m"
  using assms by (auto simp: lseg_append)

lemma lseg_relink_first:
  assumes "lseg h p (y # ys) n" and "y \<notin> set ys" and "h y = Some nd"
  shows "lseg (h(y \<mapsto> nd\<lparr>nd_prev := q\<rparr>)) q (y # ys) n"
  using assms by auto

text \<open>Nodes that differ in their links only.\<close>

definition same_core :: "NextEventNode \<Rightarrow> NextEventNode \<Rightarrow> bool" where
  "same_core a b \<longleftrightarrow>
     nd_queue a = nd_queue b \<and> nd_active a = nd_active b \<and> nd_match a = nd_match b \<and>
     nd_handle a = nd_handle b \<and> nd_res a = nd_res b"

definition same_cores :: "(nat \<Rightarrow> NextEventNode option) \<Rightarrow> (nat \<Rightarrow> NextEventNode option) \<Rightarrow> bool" where
  "same_cores h h' \<longleftrightarrow> (\<forall>x. rel_option same_core (h x) (h' x))"

lemma same_core_refl [simp]: "same_core a a"
  by (simp add: same_core_def)

lemma same_core_links [simp]:
  "same_core a (b\<lparr>nd_next := x\<rparr>) = same_core a b" "same_core a (b\<lparr>nd_prev := x\<rparr>) = same_core a b"
  by (simp_all add: same_core_def)

lemma same_cores_refl [simp]: "same_cores h h"
  by (simp add: same_cores_def option.rel_refl)

lemma same_cores_upd:
  "same_cores h h' \<Longrightarrow> h x = Some a \<Longrightarrow> same_core a b \<Longrightarrow> same_cores h (h'(x \<mapsto> b))"
  by (simp add: same_cores_def)

lemma same_cores_Some:
  assumes "same_cores h h'" and "h x = Some a"
  obtains b where "h' x = Some b" and "same_core a b"
  using assms unfolding same_cores_def by (metis option_rel_Some1)

section \<open>The queue as a list\<close>

text \<open>
  \<open>queue_rep s xs\<close>: the pointers of the queue form the list \<open>xs\<close>, and every
  node on it knows its queue, has its coroutine handle and is active.
\<close>

definition waiting :: "FilterQueue \<Rightarrow> nat \<Rightarrow> bool" where
  "waiting s x \<longleftrightarrow>
     (\<exists>nd. fq_heap s x = Some nd \<and> nd_queue nd = Some (fq_this s) \<and> nd_handle nd \<and> nd_active nd)"

definition queue_rep :: "FilterQueue \<Rightarrow> nat list \<Rightarrow> bool" where
  "queue_rep s xs \<longleftrightarrow>
     fq_head s = firstd xs None \<and> fq_tail s = lastd xs None \<and> lseg (fq_heap s) None xs None \<and>
     distinct xs \<and> (\<forall>x\<in>set xs. waiting s x)"

text \<open>A node that was constructed and given a handle, and not linked yet.\<close>

definition unlinked :: "FilterQueue \<Rightarrow> nat \<Rightarrow> bool" where
  "unlinked s n \<longleftrightarrow>
     (\<exists>nd. fq_heap s n = Some nd \<and> nd_prev nd = None \<and> nd_next nd = None \<and> nd_handle nd \<and> nd_active nd)"

lemmas queue_ops =
  bindS_def load_def store_def modify_def gets_def whenS_def returnS_def liftS_def

text \<open>What the two link operations leave alone.\<close>

definition only_links :: "FilterQueue \<Rightarrow> FilterQueue \<Rightarrow> bool" where
  "only_links s s' \<longleftrightarrow>
     fq_this s' = fq_this s \<and> fq_locked s' = fq_locked s \<and> fq_posts s' = fq_posts s \<and>
     fq_resumed s' = fq_resumed s \<and> same_cores (fq_heap s) (fq_heap s')"

lemma waiting_links:
  "only_links s s' \<Longrightarrow> waiting s x \<Longrightarrow> waiting s' x"
  unfolding waiting_def only_links_def
  by (elim exE conjE, erule (1) same_cores_Some) (auto simp: same_core_def)

lemma dequeue_links:
  assumes "queue_rep s (xs @ n # ys)"
  obtains s' where "dequeue_with_lock n s = (Inr (), s')" and "only_links s s'"
    and "queue_rep s' (xs @ ys)" and "\<forall>x. x \<notin> set (xs @ ys) \<longrightarrow> fq_heap s' x = fq_heap s x"
proof -
  from assms obtain nd where nd: "fq_heap s n = Some nd" "nd_prev nd = lastd xs None" "nd_next nd = firstd ys None"
    by (auto simp: queue_rep_def lseg_append)
  from assms have dist: "distinct (xs @ n # ys)" and seg: "lseg (fq_heap s) None (xs @ n # ys) None"
    and ends: "fq_head s = firstd (xs @ n # ys) None" "fq_tail s = lastd (xs @ n # ys) None"
    and wait: "\<forall>x\<in>set (xs @ n # ys). waiting s x"
    by (simp_all add: queue_rep_def)
  have "\<exists>s'. dequeue_with_lock n s = (Inr (), s') \<and> only_links s s' \<and>
      (\<forall>x. x \<notin> set (xs @ ys) \<longrightarrow> fq_heap s' x = fq_heap s x) \<and>
      fq_head s' = firstd (xs @ ys) None \<and> fq_tail s' = lastd (xs @ ys) None \<and>
      lseg (fq_heap s') None (xs @ ys) None"
  proof (cases xs rule: rev_cases)
    case Nil
    show ?thesis
    proof (cases ys)
      case (Cons y ys')
      then show ?thesis using nd dist seg ends Nil
        by (auto simp: dequeue_with_lock_def queue_ops only_links_def same_cores_upd)
    qed (use nd dist seg ends Nil in \<open>auto simp: dequeue_with_lock_def queue_ops only_links_def\<close>)
  next
    case (snoc xs' x)
    show ?thesis
    proof (cases ys)
      case (Cons y ys')
      then show ?thesis using nd dist seg ends snoc
        by (auto simp: dequeue_with_lock_def queue_ops only_links_def same_cores_upd lseg_append firstd_append lastd_append)
    qed (use nd dist seg ends snoc in
      \<open>auto simp: dequeue_with_lock_def queue_ops only_links_def same_cores_upd lseg_append firstd_append lastd_append\<close>)
  qed
  then obtain s' where s': "dequeue_with_lock n s = (Inr (), s')" "only_links s s'"
    "\<forall>x. x \<notin> set (xs @ ys) \<longrightarrow> fq_heap s' x = fq_heap s x"
    "fq_head s' = firstd (xs @ ys) None" "fq_tail s' = lastd (xs @ ys) None" "lseg (fq_heap s') None (xs @ ys) None"
    by blast
  moreover have "queue_rep s' (xs @ ys)"
    using s' dist wait waiting_links [OF s'(2)] by (auto simp: queue_rep_def)
  ultimately show thesis using that by blast
qed

lemma enqueue_links:
  assumes "queue_rep s xs" and "unlinked s n" and "n \<notin> set xs"
  obtains s' where "enqueue_with_lock n s = (Inr (), s')" and "queue_rep s' (xs @ [n])"
    and "fq_this s' = fq_this s" "fq_locked s' = fq_locked s" "fq_posts s' = fq_posts s"
      "fq_resumed s' = fq_resumed s"
    and "\<And>x. x \<noteq> n \<Longrightarrow> rel_option same_core (fq_heap s x) (fq_heap s' x)"
    and "\<And>x. x \<notin> set (xs @ [n]) \<Longrightarrow> fq_heap s' x = fq_heap s x"
    and "\<And>nd. fq_heap s n = Some nd \<Longrightarrow>
          \<exists>nd'. fq_heap s' n = Some nd' \<and> same_core (nd\<lparr>nd_queue := Some (fq_this s)\<rparr>) nd'"
proof -
  from assms(2) obtain nd where nd: "fq_heap s n = Some nd" "nd_prev nd = None" "nd_next nd = None"
    "nd_handle nd" "nd_active nd" by (auto simp: unlinked_def)
  from assms(1) have dist: "distinct xs" and seg: "lseg (fq_heap s) None xs None"
    and ends: "fq_head s = firstd xs None" "fq_tail s = lastd xs None"
    and wait: "\<forall>x\<in>set xs. waiting s x"
    by (simp_all add: queue_rep_def)
  have "\<exists>s'. enqueue_with_lock n s = (Inr (), s') \<and>
      fq_this s' = fq_this s \<and> fq_locked s' = fq_locked s \<and> fq_posts s' = fq_posts s \<and>
      fq_resumed s' = fq_resumed s \<and>
      (\<forall>x. x \<noteq> n \<longrightarrow> rel_option same_core (fq_heap s x) (fq_heap s' x)) \<and>
      (\<forall>x. x \<notin> set (xs @ [n]) \<longrightarrow> fq_heap s' x = fq_heap s x) \<and>
      (\<exists>nd'. fq_heap s' n = Some nd' \<and> same_core (nd\<lparr>nd_queue := Some (fq_this s)\<rparr>) nd') \<and>
      fq_head s' = firstd (xs @ [n]) None \<and> fq_tail s' = lastd (xs @ [n]) None \<and>
      lseg (fq_heap s') None (xs @ [n]) None"
  proof (cases xs rule: rev_cases)
    case Nil
    with nd ends show ?thesis
      by (auto simp: enqueue_with_lock_def queue_ops same_core_def option.rel_refl)
  next
    case (snoc xs' x)
    with nd ends dist seg assms(3) show ?thesis
      by (auto simp: enqueue_with_lock_def queue_ops same_core_def option.rel_refl lseg_append
          firstd_append lastd_append)
  qed
  then obtain s' nd' where s': "enqueue_with_lock n s = (Inr (), s')"
    "fq_this s' = fq_this s" "fq_locked s' = fq_locked s" "fq_posts s' = fq_posts s"
    "fq_resumed s' = fq_resumed s"
    "\<And>x. x \<noteq> n \<Longrightarrow> rel_option same_core (fq_heap s x) (fq_heap s' x)"
    "\<And>x. x \<notin> set (xs @ [n]) \<Longrightarrow> fq_heap s' x = fq_heap s x"
    "fq_heap s' n = Some nd'" "same_core (nd\<lparr>nd_queue := Some (fq_this s)\<rparr>) nd'"
    "fq_head s' = firstd (xs @ [n]) None" "fq_tail s' = lastd (xs @ [n]) None"
    "lseg (fq_heap s') None (xs @ [n]) None" by blast
  have "waiting s' x" if "x \<in> set xs" for x
  proof -
    from that wait obtain a where a: "fq_heap s x = Some a" "nd_queue a = Some (fq_this s)" "nd_handle a" "nd_active a"
      by (auto simp: waiting_def)
    from that assms(3) s'(6) [of x] a(1) obtain b where "fq_heap s' x = Some b" "same_core a b"
      by (auto simp: option_rel_Some1)
    with a s'(2) show ?thesis by (auto simp: waiting_def same_core_def)
  qed
  moreover have "waiting s' n"
    using s'(2,8,9) nd by (auto simp: waiting_def same_core_def)
  ultimately have "queue_rep s' (xs @ [n])"
    using s'(10-12) dist assms(3) by (auto simp: queue_rep_def)
  with that s' nd(1) show thesis by (metis option.inject)
qed

lemma queue_follows:
  assumes "queue_rep s (xs @ n # ys)"
  shows "node_next n s = Inr (firstd ys None)"
  using assms by (auto simp: queue_rep_def lseg_append node_next_def load_def)

interpretation fq: waiter_queue queue_rep unlinked enqueue_with_lock dequeue_with_lock fq_head node_next
proof
  show "distinct xs" if "queue_rep s xs" for s xs
    using that by (simp add: queue_rep_def)
  show "\<exists>s'. enqueue_with_lock n s = (Inr (), s') \<and> queue_rep s' (xs @ [n])"
    if "queue_rep s xs" "unlinked s n" "n \<notin> set xs" for s xs n
    by (rule enqueue_links [OF that]) blast
  show "\<exists>s'. dequeue_with_lock n s = (Inr (), s') \<and> queue_rep s' (xs @ ys)"
    if "queue_rep s (xs @ n # ys)" for s xs n ys
    by (rule dequeue_links [OF that]) blast
  show "fq_head s = firstd xs None" if "queue_rep s xs" for s xs
    using that by (simp add: queue_rep_def)
  show "node_next n s = Inr (firstd ys None)" if "queue_rep s (xs @ n # ys)" for s xs n ys
    by (rule queue_follows [OF that])
qed

end
