(* ===== verification/Filter_Queue_Ops.thy ===== *)
theory Filter_Queue_Ops
  imports Filter_Queue_Facts
begin

text \<open>
  What each operation on the filter queue does to the represented list, to the nodes and to
  the pending and completed resumptions.
\<close>

section \<open>Effects on the nodes\<close>

text \<open>
  Node \<open>n\<close> is changed by \<open>f\<close>, links aside; of the other nodes at most the
  links change, and only of those in \<open>X\<close>.
\<close>

definition node_effect ::
  "FilterQueue \<Rightarrow> FilterQueue \<Rightarrow> nat \<Rightarrow> (NextEventNode \<Rightarrow> NextEventNode) \<Rightarrow> nat set \<Rightarrow> bool" where
  "node_effect s s' n f X \<longleftrightarrow>
     fq_this s' = fq_this s \<and> \<not> fq_locked s' \<and>
     (\<forall>x. x \<noteq> n \<longrightarrow> rel_option same_core (fq_heap s x) (fq_heap s' x)) \<and>
     (\<forall>x. x \<notin> X \<longrightarrow> x \<noteq> n \<longrightarrow> fq_heap s' x = fq_heap s x) \<and>
     (\<forall>nd. fq_heap s n = Some nd \<longrightarrow> (\<exists>nd'. fq_heap s' n = Some nd' \<and> same_core (f nd) nd'))"

lemma queue_rep_cong:
  assumes "queue_rep s xs" and "fq_head s' = fq_head s" "fq_tail s' = fq_tail s" "fq_this s' = fq_this s"
    and "\<And>x. x \<in> set xs \<Longrightarrow> fq_heap s' x = fq_heap s x"
  shows "queue_rep s' xs"
  using assms lseg_cong [of xs "fq_heap s" "fq_heap s'" None None]
  by (auto simp: queue_rep_def waiting_def)

lemma queue_rep_locked [simp]: "queue_rep (s\<lparr>fq_locked := b\<rparr>) xs \<longleftrightarrow> queue_rep s xs"
  by (auto intro: queue_rep_cong)

lemma node_matches_locked [simp]: "node_matches ev p (s\<lparr>fq_locked := b\<rparr>) = node_matches ev p s"
  by (simp add: node_matches_def load_def split: option.splits)

lemma queue_rep_alive:
  assumes "queue_rep s xs" and "n \<in> set xs"
  obtains nd where "fq_heap s n = Some nd" "nd_queue nd = Some (fq_this s)" "nd_handle nd" "nd_active nd"
  using assms by (auto simp: queue_rep_def waiting_def)

section \<open>filter_event\<close>

lemma filter_search:
  assumes "queue_rep s xs" and "length xs < fuel"
  shows "find_match fuel (node_matches ev) node_next (fq_head s) s = first_match (\<lambda>p. node_matches ev p s) xs"
  by (rule fq.search_in_order [OF assms])

lemma filter_search_locked:
  assumes "queue_rep s xs" and "length xs < fuel"
  shows "find_match fuel (node_matches ev) node_next (fq_head s) (s\<lparr>fq_locked := True\<rparr>) =
         first_match (\<lambda>p. node_matches ev p s) xs"
  using filter_search [of "s\<lparr>fq_locked := True\<rparr>" xs fuel ev] assms by simp

lemma filter_event_throws:
  assumes "queue_rep s xs" and "length xs < fuel" and "first_match (\<lambda>p. node_matches ev p s) xs = Inl e"
  shows "filter_event fuel ev s = (Inl e, s\<lparr>fq_locked := False\<rparr>)"
  using assms by (simp add: filter_event_def with_lock_def bindS_def filter_search_locked)

lemma filter_event_none:
  assumes "queue_rep s xs" and "length xs < fuel" and "first_match (\<lambda>p. node_matches ev p s) xs = Inr None"
  shows "filter_event fuel ev s = (Inr False, s\<lparr>fq_locked := False\<rparr>)"
  using assms by (simp add: filter_event_def with_lock_def bindS_def filter_search_locked)

lemma filter_event_found:
  assumes rep: "queue_rep s xs" and fuel: "length xs < fuel"
    and found: "first_match (\<lambda>p. node_matches ev p s) xs = Inr (Some n)"
  obtains s' where "filter_event fuel ev s = (Inr True, s')" and "queue_rep s' (remove1 n xs)"
    and "fq_posts s' = fq_posts s @ [(n, Some ev)]" and "fq_resumed s' = fq_resumed s"
    and "node_effect s s' n (\<lambda>nd. nd\<lparr>nd_active := False\<rparr>) (set xs)"
proof -
  let ?s1 = "s\<lparr>fq_locked := True\<rparr>"
  from found obtain ys zs where xs: "xs = ys @ n # zs" by (auto simp: first_match_Some)
  with rep have dist: "distinct (ys @ n # zs)" by (simp add: queue_rep_def)
  from rep xs have "queue_rep ?s1 (ys @ n # zs)" by simp
  then obtain s2 where s2: "dequeue_with_lock n ?s1 = (Inr (), s2)" "only_links ?s1 s2"
    "queue_rep s2 (ys @ zs)" "\<forall>x. x \<notin> set (ys @ zs) \<longrightarrow> fq_heap s2 x = fq_heap ?s1 x"
    by (rule dequeue_links)
  from rep xs obtain nd where nd: "fq_heap s n = Some nd" "nd_queue nd = Some (fq_this s)"
    by (auto elim: queue_rep_alive)
  from s2(4) dist nd have nd2: "fq_heap s2 n = Some nd" by simp
  let ?s3 = "s2\<lparr>fq_heap := (fq_heap s2)(n \<mapsto> nd\<lparr>nd_active := False\<rparr>),
               fq_posts := fq_posts s2 @ [(n, Some ev)], fq_locked := False\<rparr>"
  have "filter_event fuel ev s = (Inr True, ?s3)"
    using s2(1) nd(2) nd2 rep fuel found
    by (simp add: filter_event_def with_lock_def bindS_def filter_search_locked store_def
        resume_on_scheduler_with_def load_def modify_def)
  moreover have "queue_rep ?s3 (ys @ zs)"
    by (rule queue_rep_cong [OF s2(3)]) (use dist in auto)
  moreover have "remove1 n xs = ys @ zs" using xs dist by (simp add: remove1_append)
  moreover have "node_effect s ?s3 n (\<lambda>nd. nd\<lparr>nd_active := False\<rparr>) (set xs)"
    using s2(2,4) nd xs by (auto simp: node_effect_def only_links_def same_cores_def)
  moreover have "fq_posts ?s3 = fq_posts s @ [(n, Some ev)]" "fq_resumed ?s3 = fq_resumed s"
    using s2(2) by (simp_all add: only_links_def)
  ultimately show thesis using that [of ?s3] by (simp only:)
qed

section \<open>wait\<close>

lemma wait_enqueues:
  assumes rep: "queue_rep s xs" and n: "n \<notin> set xs" "fq_heap s n = Some nd"
    and fresh: "nd_prev nd = None" "nd_next nd = None" "nd_active nd"
  obtains s' where "NextEventNode_wait n s = (Inr (), s')" and "queue_rep s' (xs @ [n])"
    and "fq_posts s' = fq_posts s" and "fq_resumed s' = fq_resumed s"
    and "node_effect s s' n (\<lambda>nd. nd\<lparr>nd_handle := True, nd_queue := Some (fq_this s)\<rparr>) (set xs)"
proof -
  let ?s1 = "s\<lparr>fq_locked := True, fq_heap := (fq_heap s)(n \<mapsto> nd\<lparr>nd_handle := True\<rparr>)\<rparr>"
  have rep1: "queue_rep ?s1 xs" by (rule queue_rep_cong [OF rep]) (use n in auto)
  have unl: "unlinked ?s1 n" using fresh by (simp add: unlinked_def)
  from enqueue_links [OF rep1 unl n(1)] obtain s2 where s2: "enqueue_with_lock n ?s1 = (Inr (), s2)"
    "queue_rep s2 (xs @ [n])" "fq_this s2 = fq_this s" "fq_posts s2 = fq_posts s" "fq_resumed s2 = fq_resumed s"
    "\<And>x. x \<noteq> n \<Longrightarrow> rel_option same_core (fq_heap s x) (fq_heap s2 x)"
    "\<And>x. x \<notin> set (xs @ [n]) \<Longrightarrow> fq_heap s2 x = fq_heap s x"
    "\<exists>nd'. fq_heap s2 n = Some nd' \<and> same_core (nd\<lparr>nd_handle := True, nd_queue := Some (fq_this s)\<rparr>) nd'"
    by simp metis
  let ?s3 = "s2\<lparr>fq_locked := False\<rparr>"
  have "NextEventNode_wait n s = (Inr (), ?s3)"
    using s2(1) n(2) by (simp add: NextEventNode_wait_def bindS_def lock_def unlock_def modify_def store_def)
  moreover have "node_effect s ?s3 n (\<lambda>nd. nd\<lparr>nd_handle := True, nd_queue := Some (fq_this s)\<rparr>) (set xs)"
    using s2(3,6-8) n by (auto simp: node_effect_def)
  ultimately show thesis using that [of ?s3] s2(2,4,5) by simp
qed

section \<open>cancel_task\<close>

lemma cancel_task_active:
  assumes rep: "queue_rep s xs" and n: "n \<in> set xs"
  obtains s' where "cancel_task n s = (Inr (), s')" and "queue_rep s' (remove1 n xs)"
    and "fq_posts s' = fq_posts s" and "fq_resumed s' = fq_resumed s @ [(n, None)]"
    and "node_effect s s' n (\<lambda>nd. nd\<lparr>nd_res := None\<rparr>) (set xs)"
proof -
  let ?s1 = "s\<lparr>fq_locked := True\<rparr>"
  from n obtain ys zs where xs: "xs = ys @ n # zs" by (auto dest: split_list)
  with rep have dist: "distinct (ys @ n # zs)" by (simp add: queue_rep_def)
  from rep xs have "queue_rep ?s1 (ys @ n # zs)" by simp
  then obtain s2 where s2: "dequeue_with_lock n ?s1 = (Inr (), s2)" "only_links ?s1 s2"
    "queue_rep s2 (ys @ zs)" "\<forall>x. x \<notin> set (ys @ zs) \<longrightarrow> fq_heap s2 x = fq_heap ?s1 x"
    by (rule dequeue_links)
  from rep n obtain nd where nd: "fq_heap s n = Some nd" "nd_queue nd = Some (fq_this s)" "nd_handle nd" "nd_active nd"
    by (rule queue_rep_alive)
  from s2(4) dist nd have nd2: "fq_heap s2 n = Some nd" by simp
  let ?s3 = "s2\<lparr>fq_locked := False, fq_heap := (fq_heap s2)(n \<mapsto> nd\<lparr>nd_res := None\<rparr>),
               fq_resumed := fq_resumed s2 @ [(n, None)]\<rparr>"
  have "cancel_task n s = (Inr (), ?s3)"
    using s2(1) nd nd2
    by (simp add: cancel_task_def bindS_def load_def lock_def unlock_def modify_def resume_with_def store_def)
  moreover have "queue_rep ?s3 (ys @ zs)"
    by (rule queue_rep_cong [OF s2(3)]) (use dist in auto)
  moreover have "remove1 n xs = ys @ zs" using xs dist by (simp add: remove1_append)
  moreover have "node_effect s ?s3 n (\<lambda>nd. nd\<lparr>nd_res := None\<rparr>) (set xs)"
    using s2(2,4) nd xs by (auto simp: node_effect_def only_links_def same_cores_def)
  moreover have "fq_posts ?s3 = fq_posts s" "fq_resumed ?s3 = fq_resumed s @ [(n, None)]"
    using s2(2) by (simp_all add: only_links_def)
  ultimately show thesis using that [of ?s3] by (simp only:)
qed

lemma cancel_task_inactive:
  assumes "fq_heap s n = Some nd" "nd_queue nd \<noteq> None" "\<not> nd_active nd"
  shows "cancel_task n s = (Inr (), s\<lparr>fq_locked := False\<rparr>)"
  using assms by (auto simp: cancel_task_def bindS_def load_def lock_def unlock_def modify_def)

section \<open>cancel_all\<close>

lemma cancel_loop_posts_all:
  assumes "queue_rep s xs" and "length xs < fuel" and "fq_posts s = ps"
  shows "\<exists>s'. cancel_loop fuel s = (Inr (), s') \<and> fq_head s' = None \<and> fq_this s' = fq_this s \<and>
           fq_posts s' = ps @ map (\<lambda>x. (x, None)) xs \<and> fq_resumed s' = fq_resumed s \<and>
           (\<forall>x\<in>set xs. \<exists>nd. fq_heap s' x = Some nd \<and> \<not> nd_active nd) \<and>
           (\<forall>x. x \<notin> set xs \<longrightarrow> fq_heap s' x = fq_heap s x)"
proof -
  have "lseg (fq_heap s) p xs None \<Longrightarrow> distinct xs \<Longrightarrow> \<forall>x\<in>set xs. waiting s x \<Longrightarrow>
      fq_head s = firstd xs None \<Longrightarrow> length xs < fuel \<Longrightarrow> fq_posts s = ps \<Longrightarrow> ?thesis" for p
  proof (induction xs arbitrary: s p fuel ps)
    case Nil
    then show ?case by (cases fuel) (simp_all add: bindS_def gets_def)
  next
    case (Cons x xs)
    from Cons.prems(5) obtain k where fuel: "fuel = Suc k" "length xs < k" by (cases fuel) auto
    from Cons.prems(1,3) obtain nd where nd: "fq_heap s x = Some nd" "nd_next nd = firstd xs None"
      "nd_queue nd = Some (fq_this s)" by (auto simp: waiting_def)
    let ?s1 = "s\<lparr>fq_heap := (fq_heap s)(x \<mapsto> nd\<lparr>nd_active := False\<rparr>), fq_posts := ps @ [(x, None)],
                 fq_head := firstd xs None\<rparr>"
    have step: "cancel_loop fuel s = cancel_loop k ?s1"
      using fuel nd Cons.prems(4,6)
      by (simp add: bindS_def gets_def load_def store_def resume_on_scheduler_with_def modify_def)
    have seg: "lseg (fq_heap ?s1) (Some x) xs None" using Cons.prems(1,2) by auto
    have wait: "\<forall>y\<in>set xs. waiting ?s1 y" using Cons.prems(2,3) by (auto simp: waiting_def)
    from Cons.IH [OF seg _ wait _ fuel(2), of "ps @ [(x, None)]"] Cons.prems(2)
    have "\<exists>s'. cancel_loop k ?s1 = (Inr (), s') \<and> fq_head s' = None \<and> fq_this s' = fq_this ?s1 \<and>
        fq_posts s' = (ps @ [(x, None)]) @ map (\<lambda>x. (x, None)) xs \<and> fq_resumed s' = fq_resumed ?s1 \<and>
        (\<forall>y\<in>set xs. \<exists>nd. fq_heap s' y = Some nd \<and> \<not> nd_active nd) \<and>
        (\<forall>y. y \<notin> set xs \<longrightarrow> fq_heap s' y = fq_heap ?s1 y)"
      by (simp del: fun_upd_apply)
    then show ?case using step Cons.prems(2) by auto
  qed
  with assms show ?thesis by (auto simp: queue_rep_def)
qed

text \<open>A queue of two waiters, the second of which accepts every event.\<close>

definition example_waiter :: "nat option \<Rightarrow> nat option \<Rightarrow> bool \<Rightarrow> NextEventNode" where
  "example_waiter prev next b =
     \<lparr>nd_queue = Some 5, nd_prev = prev, nd_next = next, nd_active = True, nd_match = (\<lambda>e. Inr b),
      nd_handle = True, nd_res = None\<rparr>"

definition example_queue :: FilterQueue where
  "example_queue =
     \<lparr>fq_this = 5, fq_head = Some 10, fq_tail = Some 20, fq_locked = False,
      fq_heap = [10 \<mapsto> example_waiter None (Some 20) False, 20 \<mapsto> example_waiter (Some 10) None True],
      fq_posts = [], fq_resumed = []\<rparr>"

lemma example_queue_rep: "queue_rep example_queue [10, 20]"
  by (simp add: example_queue_def example_waiter_def queue_rep_def waiting_def)

text \<open>
  \<open>cancel_all\<close> leaves an empty queue, posts one resumption
  without an event for every waiter, oldest first, and deactivates them, so that a
  \<open>cancel_task\<close> that comes later finds nothing to do.
\<close>

theorem cancel_all_empties:
  assumes "queue_rep s xs" and "length xs < fuel"
  shows "\<exists>s'. cancel_all fuel s = (Inr (), s') \<and> queue_rep s' [] \<and>
           fq_posts s' = fq_posts s @ map (\<lambda>x. (x, None)) xs \<and> \<not> fq_locked s' \<and>
           (\<forall>x\<in>set xs. \<exists>nd. fq_heap s' x = Some nd \<and> \<not> nd_active nd)"
proof -
  from assms(1) have "queue_rep (s\<lparr>fq_locked := True\<rparr>) xs" by simp
  from cancel_loop_posts_all [OF this assms(2) refl] show ?thesis
    by (auto simp: cancel_all_def with_lock_def bindS_def modify_def queue_rep_def)
qed

theorem cancel_all_empties_witness:
  "\<exists>s'. cancel_all 3 example_queue = (Inr (), s') \<and> queue_rep s' [] \<and>
     fq_posts s' = fq_posts example_queue @ map (\<lambda>x. (x, None)) [10, 20] \<and> \<not> fq_locked s' \<and>
     (\<forall>x\<in>set [10, 20]. \<exists>nd. fq_heap s' x = Some nd \<and> \<not> nd_active nd)"
  by (rule cancel_all_empties [OF example_queue_rep]) simp

text \<open>
  C11: an event goes to the oldest waiter whose filter accepts it, and to
  no other: the waiters before it are asked in order and decline, it leaves the queue, and
  its resumption with the event is posted.
\<close>

theorem filter_event_fifo:
  assumes "queue_rep s xs" and "length xs < fuel" and "filter_event fuel ev s = (Inr True, s')"
  shows "\<exists>ys n zs. xs = ys @ n # zs \<and> queue_rep s' (ys @ zs) \<and>
           fq_posts s' = fq_posts s @ [(n, Some ev)] \<and> fq_resumed s' = fq_resumed s \<and> \<not> fq_locked s' \<and>
           node_matches ev n s = Inr True \<and> list_all (\<lambda>y. node_matches ev y s = Inr False) ys"
proof -
  consider e where "first_match (\<lambda>p. node_matches ev p s) xs = Inl e"
    | "first_match (\<lambda>p. node_matches ev p s) xs = Inr None"
    | n where "first_match (\<lambda>p. node_matches ev p s) xs = Inr (Some n)"
    by (metis old.sum.exhaust option.exhaust)
  then show ?thesis
  proof cases
    case (3 n)
    then obtain ys zs where xs: "xs = ys @ n # zs" "node_matches ev n s = Inr True"
      "\<forall>y\<in>set ys. node_matches ev y s = Inr False" by (auto simp: first_match_Some)
    with assms(1) have "remove1 n xs = ys @ zs" by (auto simp: queue_rep_def remove1_append)
    with filter_event_found [OF assms(1,2) 3] assms(3) xs show ?thesis
      by (auto simp: node_effect_def list_all_iff)
  qed (use assms filter_event_throws filter_event_none in fastforce)+
qed

lemma example_filter: "\<exists>s'. filter_event 3 ev example_queue = (Inr True, s')"
  using filter_event_found [OF example_queue_rep, of 3 ev 20]
  by (simp add: example_queue_def example_waiter_def node_matches_def load_def) blast

theorem filter_event_fifo_witness:
  "\<forall>ev. \<exists>s'. filter_event 3 ev example_queue = (Inr True, s') \<and>
     (\<exists>ys n zs. [10, 20] = ys @ n # zs \<and> queue_rep s' (ys @ zs) \<and>
        fq_posts s' = fq_posts example_queue @ [(n, Some ev)] \<and> fq_resumed s' = fq_resumed example_queue \<and>
        \<not> fq_locked s' \<and> node_matches ev n example_queue = Inr True \<and>
        list_all (\<lambda>y. node_matches ev y example_queue = Inr False) ys)"
proof
  fix ev
  from example_filter [of ev] obtain s' where "filter_event 3 ev example_queue = (Inr True, s')" ..
  with filter_event_fifo [OF example_queue_rep _ this]
  show "\<exists>s'. filter_event 3 ev example_queue = (Inr True, s') \<and>
     (\<exists>ys n zs. [10, 20] = ys @ n # zs \<and> queue_rep s' (ys @ zs) \<and>
        fq_posts s' = fq_posts example_queue @ [(n, Some ev)] \<and> fq_resumed s' = fq_resumed example_queue \<and>
        \<not> fq_locked s' \<and> node_matches ev n example_queue = Inr True \<and>
        list_all (\<lambda>y. node_matches ev y example_queue = Inr False) ys)" by fastforce
qed

end
