(* ===== verification/Waiter_System.thy ===== *)
theory Waiter_System
  imports Filter_Queue_Ops
begin

text \<open>
  The life of the waiters of \<open>Bot::next_event_async\<close> (\<open>core/bot.h\<close>,
  \<open>detail/filter/next_event.h\<close>): a coroutine constructs a node and registers a stop
  callback, waits, is resumed with an event or with nothing, and destroys the node when it
  ends.  Stop requests, arriving events, posted resumptions and spawned cancel tasks come in
  any order; the sections under the mutex are atomic.
\<close>

section \<open>The system\<close>

text \<open>
  \<open>ws_tasks\<close> are the cancel tasks spawned and not yet run, \<open>ws_cancelled\<close> the
  nodes whose stop callback has run (it runs once), \<open>ws_spawned\<close> the addresses of all
  nodes so far with their \<open>match_filter\<close>, newest first.  The last two only record
  history.
\<close>

record system =
  ws_queue :: FilterQueue
  ws_tasks :: "nat list"
  ws_cancelled :: "nat list"
  ws_spawned :: "(nat \<times> (Event \<Rightarrow> bool res)) list"

definition system_init :: "nat \<Rightarrow> system" where
  "system_init this =
     \<lparr>ws_queue = FilterQueue_init this, ws_tasks = [], ws_cancelled = [], ws_spawned = []\<rparr>"

text \<open>
  \<open>Construct\<close>: \<open>next_event_async\<close> starts; \<open>Wait\<close>: its \<open>wait\<close>
  gets the lock; \<open>Stop\<close>: its stop callback runs; \<open>Cancel_task\<close>: a spawned task
  gets the lock; \<open>Arrive\<close>: \<open>filter_event\<close> gets the lock; \<open>Run_post\<close>: the
  scheduler runs a posted resumption; \<open>Finish\<close>: a resumed coroutine ends.
\<close>

datatype action =
    Construct nat "Event \<Rightarrow> bool res"
  | Wait nat
  | Stop nat
  | Cancel_task nat
  | Arrive Event
  | Run_post nat "Event option"
  | Finish nat

fun enabled :: "action \<Rightarrow> system \<Rightarrow> bool" where
  "enabled (Construct n m) s = (n \<notin> fst ` set (ws_spawned s))"
| "enabled (Wait n) s = (case fq_heap (ws_queue s) n of Some nd \<Rightarrow> \<not> nd_handle nd | None \<Rightarrow> False)"
| "enabled (Stop n) s = (fq_heap (ws_queue s) n \<noteq> None \<and> n \<notin> set (ws_cancelled s))"
| "enabled (Cancel_task n) s = (n \<in> set (ws_tasks s))"
| "enabled (Arrive ev) s = True"
| "enabled (Run_post n ev) s = ((n, ev) \<in> set (fq_posts (ws_queue s)))"
| "enabled (Finish n) s = (n \<in> fst ` set (fq_resumed (ws_queue s)) \<and> fq_heap (ws_queue s) n \<noteq> None)"

text \<open>
  An exception a filter throws leaves \<open>filter_event\<close> and is handled by the event
  loop, which goes on.
\<close>

definition on_queue :: "(FilterQueue, 'a) act \<Rightarrow> system \<Rightarrow> system res" where
  "on_queue f s =
     (case f (ws_queue s) of
        (Inr _, q) \<Rightarrow> Inr (s\<lparr>ws_queue := q\<rparr>)
      | (Inl (Throw e), q) \<Rightarrow> Inr (s\<lparr>ws_queue := q\<rparr>)
      | (Inl e, q) \<Rightarrow> Inl e)"

definition filter_fuel :: "system \<Rightarrow> nat" where
  "filter_fuel s = Suc (length (ws_spawned s))"

fun perform :: "action \<Rightarrow> system \<Rightarrow> system res" where
  "perform (Construct n m) s =
     Inr (s\<lparr>ws_queue := (ws_queue s)\<lparr>fq_heap := (fq_heap (ws_queue s))(n \<mapsto> FilterNodeBase_new m)\<rparr>,
            ws_spawned := (n, m) # ws_spawned s\<rparr>)"
| "perform (Wait n) s = on_queue (NextEventNode_wait n) s"
| "perform (Stop n) s =
     bindE (on_queue (request_cancel n) s) (\<lambda>s.
     Inr (s\<lparr>ws_tasks := ws_tasks s @ [n], ws_cancelled := n # ws_cancelled s\<rparr>))"
| "perform (Cancel_task n) s =
     bindE (on_queue (cancel_task n) s) (\<lambda>s. Inr (s\<lparr>ws_tasks := remove1 n (ws_tasks s)\<rparr>))"
| "perform (Arrive ev) s = on_queue (filter_event (filter_fuel s) ev) s"
| "perform (Run_post n ev) s =
     bindE (on_queue (resume_with n ev) s) (\<lambda>s.
     Inr (s\<lparr>ws_queue := (ws_queue s)\<lparr>fq_posts := remove1 (n, ev) (fq_posts (ws_queue s))\<rparr>\<rparr>))"
| "perform (Finish n) s =
     Inr (s\<lparr>ws_queue := (ws_queue s)\<lparr>fq_heap := (fq_heap (ws_queue s))(n := None)\<rparr>\<rparr>)"

text \<open>Runs of the system in which nothing went wrong so far.\<close>

inductive reachable :: "nat \<Rightarrow> system \<Rightarrow> bool" for this :: nat where
  start: "reachable this (system_init this)"
| step: "reachable this s \<Longrightarrow> enabled a s \<Longrightarrow> perform a s = Inr s' \<Longrightarrow> reachable this s'"

text \<open>
  What a caller would have to guarantee for the code to be safe: no stop request before the
  node is in the queue, and no end of the coroutine while a cancel task for its node is
  pending.
\<close>

fun careful :: "action \<Rightarrow> system \<Rightarrow> bool" where
  "careful (Stop n) s = (case fq_heap (ws_queue s) n of Some nd \<Rightarrow> nd_handle nd | None \<Rightarrow> False)"
| "careful (Finish n) s = (n \<notin> set (ws_tasks s))"
| "careful _ s = True"

inductive careful_run :: "nat \<Rightarrow> system \<Rightarrow> bool" for this :: nat where
  careful_start: "careful_run this (system_init this)"
| careful_step: "careful_run this s \<Longrightarrow> enabled a s \<Longrightarrow> careful a s \<Longrightarrow> perform a s = Inr s' \<Longrightarrow>
    careful_run this s'"

inductive_cases careful_runE: "careful_run this s"

lemma careful_reachable: "careful_run this s \<Longrightarrow> reachable this s"
  by (induction rule: careful_run.induct) (auto intro: reachable.intros)

section \<open>The invariant\<close>

text \<open>
  A node is new, in the queue, posted, or resumed, and the four exclude each other.
\<close>

definition node_inv :: "system \<Rightarrow> nat list \<Rightarrow> nat \<Rightarrow> NextEventNode \<Rightarrow> bool" where
  "node_inv s xs n nd \<longleftrightarrow>
     (n, nd_match nd) \<in> set (ws_spawned s) \<and>
     (\<forall>r. (n, r) \<in> set (fq_resumed (ws_queue s)) \<longrightarrow> nd_res nd = r) \<and>
     (if nd_handle nd
      then nd_queue nd = Some (fq_this (ws_queue s)) \<and>
           (n \<in> set xs \<or> \<not> nd_active nd \<or> n \<notin> set (ws_tasks s) \<and> n \<in> set (ws_cancelled s))
      else nd_queue nd = None \<and> nd_active nd \<and> nd_prev nd = None \<and> nd_next nd = None \<and>
           n \<notin> set xs \<and> n \<notin> fst ` set (fq_posts (ws_queue s)) \<and>
           n \<notin> fst ` set (fq_resumed (ws_queue s)) \<and> n \<notin> set (ws_tasks s))"

definition delivered :: "system \<Rightarrow> (nat \<times> Event option) list" where
  "delivered s = fq_posts (ws_queue s) @ fq_resumed (ws_queue s)"

definition system_inv :: "system \<Rightarrow> nat list \<Rightarrow> bool" where
  "system_inv s xs \<longleftrightarrow>
     queue_rep (ws_queue s) xs \<and> \<not> fq_locked (ws_queue s) \<and>
     distinct (map fst (ws_spawned s)) \<and> distinct (map fst (delivered s)) \<and>
     set xs \<inter> fst ` set (delivered s) = {} \<and>
     set xs \<union> fst ` set (delivered s) \<subseteq> fst ` set (ws_spawned s) \<and>
     (\<forall>n nd. fq_heap (ws_queue s) n = Some nd \<longrightarrow> node_inv s xs n nd) \<and>
     (\<forall>(n, r)\<in>set (fq_posts (ws_queue s)).
        \<exists>nd. fq_heap (ws_queue s) n = Some nd \<and> \<not> nd_active nd \<and> nd_handle nd) \<and>
     (\<forall>n m ev. (n, m) \<in> set (ws_spawned s) \<longrightarrow> (n, Some ev) \<in> set (delivered s) \<longrightarrow> m ev = Inr True) \<and>
     distinct (ws_tasks s) \<and> set (ws_tasks s) \<subseteq> set (ws_cancelled s) \<and>
     set (ws_cancelled s) \<subseteq> fst ` set (ws_spawned s)"

lemma system_invD:
  assumes "system_inv s xs"
  shows "queue_rep (ws_queue s) xs" "\<not> fq_locked (ws_queue s)"
    "distinct (map fst (ws_spawned s))" "distinct (map fst (delivered s))"
    "set xs \<inter> fst ` set (delivered s) = {}"
    "set xs \<union> fst ` set (delivered s) \<subseteq> fst ` set (ws_spawned s)"
    "\<And>n nd. fq_heap (ws_queue s) n = Some nd \<Longrightarrow> node_inv s xs n nd"
    "\<And>n r. (n, r) \<in> set (fq_posts (ws_queue s)) \<Longrightarrow>
       \<exists>nd. fq_heap (ws_queue s) n = Some nd \<and> \<not> nd_active nd \<and> nd_handle nd"
    "\<And>n m ev. (n, m) \<in> set (ws_spawned s) \<Longrightarrow> (n, Some ev) \<in> set (delivered s) \<Longrightarrow> m ev = Inr True"
    "distinct (ws_tasks s)" "set (ws_tasks s) \<subseteq> set (ws_cancelled s)"
    "set (ws_cancelled s) \<subseteq> fst ` set (ws_spawned s)"
  using assms unfolding system_inv_def by blast+

text \<open>
  A step about node \<open>n\<close>: the nodes other than \<open>n\<close> keep their state and their
  place, and the lists change in \<open>n\<close> at most.
\<close>

definition step_frame :: "nat \<Rightarrow> system \<Rightarrow> nat list \<Rightarrow> system \<Rightarrow> nat list \<Rightarrow> bool" where
  "step_frame n s xs s' xs' \<longleftrightarrow>
     fq_this (ws_queue s') = fq_this (ws_queue s) \<and>
     (\<forall>x. x \<noteq> n \<longrightarrow> rel_option same_core (fq_heap (ws_queue s) x) (fq_heap (ws_queue s') x)) \<and>
     (\<forall>x. x \<notin> set xs \<longrightarrow> x \<noteq> n \<longrightarrow> fq_heap (ws_queue s') x = fq_heap (ws_queue s) x) \<and>
     set (ws_spawned s) \<subseteq> set (ws_spawned s') \<and> set xs - {n} \<subseteq> set xs' \<and> set xs' \<subseteq> insert n (set xs) \<and>
     fst ` set (fq_posts (ws_queue s')) \<subseteq> insert n (fst ` set (fq_posts (ws_queue s))) \<and>
     (\<forall>x r. x \<noteq> n \<longrightarrow> (x, r) \<in> set (fq_resumed (ws_queue s')) \<longrightarrow> (x, r) \<in> set (fq_resumed (ws_queue s))) \<and>
     set (ws_tasks s') \<subseteq> insert n (set (ws_tasks s)) \<and> set (ws_cancelled s) \<subseteq> set (ws_cancelled s')"

lemma step_frameD:
  assumes "step_frame n s xs s' xs'" and "m \<noteq> n"
  shows "m \<in> set xs \<Longrightarrow> m \<in> set xs'" "m \<in> set (ws_tasks s') \<Longrightarrow> m \<in> set (ws_tasks s)"
    "m \<in> set (ws_cancelled s) \<Longrightarrow> m \<in> set (ws_cancelled s')"
    "m \<in> set xs' \<Longrightarrow> m \<in> set xs"
    "m \<in> fst ` set (fq_posts (ws_queue s')) \<Longrightarrow> m \<in> fst ` set (fq_posts (ws_queue s))"
    "(m, r) \<in> set (fq_resumed (ws_queue s')) \<Longrightarrow> (m, r) \<in> set (fq_resumed (ws_queue s))"
  using assms by (auto simp: step_frame_def)

lemma others_inv:
  assumes inv: "system_inv s xs" and frame: "step_frame n s xs s' xs'"
    and m: "m \<noteq> n" "fq_heap (ws_queue s') m = Some nd'"
  shows "node_inv s' xs' m nd'"
proof -
  from frame m obtain nd where nd: "fq_heap (ws_queue s) m = Some nd" "same_core nd nd'"
    unfolding step_frame_def by (metis option_rel_Some2)
  from system_invD(7) [OF inv nd(1)] have old: "node_inv s xs m nd" .
  have res: "\<forall>r. (m, r) \<in> set (fq_resumed (ws_queue s')) \<longrightarrow> nd_res nd' = r"
    using old nd(2) frame m(1) by (auto simp: node_inv_def same_core_def step_frame_def)
  show ?thesis
  proof (cases "nd_handle nd")
    case True
    have "fq_this (ws_queue s') = fq_this (ws_queue s)" using frame by (simp add: step_frame_def)
    with old True nd(2) have "nd_handle nd'" "nd_queue nd' = Some (fq_this (ws_queue s'))"
      by (auto simp: node_inv_def same_core_def)
    moreover have "(m, nd_match nd') \<in> set (ws_spawned s')"
      using old nd(2) frame by (auto simp: node_inv_def same_core_def step_frame_def)
    moreover have "m \<in> set xs \<or> \<not> nd_active nd' \<or> m \<notin> set (ws_tasks s) \<and> m \<in> set (ws_cancelled s)"
      using old True nd(2) by (auto simp: node_inv_def same_core_def)
    then have "m \<in> set xs' \<or> \<not> nd_active nd' \<or> m \<notin> set (ws_tasks s') \<and> m \<in> set (ws_cancelled s')"
      using step_frameD(1-3) [OF frame m(1)] by auto
    ultimately show ?thesis using res by (simp add: node_inv_def)
  next
    case False
    with old have off: "m \<notin> set xs" "m \<notin> fst ` set (fq_posts (ws_queue s))"
      "m \<notin> fst ` set (fq_resumed (ws_queue s))" "m \<notin> set (ws_tasks s)" by (auto simp: node_inv_def)
    with frame m nd(1) have same: "nd' = nd" by (simp add: step_frame_def)
    have "m \<notin> set xs'" "m \<notin> set (ws_tasks s')" "m \<notin> fst ` set (fq_posts (ws_queue s'))"
      using step_frameD(2,4,5) [OF frame m(1)] off(1,2,4) by auto
    moreover have "m \<notin> fst ` set (fq_resumed (ws_queue s'))"
      using step_frameD(6) [OF frame m(1)] off(3) by force
    moreover have "(m, nd_match nd) \<in> set (ws_spawned s')"
      using old frame by (auto simp: node_inv_def step_frame_def)
    ultimately show ?thesis using old False same res by (simp add: node_inv_def)
  qed
qed

lemma others_posted:
  assumes inv: "system_inv s xs" and frame: "step_frame n s xs s' xs'"
    and m: "m \<noteq> n" "(m, r) \<in> set (fq_posts (ws_queue s))"
  shows "\<exists>nd. fq_heap (ws_queue s') m = Some nd \<and> \<not> nd_active nd \<and> nd_handle nd"
proof -
  from system_invD(8) [OF inv m(2)] obtain nd where
    nd: "fq_heap (ws_queue s) m = Some nd" "\<not> nd_active nd" "nd_handle nd" by blast
  with frame m(1) obtain nd' where "fq_heap (ws_queue s') m = Some nd'" "same_core nd nd'"
    unfolding step_frame_def by (metis option_rel_Some1)
  with nd show ?thesis by (auto simp: same_core_def)
qed

lemma frame_of_effect:
  assumes "node_effect (ws_queue s) (ws_queue s') n f (set xs)"
    and "ws_spawned s' = ws_spawned s" "set xs - {n} \<subseteq> set xs'" "set xs' \<subseteq> insert n (set xs)"
    and "fst ` set (fq_posts (ws_queue s')) \<subseteq> insert n (fst ` set (fq_posts (ws_queue s)))"
    and "\<And>x r. x \<noteq> n \<Longrightarrow> (x, r) \<in> set (fq_resumed (ws_queue s')) \<Longrightarrow> (x, r) \<in> set (fq_resumed (ws_queue s))"
    and "set (ws_tasks s') \<subseteq> insert n (set (ws_tasks s))" "ws_cancelled s' = ws_cancelled s"
  shows "step_frame n s xs s' xs'"
  using assms by (simp add: step_frame_def node_effect_def)

text \<open>Composing an invariant from the subject node and the others.\<close>

lemma system_invI:
  assumes inv: "system_inv s xs" and frame: "step_frame n s xs s' xs'"
    and "queue_rep (ws_queue s') xs'" "\<not> fq_locked (ws_queue s')"
    and "distinct (map fst (ws_spawned s'))" "distinct (map fst (delivered s'))"
    and "set xs' \<inter> fst ` set (delivered s') = {}"
    and "set xs' \<union> fst ` set (delivered s') \<subseteq> fst ` set (ws_spawned s')"
    and subject: "\<And>nd. fq_heap (ws_queue s') n = Some nd \<Longrightarrow> node_inv s' xs' n nd"
    and posts: "\<And>m r. (m, r) \<in> set (fq_posts (ws_queue s')) \<Longrightarrow> m \<noteq> n \<Longrightarrow> (m, r) \<in> set (fq_posts (ws_queue s))"
      "n \<in> fst ` set (fq_posts (ws_queue s')) \<Longrightarrow>
         \<exists>nd. fq_heap (ws_queue s') n = Some nd \<and> \<not> nd_active nd \<and> nd_handle nd"
    and matched: "\<And>m k ev. (m, k) \<in> set (ws_spawned s') \<Longrightarrow> (m, Some ev) \<in> set (delivered s') \<Longrightarrow> k ev = Inr True"
    and "distinct (ws_tasks s')" "set (ws_tasks s') \<subseteq> set (ws_cancelled s')"
    and "set (ws_cancelled s') \<subseteq> fst ` set (ws_spawned s')"
  shows "system_inv s' xs'"
proof -
  have "node_inv s' xs' m nd" if "fq_heap (ws_queue s') m = Some nd" for m nd
    using others_inv [OF inv frame _ that] subject that by (cases "m = n") auto
  moreover have "\<exists>nd. fq_heap (ws_queue s') m = Some nd \<and> \<not> nd_active nd \<and> nd_handle nd"
    if "(m, r) \<in> set (fq_posts (ws_queue s'))" for m r
  proof (cases "m = n")
    case True
    with posts(2) that show ?thesis by (metis fst_conv image_eqI)
  next
    case False
    from others_posted [OF inv frame False posts(1) [OF that False]] show ?thesis .
  qed
  ultimately show ?thesis unfolding system_inv_def using assms by fast
qed

section \<open>Every action keeps the invariant\<close>

lemma init_inv: "system_inv (system_init this) []"
  by (simp add: system_inv_def system_init_def FilterQueue_init_def queue_rep_def delivered_def)

lemma construct_inv:
  assumes inv: "system_inv s xs" and n: "n \<notin> fst ` set (ws_spawned s)" and "perform (Construct n m) s = Inr s'"
  shows "system_inv s' xs"
proof -
  note I = system_invD [OF inv]
  have s': "s' = s\<lparr>ws_queue := (ws_queue s)\<lparr>fq_heap := (fq_heap (ws_queue s))(n \<mapsto> FilterNodeBase_new m)\<rparr>,
      ws_spawned := (n, m) # ws_spawned s\<rparr>"
    using assms(3) by simp
  have fresh: "n \<notin> set xs" "n \<notin> fst ` set (delivered s)" "n \<notin> set (ws_cancelled s)" "n \<notin> set (ws_tasks s)"
    using n I(6,11,12) by auto
  then have undelivered: "(n, r) \<notin> set (delivered s)" for r by force
  have rep: "queue_rep (ws_queue s') xs"
    by (rule queue_rep_cong [OF I(1)]) (use fresh s' in auto)
  have frame: "step_frame n s xs s' xs"
    using s' by (auto simp: step_frame_def option.rel_refl)
  show ?thesis
  proof (rule system_invI [OF inv frame rep])
    show "node_inv s' xs n nd" if "fq_heap (ws_queue s') n = Some nd" for nd
      using that s' fresh undelivered by (auto simp: node_inv_def FilterNodeBase_new_def delivered_def)
    show "k ev = Inr True" if "(j, k) \<in> set (ws_spawned s')" "(j, Some ev) \<in> set (delivered s')" for j k ev
      using that s' I(9) [of j k ev] undelivered by (auto simp: delivered_def)
  qed (use I fresh n s' in \<open>auto simp: delivered_def\<close>)
qed

lemma wait_inv:
  assumes inv: "system_inv s xs" and "enabled (Wait n) s" and "perform (Wait n) s = Inr s'"
  shows "system_inv s' (xs @ [n])"
proof -
  note I = system_invD [OF inv]
  from assms(2) obtain nd where nd: "fq_heap (ws_queue s) n = Some nd" "\<not> nd_handle nd"
    by (auto split: option.splits)
  from I(7) [OF nd(1)] nd(2) have new: "nd_prev nd = None" "nd_next nd = None" "nd_active nd" "n \<notin> set xs"
    "n \<notin> fst ` set (delivered s)" "n \<notin> set (ws_tasks s)" "(n, nd_match nd) \<in> set (ws_spawned s)"
    by (auto simp: node_inv_def delivered_def)
  then have known: "n \<in> fst ` set (ws_spawned s)" and undelivered: "(n, r) \<notin> set (delivered s)" for r
    by force+
  from wait_enqueues [OF I(1) new(4) nd(1) new(1-3)] obtain q where
    q: "NextEventNode_wait n (ws_queue s) = (Inr (), q)" "queue_rep q (xs @ [n])"
    "fq_posts q = fq_posts (ws_queue s)" "fq_resumed q = fq_resumed (ws_queue s)"
    "node_effect (ws_queue s) q n (\<lambda>nd. nd\<lparr>nd_handle := True, nd_queue := Some (fq_this (ws_queue s))\<rparr>) (set xs)"
    by blast
  with assms(3) have s': "s' = s\<lparr>ws_queue := q\<rparr>" by (simp add: on_queue_def)
  have frame: "step_frame n s xs s' (xs @ [n])"
    by (rule frame_of_effect [where f = "\<lambda>nd. nd\<lparr>nd_handle := True, nd_queue := Some (fq_this (ws_queue s))\<rparr>"])
      (use q s' in auto)
  have same: "delivered s' = delivered s" using q s' by (simp add: delivered_def)
  show ?thesis
  proof (rule system_invI [OF inv frame])
    show "node_inv s' (xs @ [n]) n nd'" if "fq_heap (ws_queue s') n = Some nd'" for nd'
      using that s' q(4,5) nd(1) new(7) undelivered
      by (auto simp: node_inv_def node_effect_def same_core_def delivered_def)
    show "k ev = Inr True" if "(j, k) \<in> set (ws_spawned s')" "(j, Some ev) \<in> set (delivered s')" for j k ev
      using that s' same I(9) [of j k ev] by simp
  qed (use I q s' same new known in \<open>auto simp: node_effect_def delivered_def\<close>)
qed

lemma stop_inv:
  assumes inv: "system_inv s xs" and "enabled (Stop n) s" and "perform (Stop n) s = Inr s'"
  shows "system_inv s' xs"
proof -
  note I = system_invD [OF inv]
  from assms(2,3) obtain nd where nd: "fq_heap (ws_queue s) n = Some nd" "nd_queue nd \<noteq> None"
    and s': "s' = s\<lparr>ws_tasks := ws_tasks s @ [n], ws_cancelled := n # ws_cancelled s\<rparr>"
    and c: "n \<notin> set (ws_cancelled s)"
    by (auto simp: on_queue_def request_cancel_def bindS_def load_def split: option.splits)
  from I(7) [OF nd(1)] nd(2) c have "nd_handle nd" "n \<in> set xs \<or> \<not> nd_active nd"
    "nd_queue nd = Some (fq_this (ws_queue s))" "(n, nd_match nd) \<in> set (ws_spawned s)"
    "\<forall>r. (n, r) \<in> set (fq_resumed (ws_queue s)) \<longrightarrow> nd_res nd = r"
    by (auto simp: node_inv_def split: if_splits)
  note n = this
  have frame: "step_frame n s xs s' xs"
    using s' by (auto simp: step_frame_def option.rel_refl)
  show ?thesis
  proof (rule system_invI [OF inv frame])
    show "node_inv s' xs n nd'" if "fq_heap (ws_queue s') n = Some nd'" for nd'
      using that s' n nd by (auto simp: node_inv_def)
    show "k ev = Inr True" if "(j, k) \<in> set (ws_spawned s')" "(j, Some ev) \<in> set (delivered s')" for j k ev
      using that s' I(9) [of j k ev] by (simp add: delivered_def)
    show "\<exists>nd. fq_heap (ws_queue s') n = Some nd \<and> \<not> nd_active nd \<and> nd_handle nd"
      if "n \<in> fst ` set (fq_posts (ws_queue s'))"
      using that s' I(8) by auto
    show "set (ws_cancelled s') \<subseteq> fst ` set (ws_spawned s')"
      using I(12) n(4) s' by force
  qed (use I s' c in \<open>auto simp: delivered_def\<close>)
qed

lemma unlocked_queue [simp]: "\<not> fq_locked q \<Longrightarrow> q\<lparr>fq_locked := False\<rparr> = q"
  by (cases q) simp

lemma cancel_inv:
  assumes inv: "system_inv s xs" and "enabled (Cancel_task n) s" and "perform (Cancel_task n) s = Inr s'"
  shows "\<exists>xs'. system_inv s' xs'"
proof -
  note I = system_invD [OF inv]
  from assms(2) have task: "n \<in> set (ws_tasks s)" by simp
  from assms(3) obtain nd where nd: "fq_heap (ws_queue s) n = Some nd" "nd_queue nd \<noteq> None"
    by (auto simp: on_queue_def cancel_task_def bindS_def load_def split: option.splits)
  from I(7) [OF nd(1)] nd(2) task have n: "nd_handle nd" "n \<in> set xs \<or> \<not> nd_active nd"
    "nd_queue nd = Some (fq_this (ws_queue s))" "(n, nd_match nd) \<in> set (ws_spawned s)"
    "\<forall>r. (n, r) \<in> set (fq_resumed (ws_queue s)) \<longrightarrow> nd_res nd = r"
    by (auto simp: node_inv_def split: if_splits)
  have gone: "n \<notin> set (remove1 n (ws_tasks s))" using I(10) by simp
  show ?thesis
  proof (cases "n \<in> set xs")
    case True
    from cancel_task_active [OF I(1) True] obtain q where
      q: "cancel_task n (ws_queue s) = (Inr (), q)" "queue_rep q (remove1 n xs)"
      "fq_posts q = fq_posts (ws_queue s)" "fq_resumed q = fq_resumed (ws_queue s) @ [(n, None)]"
      "node_effect (ws_queue s) q n (\<lambda>nd. nd\<lparr>nd_res := None\<rparr>) (set xs)" by blast
    with assms(3) have s': "s' = s\<lparr>ws_queue := q, ws_tasks := remove1 n (ws_tasks s)\<rparr>"
      by (simp add: on_queue_def)
    from I(5) True have new: "n \<notin> fst ` set (delivered s)" by blast
    then have undelivered: "(n, r) \<notin> set (delivered s)" for r by force
    have rest: "set (remove1 n xs) = set xs - {n}" using I(1) by (simp add: queue_rep_def)
    have frame: "step_frame n s xs s' (remove1 n xs)"
      by (rule frame_of_effect [where f = "\<lambda>nd. nd\<lparr>nd_res := None\<rparr>"])
        (use q s' rest in \<open>auto dest: notin_set_remove1\<close>)
    have deliv: "delivered s' = delivered s @ [(n, None)]" using q s' by (simp add: delivered_def)
    have "system_inv s' (remove1 n xs)"
    proof (rule system_invI [OF inv frame])
      show "node_inv s' (remove1 n xs) n nd'" if "fq_heap (ws_queue s') n = Some nd'" for nd'
        using that s' q(4,5) nd(1) n gone task I(11) undelivered
        by (auto simp: node_inv_def node_effect_def same_core_def delivered_def)
      show "k ev = Inr True" if "(j, k) \<in> set (ws_spawned s')" "(j, Some ev) \<in> set (delivered s')" for j k ev
        using that s' deliv I(9) [of j k ev] by simp
      show "distinct (map fst (delivered s'))" using I(4) new deliv by (simp add: image_iff)
      show "set (remove1 n xs) \<union> fst ` set (delivered s') \<subseteq> fst ` set (ws_spawned s')"
        using I(6) True rest deliv s' by auto
      show "\<exists>nd. fq_heap (ws_queue s') n = Some nd \<and> \<not> nd_active nd \<and> nd_handle nd"
        if "n \<in> fst ` set (fq_posts (ws_queue s'))"
        using that s' q(3) new by (auto simp: delivered_def)
    qed (use I q s' new rest deliv in \<open>auto simp: node_effect_def dest: notin_set_remove1\<close>)
    then show ?thesis ..
  next
    case False
    with n(2) have "cancel_task n (ws_queue s) = (Inr (), ws_queue s)"
      using cancel_task_inactive [OF nd] I(2) by simp
    with assms(3) have s': "s' = s\<lparr>ws_tasks := remove1 n (ws_tasks s)\<rparr>" by (simp add: on_queue_def)
    have frame: "step_frame n s xs s' xs"
      using s' by (auto simp: step_frame_def option.rel_refl dest: notin_set_remove1)
    have "system_inv s' xs"
    proof (rule system_invI [OF inv frame])
      show "node_inv s' xs n nd'" if "fq_heap (ws_queue s') n = Some nd'" for nd'
        using that s' n nd False by (auto simp: node_inv_def)
      show "k ev = Inr True" if "(j, k) \<in> set (ws_spawned s')" "(j, Some ev) \<in> set (delivered s')" for j k ev
        using that s' I(9) [of j k ev] by (simp add: delivered_def)
      show "\<exists>nd. fq_heap (ws_queue s') n = Some nd \<and> \<not> nd_active nd \<and> nd_handle nd"
        if "n \<in> fst ` set (fq_posts (ws_queue s'))"
        using that s' I(8) by auto
    qed (use I s' in \<open>auto simp: delivered_def dest: notin_set_remove1\<close>)
    then show ?thesis ..
  qed
qed

lemma enough_filter_fuel: "system_inv s xs \<Longrightarrow> length xs < filter_fuel s"
proof -
  assume inv: "system_inv s xs"
  note I = system_invD [OF inv]
  have "length xs = card (set xs)" using I(1) by (simp add: queue_rep_def distinct_card)
  also have "\<dots> \<le> card (fst ` set (ws_spawned s))" using I(6) by (intro card_mono) auto
  also have "\<dots> \<le> card (set (ws_spawned s))" by (rule card_image_le) simp
  also have "\<dots> \<le> length (ws_spawned s)" by (rule card_length)
  finally show ?thesis by (simp add: filter_fuel_def)
qed

lemma arrive_inv:
  assumes inv: "system_inv s xs" and "perform (Arrive ev) s = Inr s'"
  shows "\<exists>xs'. system_inv s' xs'"
proof -
  note I = system_invD [OF inv]
  note fuel = enough_filter_fuel [OF inv]
  consider e where "first_match (\<lambda>p. node_matches ev p (ws_queue s)) xs = Inl e"
    | "first_match (\<lambda>p. node_matches ev p (ws_queue s)) xs = Inr None"
    | n where "first_match (\<lambda>p. node_matches ev p (ws_queue s)) xs = Inr (Some n)"
    by (metis old.sum.exhaust option.exhaust)
  then show ?thesis
  proof cases
    case (1 e)
    from filter_event_throws [OF I(1) fuel 1] assms(2) I(2) have "s' = s"
      by (auto simp: on_queue_def split: failure.splits)
    with inv show ?thesis by blast
  next
    case 2
    from filter_event_none [OF I(1) fuel 2] assms(2) I(2) have "s' = s"
      by (simp add: on_queue_def)
    with inv show ?thesis by blast
  next
    case (3 n)
    from 3 have nx: "n \<in> set xs" and match: "node_matches ev n (ws_queue s) = Inr True"
      by (auto simp: first_match_Some)
    from I(1) nx obtain nd where nd: "fq_heap (ws_queue s) n = Some nd"
      "nd_queue nd = Some (fq_this (ws_queue s))" "nd_handle nd" "nd_active nd"
      by (rule queue_rep_alive)
    from match nd(1) have accepts: "nd_match nd ev = Inr True" by (simp add: node_matches_def load_def)
    from I(7) [OF nd(1)] have known: "(n, nd_match nd) \<in> set (ws_spawned s)" by (simp add: node_inv_def)
    from filter_event_found [OF I(1) fuel 3] obtain q where
      q: "filter_event (filter_fuel s) ev (ws_queue s) = (Inr True, q)" "queue_rep q (remove1 n xs)"
      "fq_posts q = fq_posts (ws_queue s) @ [(n, Some ev)]" "fq_resumed q = fq_resumed (ws_queue s)"
      "node_effect (ws_queue s) q n (\<lambda>nd. nd\<lparr>nd_active := False\<rparr>) (set xs)" by blast
    with assms(2) have s': "s' = s\<lparr>ws_queue := q\<rparr>" by (simp add: on_queue_def)
    from I(5) nx have new: "n \<notin> fst ` set (delivered s)" by blast
    then have undelivered: "(n, r) \<notin> set (fq_resumed (ws_queue s))" for r by (force simp: delivered_def)
    have rest: "set (remove1 n xs) = set xs - {n}" using I(1) by (simp add: queue_rep_def)
    have frame: "step_frame n s xs s' (remove1 n xs)"
      by (rule frame_of_effect [where f = "\<lambda>nd. nd\<lparr>nd_active := False\<rparr>"])
        (use q s' rest in \<open>auto dest: notin_set_remove1\<close>)
    have deliv: "set (delivered s') = insert (n, Some ev) (set (delivered s))" using q s' by (auto simp: delivered_def)
    obtain nd' where nd': "fq_heap q n = Some nd'" "\<not> nd_active nd'" "nd_handle nd'"
      "nd_queue nd' = nd_queue nd" "nd_match nd' = nd_match nd"
      using q(5) nd by (auto simp: node_effect_def same_core_def)
    have "system_inv s' (remove1 n xs)"
    proof (rule system_invI [OF inv frame])
      show "node_inv s' (remove1 n xs) n nd''" if "fq_heap (ws_queue s') n = Some nd''" for nd''
        using that s' nd' nd known q(4,5) undelivered by (simp add: node_inv_def node_effect_def)
      show "k e = Inr True" if "(j, k) \<in> set (ws_spawned s')" "(j, Some e) \<in> set (delivered s')" for j k e
      proof (cases "(j, Some e) = (n, Some ev)")
        case True
        with that(1) s' known I(3) have "k = nd_match nd" by (auto dest: eq_key_imp_eq_value)
        with True accepts show ?thesis by simp
      next
        case False
        with that s' deliv I(9) [of j k e] show ?thesis by auto
      qed
      show "distinct (map fst (delivered s'))" using I(4) new q s' by (auto simp: delivered_def)
      show "set (remove1 n xs) \<inter> fst ` set (delivered s') = {}" using I(5) rest deliv by auto
      show "set (remove1 n xs) \<union> fst ` set (delivered s') \<subseteq> fst ` set (ws_spawned s')"
        using I(6) nx rest deliv s' by auto
      show "\<exists>nd. fq_heap (ws_queue s') n = Some nd \<and> \<not> nd_active nd \<and> nd_handle nd"
        using s' nd' by simp
    qed (use I q s' in \<open>auto simp: node_effect_def\<close>)
    then show ?thesis ..
  qed
qed

lemma move_delivery:
  assumes "distinct (map fst (ps @ rs))" and "x \<in> set ps"
  shows "distinct (map fst (remove1 x ps @ rs @ [x]))"
    and "set (remove1 x ps @ rs @ [x]) = set (ps @ rs)" and "fst x \<notin> fst ` set (remove1 x ps)"
proof -
  from assms(2) obtain a b where ps: "ps = a @ x # b" by (auto dest: split_list)
  with assms(1) have "x \<notin> set a" by (force simp: image_iff)
  with ps have "remove1 x ps = a @ b" by (simp add: remove1_append)
  with assms(1) ps show "distinct (map fst (remove1 x ps @ rs @ [x]))"
    "set (remove1 x ps @ rs @ [x]) = set (ps @ rs)" "fst x \<notin> fst ` set (remove1 x ps)"
    by (auto simp: image_iff)
qed

lemma post_inv:
  assumes inv: "system_inv s xs" and "enabled (Run_post n r) s"
  obtains s' where "perform (Run_post n r) s = Inr s'" and "system_inv s' xs"
    and "set (delivered s') = set (delivered s)" and "ws_tasks s' = ws_tasks s" and "ws_spawned s' = ws_spawned s"
    and "\<And>x. fq_heap (ws_queue s') x = None \<longleftrightarrow> fq_heap (ws_queue s) x = None"
proof -
  note I = system_invD [OF inv]
  from assms(2) have post: "(n, r) \<in> set (fq_posts (ws_queue s))" by simp
  from I(8) [OF post] obtain nd where nd: "fq_heap (ws_queue s) n = Some nd" "\<not> nd_active nd" "nd_handle nd" by blast
  have off: "n \<notin> set xs" using I(5) post by (force simp: delivered_def)
  let ?q = "(ws_queue s)\<lparr>fq_heap := (fq_heap (ws_queue s))(n \<mapsto> nd\<lparr>nd_res := r\<rparr>),
      fq_resumed := fq_resumed (ws_queue s) @ [(n, r)],
      fq_posts := remove1 (n, r) (fq_posts (ws_queue s))\<rparr>"
  let ?s' = "s\<lparr>ws_queue := ?q\<rparr>"
  have "perform (Run_post n r) s = Inr ?s'"
    using nd by (simp add: on_queue_def resume_with_def bindS_def store_def load_def modify_def)
  moreover
  have split: "distinct (map fst (fq_posts (ws_queue s) @ fq_resumed (ws_queue s)))"
    using I(4) by (simp add: delivered_def)
  note moved = move_delivery [OF split post]
  have deliv: "set (delivered ?s') = set (delivered s)" "distinct (map fst (delivered ?s'))"
    using moved by (simp_all add: delivered_def)
  have gone: "n \<notin> fst ` set (remove1 (n, r) (fq_posts (ws_queue s)))" using moved(3) by simp
  have unresumed: "(n, r') \<notin> set (fq_resumed (ws_queue s))" for r' using split post by force
  have frame: "step_frame n s xs ?s' xs"
    using off by (auto simp: step_frame_def option.rel_refl dest: notin_set_remove1)
  have "system_inv ?s' xs"
  proof (rule system_invI [OF inv frame])
    show "queue_rep (ws_queue ?s') xs" by (rule queue_rep_cong [OF I(1)]) (use off in auto)
    show "node_inv ?s' xs n nd'" if "fq_heap (ws_queue ?s') n = Some nd'" for nd'
      using that I(7) [OF nd(1)] nd unresumed by (auto simp: node_inv_def)
    show "k e = Inr True" if "(j, k) \<in> set (ws_spawned ?s')" "(j, Some e) \<in> set (delivered ?s')" for j k e
      using that I(9) [of j k e] deliv(1) by simp
    show "\<exists>nd. fq_heap (ws_queue ?s') n = Some nd \<and> \<not> nd_active nd \<and> nd_handle nd"
      if "n \<in> fst ` set (fq_posts (ws_queue ?s'))"
      using that gone by simp
    show "(m, r') \<in> set (fq_posts (ws_queue s))" if "(m, r') \<in> set (fq_posts (ws_queue ?s'))" for m r'
      using that by (auto dest: set_remove1_subset [THEN subsetD])
  qed (use I deliv in simp_all)
  ultimately show thesis using that [of ?s'] deliv(1) nd(1) by simp
qed

lemma finish_inv:
  assumes inv: "system_inv s xs" and "enabled (Finish n) s" and "perform (Finish n) s = Inr s'"
  shows "system_inv s' xs"
proof -
  note I = system_invD [OF inv]
  from assms(2) have n: "n \<in> fst ` set (fq_resumed (ws_queue s))" by simp
  have off: "n \<notin> set xs" using I(5) n by (auto simp: delivered_def)
  have gone: "n \<notin> fst ` set (fq_posts (ws_queue s))" using I(4) n by (auto simp: delivered_def)
  from assms(3) have s': "s' = s\<lparr>ws_queue := (ws_queue s)\<lparr>fq_heap := (fq_heap (ws_queue s))(n := None)\<rparr>\<rparr>" by simp
  have frame: "step_frame n s xs s' xs" using s' by (auto simp: step_frame_def option.rel_refl)
  show ?thesis
  proof (rule system_invI [OF inv frame])
    show "queue_rep (ws_queue s') xs" by (rule queue_rep_cong [OF I(1)]) (use off s' in auto)
    show "k e = Inr True" if "(j, k) \<in> set (ws_spawned s')" "(j, Some e) \<in> set (delivered s')" for j k e
      using that I(9) [of j k e] s' by (simp add: delivered_def)
  qed (use I gone s' in \<open>auto simp: delivered_def\<close>)
qed

lemma step_inv:
  assumes "system_inv s xs" and "enabled a s" and "perform a s = Inr s'"
  shows "\<exists>xs'. system_inv s' xs'"
proof (cases a)
  case (Construct n m)
  with construct_inv [of s xs n m s'] assms show ?thesis by auto
next
  case (Wait n)
  with wait_inv [of s xs n s'] assms show ?thesis by blast
next
  case (Stop n)
  with stop_inv [of s xs n s'] assms show ?thesis by blast
next
  case (Cancel_task n)
  with cancel_inv [of s xs n s'] assms show ?thesis by blast
next
  case (Arrive ev)
  with arrive_inv [of s xs ev s'] assms show ?thesis by blast
next
  case (Run_post n r)
  with assms(2) have "enabled (Run_post n r) s" by simp
  from post_inv [OF assms(1) this] Run_post assms(3) show ?thesis by (metis sum.inject(2))
next
  case (Finish n)
  with finish_inv [of s xs n s'] assms show ?thesis by blast
qed

lemma reachable_inv: "reachable this s \<Longrightarrow> \<exists>xs. system_inv s xs"
  by (induction rule: reachable.induct) (auto intro: init_inv step_inv)

section \<open>Operations never destroy a node\<close>

text \<open>
  Nodes are destroyed by the coroutines that own them only: whatever state it starts from,
  an operation on the queue leaves every node with a handle in place.
\<close>

named_theorems keep_intros \<open>rules for calls that keep all nodes\<close>

definition handled :: "FilterQueue \<Rightarrow> nat \<Rightarrow> bool" where
  "handled q n \<longleftrightarrow> (\<exists>nd. fq_heap q n = Some nd \<and> nd_handle nd)"

definition keeps :: "(FilterQueue, 'a) act \<Rightarrow> bool" where
  "keeps m \<longleftrightarrow> (\<forall>q n. handled q n \<longrightarrow> handled (snd (m q)) n)"

lemma keeps_bindS [keep_intros]: "keeps m \<Longrightarrow> (\<And>x. keeps (f x)) \<Longrightarrow> keeps (bindS m f)"
  unfolding keeps_def bindS_def by (fastforce split: prod.split sum.split)

lemma keeps_load [keep_intros]: "keeps (load p)"
  by (simp add: keeps_def load_def split: option.split)

lemma keeps_store [keep_intros]: "(\<And>nd. nd_handle nd \<Longrightarrow> nd_handle (f nd)) \<Longrightarrow> keeps (store p f)"
  by (auto simp: keeps_def store_def handled_def split: option.split)

lemma keeps_modify [keep_intros]: "(\<And>q. fq_heap (f q) = fq_heap q) \<Longrightarrow> keeps (modify f)"
  by (simp add: keeps_def modify_def handled_def)

lemma keeps_pure [keep_intros]:
  "keeps (gets g)" "keeps (returnS x)" "keeps (liftS r)" "keeps (\<lambda>q. (h q, q))"
  by (simp_all add: keeps_def gets_def)

lemma keeps_whenS [keep_intros]: "(\<And>a. keeps (f a)) \<Longrightarrow> keeps (whenS x f)"
  by (cases x) (simp_all add: whenS_def keep_intros)

lemma keeps_if [keep_intros]: "keeps a \<Longrightarrow> keeps b \<Longrightarrow> keeps (if c then a else b)"
  by simp

lemma keeps_option [keep_intros]:
  "keeps a \<Longrightarrow> (\<And>x. keeps (b x)) \<Longrightarrow> keeps (case v of None \<Rightarrow> a | Some x \<Rightarrow> b x)"
  by (cases v) simp_all

lemma keeps_with_lock [keep_intros]: "keeps m \<Longrightarrow> keeps (with_lock m)"
proof -
  assume m: "keeps m"
  have "handled (snd (with_lock m q)) n" if "handled q n" for q n
  proof -
    from that have "handled (q\<lparr>fq_locked := True\<rparr>) n" by (simp add: handled_def)
    with m have "handled (snd (m (q\<lparr>fq_locked := True\<rparr>))) n" by (simp add: keeps_def)
    then show ?thesis
      by (cases "m (q\<lparr>fq_locked := True\<rparr>)") (simp add: with_lock_def handled_def)
  qed
  then show ?thesis by (simp add: keeps_def)
qed

lemma keeps_links [keep_intros]: "keeps (dequeue_with_lock n)" "keeps (enqueue_with_lock n)"
  unfolding dequeue_with_lock_def enqueue_with_lock_def by (intro keep_intros; simp)+

lemma keeps_resume [keep_intros]: "keeps (resume_with n r)" "keeps (resume_on_scheduler_with n r)"
  unfolding resume_with_def resume_on_scheduler_with_def by (intro keep_intros; simp)+

lemma keeps_lock [keep_intros]: "keeps lock" "keeps unlock"
  unfolding lock_def unlock_def by (intro keep_intros; simp)+

lemma keeps_operations:
  "keeps (filter_event fuel ev)" "keeps (cancel_task n)" "keeps (request_cancel n)" "keeps (NextEventNode_wait n)"
  unfolding filter_event_def cancel_task_def request_cancel_def NextEventNode_wait_def
  by (intro keep_intros; simp)+

lemma on_queue_keeps:
  "keeps f \<Longrightarrow> on_queue f s = Inr s' \<Longrightarrow> handled (ws_queue s) n \<Longrightarrow> handled (ws_queue s') n"
  unfolding keeps_def on_queue_def
  by (fastforce split: prod.splits sum.splits failure.splits)

lemma on_queue_rest:
  "on_queue f s = Inr s' \<Longrightarrow> ws_tasks s' = ws_tasks s \<and> ws_spawned s' = ws_spawned s"
  unfolding on_queue_def by (auto split: prod.splits sum.splits failure.splits)

lemma perform_keeps:
  assumes "perform a s = Inr s'" and "\<not> (\<exists>m. a = Construct n m)" and "a \<noteq> Finish n"
    and "handled (ws_queue s) n"
  shows "handled (ws_queue s') n"
proof (cases a)
  case (Run_post x r)
  with assms show ?thesis
    by (auto simp: handled_def dest: on_queue_keeps [OF keeps_resume(1), where n = n, unfolded handled_def])
qed (use assms in \<open>auto simp: handled_def
      dest: on_queue_keeps [OF keeps_operations(1), where n = n, unfolded handled_def]
        on_queue_keeps [OF keeps_operations(2), where n = n, unfolded handled_def]
        on_queue_keeps [OF keeps_operations(3), where n = n, unfolded handled_def]
        on_queue_keeps [OF keeps_operations(4), where n = n, unfolded handled_def]\<close>)

text \<open>In a careful run the node of a pending cancel task is alive.\<close>

lemma careful_tasks_alive: "careful_run this s \<Longrightarrow> n \<in> set (ws_tasks s) \<Longrightarrow> handled (ws_queue s) n"
proof (induction arbitrary: n rule: careful_run.induct)
  case careful_start
  then show ?case by (simp add: system_init_def)
next
  case (careful_step s a s')
  from reachable_inv [OF careful_reachable [OF careful_step.hyps(1)]] obtain xs where inv: "system_inv s xs" ..
  show ?case
  proof (cases "n \<in> set (ws_tasks s)")
    case True
    then have old: "handled (ws_queue s) n" by (rule careful_step.IH)
    from system_invD(11,12) [OF inv] True have "n \<in> fst ` set (ws_spawned s)" by blast
    then have "\<not> (\<exists>m. a = Construct n m)" using careful_step.hyps(2) enabled.simps(1) by blast
    moreover have "a \<noteq> Finish n" using careful_step.hyps(3) True by auto
    ultimately show ?thesis using perform_keeps [OF careful_step.hyps(4) _ _ old] by blast
  next
    case False
    with careful_step.prems careful_step.hyps(4) have a: "a = Stop n"
      by (cases a) (auto dest!: on_queue_rest dest: notin_set_remove1 split: if_splits)
    with careful_step.hyps(3) have "handled (ws_queue s) n" by (auto simp: handled_def split: option.splits)
    with a perform_keeps [OF careful_step.hyps(4)] show ?thesis by blast
  qed
qed

section \<open>Example runs\<close>

text \<open>Runs given as lists of actions.\<close>

fun run :: "action list \<Rightarrow> system \<Rightarrow> system res" where
  "run [] s = Inr s"
| "run (a # as) s = (if enabled a s then bindE (perform a s) (run as) else Inr s)"

lemma run_reachable: "reachable this s \<Longrightarrow> run as s = Inr s' \<Longrightarrow> reachable this s'"
  by (induction as arbitrary: s) (auto intro: reachable.step split: if_splits)

fun all_careful :: "action list \<Rightarrow> system \<Rightarrow> bool" where
  "all_careful [] s = True"
| "all_careful (a # as) s =
     (enabled a s \<and> careful a s \<and> (case perform a s of Inr s' \<Rightarrow> all_careful as s' | Inl e \<Rightarrow> False))"

lemma all_careful_run: "careful_run this s \<Longrightarrow> all_careful as s \<Longrightarrow> run as s = Inr s' \<Longrightarrow> careful_run this s'"
  by (induction as arbitrary: s) (auto intro: careful_run.careful_step split: sum.splits)

text \<open>A waiter for the bot coming online, and the event it waits for.\<close>

definition example_online :: Event where
  "example_online = Ev_bot_online \<lparr>ev_bot = Some 1, bon_subtype = Online_login, bon_id = UserId 3\<rparr>"

definition example_match :: "Event \<Rightarrow> bool res" where
  "example_match = NextEventNode_match_filter BotOnlineEvent_class (\<lambda>e. Inr (bon_id e = UserId 3))"

lemma example_match_online [simp]: "example_match example_online = Inr True"
  by (simp add: example_match_def example_online_def NextEventNode_match_filter_def Event_get_if_def
      BotOnlineEvent_class_def)

lemmas waiter_ops =
  system_init_def FilterQueue_init_def FilterNodeBase_new_def on_queue_def bindS_def
  NextEventNode_wait_def lock_def unlock_def modify_def gets_def store_def load_def whenS_def
  enqueue_with_lock_def request_cancel_def filter_event_def with_lock_def filter_fuel_def
  node_matches_def node_next_def dequeue_with_lock_def returnS_def resume_on_scheduler_with_def
  resume_with_def cancel_task_def

definition example_actions :: "action list" where
  "example_actions =
     [Construct 10 (\<lambda>e. Inr False), Construct 20 example_match, Wait 20, Wait 10, Arrive example_online,
      Run_post 20 (Some example_online)]"

definition example_node :: "(Event \<Rightarrow> bool res) \<Rightarrow> bool \<Rightarrow> Event option \<Rightarrow> NextEventNode" where
  "example_node m active r =
     \<lparr>nd_queue = Some 5, nd_prev = None, nd_next = (if active then None else Some 10), nd_active = active,
      nd_match = m, nd_handle = True, nd_res = r\<rparr>"

definition example_system :: system where
  "example_system =
     \<lparr>ws_queue = \<lparr>fq_this = 5, fq_head = Some 10, fq_tail = Some 10, fq_locked = False,
         fq_heap = [10 \<mapsto> example_node (\<lambda>e. Inr False) True None,
                    20 \<mapsto> example_node example_match False (Some example_online)],
         fq_posts = [], fq_resumed = [(20, Some example_online)]\<rparr>,
      ws_tasks = [], ws_cancelled = [],
      ws_spawned = [(20, example_match), (10, \<lambda>e. Inr False)]\<rparr>"

lemma example_run: "run example_actions (system_init 5) = Inr example_system"
  by (simp add: example_actions_def example_system_def example_node_def waiter_ops fun_eq_iff)

lemma example_reachable: "reachable 5 example_system"
  by (rule run_reachable [OF reachable.start example_run])

lemma example_careful: "careful_run 5 example_system"
  by (rule all_careful_run [OF careful_run.careful_start _ example_run])
    (simp add: example_actions_def waiter_ops)

section \<open>Properties of the waiters\<close>

text \<open>
  C1: whatever the order of arriving events, stop requests,
  cancel tasks and posted resumptions, as long as the program has not failed a waiter is
  resumed at most once, with a resumption posted or made but not both, and no waiter still
  in the queue has been resumed; the queue is well linked and the mutex is free.
\<close>

theorem waiter_resumed_at_most_once:
  assumes "reachable this s"
  shows "distinct (map fst (fq_posts (ws_queue s) @ fq_resumed (ws_queue s))) \<and>
         (\<exists>xs. queue_rep (ws_queue s) xs \<and>
            set xs \<inter> fst ` set (fq_posts (ws_queue s) @ fq_resumed (ws_queue s)) = {}) \<and>
         fq_locked (ws_queue s) = False"
  using reachable_inv [OF assms] unfolding system_inv_def delivered_def by blast

theorem waiter_resumed_at_most_once_witness:
  "distinct (map fst (fq_posts (ws_queue example_system) @ fq_resumed (ws_queue example_system))) \<and>
   (\<exists>xs. queue_rep (ws_queue example_system) xs \<and>
      set xs \<inter> fst ` set (fq_posts (ws_queue example_system) @ fq_resumed (ws_queue example_system)) = {}) \<and>
   fq_locked (ws_queue example_system) = False"
  by (rule waiter_resumed_at_most_once [OF example_reachable])

text \<open>
  An event that a waiter is resumed with is one its filter
  accepted; for a waiter of type \<open>E\<close> it is an \<open>E\<close>, so the cast at the end of
  \<open>wait\<close> succeeds and returns it.
\<close>

lemma delivered_event_accepted:
  assumes "reachable this s" and "(n, NextEventNode_match_filter E filt) \<in> set (ws_spawned s)"
    and "(n, Some ev) \<in> set (fq_resumed (ws_queue s))" and "fq_heap (ws_queue s) n = Some nd"
  shows "\<exists>e. NextEventNode_wait_result E nd = Inr (Some e) \<and> Event_get_if E ev = Some e \<and> filt e = Inr True"
proof -
  from reachable_inv [OF assms(1)] obtain xs where inv: "system_inv s xs" ..
  from system_invD(9) [OF inv assms(2)] assms(3) have "NextEventNode_match_filter E filt ev = Inr True"
    by (simp add: delivered_def)
  moreover from system_invD(7) [OF inv assms(4)] assms(3) have "nd_res nd = Some ev"
    by (auto simp: node_inv_def)
  ultimately show ?thesis
    by (auto simp: NextEventNode_match_filter_def NextEventNode_wait_result_def Event_get_def Event_get_if_def
        split: option.splits if_splits)
qed

lemma delivered_event_accepted_example:
  "\<exists>e. NextEventNode_wait_result BotOnlineEvent_class (example_node example_match False (Some example_online)) =
         Inr (Some e) \<and>
       Event_get_if BotOnlineEvent_class example_online = Some e \<and> Inr (bon_id e = UserId 3) = (Inr True :: bool res)"
  by (rule delivered_event_accepted [OF example_reachable, of 20 _ "\<lambda>e. Inr (bon_id e = UserId 3)"])
    (simp_all add: example_system_def example_match_def)

text \<open>The steps that use the queue do not go wrong.\<close>

lemma wait_runs:
  assumes inv: "system_inv s xs" and "enabled (Wait n) s"
  shows "\<exists>s'. perform (Wait n) s = Inr s'"
proof -
  note I = system_invD [OF inv]
  from assms(2) obtain nd where nd: "fq_heap (ws_queue s) n = Some nd" "\<not> nd_handle nd"
    by (auto split: option.splits)
  with I(7) [OF nd(1)] have "nd_prev nd = None" "nd_next nd = None" "nd_active nd" "n \<notin> set xs"
    by (auto simp: node_inv_def)
  from wait_enqueues [OF I(1) this(4) nd(1) this(1-3)] obtain q where
    "NextEventNode_wait n (ws_queue s) = (Inr (), q)" by blast
  then show ?thesis by (simp add: on_queue_def)
qed

lemma cancel_runs:
  assumes inv: "system_inv s xs" and "enabled (Cancel_task n) s" and "handled (ws_queue s) n"
  shows "\<exists>s'. perform (Cancel_task n) s = Inr s'"
proof -
  note I = system_invD [OF inv]
  from assms(3) obtain nd where nd: "fq_heap (ws_queue s) n = Some nd" "nd_handle nd" by (auto simp: handled_def)
  from I(7) [OF nd(1)] nd(2) assms(2) have n: "nd_queue nd \<noteq> None" "n \<in> set xs \<or> \<not> nd_active nd"
    by (auto simp: node_inv_def)
  show ?thesis
  proof (cases "n \<in> set xs")
    case True
    from cancel_task_active [OF I(1) True] obtain q where "cancel_task n (ws_queue s) = (Inr (), q)" by blast
    then show ?thesis by (simp add: on_queue_def)
  next
    case False
    with n cancel_task_inactive [OF nd(1)] show ?thesis by (simp add: on_queue_def)
  qed
qed

lemma arrive_runs:
  assumes inv: "system_inv s xs"
    and filters: "\<And>n m ev. (n, m) \<in> set (ws_spawned s) \<Longrightarrow> graceful (m ev) \<and> fuelled (m ev)"
  shows "\<exists>s'. perform (Arrive ev) s = Inr s'"
proof -
  note I = system_invD [OF inv]
  note fuel = enough_filter_fuel [OF inv]
  show ?thesis
  proof (cases "first_match (\<lambda>p. node_matches ev p (ws_queue s)) xs")
    case (Inl e)
    then obtain p where "p \<in> set xs" "node_matches ev p (ws_queue s) = Inl e"
      by (induction xs) (auto simp: bindE_eq_Inl split: if_splits)
    with I(1) obtain nd where nd: "fq_heap (ws_queue s) p = Some nd" "nd_match nd ev = Inl e"
      by (auto elim!: queue_rep_alive simp: node_matches_def load_def)
    from I(7) [OF nd(1)] have "(p, nd_match nd) \<in> set (ws_spawned s)" by (simp add: node_inv_def)
    with filters have "graceful (nd_match nd ev)" "fuelled (nd_match nd ev)" by blast+
    with nd(2) obtain x where "e = Throw x" by (cases e) (auto simp: graceful_def fuelled_def)
    with filter_event_throws [OF I(1) fuel Inl] show ?thesis by (simp add: on_queue_def)
  next
    case (Inr found)
    have "\<exists>b q. filter_event (filter_fuel s) ev (ws_queue s) = (Inr b, q)"
    proof (cases found)
      case None
      with filter_event_none [OF I(1) fuel] Inr show ?thesis by auto
    next
      case (Some n)
      with Inr have "first_match (\<lambda>p. node_matches ev p (ws_queue s)) xs = Inr (Some n)" by simp
      from filter_event_found [OF I(1) fuel this] show ?thesis by blast
    qed
    then show ?thesis by (auto simp: on_queue_def)
  qed
qed

text \<open>
  C2: two rules make the waiters safe: a stop callback must not run before
  its node is in the queue, and a coroutine must not end while a cancel task for its node is
  pending.  A run that keeps them can always go on: no enabled step follows a null or
  dangling pointer or runs out of fuel, whatever the filters do short of failing the program
  themselves.
\<close>

theorem careful_run_safe:
  assumes "careful_run this s" and "enabled a s" and "careful a s"
    and "\<And>n m ev. (n, m) \<in> set (ws_spawned s) \<Longrightarrow> graceful (m ev) \<and> fuelled (m ev)"
  shows "\<exists>s'. perform a s = Inr s'"
proof -
  from reachable_inv [OF careful_reachable [OF assms(1)]] obtain xs where inv: "system_inv s xs" ..
  show ?thesis
  proof (cases a)
    case (Wait n)
    with wait_runs [OF inv] assms(2) show ?thesis by blast
  next
    case (Stop n)
    with assms(3) obtain nd where nd: "fq_heap (ws_queue s) n = Some nd" "nd_handle nd"
      by (auto split: option.splits)
    with system_invD(7) [OF inv nd(1)] have "nd_queue nd = Some (fq_this (ws_queue s))" by (simp add: node_inv_def)
    with nd Stop show ?thesis by (simp add: on_queue_def request_cancel_def bindS_def load_def)
  next
    case (Cancel_task n)
    with assms(2) have "handled (ws_queue s) n" using careful_tasks_alive [OF assms(1)] by simp
    with Cancel_task cancel_runs [OF inv] assms(2) show ?thesis by blast
  next
    case (Arrive ev)
    with arrive_runs [OF inv] assms(4) show ?thesis by blast
  next
    case (Run_post n r)
    with assms(2) have "enabled (Run_post n r) s" by simp
    from post_inv [OF inv this] obtain s' where "perform (Run_post n r) s = Inr s'" .
    with Run_post show ?thesis by blast
  qed simp_all
qed

theorem careful_run_safe_witness:
  "\<exists>s'. perform (Finish 20) example_system = Inr s'"
  by (rule careful_run_safe [OF example_careful])
    (auto simp: example_system_def example_node_def example_match_def NextEventNode_match_filter_def
      split: option.splits)

text \<open>
  \<open>next_event_async\<close> registers the stop callback before
  \<open>wait\<close> puts the node into the queue, and \<open>queue_\<close> of the base class is null until
  then: a stop request that is already there, or comes before the lock is obtained, follows
  a null pointer.
\<close>

lemma stop_before_wait_null:
  "perform (Stop n) (s\<lparr>ws_queue := q\<lparr>fq_heap := (fq_heap q)(n \<mapsto> NextEventNode_new E filt)\<rparr>\<rparr>) =
     Inl Undefined_behaviour"
  by (simp add: on_queue_def request_cancel_def bindS_def load_def NextEventNode_new_def FilterNodeBase_new_def)

text \<open>
  C34: a stop request spawns a cancel task that holds the node's
  address; if an event reaches the waiter before the task gets the lock, the waiter resumes
  and ends, and the task follows the address of a destroyed node.
\<close>

theorem cancel_task_use_after_free:
  assumes "m ev = Inr True"
  shows "run [Construct n m, Wait n, Stop n, Arrive ev, Run_post n (Some ev), Finish n, Cancel_task n]
           (system_init this) = Inl Undefined_behaviour"
  using assms
  by (simp add: waiter_ops)

theorem cancel_task_use_after_free_witness:
  "run [Construct 10 example_match, Wait 10, Stop 10, Arrive example_online,
        Run_post 10 (Some example_online), Finish 10, Cancel_task 10] (system_init 5) = Inl Undefined_behaviour"
  by (rule cancel_task_use_after_free) simp

end
