(* ===== verification/Event_Json.thy ===== *)
theory Event_Json
  imports Event_Types
begin

text \<open>
  Reading events (\<open>lib/src/event/event_bases.cpp\<close>, \<open>event_types.cpp\<close>,
  \<open>event.cpp\<close>).  A derived event is built from its base, read first, and its own
  fields in the order of its initialiser.  \<open>fuel\<close> bounds the nesting of the message
  a message event carries, as for \<open>SentMessage_from_json\<close>.
\<close>

section \<open>Base classes\<close>

definition MessageEventBase_from_json :: "nat \<Rightarrow> 'j deps \<Rightarrow> 'j \<Rightarrow> MessageEventBase res" where
  "MessageEventBase_from_json fuel D json =
     bindE (from_json_class (SentMessage_from_json fuel D) (sj_at_key D json ''messageChain'')) (\<lambda>msg.
     Inr (EventBase.extend EventBase_default (MessageEventBase.fields msg)))"

definition GroupEventBase_from_json :: "'j deps \<Rightarrow> 'j \<Rightarrow> GroupEventBase res" where
  "GroupEventBase_from_json D json =
     bindE (from_json_class (Group_from_json D) (sj_at_key D json ''group'')) (\<lambda>group.
     Inr (EventBase.extend EventBase_default (GroupEventBase.fields group)))"

definition ExecutorEventBase_from_json :: "'j deps \<Rightarrow> 'j \<Rightarrow> ExecutorEventBase res" where
  "ExecutorEventBase_from_json D json =
     bindE (from_json_class (Member_from_json D) (sj_at_key D json ''operator'')) (\<lambda>executor.
     Inr (EventBase.extend EventBase_default (ExecutorEventBase.fields executor)))"

definition GroupExecutorEventBase_from_json :: "'j deps \<Rightarrow> 'j \<Rightarrow> GroupExecutorEventBase res" where
  "GroupExecutorEventBase_from_json D json =
     bindE (GroupEventBase_from_json D json) (\<lambda>base.
     bindE (from_json_class (Member_from_json D) (sj_at_key D json ''operator'')) (\<lambda>executor.
     Inr (GroupEventBase.extend base (GroupExecutorEventBase.fields (Some executor)))))"

definition MemberEventBase_from_json :: "'j deps \<Rightarrow> 'j \<Rightarrow> MemberEventBase res" where
  "MemberEventBase_from_json D json =
     bindE (from_json_class (Member_from_json D) (sj_at_key D json ''member'')) (\<lambda>member.
     Inr (EventBase.extend EventBase_default (MemberEventBase.fields member)))"

definition MemberExecutorEventBase_from_json :: "'j deps \<Rightarrow> 'j \<Rightarrow> MemberExecutorEventBase res" where
  "MemberExecutorEventBase_from_json D json =
     bindE (MemberEventBase_from_json D json) (\<lambda>base.
     bindE (from_json_class (Member_from_json D) (sj_at_key D json ''operator'')) (\<lambda>executor.
     Inr (MemberEventBase.extend base (MemberExecutorEventBase.fields (Some executor)))))"

section \<open>Concrete events\<close>

definition get_uid :: "'j deps \<Rightarrow> 'j json_res \<Rightarrow> UserId res" where
  "get_uid D r = bindE (from_json_i64 D r) (\<lambda>i. Inr (UserId i))"

definition get_gid :: "'j deps \<Rightarrow> 'j json_res \<Rightarrow> GroupId res" where
  "get_gid D r = bindE (from_json_i64 D r) (\<lambda>i. Inr (GroupId i))"

definition get_mid :: "'j deps \<Rightarrow> 'j json_res \<Rightarrow> MessageId res" where
  "get_mid D r = bindE (from_json_i32 D r) (\<lambda>i. Inr (MessageId i))"

definition FriendMessageEvent_from_json :: "nat \<Rightarrow> 'j deps \<Rightarrow> 'j \<Rightarrow> FriendMessageEvent res" where
  "FriendMessageEvent_from_json fuel D json =
     bindE (MessageEventBase_from_json fuel D json) (\<lambda>base.
     bindE (from_json_class (Friend_from_json D) (sj_at_key D json ''sender'')) (\<lambda>sender.
     Inr (MessageEventBase.extend base (FriendMessageEvent.fields sender))))"

definition GroupMessageEvent_from_json :: "nat \<Rightarrow> 'j deps \<Rightarrow> 'j \<Rightarrow> GroupMessageEvent res" where
  "GroupMessageEvent_from_json fuel D json =
     bindE (MessageEventBase_from_json fuel D json) (\<lambda>base.
     bindE (from_json_class (Member_from_json D) (sj_at_key D json ''sender'')) (\<lambda>sender.
     Inr (MessageEventBase.extend base (GroupMessageEvent.fields sender))))"

definition TempMessageEvent_from_json :: "nat \<Rightarrow> 'j deps \<Rightarrow> 'j \<Rightarrow> TempMessageEvent res" where
  "TempMessageEvent_from_json fuel D json =
     bindE (MessageEventBase_from_json fuel D json) (\<lambda>base.
     bindE (from_json_class (Member_from_json D) (sj_at_key D json ''sender'')) (\<lambda>sender.
     Inr (MessageEventBase.extend base (TempMessageEvent.fields sender))))"

definition BotOnlineEvent_from_json :: "'j deps \<Rightarrow> 'j \<Rightarrow> BotOnlineEvent res" where
  "BotOnlineEvent_from_json D json =
     bindE (from_json_string D (sj_at_key D json ''type'')) (\<lambda>type_sv.
     bindE (get_uid D (sj_at_key D json ''qq'')) (\<lambda>i.
     Inr (EventBase.extend EventBase_default (BotOnlineEvent.fields
          (if type_sv = ''BotOnlineEvent'' then Online_login else Online_relogin) i))))"

definition BotOfflineEvent_from_json :: "'j deps \<Rightarrow> 'j \<Rightarrow> BotOfflineEvent res" where
  "BotOfflineEvent_from_json D json =
     bindE (from_json_string D (sj_at_key D json ''type'')) (\<lambda>type_sv.
     bindE (switch_fnv1a D type_sv
         [(''BotOfflineEventActive'', Inr Offline_active),
          (''BotOfflineEventForce'', Inr Offline_forced),
          (''BotOfflineEventDropped'', Inr Offline_dropped)]
         (Inl Terminate)) (\<lambda>subtype.
     bindE (get_uid D (sj_at_key D json ''qq'')) (\<lambda>i.
     Inr (EventBase.extend EventBase_default (BotOfflineEvent.fields subtype i)))))"

definition BotGroupPermissionChangeEvent_from_json :: "'j deps \<Rightarrow> 'j \<Rightarrow> BotGroupPermissionChangeEvent res" where
  "BotGroupPermissionChangeEvent_from_json D json =
     bindE (GroupEventBase_from_json D json) (\<lambda>base.
     bindE (from_json_string D (sj_at_key D json ''origin'')) (\<lambda>original_str.
     bindE (permission_from_string D original_str) (\<lambda>original.
     bindE (from_json_string D (sj_at_key D json ''current'')) (\<lambda>current_str.
     bindE (permission_from_string D current_str) (\<lambda>current.
     Inr (GroupEventBase.extend base (BotGroupPermissionChangeEvent.fields original current)))))))"

definition BotMutedEvent_from_json :: "'j deps \<Rightarrow> 'j \<Rightarrow> BotMutedEvent res" where
  "BotMutedEvent_from_json D json =
     bindE (ExecutorEventBase_from_json D json) (\<lambda>base.
     bindE (from_json_i64 D (sj_at_key D json ''durationSeconds'')) (\<lambda>duration.
     Inr (ExecutorEventBase.extend base (BotMutedEvent.fields duration))))"

definition BotUnmutedEvent_from_json :: "'j deps \<Rightarrow> 'j \<Rightarrow> BotUnmutedEvent res" where
  "BotUnmutedEvent_from_json D json = ExecutorEventBase_from_json D json"

definition BotJoinGroupEvent_from_json :: "'j deps \<Rightarrow> 'j \<Rightarrow> BotJoinGroupEvent res" where
  "BotJoinGroupEvent_from_json D json = GroupEventBase_from_json D json"

definition BotQuitEvent_from_json :: "'j deps \<Rightarrow> 'j \<Rightarrow> BotQuitEvent res" where
  "BotQuitEvent_from_json D json = GroupEventBase_from_json D json"

definition BotKickedEvent_from_json :: "'j deps \<Rightarrow> 'j \<Rightarrow> BotKickedEvent res" where
  "BotKickedEvent_from_json D json = GroupEventBase_from_json D json"

definition GroupRecallEvent_from_json :: "'j deps \<Rightarrow> 'j \<Rightarrow> GroupRecallEvent res" where
  "GroupRecallEvent_from_json D json =
     bindE (GroupExecutorEventBase_from_json D json) (\<lambda>base.
     bindE (get_uid D (sj_at_key D json ''authorId'')) (\<lambda>sender_id.
     bindE (get_mid D (sj_at_key D json ''messageId'')) (\<lambda>msg_id.
     bindE (from_json_i32 D (sj_at_key D json ''time'')) (\<lambda>time.
     Inr (GroupExecutorEventBase.extend base (GroupRecallEvent.fields sender_id msg_id time))))))"

definition FriendRecallEvent_from_json :: "'j deps \<Rightarrow> 'j \<Rightarrow> FriendRecallEvent res" where
  "FriendRecallEvent_from_json D json =
     bindE (get_uid D (sj_at_key D json ''authorId'')) (\<lambda>sender_id.
     bindE (get_mid D (sj_at_key D json ''messageId'')) (\<lambda>msg_id.
     bindE (from_json_i32 D (sj_at_key D json ''time'')) (\<lambda>time.
     Inr (EventBase.extend EventBase_default (FriendRecallEvent.fields sender_id msg_id time)))))"

definition GroupNameChangeEvent_from_json :: "'j deps \<Rightarrow> 'j \<Rightarrow> GroupNameChangeEvent res" where
  "GroupNameChangeEvent_from_json D json =
     bindE (GroupExecutorEventBase_from_json D json) (\<lambda>base.
     bindE (from_json_string D (sj_at_key D json ''origin'')) (\<lambda>original.
     bindE (from_json_string D (sj_at_key D json ''current'')) (\<lambda>current.
     Inr (GroupExecutorEventBase.extend base (GroupNameChangeEvent.fields original current)))))"

definition GroupEntranceAnnouncementChangeEvent_from_json :: "'j deps \<Rightarrow> 'j \<Rightarrow> GroupEntranceAnnouncementChangeEvent res" where
  "GroupEntranceAnnouncementChangeEvent_from_json D json =
     bindE (GroupExecutorEventBase_from_json D json) (\<lambda>base.
     bindE (from_json_string D (sj_at_key D json ''origin'')) (\<lambda>original.
     bindE (from_json_string D (sj_at_key D json ''current'')) (\<lambda>current.
     Inr (GroupExecutorEventBase.extend base (GroupEntranceAnnouncementChangeEvent.fields original current)))))"

definition GroupConfigEvent_from_json :: "'j deps \<Rightarrow> 'j \<Rightarrow> GroupConfigEvent res" where
  "GroupConfigEvent_from_json D json =
     bindE (from_json_string D (sj_at_key D json ''type'')) (\<lambda>type_sv.
     bindE (switch_fnv1a D type_sv
         [(''GroupMuteAllEvent'', Inr Config_mute_all),
          (''GroupAllowAnonymousChatEvent'', Inr Config_anonymous_chat),
          (''GroupAllowConfessTalkEvent'', Inr Config_confess_talk),
          (''GroupAllowMemberInviteEvent'', Inr Config_member_invite)]
         (Inl Terminate)) (\<lambda>subtype.
     bindE (GroupExecutorEventBase_from_json D json) (\<lambda>base.
     bindE (from_json_bool D (sj_at_key D json ''origin'')) (\<lambda>original.
     bindE (from_json_bool D (sj_at_key D json ''current'')) (\<lambda>current.
     Inr (GroupExecutorEventBase.extend base (GroupConfigEvent.fields subtype original current)))))))"

definition MemberJoinEvent_from_json :: "'j deps \<Rightarrow> 'j \<Rightarrow> MemberJoinEvent res" where
  "MemberJoinEvent_from_json D json = MemberEventBase_from_json D json"

definition MemberQuitEvent_from_json :: "'j deps \<Rightarrow> 'j \<Rightarrow> MemberQuitEvent res" where
  "MemberQuitEvent_from_json D json = MemberEventBase_from_json D json"

definition MemberKickedEvent_from_json :: "'j deps \<Rightarrow> 'j \<Rightarrow> MemberKickedEvent res" where
  "MemberKickedEvent_from_json D json = MemberExecutorEventBase_from_json D json"

definition MemberCardChangeEvent_from_json :: "'j deps \<Rightarrow> 'j \<Rightarrow> MemberCardChangeEvent res" where
  "MemberCardChangeEvent_from_json D json =
     bindE (MemberExecutorEventBase_from_json D json) (\<lambda>base.
     bindE (from_json_string D (sj_at_key D json ''origin'')) (\<lambda>original.
     bindE (from_json_string D (sj_at_key D json ''current'')) (\<lambda>current.
     Inr (MemberExecutorEventBase.extend base (MemberCardChangeEvent.fields original current)))))"

definition MemberSpecialTitleChangeEvent_from_json :: "'j deps \<Rightarrow> 'j \<Rightarrow> MemberSpecialTitleChangeEvent res" where
  "MemberSpecialTitleChangeEvent_from_json D json =
     bindE (MemberEventBase_from_json D json) (\<lambda>base.
     bindE (from_json_string D (sj_at_key D json ''origin'')) (\<lambda>original.
     bindE (from_json_string D (sj_at_key D json ''current'')) (\<lambda>current.
     Inr (MemberEventBase.extend base (MemberSpecialTitleChangeEvent.fields original current)))))"

definition MemberPermissionChangeEvent_from_json :: "'j deps \<Rightarrow> 'j \<Rightarrow> MemberPermissionChangeEvent res" where
  "MemberPermissionChangeEvent_from_json D json =
     bindE (MemberEventBase_from_json D json) (\<lambda>base.
     bindE (from_json_string D (sj_at_key D json ''origin'')) (\<lambda>original_str.
     bindE (permission_from_string D original_str) (\<lambda>original.
     bindE (from_json_string D (sj_at_key D json ''current'')) (\<lambda>current_str.
     bindE (permission_from_string D current_str) (\<lambda>current.
     Inr (MemberEventBase.extend base (MemberPermissionChangeEvent.fields original current)))))))"

definition MemberMutedEvent_from_json :: "'j deps \<Rightarrow> 'j \<Rightarrow> MemberMutedEvent res" where
  "MemberMutedEvent_from_json D json =
     bindE (MemberExecutorEventBase_from_json D json) (\<lambda>base.
     bindE (from_json_i64 D (sj_at_key D json ''durationSeconds'')) (\<lambda>duration.
     Inr (MemberExecutorEventBase.extend base (MemberMutedEvent.fields duration))))"

definition MemberUnmutedEvent_from_json :: "'j deps \<Rightarrow> 'j \<Rightarrow> MemberUnmutedEvent res" where
  "MemberUnmutedEvent_from_json D json = MemberExecutorEventBase_from_json D json"

definition NewFriendRequestEvent_from_json :: "'j deps \<Rightarrow> 'j \<Rightarrow> NewFriendRequestEvent res" where
  "NewFriendRequestEvent_from_json D json =
     bindE (from_json_i64 D (sj_at_key D json ''eventId'')) (\<lambda>i.
     bindE (get_uid D (sj_at_key D json ''fromId'')) (\<lambda>from_id.
     bindE (get_gid D (sj_at_key D json ''groupId'')) (\<lambda>group_id.
     bindE (from_json_string D (sj_at_key D json ''nick'')) (\<lambda>name.
     bindE (from_json_string D (sj_at_key D json ''message'')) (\<lambda>message.
     Inr (EventBase.extend EventBase_default (NewFriendRequestEvent.fields i from_id group_id name message)))))))"

definition MemberJoinRequestEvent_from_json :: "'j deps \<Rightarrow> 'j \<Rightarrow> MemberJoinRequestEvent res" where
  "MemberJoinRequestEvent_from_json D json =
     bindE (from_json_i64 D (sj_at_key D json ''eventId'')) (\<lambda>i.
     bindE (get_uid D (sj_at_key D json ''fromId'')) (\<lambda>from_id.
     bindE (get_gid D (sj_at_key D json ''groupId'')) (\<lambda>group_id.
     bindE (from_json_string D (sj_at_key D json ''groupName'')) (\<lambda>group_name.
     bindE (from_json_string D (sj_at_key D json ''nick'')) (\<lambda>name.
     bindE (from_json_string D (sj_at_key D json ''message'')) (\<lambda>message.
     Inr (EventBase.extend EventBase_default
          (MemberJoinRequestEvent.fields i from_id group_id group_name name message))))))))"

definition BotInvitedJoinGroupRequestEvent_from_json :: "'j deps \<Rightarrow> 'j \<Rightarrow> BotInvitedJoinGroupRequestEvent res" where
  "BotInvitedJoinGroupRequestEvent_from_json D json =
     bindE (from_json_i64 D (sj_at_key D json ''eventId'')) (\<lambda>i.
     bindE (get_uid D (sj_at_key D json ''fromId'')) (\<lambda>from_id.
     bindE (get_gid D (sj_at_key D json ''groupId'')) (\<lambda>group_id.
     bindE (from_json_string D (sj_at_key D json ''groupName'')) (\<lambda>group_name.
     bindE (from_json_string D (sj_at_key D json ''nick'')) (\<lambda>name.
     bindE (from_json_string D (sj_at_key D json ''message'')) (\<lambda>message.
     Inr (EventBase.extend EventBase_default
          (BotInvitedJoinGroupRequestEvent.fields i from_id group_id group_name name message))))))))"

section \<open>Event\<close>

definition Event_from_json :: "nat \<Rightarrow> 'j deps \<Rightarrow> 'j \<Rightarrow> Event res" where
  "Event_from_json fuel D json =
     bindE (from_json_string D (sj_at_key D json ''type'')) (\<lambda>type.
       switch_fnv1a D type
         [(''GroupMessage'', bindE (GroupMessageEvent_from_json fuel D json) (\<lambda>x. Inr (Ev_group_message x))),
          (''FriendMessage'', bindE (FriendMessageEvent_from_json fuel D json) (\<lambda>x. Inr (Ev_friend_message x))),
          (''TempMessage'', bindE (TempMessageEvent_from_json fuel D json) (\<lambda>x. Inr (Ev_temp_message x))),
          (''BotOnlineEvent'', bindE (BotOnlineEvent_from_json D json) (\<lambda>x. Inr (Ev_bot_online x))),
          (''BotReloginEvent'', bindE (BotOnlineEvent_from_json D json) (\<lambda>x. Inr (Ev_bot_online x))),
          (''BotOfflineEventActive'', bindE (BotOfflineEvent_from_json D json) (\<lambda>x. Inr (Ev_bot_offline x))),
          (''BotOfflineEventForce'', bindE (BotOfflineEvent_from_json D json) (\<lambda>x. Inr (Ev_bot_offline x))),
          (''BotOfflineEventDropped'', bindE (BotOfflineEvent_from_json D json) (\<lambda>x. Inr (Ev_bot_offline x))),
          (''BotGroupPermissionChangeEvent'', bindE (BotGroupPermissionChangeEvent_from_json D json) (\<lambda>x. Inr (Ev_bot_group_permission_change x))),
          (''BotMuteEvent'', bindE (BotMutedEvent_from_json D json) (\<lambda>x. Inr (Ev_bot_muted x))),
          (''BotUnmuteEvent'', bindE (BotUnmutedEvent_from_json D json) (\<lambda>x. Inr (Ev_bot_unmuted x))),
          (''BotJoinGroupEvent'', bindE (BotJoinGroupEvent_from_json D json) (\<lambda>x. Inr (Ev_bot_join_group x))),
          (''BotLeaveEventActive'', bindE (BotQuitEvent_from_json D json) (\<lambda>x. Inr (Ev_bot_quit x))),
          (''BotLeaveEventKick'', bindE (BotKickedEvent_from_json D json) (\<lambda>x. Inr (Ev_bot_kicked x))),
          (''GroupRecallEvent'', bindE (GroupRecallEvent_from_json D json) (\<lambda>x. Inr (Ev_group_recall x))),
          (''FriendRecallEvent'', bindE (FriendRecallEvent_from_json D json) (\<lambda>x. Inr (Ev_friend_recall x))),
          (''GroupNameChangeEvent'', bindE (GroupNameChangeEvent_from_json D json) (\<lambda>x. Inr (Ev_group_name_change x))),
          (''GroupEntranceAnnouncementChangeEvent'', bindE (GroupEntranceAnnouncementChangeEvent_from_json D json) (\<lambda>x. Inr (Ev_group_entrance_announcement_change x))),
          (''GroupMuteAllEvent'', bindE (GroupConfigEvent_from_json D json) (\<lambda>x. Inr (Ev_group_config x))),
          (''GroupAllowAnonymousChatEvent'', bindE (GroupConfigEvent_from_json D json) (\<lambda>x. Inr (Ev_group_config x))),
          (''GroupAllowConfessTalkEvent'', bindE (GroupConfigEvent_from_json D json) (\<lambda>x. Inr (Ev_group_config x))),
          (''GroupAllowMemberInviteEvent'', bindE (GroupConfigEvent_from_json D json) (\<lambda>x. Inr (Ev_group_config x))),
          (''MemberJoinEvent'', bindE (MemberJoinEvent_from_json D json) (\<lambda>x. Inr (Ev_member_join x))),
          (''MemberLeaveEventKick'', bindE (MemberKickedEvent_from_json D json) (\<lambda>x. Inr (Ev_member_kicked x))),
          (''MemberLeaveEventQuit'', bindE (MemberQuitEvent_from_json D json) (\<lambda>x. Inr (Ev_member_quit x))),
          (''MemberCardChangeEvent'', bindE (MemberCardChangeEvent_from_json D json) (\<lambda>x. Inr (Ev_member_card_change x))),
          (''MemberSpecialTitleChangeEvent'', bindE (MemberSpecialTitleChangeEvent_from_json D json) (\<lambda>x. Inr (Ev_member_special_title_change x))),
          (''MemberPermissionChangeEvent'', bindE (MemberPermissionChangeEvent_from_json D json) (\<lambda>x. Inr (Ev_member_permission_change x))),
          (''MemberMuteEvent'', bindE (MemberMutedEvent_from_json D json) (\<lambda>x. Inr (Ev_member_muted x))),
          (''MemberUnmuteEvent'', bindE (MemberUnmutedEvent_from_json D json) (\<lambda>x. Inr (Ev_member_unmuted x))),
          (''NewFriendRequestEvent'', bindE (NewFriendRequestEvent_from_json D json) (\<lambda>x. Inr (Ev_new_friend_request x))),
          (''MemberJoinRequestEvent'', bindE (MemberJoinRequestEvent_from_json D json) (\<lambda>x. Inr (Ev_member_join_request x))),
          (''BotInvitedJoinGroupRequestEvent'', bindE (BotInvitedJoinGroupRequestEvent_from_json D json) (\<lambda>x. Inr (Ev_bot_invited_join_group_request x)))]
         (throw (Runtime_error
           [CHR 0xE6, CHR 0x9C, CHR 0xAA, CHR 0xE7, CHR 0x9F, CHR 0xA5, CHR 0xE7, CHR 0x9A, CHR
           0x84, CHR 0xE4, CHR 0xBA, CHR 0x8B, CHR 0xE4, CHR 0xBB, CHR 0xB6, CHR 0xE7, CHR
           0xB1, CHR 0xBB, CHR 0xE5, CHR 0x9E, CHR 0x8B])))"

text \<open>The labels with the type of event each one stands for.\<close>

definition event_labels :: "(string \<times> EventType) list" where
  "event_labels =
     [(''GroupMessage'', EventType_group_message),
      (''FriendMessage'', EventType_friend_message),
      (''TempMessage'', EventType_temp_message),
      (''BotOnlineEvent'', EventType_bot_online),
      (''BotReloginEvent'', EventType_bot_online),
      (''BotOfflineEventActive'', EventType_bot_offline),
      (''BotOfflineEventForce'', EventType_bot_offline),
      (''BotOfflineEventDropped'', EventType_bot_offline),
      (''BotGroupPermissionChangeEvent'', EventType_bot_group_permission_change),
      (''BotMuteEvent'', EventType_bot_muted),
      (''BotUnmuteEvent'', EventType_bot_unmuted),
      (''BotJoinGroupEvent'', EventType_bot_join_group),
      (''BotLeaveEventActive'', EventType_bot_quit),
      (''BotLeaveEventKick'', EventType_bot_kicked),
      (''GroupRecallEvent'', EventType_group_recall),
      (''FriendRecallEvent'', EventType_friend_recall),
      (''GroupNameChangeEvent'', EventType_group_name_change),
      (''GroupEntranceAnnouncementChangeEvent'', EventType_group_entrance_announcement_change),
      (''GroupMuteAllEvent'', EventType_group_config),
      (''GroupAllowAnonymousChatEvent'', EventType_group_config),
      (''GroupAllowConfessTalkEvent'', EventType_group_config),
      (''GroupAllowMemberInviteEvent'', EventType_group_config),
      (''MemberJoinEvent'', EventType_member_join),
      (''MemberLeaveEventKick'', EventType_member_kicked),
      (''MemberLeaveEventQuit'', EventType_member_quit),
      (''MemberCardChangeEvent'', EventType_member_card_change),
      (''MemberSpecialTitleChangeEvent'', EventType_member_special_title_change),
      (''MemberPermissionChangeEvent'', EventType_member_permission_change),
      (''MemberMuteEvent'', EventType_member_muted),
      (''MemberUnmuteEvent'', EventType_member_unmuted),
      (''NewFriendRequestEvent'', EventType_new_friend_request),
      (''MemberJoinRequestEvent'', EventType_member_join_request),
      (''BotInvitedJoinGroupRequestEvent'', EventType_bot_invited_join_group_request)]"

end
