(* ===== verification/Event_Facts.thy ===== *)
theory Event_Facts
  imports Event_Json
begin

text \<open>
  What reading events guarantees: it ends and never aborts, it gives an event of the type
  its label stands for, and it leaves the bot pointer null.
\<close>

section \<open>Facts about the readers\<close>

lemmas event_base_readers =
  MessageEventBase_from_json_def GroupEventBase_from_json_def ExecutorEventBase_from_json_def
  GroupExecutorEventBase_from_json_def MemberEventBase_from_json_def
  MemberExecutorEventBase_from_json_def get_uid_def get_gid_def get_mid_def

lemma fuelled_event_bases [fuel_intros]:
  "fuelled (GroupEventBase_from_json D j)" "fuelled (ExecutorEventBase_from_json D j)"
  "fuelled (GroupExecutorEventBase_from_json D j)" "fuelled (MemberEventBase_from_json D j)"
  "fuelled (MemberExecutorEventBase_from_json D j)"
  "fuelled (get_uid D r)" "fuelled (get_gid D r)" "fuelled (get_mid D r)"
  by (auto simp: event_base_readers intro!: fuel_intros)

lemma graceful_event_bases [graceful_intros]:
  "graceful (MessageEventBase_from_json n D j)"
  "graceful (GroupEventBase_from_json D j)" "graceful (ExecutorEventBase_from_json D j)"
  "graceful (GroupExecutorEventBase_from_json D j)" "graceful (MemberEventBase_from_json D j)"
  "graceful (MemberExecutorEventBase_from_json D j)"
  "graceful (get_uid D r)" "graceful (get_gid D r)" "graceful (get_mid D r)"
  by (auto simp: event_base_readers sent_readers_graceful intro!: graceful_intros)

lemma event_bases_bot:
  "MessageEventBase_from_json n D j = Inr e1 \<Longrightarrow> ev_bot e1 = None"
  "GroupEventBase_from_json D j = Inr e2 \<Longrightarrow> ev_bot e2 = None"
  "ExecutorEventBase_from_json D j = Inr e3 \<Longrightarrow> ev_bot e3 = None"
  "GroupExecutorEventBase_from_json D j = Inr e4 \<Longrightarrow> ev_bot e4 = None"
  "MemberEventBase_from_json D j = Inr e5 \<Longrightarrow> ev_bot e5 = None"
  "MemberExecutorEventBase_from_json D j = Inr e6 \<Longrightarrow> ev_bot e6 = None"
  by (auto simp: event_base_readers EventBase_default_def EventBase.defs MessageEventBase.defs
      GroupEventBase.defs ExecutorEventBase.defs GroupExecutorEventBase.defs MemberEventBase.defs
      MemberExecutorEventBase.defs)

lemmas event_readers =
  FriendMessageEvent_from_json_def GroupMessageEvent_from_json_def
  TempMessageEvent_from_json_def BotOnlineEvent_from_json_def BotOfflineEvent_from_json_def
  BotGroupPermissionChangeEvent_from_json_def BotMutedEvent_from_json_def
  BotUnmutedEvent_from_json_def BotJoinGroupEvent_from_json_def BotQuitEvent_from_json_def
  BotKickedEvent_from_json_def GroupRecallEvent_from_json_def FriendRecallEvent_from_json_def
  GroupNameChangeEvent_from_json_def GroupEntranceAnnouncementChangeEvent_from_json_def
  GroupConfigEvent_from_json_def MemberJoinEvent_from_json_def MemberQuitEvent_from_json_def
  MemberKickedEvent_from_json_def MemberCardChangeEvent_from_json_def
  MemberSpecialTitleChangeEvent_from_json_def MemberPermissionChangeEvent_from_json_def
  MemberMutedEvent_from_json_def MemberUnmutedEvent_from_json_def
  NewFriendRequestEvent_from_json_def MemberJoinRequestEvent_from_json_def
  BotInvitedJoinGroupRequestEvent_from_json_def

lemmas event_record_defs =
  EventBase.defs MessageEventBase.defs GroupEventBase.defs ExecutorEventBase.defs
  GroupExecutorEventBase.defs MemberEventBase.defs MemberExecutorEventBase.defs
  FriendMessageEvent.defs GroupMessageEvent.defs TempMessageEvent.defs BotOnlineEvent.defs
  BotOfflineEvent.defs BotGroupPermissionChangeEvent.defs BotMutedEvent.defs
  GroupRecallEvent.defs FriendRecallEvent.defs GroupNameChangeEvent.defs
  GroupEntranceAnnouncementChangeEvent.defs GroupConfigEvent.defs MemberCardChangeEvent.defs
  MemberSpecialTitleChangeEvent.defs MemberPermissionChangeEvent.defs MemberMutedEvent.defs
  NewFriendRequestEvent.defs MemberJoinRequestEvent.defs BotInvitedJoinGroupRequestEvent.defs

lemma graceful_event_readers [graceful_intros]:
  "graceful (FriendMessageEvent_from_json n D j)" "graceful (GroupMessageEvent_from_json n D j)"
  "graceful (TempMessageEvent_from_json n D j)" "graceful (BotOnlineEvent_from_json D j)"
  "graceful (BotGroupPermissionChangeEvent_from_json D j)"
  "graceful (BotMutedEvent_from_json D j)" "graceful (BotUnmutedEvent_from_json D j)"
  "graceful (BotJoinGroupEvent_from_json D j)" "graceful (BotQuitEvent_from_json D j)"
  "graceful (BotKickedEvent_from_json D j)" "graceful (GroupRecallEvent_from_json D j)"
  "graceful (FriendRecallEvent_from_json D j)" "graceful (GroupNameChangeEvent_from_json D j)"
  "graceful (GroupEntranceAnnouncementChangeEvent_from_json D j)"
  "graceful (MemberJoinEvent_from_json D j)" "graceful (MemberQuitEvent_from_json D j)"
  "graceful (MemberKickedEvent_from_json D j)" "graceful (MemberCardChangeEvent_from_json D j)"
  "graceful (MemberSpecialTitleChangeEvent_from_json D j)"
  "graceful (MemberPermissionChangeEvent_from_json D j)"
  "graceful (MemberMutedEvent_from_json D j)" "graceful (MemberUnmutedEvent_from_json D j)"
  "graceful (NewFriendRequestEvent_from_json D j)"
  "graceful (MemberJoinRequestEvent_from_json D j)"
  "graceful (BotInvitedJoinGroupRequestEvent_from_json D j)"
  by (auto simp: event_readers intro!: graceful_intros)

text \<open>
  The two readers with an inner switch abort on any other label; \<open>Event::from_json\<close>
  calls them only on labels the inner switch knows.
\<close>

lemma graceful_subtyped:
  "from_json_string D (sj_at_key D j ''type'') = Inr type \<Longrightarrow>
   clu_fnv1a D type \<in> clu_fnv1a D ` {''BotOfflineEventActive'', ''BotOfflineEventForce'', ''BotOfflineEventDropped''} \<Longrightarrow>
   graceful (BotOfflineEvent_from_json D j)"
  "from_json_string D (sj_at_key D j ''type'') = Inr type \<Longrightarrow>
   clu_fnv1a D type \<in> clu_fnv1a D ` {''GroupMuteAllEvent'', ''GroupAllowAnonymousChatEvent'',
     ''GroupAllowConfessTalkEvent'', ''GroupAllowMemberInviteEvent''} \<Longrightarrow>
   graceful (GroupConfigEvent_from_json D j)"
  by (auto simp: event_readers intro!: graceful_intros)

lemma Event_from_json_graceful: "graceful (Event_from_json n D j)"
  unfolding Event_from_json_def
  apply (rule graceful_bindE [OF graceful_readers(6)], rule graceful_switch)
  subgoal premises prems for type l x
    using prems(2)
    apply (simp only: list.set insert_iff empty_iff prod.inject)
    apply (elim disjE conjE FalseE; simp only:; rule graceful_bindE)
    apply (simp_all only: graceful_intros graceful_Inr)
    apply (simp_all add: graceful_subtyped [OF prems(1), unfolded prems(3)])
    done
  by simp

lemma bots_of_readers:
  "FriendMessageEvent_from_json n D j = Inr x0 \<Longrightarrow> EventBase_bot x0 = Inl Undefined_behaviour"
  "GroupMessageEvent_from_json n D j = Inr x1 \<Longrightarrow> EventBase_bot x1 = Inl Undefined_behaviour"
  "TempMessageEvent_from_json n D j = Inr x2 \<Longrightarrow> EventBase_bot x2 = Inl Undefined_behaviour"
  "BotOnlineEvent_from_json D j = Inr x3 \<Longrightarrow> EventBase_bot x3 = Inl Undefined_behaviour"
  "BotOfflineEvent_from_json D j = Inr x4 \<Longrightarrow> EventBase_bot x4 = Inl Undefined_behaviour"
  "BotGroupPermissionChangeEvent_from_json D j = Inr x5 \<Longrightarrow> EventBase_bot x5 = Inl Undefined_behaviour"
  "BotMutedEvent_from_json D j = Inr x6 \<Longrightarrow> EventBase_bot x6 = Inl Undefined_behaviour"
  "BotUnmutedEvent_from_json D j = Inr x7 \<Longrightarrow> EventBase_bot x7 = Inl Undefined_behaviour"
  "BotJoinGroupEvent_from_json D j = Inr x8 \<Longrightarrow> EventBase_bot x8 = Inl Undefined_behaviour"
  "BotQuitEvent_from_json D j = Inr x9 \<Longrightarrow> EventBase_bot x9 = Inl Undefined_behaviour"
  "BotKickedEvent_from_json D j = Inr x10 \<Longrightarrow> EventBase_bot x10 = Inl Undefined_behaviour"
  "GroupRecallEvent_from_json D j = Inr x11 \<Longrightarrow> EventBase_bot x11 = Inl Undefined_behaviour"
  "FriendRecallEvent_from_json D j = Inr x12 \<Longrightarrow> EventBase_bot x12 = Inl Undefined_behaviour"
  "GroupNameChangeEvent_from_json D j = Inr x13 \<Longrightarrow> EventBase_bot x13 = Inl Undefined_behaviour"
  "GroupEntranceAnnouncementChangeEvent_from_json D j = Inr x14 \<Longrightarrow> EventBase_bot x14 = Inl Undefined_behaviour"
  "GroupConfigEvent_from_json D j = Inr x15 \<Longrightarrow> EventBase_bot x15 = Inl Undefined_behaviour"
  "MemberJoinEvent_from_json D j = Inr x16 \<Longrightarrow> EventBase_bot x16 = Inl Undefined_behaviour"
  "MemberQuitEvent_from_json D j = Inr x17 \<Longrightarrow> EventBase_bot x17 = Inl Undefined_behaviour"
  "MemberKickedEvent_from_json D j = Inr x18 \<Longrightarrow> EventBase_bot x18 = Inl Undefined_behaviour"
  "MemberCardChangeEvent_from_json D j = Inr x19 \<Longrightarrow> EventBase_bot x19 = Inl Undefined_behaviour"
  "MemberSpecialTitleChangeEvent_from_json D j = Inr x20 \<Longrightarrow> EventBase_bot x20 = Inl Undefined_behaviour"
  "MemberPermissionChangeEvent_from_json D j = Inr x21 \<Longrightarrow> EventBase_bot x21 = Inl Undefined_behaviour"
  "MemberMutedEvent_from_json D j = Inr x22 \<Longrightarrow> EventBase_bot x22 = Inl Undefined_behaviour"
  "MemberUnmutedEvent_from_json D j = Inr x23 \<Longrightarrow> EventBase_bot x23 = Inl Undefined_behaviour"
  "NewFriendRequestEvent_from_json D j = Inr x24 \<Longrightarrow> EventBase_bot x24 = Inl Undefined_behaviour"
  "MemberJoinRequestEvent_from_json D j = Inr x25 \<Longrightarrow> EventBase_bot x25 = Inl Undefined_behaviour"
  "BotInvitedJoinGroupRequestEvent_from_json D j = Inr x26 \<Longrightarrow> EventBase_bot x26 = Inl Undefined_behaviour"
  by (auto simp: event_readers event_record_defs EventBase_bot_def EventBase_default_def dest: event_bases_bot)

text \<open>Every case of the dispatch yields an event of the type its label stands for.\<close>

lemma Event_from_json_cases:
  assumes "Event_from_json n D j = Inr ev"
  obtains type l where "from_json_string D (sj_at_key D j ''type'') = Inr type"
    and "(l, Event_type ev) \<in> set event_labels" and "clu_fnv1a D type = clu_fnv1a D l"
    and "Event_bot ev = Inl Undefined_behaviour"
proof -
  from assms obtain type where type: "from_json_string D (sj_at_key D j ''type'') = Inr type"
    by (auto simp: Event_from_json_def)
  have "\<exists>l t. (l, t) \<in> set event_labels \<and> clu_fnv1a D type = clu_fnv1a D l \<and>
      (Event_type ev = t \<and> Event_bot ev = Inl Undefined_behaviour)"
    by (rule switch_fnv1a_typed [OF _ assms [unfolded Event_from_json_def type bindE_Inr]])
      (auto simp: event_labels_def dest: bots_of_readers)
  with type that show ?thesis by blast
qed

context json_dom
begin

lemma MessageEventBase_fuelled:
  "depth j \<le> d \<Longrightarrow> fuelled (MessageEventBase_from_json (segment_fuel d) D j)"
  by (auto simp: MessageEventBase_from_json_def intro!: fuel_intros SentMessage_from_json_fuelled
      dest!: depth_at_key)

lemma message_events_fuelled:
  assumes "depth j \<le> d"
  shows "fuelled (FriendMessageEvent_from_json (segment_fuel d) D j)"
    and "fuelled (GroupMessageEvent_from_json (segment_fuel d) D j)"
    and "fuelled (TempMessageEvent_from_json (segment_fuel d) D j)"
  using MessageEventBase_fuelled [OF assms]
  by (auto simp: event_readers intro!: fuel_intros)

lemma event_readers_fuelled:
  "fuelled (BotOnlineEvent_from_json D j)" "fuelled (BotOfflineEvent_from_json D j)"
  "fuelled (BotGroupPermissionChangeEvent_from_json D j)"
  "fuelled (BotMutedEvent_from_json D j)" "fuelled (BotUnmutedEvent_from_json D j)"
  "fuelled (BotJoinGroupEvent_from_json D j)" "fuelled (BotQuitEvent_from_json D j)"
  "fuelled (BotKickedEvent_from_json D j)" "fuelled (GroupRecallEvent_from_json D j)"
  "fuelled (FriendRecallEvent_from_json D j)" "fuelled (GroupNameChangeEvent_from_json D j)"
  "fuelled (GroupEntranceAnnouncementChangeEvent_from_json D j)"
  "fuelled (GroupConfigEvent_from_json D j)" "fuelled (MemberJoinEvent_from_json D j)"
  "fuelled (MemberQuitEvent_from_json D j)" "fuelled (MemberKickedEvent_from_json D j)"
  "fuelled (MemberCardChangeEvent_from_json D j)"
  "fuelled (MemberSpecialTitleChangeEvent_from_json D j)"
  "fuelled (MemberPermissionChangeEvent_from_json D j)"
  "fuelled (MemberMutedEvent_from_json D j)" "fuelled (MemberUnmutedEvent_from_json D j)"
  "fuelled (NewFriendRequestEvent_from_json D j)"
  "fuelled (MemberJoinRequestEvent_from_json D j)"
  "fuelled (BotInvitedJoinGroupRequestEvent_from_json D j)"
  by (auto simp: event_readers fuelled_def [where r = "Inl Terminate"] intro!: fuel_intros)

lemma Event_from_json_fuelled:
  assumes "depth j \<le> d"
  shows "fuelled (Event_from_json (segment_fuel d) D j)"
  unfolding Event_from_json_def
  by (intro fuel_intros)
    (auto intro!: fuel_intros message_events_fuelled [OF assms] event_readers_fuelled)

end

section \<open>Properties of events\<close>

text \<open>
  C30: reading an event returns or throws.  The recursion through the
  message it carries ends, and the two \<open>std::terminate\<close> calls marked unreachable in
  the subtype switches are: even if hashes collide, no document reaches them through
  \<open>Event::from_json\<close>.
\<close>

theorem Event_from_json_total:
  assumes "json_dom D depth" and "depth j \<le> d"
  shows "(\<exists>ev. Event_from_json (segment_fuel d) D j = Inr ev) \<or>
         (\<exists>e. Event_from_json (segment_fuel d) D j = throw e)"
  by (rule graceful_fuelled [OF Event_from_json_graceful json_dom.Event_from_json_fuelled [OF assms]])

text \<open>
  C13: the event read has the type its label stands for, so the typed
  access that matches it succeeds; and its bot pointer is null.
\<close>

theorem Event_from_json_type:
  assumes "labels_compile D (map fst event_labels)"
    and "from_json_string D (sj_at_key D j ''type'') = Inr label"
    and "(label, t) \<in> set event_labels"
    and "Event_from_json n D j = Inr ev"
  shows "Event_type ev = t \<and> Event_bot ev = Inl Undefined_behaviour"
  using assms(4)
proof (rule Event_from_json_cases)
  fix type l
  assume a: "from_json_string D (sj_at_key D j ''type'') = Inr type" "(l, Event_type ev) \<in> set event_labels"
    "clu_fnv1a D type = clu_fnv1a D l" "Event_bot ev = Inl Undefined_behaviour"
  with assms(2) labels_compile_unique [OF assms(1) assms(3) a(2)] show ?thesis by simp
qed

definition example_event :: json where
  "example_event =
     JObj [(''type'', JStr ''GroupMuteAllEvent''), (''origin'', JBool False), (''current'', JBool True),
       (''group'', JObj [(''id'', JNum 7), (''name'', JStr ''g''), (''permission'', JStr ''OWNER'')]),
       (''operator'', JObj [(''id'', JNum 9), (''memberName'', JStr ''m''), (''permission'', JStr ''MEMBER''),
          (''group'', JObj [(''id'', JNum 7), (''name'', JStr ''g''), (''permission'', JStr ''OWNER'')])])]"

text \<open>The hashes of the labels.\<close>

lemma ref_fnv1a_event_labels_1 [simp]:
  "ref_fnv1a ''GroupMessage'' = 8954862165548022283"
  "ref_fnv1a ''FriendMessage'' = 7022414744638991532"
  "ref_fnv1a ''TempMessage'' = 10497104353414283718"
  "ref_fnv1a ''BotOnlineEvent'' = 8020656113467811903"
  "ref_fnv1a ''BotReloginEvent'' = 6523885292087454568"
  "ref_fnv1a ''BotOfflineEventActive'' = 14408180521190380901"
  "ref_fnv1a ''BotOfflineEventForce'' = 6136639282390386838"
  "ref_fnv1a ''BotOfflineEventDropped'' = 7001083247173968615"
  by code_simp+

lemma ref_fnv1a_event_labels_2 [simp]:
  "ref_fnv1a ''BotGroupPermissionChangeEvent'' = 13082859430050241094"
  "ref_fnv1a ''BotMuteEvent'' = 14191837047140221245"
  "ref_fnv1a ''BotUnmuteEvent'' = 6843950682758992164"
  "ref_fnv1a ''BotJoinGroupEvent'' = 12941685918534635415"
  "ref_fnv1a ''BotLeaveEventActive'' = 8662466296379342345"
  "ref_fnv1a ''BotLeaveEventKick'' = 10677929210831776421"
  "ref_fnv1a ''GroupRecallEvent'' = 4232356425659308491"
  "ref_fnv1a ''FriendRecallEvent'' = 13240774779586534496"
  by code_simp+

lemma ref_fnv1a_event_labels_3 [simp]:
  "ref_fnv1a ''GroupNameChangeEvent'' = 132732338830819217"
  "ref_fnv1a ''GroupEntranceAnnouncementChangeEvent'' = 14887294490047105411"
  "ref_fnv1a ''GroupMuteAllEvent'' = 2191399320413356972"
  "ref_fnv1a ''GroupAllowAnonymousChatEvent'' = 18041911833098606944"
  "ref_fnv1a ''GroupAllowConfessTalkEvent'' = 6520586186082896662"
  "ref_fnv1a ''GroupAllowMemberInviteEvent'' = 13060267552003324290"
  "ref_fnv1a ''MemberJoinEvent'' = 8260671398863680305"
  "ref_fnv1a ''MemberLeaveEventKick'' = 1557849010852163436"
  by code_simp+

lemma ref_fnv1a_event_labels_4 [simp]:
  "ref_fnv1a ''MemberLeaveEventQuit'' = 662123373373366169"
  "ref_fnv1a ''MemberCardChangeEvent'' = 4822645519796549863"
  "ref_fnv1a ''MemberSpecialTitleChangeEvent'' = 12933197553441610388"
  "ref_fnv1a ''MemberPermissionChangeEvent'' = 5217004308613423724"
  "ref_fnv1a ''MemberMuteEvent'' = 5686237679574642262"
  "ref_fnv1a ''MemberUnmuteEvent'' = 2342974608851530967"
  "ref_fnv1a ''NewFriendRequestEvent'' = 678492428022513482"
  "ref_fnv1a ''MemberJoinRequestEvent'' = 3057642758302687188"
  by code_simp+

lemma ref_fnv1a_event_labels_5 [simp]:
  "ref_fnv1a ''BotInvitedJoinGroupRequestEvent'' = 2387751873529312911"
  "ref_fnv1a ''MEMBER'' = 11873556543173496195"
  "ref_fnv1a ''ADMINISTRATOR'' = 2915047902750123402"
  "ref_fnv1a ''OWNER'' = 2749620971141069460"
  by code_simp+

lemma ref_event_labels: "labels_compile (ref_deps Map.empty) (map fst event_labels)"
  by (simp add: labels_compile_def event_labels_def)

theorem Event_from_json_total_witness:
  "(\<exists>ev. Event_from_json (segment_fuel 5) (ref_deps Map.empty) example_event = Inr ev) \<or>
   (\<exists>e. Event_from_json (segment_fuel 5) (ref_deps Map.empty) example_event = throw e)"
  by (rule Event_from_json_total [OF ref_dom.json_dom_axioms]) (simp add: example_event_def)

definition example_group :: Group where
  "example_group = \<lparr>gr_id = GroupId 7, gr_name = ''g'', gr_permission = Permission_owner\<rparr>"

definition example_read :: Event where
  "example_read =
     Ev_group_config \<lparr>ev_bot = None, ge_group = example_group,
       gx_executor = Some \<lparr>mb_group = example_group, mb_id = UserId 9, mb_name = ''m'', mb_permission = Permission_member\<rparr>,
       gcf_subtype = Config_mute_all, gcf_original = False, gcf_current = True\<rparr>"

lemma example_event_read: "Event_from_json n (ref_deps p) example_event = Inr example_read"
  by (simp add: Event_from_json_def example_event_def example_read_def example_group_def from_json_defs
      event_readers event_base_readers event_record_defs EventBase_default_def Group_from_json_def
      Member_from_json_def permission_from_string_def)

theorem Event_from_json_type_witness:
  "Event_type example_read = EventType_group_config \<and> Event_bot example_read = Inl Undefined_behaviour"
  by (rule Event_from_json_type [OF ref_event_labels _ _ example_event_read, of "''GroupMuteAllEvent''"])
    (simp_all add: example_event_def from_json_string_def event_labels_def)

lemma graceful_then_throws: "graceful r \<Longrightarrow> fuelled r \<Longrightarrow> \<exists>e'. bindE r (\<lambda>_. throw e) = throw e'"
  by (drule (1) graceful_fuelled) auto

text \<open>
  the executor of these events is optional, and
  \<open>at_executor\<close> falls back to the bot when it is absent, but the readers demand a
  member: an event whose operator is null, as when the bot itself acted, is rejected.
\<close>

theorem null_operator_rejected:
  assumes "map_of kvs ''operator'' = Some JNull"
  shows "(\<exists>e. GroupExecutorEventBase_from_json (ref_deps p) (JObj kvs) = throw e) \<and>
         (\<exists>e. MemberExecutorEventBase_from_json (ref_deps p) (JObj kvs) = throw e)"
proof -
  have operator: "from_json_class (Member_from_json (ref_deps p)) (sj_at_key (ref_deps p) (JObj kvs) ''operator'') =
      throw (Simdjson_error INCORRECT_TYPE)"
    using assms by (simp add: from_json_class_def Member_from_json_def)
  show ?thesis
    unfolding GroupExecutorEventBase_from_json_def MemberExecutorEventBase_from_json_def operator bindE_throw
    by (intro conjI graceful_then_throws graceful_event_bases fuelled_event_bases)
qed

theorem null_operator_rejected_witness:
  "(\<exists>e. GroupExecutorEventBase_from_json (ref_deps Map.empty)
      (JObj [(''type'', JStr ''GroupMuteAllEvent''), (''operator'', JNull)]) = throw e) \<and>
   (\<exists>e. MemberExecutorEventBase_from_json (ref_deps Map.empty)
      (JObj [(''type'', JStr ''GroupMuteAllEvent''), (''operator'', JNull)]) = throw e)"
  by (rule null_operator_rejected) simp

end
