(* ===== verification/Multipart.thy ===== *)
theory Multipart
  imports Common_Types "HOL-Library.Sublist"
begin

text \<open>
  The multipart form bodies of file uploads: \<open>lib/src/detail/multipart_builder.h\<close>
  and \<open>multipart_builder.cpp\<close>.  The builder's state is the text written so far.
\<close>

section \<open>Constants\<close>

abbreviation crlf :: string where
  "crlf \<equiv> [CHR 0x0D, CHR 0x0A]"

abbreviation dq :: string where
  "dq \<equiv> [CHR 0x22]"

definition multipart_boundary :: string where
  "multipart_boundary = ''miraippI7a60ebtQBvVicm91sqr2g''"

definition multipart_closing_boundary :: string where
  "multipart_closing_boundary = crlf @ ''--miraippI7a60ebtQBvVicm91sqr2g--'' @ crlf"

definition multipart_content_type :: string where
  "multipart_content_type = ''multipart/form-data; boundary=miraippI7a60ebtQBvVicm91sqr2g''"

section \<open>Files\<close>

text \<open>
  What a binary \<open>ifstream\<close> on a file that opened delivers: the number of bytes the
  first pass (\<open>ignore\<close>) counts, the bytes the second pass can read, and whether a
  pass fails for another reason than the end of the file.  The two passes see the same
  bytes unless the file changes between them.
\<close>

record in_file =
  fl_size :: nat
  fl_data :: string
  fl_error :: bool

definition whole_file :: "string \<Rightarrow> in_file" where
  "whole_file bytes = \<lparr>fl_size = length bytes, fl_data = bytes, fl_error = False\<rparr>"

text \<open>\<open>path::filename\<close> on a POSIX path: what follows the last separator.\<close>

fun path_filename :: "string \<Rightarrow> string" where
  "path_filename [] = []"
| "path_filename (c # cs) =
     (if CHR ''/'' \<in> set cs then path_filename cs
      else if c = CHR ''/'' then cs else c # cs)"

section \<open>The builder\<close>

type_synonym MultipartBuilder = string

definition MultipartBuilder_new :: MultipartBuilder where
  "MultipartBuilder_new = []"

definition MultipartBuilder_add_key_value ::
  "string \<Rightarrow> string \<Rightarrow> MultipartBuilder \<Rightarrow> MultipartBuilder" where
  "MultipartBuilder_add_key_value key value str =
     str @ crlf @ ''--'' @ multipart_boundary @ crlf
       @ ''Content-Disposition: form-data; name='' @ dq @ key @ dq @ crlf
       @ crlf
       @ value"

text \<open>
  \<open>add_file\<close> makes room for as many bytes as the first pass counted; when the
  second pass meets the end of the file earlier, the rest stays zero and no exception is
  thrown.
\<close>

definition MultipartBuilder_add_file ::
  "string \<Rightarrow> string \<Rightarrow> in_file option \<Rightarrow> MultipartBuilder \<Rightarrow> MultipartBuilder res" where
  "MultipartBuilder_add_file key path opened str =
     (case opened of
        None \<Rightarrow> throw (Runtime_error ''failed to open binary file'')
      | Some fs \<Rightarrow>
          (let str = str @ crlf @ ''--'' @ multipart_boundary @ crlf
                 @ ''Content-Disposition: form-data; name='' @ dq @ key @ dq
                 @ ''; filename='' @ dq @ path_filename path @ dq @ crlf
                 @ ''Content-Type: application/octet-stream'' @ crlf
                 @ crlf;
               size = fl_size fs;
               read = take size (fl_data fs)
           in if fl_error fs then throw (Runtime_error ''failed to read binary file'')
              else Inr (str @ read @ replicate (size - length read) (CHR 0x00))))"

definition MultipartBuilder_take_string :: "MultipartBuilder \<Rightarrow> string \<times> MultipartBuilder" where
  "MultipartBuilder_take_string str = (str @ multipart_closing_boundary, [])"

section \<open>The receiver's view\<close>

text \<open>
  How the format is read (RFC 2046): the body is cut at every delimiter, that is, at a line
  break followed by two dashes and the boundary.  What precedes the first delimiter is
  dropped; each part is a line break, the header lines, an empty line and the content; the
  last delimiter is followed by two dashes.
\<close>

definition delimiter :: string where
  "delimiter = crlf @ ''--'' @ multipart_boundary"

fun cut_at :: "string \<Rightarrow> string \<Rightarrow> (string \<times> string) option" where
  "cut_at d [] = (if d = [] then Some ([], []) else None)"
| "cut_at d (c # cs) =
     (if prefix d (c # cs) then Some ([], drop (length d) (c # cs))
      else map_option (apfst ((#) c)) (cut_at d cs))"

fun split_at :: "nat \<Rightarrow> string \<Rightarrow> string \<Rightarrow> string list" where
  "split_at 0 d s = [s]"
| "split_at (Suc n) d s =
     (case cut_at d s of None \<Rightarrow> [s] | Some (x, r) \<Rightarrow> x # split_at n d r)"

definition read_part :: "string \<Rightarrow> (string \<times> string) option" where
  "read_part p = (if prefix crlf p then cut_at (crlf @ crlf) (drop 2 p) else None)"

definition read_multipart :: "string \<Rightarrow> (string \<times> string) list option" where
  "read_multipart body =
     (case split_at (length body) delimiter body of
        [] \<Rightarrow> None
      | preamble # rest \<Rightarrow>
          if rest \<noteq> [] \<and> prefix ''--'' (last rest)
          then those (map read_part (butlast rest)) else None)"

text \<open>The parts a sequence of calls adds.\<close>

datatype part = Key_value string string | File_part string string string

fun add_part :: "part \<Rightarrow> MultipartBuilder \<Rightarrow> MultipartBuilder res" where
  "add_part (Key_value key value) str = Inr (MultipartBuilder_add_key_value key value str)"
| "add_part (File_part key path bytes) str =
     MultipartBuilder_add_file key path (Some (whole_file bytes)) str"

fun add_parts :: "part list \<Rightarrow> MultipartBuilder \<Rightarrow> MultipartBuilder res" where
  "add_parts [] str = Inr str"
| "add_parts (p # ps) str = bindE (add_part p str) (add_parts ps)"

fun part_header :: "part \<Rightarrow> string" where
  "part_header (Key_value key value) =
     ''Content-Disposition: form-data; name='' @ dq @ key @ dq"
| "part_header (File_part key path bytes) =
     ''Content-Disposition: form-data; name='' @ dq @ key @ dq
       @ ''; filename='' @ dq @ path_filename path @ dq @ crlf
       @ ''Content-Type: application/octet-stream''"

fun part_content :: "part \<Rightarrow> string" where
  "part_content (Key_value key value) = value"
| "part_content (File_part key path bytes) = bytes"

text \<open>
  A part is transmissible when its key and file name are free of carriage returns and its
  content, with the line break before it, does not contain the delimiter.
\<close>

fun part_names :: "part \<Rightarrow> string" where
  "part_names (Key_value key value) = key"
| "part_names (File_part key path bytes) = key @ path_filename path"

definition transmissible :: "part \<Rightarrow> bool" where
  "transmissible p \<longleftrightarrow>
     CHR 0x0D \<notin> set (part_names p) \<and> \<not> sublist delimiter (crlf @ part_content p)"

section \<open>Reading back\<close>

lemma cut_at_first:
  assumes "d = c # ds" and "c \<notin> set ds" and "\<not> sublist d x"
  shows "cut_at d (x @ d @ r) = Some (x, r)"
  using assms(3)
proof (induction x)
  case Nil
  then show ?case using assms(1) by simp
next
  case (Cons a x)
  have "\<not> prefix d (a # x @ d @ r)"
  proof
    assume "prefix d (a # x @ d @ r)"
    then have t: "d = take (length d) ((a # x) @ d @ r)"
      by (metis append_Cons append_eq_conv_conj prefix_def)
    show False
    proof (cases "length d \<le> length (a # x)")
      case True
      with t have "prefix d (a # x)" by (metis append_take_drop_id prefixI take_append diff_is_0_eq take0 append_Nil2)
      with Cons.prems show False by blast
    next
      case False
      then have k: "length (a # x) < length d" by simp
      have "d ! length (a # x) = ((a # x) @ d @ r) ! length (a # x)"
        using t k by (metis nth_take)
      also have "\<dots> = c" using assms(1) by (simp add: nth_append)
      finally have "c \<in> set ds" using k assms(1) by (auto simp: nth_Cons' in_set_conv_nth)
      with assms(2) show False ..
    qed
  qed
  moreover have "\<not> sublist d x" using Cons.prems by (auto simp: sublist_Cons_right)
  ultimately show ?case using Cons.IH by simp
qed

lemma cut_at_None: "\<not> sublist d x \<Longrightarrow> cut_at d x = None"
  by (induction x) (auto simp: sublist_Cons_right)

lemma delimiter_unbordered:
  obtains ds where "delimiter = CHR 0x0D # ds" and "CHR 0x0D \<notin> set ds"
  by (rule that [of "CHR 0x0A # ''--'' @ multipart_boundary"])
    (simp_all add: delimiter_def multipart_boundary_def)

lemma cut_at_delimiter: "\<not> sublist delimiter x \<Longrightarrow> cut_at delimiter (x @ delimiter @ r) = Some (x, r)"
  by (rule delimiter_unbordered) (rule cut_at_first)

lemma split_at_parts:
  assumes "\<forall>x \<in> set xs. \<not> sublist delimiter x" and "\<not> sublist delimiter y" and "length xs \<le> n"
  shows "split_at n delimiter (concat (map (\<lambda>x. x @ delimiter) xs) @ y) = xs @ [y]"
  using assms
proof (induction xs arbitrary: n)
  case Nil
  then show ?case by (cases n) (simp_all add: cut_at_None)
next
  case (Cons x xs)
  then obtain m where "n = Suc m" by (cases n) auto
  with Cons show ?case by (simp add: cut_at_delimiter)
qed

text \<open>What a part contributes after its delimiter.\<close>

definition part_text :: "part \<Rightarrow> string" where
  "part_text p = crlf @ part_header p @ crlf @ crlf @ part_content p"

lemma add_part_text: "add_part p str = Inr (str @ delimiter @ part_text p)"
  by (cases p)
    (simp_all add: MultipartBuilder_add_key_value_def MultipartBuilder_add_file_def whole_file_def
      part_text_def delimiter_def)

lemma add_parts_text:
  "add_parts ps str = Inr (str @ concat (map (\<lambda>p. delimiter @ part_text p) ps))"
  by (induction ps arbitrary: str) (simp_all add: add_part_text)

lemma closing_boundary: "multipart_closing_boundary = delimiter @ ''--'' @ crlf"
  by (simp add: multipart_closing_boundary_def delimiter_def multipart_boundary_def)


text \<open>Text before the first carriage return is passed over.\<close>

lemma sublist_skip: "c \<notin> set u \<Longrightarrow> sublist (c # ds) (u @ v) \<longleftrightarrow> sublist (c # ds) v"
  by (induction u) (auto simp: sublist_Cons_right)

lemma cut_at_skip:
  "c \<notin> set u \<Longrightarrow> cut_at (c # ds) (u @ v) = map_option (apfst ((@) u)) (cut_at (c # ds) v)"
  by (induction u; cases "cut_at (c # ds) v") auto

lemma part_text_clean:
  assumes "transmissible p"
  shows "\<not> sublist delimiter (part_text p)"
proof -
  have "sublist delimiter (part_text p) \<Longrightarrow> sublist delimiter (crlf @ part_content p)"
    using assms
    by (cases p)
      (simp_all add: transmissible_def part_text_def delimiter_def sublist_Cons_right sublist_skip)
  with assms show ?thesis by (auto simp: transmissible_def)
qed

lemma read_part_text:
  assumes "transmissible p"
  shows "read_part (part_text p) = Some (part_header p, part_content p)"
  using assms
  by (cases p)
    (simp_all add: transmissible_def read_part_def part_text_def cut_at_skip)

lemma concat_shift: "concat (map (\<lambda>x. d @ x) xs) @ d = d @ concat (map (\<lambda>x. x @ d) xs)"
  by (induction xs) simp_all


lemma length_delimited: "length xs \<le> length (concat (map (\<lambda>x. x @ delimiter) xs) @ s)"
  by (induction xs) (simp_all add: delimiter_def)

text \<open>
  A body built by any sequence of \<open>add_key_value\<close> and \<open>add_file\<close> calls and
  closed by \<open>take_string\<close> is read back as the list of the parts added, in order.
\<close>

lemma read_multipart_parts:
  assumes "list_all transmissible ps"
    and "add_parts ps MultipartBuilder_new = Inr str"
    and "MultipartBuilder_take_string str = (body, left)"
  shows "read_multipart body = Some (map (\<lambda>p. (part_header p, part_content p)) ps) \<and>
         left = MultipartBuilder_new"
proof -
  let ?xs = "map part_text ps"
  have body: "body = concat (map (\<lambda>x. x @ delimiter) ([] # ?xs)) @ ''--'' @ crlf"
    using assms(2,3) concat_shift [of delimiter ?xs]
    by (auto simp: add_parts_text MultipartBuilder_new_def MultipartBuilder_take_string_def
        closing_boundary o_def)
  have "\<forall>x \<in> set ([] # ?xs). \<not> sublist delimiter x"
    using assms(1) part_text_clean by (auto simp: list_all_iff delimiter_def)
  moreover have "\<not> sublist delimiter (''--'' @ crlf)"
    by (simp add: delimiter_def sublist_Cons_right)
  moreover have "length ([] # ?xs) \<le> length body"
    unfolding body by (rule length_delimited)
  ultimately have "split_at (length body) delimiter body = ([] # ?xs) @ [''--'' @ crlf]"
    unfolding body by (rule split_at_parts)
  moreover have "those (map read_part ?xs) = Some (map (\<lambda>p. (part_header p, part_content p)) ps)"
    using assms(1) by (induction ps) (simp_all add: read_part_text)
  ultimately show ?thesis
    using assms(3) by (simp add: read_multipart_def MultipartBuilder_take_string_def MultipartBuilder_new_def)
qed

end
