(* ===== verification/Tasks.thy ===== *)
theory Tasks
  imports Mirai_Prelude
begin

text \<open>
  Coroutines of type \<open>ex::task\<close>.  A task runs on the state of the objects it
  refers to until it awaits an operation; it is then suspended, other code may run, and the
  operation's completion resumes it.  Between two suspensions it is not interrupted: all
  tasks of a client run on one \<open>io_context\<close>, here on one thread.
\<close>

section \<open>Tasks\<close>

datatype ('s, 'q, 'r, 'a) task =
    Finished "'a res"
  | Local "'s \<Rightarrow> 's" "'s \<Rightarrow> ('s, 'q, 'r, 'a) task"
  | Await 'q "'r \<Rightarrow> ('s, 'q, 'r, 'a) task"

text \<open>
  \<open>Local u k\<close> reads the state, changes it by \<open>u\<close> and goes on as
  \<open>k\<close> says of the state that was read.
\<close>

definition act_task :: "('s, 'a) act \<Rightarrow> ('s, 'q, 'r, 'a) task" where
  "act_task m = Local (\<lambda>s. snd (m s)) (\<lambda>s. Finished (fst (m s)))"

primrec bindT ::
  "('s, 'q, 'r, 'a) task \<Rightarrow> ('a \<Rightarrow> ('s, 'q, 'r, 'b) task) \<Rightarrow> ('s, 'q, 'r, 'b) task" where
  "bindT (Finished r) f = (case r of Inl e \<Rightarrow> Finished (Inl e) | Inr x \<Rightarrow> f x)"
| "bindT (Local u k) f = Local u (\<lambda>s. bindT (k s) f)"
| "bindT (Await q k) f = Await q (\<lambda>r. bindT (k r) f)"

text \<open>\<open>co_return\<close> of a value.\<close>

definition returnT :: "'a \<Rightarrow> ('s, 'q, 'r, 'a) task" where
  "returnT x = Finished (Inr x)"

section \<open>Running a task alone\<close>

text \<open>
  Every awaited operation is answered at once by \<open>d\<close>, and nothing else runs in
  between.
\<close>

primrec run_task ::
  "('q \<Rightarrow> 's \<Rightarrow> 'r \<times> 's) \<Rightarrow> ('s, 'q, 'r, 'a) task \<Rightarrow> ('s, 'a) act" where
  "run_task d (Finished r) = (\<lambda>s. (r, s))"
| "run_task d (Local u k) = (\<lambda>s. run_task d (k s) (u s))"
| "run_task d (Await q k) = (\<lambda>s. case d q s of (r, s') \<Rightarrow> run_task d (k r) s')"

named_theorems task_simps \<open>running tasks alone\<close>

lemma run_act_task [task_simps]: "run_task d (act_task m) = m"
  by (rule ext) (simp add: act_task_def)

lemma run_returnT [task_simps]: "run_task d (returnT x) = returnS x"
  by (rule ext) (simp add: returnT_def)

lemma run_bindT [task_simps]: "run_task d (bindT t f) = bindS (run_task d t) (\<lambda>x. run_task d (f x))"
  by (induction t) (auto simp: bindS_def fun_eq_iff split: sum.splits prod.splits)

lemma bindT_return [simp]: "bindT t returnT = t"
  by (induction t) (auto simp: returnT_def split: sum.splits)

lemma bindT_assoc: "bindT (bindT t f) g = bindT t (\<lambda>x. bindT (f x) g)"
  by (induction t) (auto split: sum.splits)

section \<open>Several tasks at once\<close>

text \<open>
  \<open>advance\<close> runs a task up to its next suspension.  A schedule lists which task's
  operation is completed next: the completed task goes on up to its next suspension or its
  end.
\<close>

primrec advance :: "('s, 'q, 'r, 'a) task \<Rightarrow> 's \<Rightarrow> ('s, 'q, 'r, 'a) task \<times> 's" where
  "advance (Finished r) = (\<lambda>s. (Finished r, s))"
| "advance (Local u k) = (\<lambda>s. advance (k s) (u s))"
| "advance (Await q k) = (\<lambda>s. (Await q k, s))"

definition complete ::
  "('q \<Rightarrow> 's \<Rightarrow> 'r \<times> 's) \<Rightarrow> ('s, 'q, 'r, 'a) task \<Rightarrow> 's \<Rightarrow> ('s, 'q, 'r, 'a) task \<times> 's" where
  "complete d t s =
     (case t of Await q k \<Rightarrow> (case d q s of (r, s') \<Rightarrow> advance (k r) s') | _ \<Rightarrow> (t, s))"

fun run_schedule ::
  "('q \<Rightarrow> 's \<Rightarrow> 'r \<times> 's) \<Rightarrow> nat list \<Rightarrow> ('s, 'q, 'r, 'a) task list \<Rightarrow> 's \<Rightarrow> ('s, 'q, 'r, 'a) task list \<times> 's" where
  "run_schedule d [] ts s = (ts, s)"
| "run_schedule d (i # is) ts s =
     (if i < length ts
      then (case complete d (ts ! i) s of (t, s') \<Rightarrow> run_schedule d is (ts[i := t]) s')
      else run_schedule d is ts s)"

text \<open>Starting the tasks of a list in order, each up to its first suspension.\<close>

fun start_all ::
  "('s, 'q, 'r, 'a) task list \<Rightarrow> 's \<Rightarrow> ('s, 'q, 'r, 'a) task list \<times> 's" where
  "start_all [] s = ([], s)"
| "start_all (t # ts) s =
     (case advance t s of (t', s') \<Rightarrow> (case start_all ts s' of (ts', s'') \<Rightarrow> (t' # ts', s'')))"

lemma run_advance: "advance t s = (t', s') \<Longrightarrow> run_task d t s = run_task d t' s'"
  by (induction t arbitrary: s) auto

lemma run_complete: "complete d t s = (t', s') \<Longrightarrow> run_task d t s = run_task d t' s'"
  by (cases t) (auto simp: complete_def dest: run_advance split: prod.splits)

text \<open>With a single task a schedule can only run it as it would run alone.\<close>

lemma run_schedule_single:
  "run_schedule d is [t] s = (ts, s') \<Longrightarrow> \<exists>t'. ts = [t'] \<and> run_task d t s = run_task d t' s'"
proof (induction "is" arbitrary: t s)
  case Nil
  then show ?case by auto
next
  case (Cons i "is")
  show ?case
  proof (cases i)
    case 0
    then obtain t1 s1 where "complete d t s = (t1, s1)" "run_schedule d is [t1] s1 = (ts, s')"
      using Cons.prems by (auto split: prod.splits)
    with Cons.IH run_complete show ?thesis by metis
  next
    case (Suc n)
    with Cons show ?thesis by simp
  qed
qed

end
