(* ===== verification/Net_Client.thy ===== *)
theory Net_Client
  imports Multipart Tasks
begin

text \<open>
  The HTTP and WebSocket client: \<open>lib/include/mirai/core/net_client.h\<close> and
  \<open>lib/src/core/net_client.cpp\<close>.  Boost is not code of the repository: its
  operations on sockets, streams and timers are the fields of a record that acts on a world
  \<open>'w\<close>.  Streams and the endpoints a resolver found are handles.
\<close>

section \<open>Requests and responses\<close>

datatype http_verb = Verb_get | Verb_post

datatype http_field = Field_host | Field_user_agent | Field_content_type | Field_other string

record request =
  rq_method :: http_verb
  rq_target :: string
  rq_version :: nat
  rq_fields :: "(http_field \<times> string) list"
  rq_body :: string

record response =
  rs_result :: nat
  rs_reason :: string
  rs_body :: string

datatype status_class =
  Class_unknown | Class_informational | Class_successful | Class_redirection
  | Class_client_error | Class_server_error

text \<open>\<open>set\<close> removes the fields of that name and inserts the new one.\<close>

definition request_set :: "http_field \<Rightarrow> string \<Rightarrow> request \<Rightarrow> request" where
  "request_set name value req =
     req\<lparr>rq_fields := filter (\<lambda>(n, v). n \<noteq> name) (rq_fields req) @ [(name, value)]\<rparr>"

section \<open>The network\<close>

text \<open>
  \<open>net_resolve\<close> looks up host and port; \<open>net_stream\<close> and \<open>net_drop\<close>
  construct and destroy a TCP stream; \<open>net_connect\<close> gives the port of the endpoint
  that answered.  Operations that report an error code give 0 for success.  An asynchronous
  operation performs the same operation as the synchronous one of its name.
  \<open>ws_read\<close> gives an error code and the bytes it appended to the buffer.
  \<open>fs_open\<close> is what a binary \<open>ifstream\<close> finds under a path.
\<close>

record 'w net =
  net_resolve :: "string \<Rightarrow> string \<Rightarrow> ('w, nat) io"
  net_stream :: "'w \<Rightarrow> nat \<times> 'w"
  net_drop :: "nat \<Rightarrow> 'w \<Rightarrow> 'w"
  net_connect :: "nat \<Rightarrow> nat \<Rightarrow> ('w, nat) io"
  net_http_write :: "nat \<Rightarrow> request \<Rightarrow> ('w, unit) io"
  net_http_read :: "nat \<Rightarrow> ('w, response) io"
  net_shutdown :: "nat \<Rightarrow> 'w \<Rightarrow> nat \<times> 'w"
  net_not_connected :: nat
  net_status_class :: "nat \<Rightarrow> status_class"
  net_prepare_payload :: "request \<Rightarrow> request"
  net_version_string :: string
  ws_stream_new :: "'w \<Rightarrow> nat \<times> 'w"
  ws_stream_drop :: "nat \<Rightarrow> 'w \<Rightarrow> 'w"
  ws_connect :: "nat \<Rightarrow> nat \<Rightarrow> ('w, nat) io"
  ws_set_user_agent :: "nat \<Rightarrow> string \<Rightarrow> 'w \<Rightarrow> 'w"
  ws_handshake :: "nat \<Rightarrow> string \<Rightarrow> string \<Rightarrow> ('w, unit) io"
  ws_read :: "nat \<Rightarrow> 'w \<Rightarrow> (nat \<times> string) \<times> 'w"
  ws_close :: "nat \<Rightarrow> ('w, unit) io"
  ws_closed :: nat
  sys_operation_canceled :: nat
  asio_operation_aborted :: nat
  timer_wait :: "nat \<Rightarrow> 'w \<Rightarrow> nat \<times> 'w"
  fs_open :: "'w \<Rightarrow> string \<Rightarrow> in_file option"

definition shutdown_socket :: "'w net \<Rightarrow> nat \<Rightarrow> ('w, unit) io" where
  "shutdown_socket N stream =
     (\<lambda>w. case net_shutdown N stream w of
        (ec, w') \<Rightarrow> (if ec \<noteq> 0 \<and> ec \<noteq> net_not_connected N then Inl (System_error ec) else Inr (), w'))"

definition check_response_status :: "'w net \<Rightarrow> response \<Rightarrow> exn + unit" where
  "check_response_status N res =
     (let cls = net_status_class N (rs_result res)
      in if cls = Class_client_error \<or> cls = Class_server_error \<or> cls = Class_unknown
         then Inl (Http_status_exception (rs_result res) (rs_reason res)) else Inr ())"

definition json_content_type :: string where
  "json_content_type = ''application/json; charset=utf-8''"

section \<open>Client: requests\<close>

record Client =
  cl_host :: string
  cl_eps :: nat

definition Client_new :: "'w net \<Rightarrow> string \<Rightarrow> string \<Rightarrow> ('w, Client) io" where
  "Client_new N host port =
     bindS (net_resolve N host port) (\<lambda>eps. returnS \<lparr>cl_host = host, cl_eps = eps\<rparr>)"

text \<open>A local \<open>tcp_stream\<close>: destroyed however the block is left.\<close>

definition with_tcp_stream :: "'w net \<Rightarrow> (nat \<Rightarrow> ('w, 'a) io) \<Rightarrow> ('w, 'a) io" where
  "with_tcp_stream N body =
     (\<lambda>w. case net_stream N w of (stream, w1) \<Rightarrow>
       (case body stream w1 of (r, w2) \<Rightarrow> (r, net_drop N stream w2)))"

definition http_request :: "'w net \<Rightarrow> Client \<Rightarrow> request \<Rightarrow> ('w, string) io" where
  "http_request N c req =
     with_tcp_stream N (\<lambda>stream.
       bindS (net_connect N stream (cl_eps c)) (\<lambda>_.
       bindS (net_http_write N stream req) (\<lambda>_.
       bindS (net_http_read N stream) (\<lambda>res.
       bindS (shutdown_socket N stream) (\<lambda>_.
       bindS (liftS (check_response_status N res)) (\<lambda>_.
       returnS (rs_body res)))))))"

text \<open>The coroutine \<open>impl\<close> inside \<open>http_request_async\<close>.\<close>

definition http_request_impl :: "'w net \<Rightarrow> Client \<Rightarrow> request \<Rightarrow> ('w, string) io" where
  "http_request_impl N c req =
     with_tcp_stream N (\<lambda>stream.
       bindS (net_connect N stream (cl_eps c)) (\<lambda>_.
       bindS (net_http_write N stream req) (\<lambda>_.
       bindS (net_http_read N stream) (\<lambda>res.
       bindS (shutdown_socket N stream) (\<lambda>_.
       bindS (liftS (check_response_status N res)) (\<lambda>_.
       returnS (rs_body res)))))))"

definition generate_http_get_request :: "'w net \<Rightarrow> Client \<Rightarrow> string \<Rightarrow> request" where
  "generate_http_get_request N c target =
     request_set Field_user_agent (net_version_string N)
       (request_set Field_host (cl_host c)
         \<lparr>rq_method = Verb_get, rq_target = target, rq_version = 11, rq_fields = [], rq_body = []\<rparr>)"

definition generate_http_post_request ::
  "'w net \<Rightarrow> Client \<Rightarrow> string \<Rightarrow> string \<Rightarrow> string \<Rightarrow> request" where
  "generate_http_post_request N c target content_type body =
     net_prepare_payload N
       ((request_set Field_content_type content_type
          (request_set Field_user_agent (net_version_string N)
            (request_set Field_host (cl_host c)
              \<lparr>rq_method = Verb_post, rq_target = target, rq_version = 11, rq_fields = [], rq_body = []\<rparr>)))
        \<lparr>rq_body := body\<rparr>)"

definition Client_http_get :: "'w net \<Rightarrow> Client \<Rightarrow> string \<Rightarrow> ('w, string) io" where
  "Client_http_get N c target = http_request N c (generate_http_get_request N c target)"

definition Client_http_post ::
  "'w net \<Rightarrow> Client \<Rightarrow> string \<Rightarrow> string \<Rightarrow> string \<Rightarrow> ('w, string) io" where
  "Client_http_post N c target content_type body =
     http_request N c (generate_http_post_request N c target content_type body)"

definition Client_http_post_json :: "'w net \<Rightarrow> Client \<Rightarrow> string \<Rightarrow> string \<Rightarrow> ('w, string) io" where
  "Client_http_post_json N c target body =
     http_request N c (generate_http_post_request N c target json_content_type body)"

section \<open>WebSocket sessions\<close>

record WebsocketSession =
  wss_stream :: nat
  wss_buffer :: string

definition Client_new_websocket_session :: "'w net \<Rightarrow> 'w \<Rightarrow> WebsocketSession \<times> 'w" where
  "Client_new_websocket_session N w =
     (case ws_stream_new N w of (s, w') \<Rightarrow> (\<lparr>wss_stream = s, wss_buffer = []\<rparr>, w'))"

definition connect_websocket :: "'w net \<Rightarrow> Client \<Rightarrow> nat \<Rightarrow> string \<Rightarrow> ('w, unit) io" where
  "connect_websocket N c stream target =
     bindS (ws_connect N stream (cl_eps c)) (\<lambda>port.
     bindS (updS (ws_set_user_agent N stream (net_version_string N))) (\<lambda>_.
     ws_handshake N stream (cl_host c @ '':'' @ dec_nat port) target))"

definition connect_websocket_impl :: "'w net \<Rightarrow> Client \<Rightarrow> nat \<Rightarrow> string \<Rightarrow> ('w, unit) io" where
  "connect_websocket_impl N c stream target =
     bindS (ws_connect N stream (cl_eps c)) (\<lambda>port.
     bindS (updS (ws_set_user_agent N stream (net_version_string N))) (\<lambda>_.
     ws_handshake N stream (cl_host c @ '':'' @ dec_nat port) target))"

definition Client_connect_websocket ::
  "'w net \<Rightarrow> Client \<Rightarrow> WebsocketSession \<Rightarrow> string \<Rightarrow> ('w, unit) io" where
  "Client_connect_websocket N c ws target = connect_websocket N c (wss_stream ws) target"

text \<open>
  A read appends the message to the session's buffer and takes out all of it.  The state is
  the world and the session.
\<close>

definition WebsocketSession_read :: "'w net \<Rightarrow> ('w \<times> WebsocketSession, string) io" where
  "WebsocketSession_read N =
     (\<lambda>(w, ws). case ws_read N (wss_stream ws) w of
        ((ec, bytes), w') \<Rightarrow>
          (let buffer = wss_buffer ws @ bytes
           in if ec \<noteq> 0 then (Inl (System_error ec), (w', ws\<lparr>wss_buffer := buffer\<rparr>))
              else (Inr buffer, (w', ws\<lparr>wss_buffer := []\<rparr>))))"

definition WebsocketSession_close :: "'w net \<Rightarrow> WebsocketSession \<Rightarrow> ('w, unit) io" where
  "WebsocketSession_close N ws = ws_close N (wss_stream ws)"

section \<open>Awaiters\<close>

text \<open>
  What a task awaits, and what the completion handler of the operation is called with: an
  exception or a value for a coroutine spawned on the \<open>io_context\<close>, an error code for
  a timer, an error code and the bytes read for a WebSocket.  \<open>cp_stop\<close> says whether
  the awaiting task has been requested to stop by then.
\<close>

datatype job =
    Spawn_http Client request
  | Spawn_ws_connect Client nat string
  | Spawn_ws_close nat
  | Read_websocket nat
  | Wait_until nat
  | Post_resume

record completion =
  cp_exception :: "exn option"
  cp_value :: string
  cp_error :: nat
  cp_stop :: bool

type_synonym ('s, 'a) co = "('s, job, completion, 'a) task"

definition AsioAwaiter_await_resume :: "completion \<Rightarrow> string res" where
  "AsioAwaiter_await_resume cp =
     (case cp_exception cp of Some e \<Rightarrow> throw e | None \<Rightarrow> Inr (cp_value cp))"

definition AsioAwaiter_void_await_resume :: "completion \<Rightarrow> unit res" where
  "AsioAwaiter_void_await_resume cp =
     (case cp_exception cp of Some e \<Rightarrow> throw e | None \<Rightarrow> Inr ())"

definition WaitUntilAwaiter_await_resume :: "'w net \<Rightarrow> completion \<Rightarrow> unit res" where
  "WaitUntilAwaiter_await_resume N cp =
     (if cp_error cp \<noteq> 0 \<and> cp_error cp \<noteq> asio_operation_aborted N
      then throw (System_error (cp_error cp)) else Inr ())"

text \<open>
  The outcome of a WebSocket read: nothing when the connection was closed or the read
  cancelled.  The bytes read are in the session's buffer by then.
\<close>

definition WebsocketReadAwaiter_await_resume ::
  "'w net \<Rightarrow> completion \<Rightarrow> (WebsocketSession, string option) act" where
  "WebsocketReadAwaiter_await_resume N cp =
     (\<lambda>ws. if cp_error cp = ws_closed N \<or> cp_error cp = sys_operation_canceled N then (Inr None, ws)
           else if cp_error cp \<noteq> 0 then (throw (System_error (cp_error cp)), ws)
           else (Inr (Some (wss_buffer ws)), ws\<lparr>wss_buffer := []\<rparr>))"

section \<open>Asynchronous operations\<close>

definition http_request_async :: "Client \<Rightarrow> request \<Rightarrow> ('s, string) co" where
  "http_request_async c req = Await (Spawn_http c req) (\<lambda>cp. Finished (AsioAwaiter_await_resume cp))"

definition Client_http_get_async :: "'w net \<Rightarrow> Client \<Rightarrow> string \<Rightarrow> ('s, string) co" where
  "Client_http_get_async N c target = http_request_async c (generate_http_get_request N c target)"

definition Client_http_post_async ::
  "'w net \<Rightarrow> Client \<Rightarrow> string \<Rightarrow> string \<Rightarrow> string \<Rightarrow> ('s, string) co" where
  "Client_http_post_async N c target content_type body =
     http_request_async c (generate_http_post_request N c target content_type body)"

definition Client_http_post_json_async ::
  "'w net \<Rightarrow> Client \<Rightarrow> string \<Rightarrow> string \<Rightarrow> ('s, string) co" where
  "Client_http_post_json_async N c target body =
     http_request_async c (generate_http_post_request N c target json_content_type body)"

definition Client_schedule :: "('s, unit) co" where
  "Client_schedule = Await Post_resume (\<lambda>cp. returnT ())"

definition Client_wait_async :: "'w net \<Rightarrow> nat \<Rightarrow> ('s, unit) co" where
  "Client_wait_async N tp =
     Await (Wait_until tp) (\<lambda>cp.
       bindT (Finished (WaitUntilAwaiter_await_resume N cp)) (\<lambda>_.
       Finished (if cp_stop cp then Inl Stopped else Inr ())))"

text \<open>\<open>Client::Scheduler\<close>; \<open>now\<close> is the time at which it is asked.\<close>

definition Scheduler_schedule :: "('s, unit) co" where
  "Scheduler_schedule = Client_schedule"

definition Scheduler_schedule_at :: "'w net \<Rightarrow> nat \<Rightarrow> ('s, unit) co" where
  "Scheduler_schedule_at N tp = Client_wait_async N tp"

definition Scheduler_schedule_after :: "'w net \<Rightarrow> nat \<Rightarrow> nat \<Rightarrow> ('s, unit) co" where
  "Scheduler_schedule_after N now dur = Client_wait_async N (now + dur)"

definition Client_connect_websocket_async ::
  "Client \<Rightarrow> WebsocketSession \<Rightarrow> string \<Rightarrow> ('s, unit) co" where
  "Client_connect_websocket_async c ws target =
     Await (Spawn_ws_connect c (wss_stream ws) target) (\<lambda>cp. Finished (AsioAwaiter_void_await_resume cp))"

text \<open>\<open>read_async\<close> is stopped when the awaiter yields nothing.\<close>

definition WebsocketSession_read_async ::
  "'w net \<Rightarrow> WebsocketSession \<Rightarrow> (WebsocketSession, string) co" where
  "WebsocketSession_read_async N ws =
     Await (Read_websocket (wss_stream ws)) (\<lambda>cp.
       bindT (act_task (\<lambda>ws. WebsocketReadAwaiter_await_resume N cp (ws\<lparr>wss_buffer := wss_buffer ws @ cp_value cp\<rparr>)))
         (\<lambda>res. case res of Some text \<Rightarrow> returnT text | None \<Rightarrow> Finished (Inl Stopped)))"

definition WebsocketSession_close_async :: "WebsocketSession \<Rightarrow> ('s, unit) co" where
  "WebsocketSession_close_async ws =
     Await (Spawn_ws_close (wss_stream ws)) (\<lambda>cp. Finished (AsioAwaiter_void_await_resume cp))"

section \<open>Completing an operation\<close>

text \<open>
  The handler that \<open>co_spawn\<close> was given receives the exception that left the
  coroutine, or its value.
\<close>

definition spawned :: "('a \<Rightarrow> string) \<Rightarrow> (exn + 'a) \<times> 'w \<Rightarrow> completion \<times> 'w" where
  "spawned val = (\<lambda>(r, w). (case r of
      Inl e \<Rightarrow> \<lparr>cp_exception = Some e, cp_value = [], cp_error = 0, cp_stop = False\<rparr>
    | Inr x \<Rightarrow> \<lparr>cp_exception = None, cp_value = val x, cp_error = 0, cp_stop = False\<rparr>, w))"

fun perform_job :: "'w net \<Rightarrow> job \<Rightarrow> 'w \<Rightarrow> completion \<times> 'w" where
  "perform_job N (Spawn_http c req) w = spawned id (http_request_impl N c req w)"
| "perform_job N (Spawn_ws_connect c stream target) w =
     spawned (\<lambda>_. []) (connect_websocket_impl N c stream target w)"
| "perform_job N (Spawn_ws_close stream) w = spawned (\<lambda>_. []) (ws_close N stream w)"
| "perform_job N (Read_websocket stream) w =
     (case ws_read N stream w of ((ec, bytes), w') \<Rightarrow>
       (\<lparr>cp_exception = None, cp_value = bytes, cp_error = ec, cp_stop = False\<rparr>, w'))"
| "perform_job N (Wait_until tp) w =
     (case timer_wait N tp w of (ec, w') \<Rightarrow>
       (\<lparr>cp_exception = None, cp_value = [], cp_error = ec, cp_stop = False\<rparr>, w'))"
| "perform_job N Post_resume w =
     (\<lparr>cp_exception = None, cp_value = [], cp_error = 0, cp_stop = False\<rparr>, w)"

section \<open>Outcomes of a request\<close>

text \<open>
  C28: an HTTP request connects its own stream, writes the request, reads a
  response and shuts the connection down, and returns a body only if all four succeeded and
  the status of that response is neither an error of the client or the server nor unknown;
  the body is that of the response.  If a response with such a status was read the request
  throws: the status with its reason, or the error of the shutdown if that failed.  However
  it ends, the last thing it does is to destroy the stream.\<close>

theorem request_returns_checked_body:
  assumes "http_request N c req w = (r, w')"
  shows "\<exists>stream w1 w2. net_stream N w = (stream, w1) \<and> w' = net_drop N stream w2 \<and>
    (\<forall>body. r = Inr body \<longrightarrow> (\<exists>port u1 u2 u3 res.
       net_connect N stream (cl_eps c) w1 = (Inr port, u1) \<and> net_http_write N stream req u1 = (Inr (), u2) \<and>
       net_http_read N stream u2 = (Inr res, u3) \<and> shutdown_socket N stream u3 = (Inr (), w2) \<and>
       net_status_class N (rs_result res) \<notin> {Class_client_error, Class_server_error, Class_unknown} \<and>
       body = rs_body res)) \<and>
    (\<forall>port u1 u2 u3 res.
       net_connect N stream (cl_eps c) w1 = (Inr port, u1) \<longrightarrow> net_http_write N stream req u1 = (Inr (), u2) \<longrightarrow>
       net_http_read N stream u2 = (Inr res, u3) \<longrightarrow>
       net_status_class N (rs_result res) \<in> {Class_client_error, Class_server_error, Class_unknown} \<longrightarrow>
       r = Inl (case fst (shutdown_socket N stream u3) of
         Inl e \<Rightarrow> e | Inr _ \<Rightarrow> Http_status_exception (rs_result res) (rs_reason res)))"
proof -
  obtain stream w1 where s: "net_stream N w = (stream, w1)" by fastforce
  let ?m = "bindS (net_connect N stream (cl_eps c)) (\<lambda>_.
       bindS (net_http_write N stream req) (\<lambda>_.
       bindS (net_http_read N stream) (\<lambda>res.
       bindS (shutdown_socket N stream) (\<lambda>_.
       bindS (liftS (check_response_status N res)) (\<lambda>_.
       returnS (rs_body res))))))"
  obtain r2 w2 where m: "?m w1 = (r2, w2)" by fastforce
  have r: "r = r2" "w' = net_drop N stream w2"
    using assms s m by (simp_all add: http_request_def with_tcp_stream_def)
  have "\<exists>port u1 u2 u3 res.
       net_connect N stream (cl_eps c) w1 = (Inr port, u1) \<and> net_http_write N stream req u1 = (Inr (), u2) \<and>
       net_http_read N stream u2 = (Inr res, u3) \<and> shutdown_socket N stream u3 = (Inr (), w2) \<and>
       net_status_class N (rs_result res) \<notin> {Class_client_error, Class_server_error, Class_unknown} \<and>
       body = rs_body res" if "r2 = Inr body" for body
    using m that by (auto simp: bindS_eq_Inr check_response_status_def Let_def split: if_splits)
  moreover have "r2 = Inl (case fst (shutdown_socket N stream u3) of
      Inl e \<Rightarrow> e | Inr _ \<Rightarrow> Http_status_exception (rs_result res) (rs_reason res))"
    if "net_connect N stream (cl_eps c) w1 = (Inr port, u1)" "net_http_write N stream req u1 = (Inr (), u2)"
      "net_http_read N stream u2 = (Inr res, u3)"
      "net_status_class N (rs_result res) \<in> {Class_client_error, Class_server_error, Class_unknown}"
    for port u1 u2 u3 res
    using m that
    by (cases "shutdown_socket N stream u3")
      (auto simp: bindS_def check_response_status_def Let_def split: sum.splits)
  ultimately show ?thesis using s r by blast
qed

end
