(* ===== verification/Bot_Bodies.thy ===== *)
theory Bot_Bodies
  imports Segment_Json_Facts Event_Types Net_Client
begin

text \<open>
  The state of a \<open>Bot\<close> (\<open>lib/include/mirai/core/bot.h\<close>) and the bodies of
  the requests it makes (\<open>lib/src/core/bot.cpp\<close>, first part).
\<close>

section \<open>The bot\<close>

text \<open>
  \<open>b_addr\<close> is the bot's own address, \<open>b_world\<close> the world its client acts
  on.  The filter queue is the subject of \<open>Filter_Queue\<close>.
\<close>

record 'w Bot =
  b_addr :: nat
  b_world :: 'w
  b_client :: Client
  b_id :: UserId
  b_sess_key :: string

definition Bot_authorized :: "'w Bot \<Rightarrow> bool" where
  "Bot_authorized b \<longleftrightarrow> UserId_valid (b_id b)"

text \<open>A call of the client or of another object that acts on the world only.\<close>

definition on_world :: "('w, 'a) io \<Rightarrow> ('w Bot, 'a) act" where
  "on_world m = (\<lambda>b. case m (b_world b) of (r, w) \<Rightarrow> (throw_of r, b\<lparr>b_world := w\<rparr>))"

definition Bot_new :: "'w net \<Rightarrow> nat \<Rightarrow> string \<Rightarrow> string \<Rightarrow> 'w \<Rightarrow> (exn + 'w Bot) \<times> 'w" where
  "Bot_new N this host port w =
     (case Client_new N host port w of
        (Inl e, w') \<Rightarrow> (Inl e, w')
      | (Inr c, w') \<Rightarrow>
          (Inr \<lparr>b_addr = this, b_world = w', b_client = c, b_id = UserId_default, b_sess_key = []\<rparr>, w'))"

section \<open>Bodies\<close>

definition release_body :: "'w Bot \<Rightarrow> string" where
  "release_body b =
     perform_format
       (\<lambda>ctx. fmt_out (dec_i64 (uid_id (b_id b)) @ ''}'')
          (fmt_out ('','' @ dq @ ''qq'' @ dq @ '':'')
            (JsonQuoted_format (b_sess_key b) (fmt_out (''{'' @ dq @ ''sessionKey'' @ dq @ '':'') ctx))))"

definition quote_entry :: "MessageId option \<Rightarrow> (string \<times> jarg) list" where
  "quote_entry quote = (case quote of None \<Rightarrow> [] | Some m \<Rightarrow> [(''quote'', J_int (sint (mid_id m)))])"

definition send_message_body :: "'w Bot \<Rightarrow> i64 \<Rightarrow> Message \<Rightarrow> MessageId option \<Rightarrow> string" where
  "send_message_body b i message quote =
     perform_format (write_obj
       ([(''sessionKey'', J_text (b_sess_key b)), (''target'', J_int (sint i)),
         (''messageChain'', J_serializable (Message_format_as_json message))] @ quote_entry quote))"

definition send_temp_message_body :: "'w Bot \<Rightarrow> TempId \<Rightarrow> Message \<Rightarrow> MessageId option \<Rightarrow> string" where
  "send_temp_message_body b i message quote =
     perform_format (write_obj
       ([(''sessionKey'', J_text (b_sess_key b)), (''qq'', J_int (sint (uid_id (tid_uid i)))),
         (''group'', J_int (sint (gid_id (tid_gid i)))),
         (''messageChain'', J_serializable (Message_format_as_json message))] @ quote_entry quote))"

text \<open>\<open>target_id_body\<close> is used at a message id and at a group id.\<close>

definition target_id_body :: "'w Bot \<Rightarrow> int \<Rightarrow> string" where
  "target_id_body b i =
     perform_format (write_obj [(''sessionKey'', J_text (b_sess_key b)), (''target'', J_int i)])"

definition send_image_message_user_body :: "'w Bot \<Rightarrow> UserId \<Rightarrow> string list \<Rightarrow> string" where
  "send_image_message_user_body b i urls =
     perform_format (write_obj
       [(''sessionKey'', J_text (b_sess_key b)), (''qq'', J_int (sint (uid_id i))),
        (''urls'', J_range (map J_text urls))])"

definition send_image_message_group_body :: "'w Bot \<Rightarrow> GroupId \<Rightarrow> string list \<Rightarrow> string" where
  "send_image_message_group_body b i urls =
     perform_format (write_obj
       [(''sessionKey'', J_text (b_sess_key b)), (''group'', J_int (sint (gid_id i))),
        (''urls'', J_range (map J_text urls))])"

definition send_image_message_temp_body :: "'w Bot \<Rightarrow> TempId \<Rightarrow> string list \<Rightarrow> string" where
  "send_image_message_temp_body b i urls =
     perform_format (write_obj
       [(''sessionKey'', J_text (b_sess_key b)), (''qq'', J_int (sint (uid_id (tid_uid i)))),
        (''group'', J_int (sint (gid_id (tid_gid i)))),
        (''urls'', J_range (map J_text urls))])"

definition upload_file_body ::
  "'w net \<Rightarrow> TargetType \<Rightarrow> string \<Rightarrow> string \<Rightarrow> 'w Bot \<Rightarrow> string res" where
  "upload_file_body N ty key path b =
     (let builder = MultipartBuilder_new;
          builder = MultipartBuilder_add_key_value ''sessionKey'' (b_sess_key b) builder;
          builder = MultipartBuilder_add_key_value ''type'' (TargetType_to_string_view ty) builder
      in bindE (MultipartBuilder_add_file key path (fs_open N (b_world b) path) builder) (\<lambda>builder.
         Inr (fst (MultipartBuilder_take_string builder))))"

definition opt_entry :: "string \<Rightarrow> ('a \<Rightarrow> jarg) \<Rightarrow> 'a option \<Rightarrow> (string \<times> jarg) list" where
  "opt_entry key f x = (case x of None \<Rightarrow> [] | Some v \<Rightarrow> [(key, f v)])"

definition config_body :: "'w Bot \<Rightarrow> SessionConfig \<Rightarrow> string" where
  "config_body b config =
     perform_format (write_obj
       ([(''sessionKey'', J_text (b_sess_key b))]
        @ opt_entry ''cacheSize'' (\<lambda>v. J_int (sint v)) (sc_cache_size config)
        @ opt_entry ''enableWebsocket'' J_bool (sc_enable_websocket config)))"

definition mute_body :: "'w Bot \<Rightarrow> GroupId \<Rightarrow> UserId \<Rightarrow> i64 \<Rightarrow> string" where
  "mute_body b gid user duration =
     perform_format (write_obj
       [(''sessionKey'', J_text (b_sess_key b)), (''target'', J_int (sint (gid_id gid))),
        (''memberId'', J_int (sint (uid_id user))), (''time'', J_int (sint duration))])"

definition unmute_body :: "'w Bot \<Rightarrow> GroupId \<Rightarrow> UserId \<Rightarrow> string" where
  "unmute_body b gid user =
     perform_format (write_obj
       [(''sessionKey'', J_text (b_sess_key b)), (''target'', J_int (sint (gid_id gid))),
        (''memberId'', J_int (sint (uid_id user)))])"

definition kick_body :: "'w Bot \<Rightarrow> GroupId \<Rightarrow> UserId \<Rightarrow> string \<Rightarrow> string" where
  "kick_body b gid user reason =
     perform_format (write_obj
       [(''sessionKey'', J_text (b_sess_key b)), (''target'', J_int (sint (gid_id gid))),
        (''memberId'', J_int (sint (uid_id user))), (''msg'', J_text reason)])"

definition respond_new_friend_body ::
  "'w Bot \<Rightarrow> NewFriendRequestEvent \<Rightarrow> NewFriendResponseType \<Rightarrow> string \<Rightarrow> string" where
  "respond_new_friend_body b ev ty reason =
     perform_format (write_obj
       [(''sessionKey'', J_text (b_sess_key b)), (''eventId'', J_int (sint (nfr_id ev))),
        (''fromId'', J_int (sint (uid_id (nfr_from_id ev)))),
        (''groupId'', J_int (sint (gid_id (nfr_group_id ev)))),
        (''operate'', J_int (uint (NewFriendResponseType_code ty))), (''message'', J_text reason)])"

definition respond_member_join_body ::
  "'w Bot \<Rightarrow> MemberJoinRequestEvent \<Rightarrow> MemberJoinResponseType \<Rightarrow> string \<Rightarrow> string" where
  "respond_member_join_body b ev ty reason =
     perform_format (write_obj
       [(''sessionKey'', J_text (b_sess_key b)), (''eventId'', J_int (sint (mjr_id ev))),
        (''fromId'', J_int (sint (uid_id (mjr_from_id ev)))),
        (''groupId'', J_int (sint (gid_id (mjr_group_id ev)))),
        (''operate'', J_int (uint (MemberJoinResponseType_code ty))), (''message'', J_text reason)])"

definition respond_bot_invited_body ::
  "'w Bot \<Rightarrow> BotInvitedJoinGroupRequestEvent \<Rightarrow> BotInvitedJoinGroupResponseType \<Rightarrow> string \<Rightarrow> string" where
  "respond_bot_invited_body b ev ty reason =
     perform_format (write_obj
       [(''sessionKey'', J_text (b_sess_key b)), (''eventId'', J_int (sint (bij_id ev))),
        (''fromId'', J_int (sint (uid_id (bij_from_id ev)))),
        (''groupId'', J_int (sint (gid_id (bij_group_id ev)))),
        (''operate'', J_int (uint (BotInvitedJoinGroupResponseType_code ty))), (''message'', J_text reason)])"

definition config_group_body :: "'w Bot \<Rightarrow> GroupId \<Rightarrow> GroupConfig \<Rightarrow> string" where
  "config_group_body b gid config =
     perform_format (write_obj
       [(''sessionKey'', J_text (b_sess_key b)), (''target'', J_int (sint (gid_id gid))),
        (''config'', J_serializable (GroupConfig_format_as_json config))])"

definition set_member_info_body :: "'w Bot \<Rightarrow> GroupId \<Rightarrow> UserId \<Rightarrow> MemberInfo \<Rightarrow> string" where
  "set_member_info_body b gid user info =
     perform_format (write_obj
       [(''sessionKey'', J_text (b_sess_key b)), (''target'', J_int (sint (gid_id gid))),
        (''memberId'', J_int (sint (uid_id user))),
        (''info'', J_serializable (MemberInfo_format_as_json info))])"

end
