(* ===== verification/Exceptions.thy ===== *)
theory Exceptions
  imports Common_Types
begin

text \<open>
  \<open>lib/include/mirai/core/exceptions.h\<close> and \<open>lib/src/core/exceptions.cpp\<close>: the
  status codes of mirai-api-http, the exceptions built from them and the logging of
  the exception in flight.
\<close>

section \<open>Status codes\<close>

text \<open>
  \<open>MiraiStatus\<close> is a scoped enumeration over \<open>int\<close>: every 32-bit value is a value
  of the type, the enumerators name some of them.
\<close>

type_synonym MiraiStatus = i32

definition MiraiStatus_success :: MiraiStatus where
  "MiraiStatus_success = 0"

definition MiraiStatus_incorrect_auth_key :: MiraiStatus where
  "MiraiStatus_incorrect_auth_key = 1"

definition MiraiStatus_bot_not_exist :: MiraiStatus where
  "MiraiStatus_bot_not_exist = 2"

definition MiraiStatus_session_invalid_or_not_exist :: MiraiStatus where
  "MiraiStatus_session_invalid_or_not_exist = 3"

definition MiraiStatus_session_not_authorized_or_not_verified :: MiraiStatus where
  "MiraiStatus_session_not_authorized_or_not_verified = 4"

definition MiraiStatus_target_not_exist :: MiraiStatus where
  "MiraiStatus_target_not_exist = 5"

definition MiraiStatus_file_not_exist :: MiraiStatus where
  "MiraiStatus_file_not_exist = 6"

definition MiraiStatus_no_permission :: MiraiStatus where
  "MiraiStatus_no_permission = 10"

definition MiraiStatus_bot_muted :: MiraiStatus where
  "MiraiStatus_bot_muted = 20"

definition MiraiStatus_message_too_long :: MiraiStatus where
  "MiraiStatus_message_too_long = 30"

definition MiraiStatus_erroneous_access :: MiraiStatus where
  "MiraiStatus_erroneous_access = 400"

lemmas MiraiStatus_defs =
  MiraiStatus_success_def
  MiraiStatus_incorrect_auth_key_def
  MiraiStatus_bot_not_exist_def
  MiraiStatus_session_invalid_or_not_exist_def
  MiraiStatus_session_not_authorized_or_not_verified_def
  MiraiStatus_target_not_exist_def
  MiraiStatus_file_not_exist_def
  MiraiStatus_no_permission_def
  MiraiStatus_bot_muted_def
  MiraiStatus_message_too_long_def
  MiraiStatus_erroneous_access_def

text \<open>The descriptions are UTF-8 byte strings.\<close>

definition get_description :: "MiraiStatus \<Rightarrow> string" where
  "get_description code =
    (if code = MiraiStatus_success then
      [CHR 0xE6, CHR 0xAD, CHR 0xA3, CHR 0xE5, CHR 0xB8, CHR 0xB8]
     else if code = MiraiStatus_incorrect_auth_key then
      ([CHR 0xE9, CHR 0x94, CHR 0x99, CHR 0xE8, CHR 0xAF, CHR 0xAF, CHR 0xE7, CHR 0x9A, CHR
      0x84] @ '' auth key'')
     else if code = MiraiStatus_bot_not_exist then
      ([CHR 0xE6, CHR 0x8C, CHR 0x87, CHR 0xE5, CHR 0xAE, CHR 0x9A, CHR 0xE7, CHR 0x9A, CHR
      0x84] @ '' Bot '' @ [CHR 0xE4, CHR 0xB8, CHR 0x8D, CHR 0xE5, CHR 0xAD, CHR 0x98, CHR
      0xE5, CHR 0x9C, CHR 0xA8])
     else if code = MiraiStatus_session_invalid_or_not_exist then
      (''Session '' @ [CHR 0xE5, CHR 0xA4, CHR 0xB1, CHR 0xE6, CHR 0x95, CHR 0x88, CHR 0xE6,
      CHR 0x88, CHR 0x96, CHR 0xE4, CHR 0xB8, CHR 0x8D, CHR 0xE5, CHR 0xAD, CHR 0x98, CHR 0xE5,
      CHR 0x9C, CHR 0xA8])
     else if code = MiraiStatus_session_not_authorized_or_not_verified then
      (''Session '' @ [CHR 0xE6, CHR 0x9C, CHR 0xAA, CHR 0xE8, CHR 0xAE, CHR 0xA4, CHR 0xE8,
      CHR 0xAF, CHR 0x81] @ '' ('' @ [CHR 0xE6, CHR 0x9C, CHR 0xAA, CHR 0xE6, CHR 0xBF, CHR
      0x80, CHR 0xE6, CHR 0xB4, CHR 0xBB] @ '')'')
     else if code = MiraiStatus_target_not_exist then
      ([CHR 0xE5, CHR 0x8F, CHR 0x91, CHR 0xE9, CHR 0x80, CHR 0x81, CHR 0xE6, CHR 0xB6, CHR
      0x88, CHR 0xE6, CHR 0x81, CHR 0xAF, CHR 0xE7, CHR 0x9B, CHR 0xAE, CHR 0xE6, CHR 0xA0, CHR
      0x87, CHR 0xE4, CHR 0xB8, CHR 0x8D, CHR 0xE5, CHR 0xAD, CHR 0x98, CHR 0xE5, CHR 0x9C, CHR
      0xA8] @ '' ('' @ [CHR 0xE6, CHR 0x8C, CHR 0x87, CHR 0xE5, CHR 0xAE, CHR 0x9A, CHR 0xE5,
      CHR 0xAF, CHR 0xB9, CHR 0xE8, CHR 0xB1, CHR 0xA1, CHR 0xE4, CHR 0xB8, CHR 0x8D, CHR 0xE5,
      CHR 0xAD, CHR 0x98, CHR 0xE5, CHR 0x9C, CHR 0xA8] @ '')'')
     else if code = MiraiStatus_file_not_exist then
      [CHR 0xE6, CHR 0x8C, CHR 0x87, CHR 0xE5, CHR 0xAE, CHR 0x9A, CHR 0xE6, CHR 0x96, CHR
      0x87, CHR 0xE4, CHR 0xBB, CHR 0xB6, CHR 0xE4, CHR 0xB8, CHR 0x8D, CHR 0xE5, CHR 0xAD, CHR
      0x98, CHR 0xE5, CHR 0x9C, CHR 0xA8, CHR 0xEF, CHR 0xBC, CHR 0x8C, CHR 0xE5, CHR 0x87, CHR
      0xBA, CHR 0xE7, CHR 0x8E, CHR 0xB0, CHR 0xE4, CHR 0xBA, CHR 0x8E, CHR 0xE5, CHR 0x8F, CHR
      0x91, CHR 0xE9, CHR 0x80, CHR 0x81, CHR 0xE6, CHR 0x9C, CHR 0xAC, CHR 0xE5, CHR 0x9C, CHR
      0xB0, CHR 0xE5, CHR 0x9B, CHR 0xBE, CHR 0xE7, CHR 0x89, CHR 0x87]
     else if code = MiraiStatus_no_permission then
      ([CHR 0xE6, CHR 0x97, CHR 0xA0, CHR 0xE6, CHR 0x93, CHR 0x8D, CHR 0xE4, CHR 0xBD, CHR
      0x9C, CHR 0xE6, CHR 0x9D, CHR 0x83, CHR 0xE9, CHR 0x99, CHR 0x90, CHR 0xEF, CHR 0xBC, CHR
      0x8C, CHR 0xE6, CHR 0x8C, CHR 0x87] @ '' Bot '' @ [CHR 0xE6, CHR 0xB2, CHR 0xA1, CHR
      0xE6, CHR 0x9C, CHR 0x89, CHR 0xE5, CHR 0xAF, CHR 0xB9, CHR 0xE5, CHR 0xBA, CHR 0x94, CHR
      0xE6, CHR 0x93, CHR 0x8D, CHR 0xE4, CHR 0xBD, CHR 0x9C, CHR 0xE7, CHR 0x9A, CHR 0x84, CHR
      0xE9, CHR 0x99, CHR 0x90, CHR 0xE6, CHR 0x9D, CHR 0x83])
     else if code = MiraiStatus_bot_muted then
      (''Bot '' @ [CHR 0xE8, CHR 0xA2, CHR 0xAB, CHR 0xE7, CHR 0xA6, CHR 0x81, CHR 0xE8, CHR
      0xA8, CHR 0x80, CHR 0xEF, CHR 0xBC, CHR 0x8C, CHR 0xE6, CHR 0x8C, CHR 0x87] @ '' Bot '' @
      [CHR 0xE5, CHR 0xBD, CHR 0x93, CHR 0xE5, CHR 0x89, CHR 0x8D, CHR 0xE6, CHR 0x97, CHR
      0xA0, CHR 0xE6, CHR 0xB3, CHR 0x95, CHR 0xE5, CHR 0x90, CHR 0x91, CHR 0xE6, CHR 0x8C, CHR
      0x87, CHR 0xE5, CHR 0xAE, CHR 0x9A, CHR 0xE7, CHR 0xBE, CHR 0xA4, CHR 0xE5, CHR 0x8F, CHR
      0x91, CHR 0xE9, CHR 0x80, CHR 0x81, CHR 0xE6, CHR 0xB6, CHR 0x88, CHR 0xE6, CHR 0x81, CHR
      0xAF])
     else if code = MiraiStatus_message_too_long then
      [CHR 0xE6, CHR 0xB6, CHR 0x88, CHR 0xE6, CHR 0x81, CHR 0xAF, CHR 0xE8, CHR 0xBF, CHR
      0x87, CHR 0xE9, CHR 0x95, CHR 0xBF]
     else if code = MiraiStatus_erroneous_access then
      [CHR 0xE9, CHR 0x94, CHR 0x99, CHR 0xE8, CHR 0xAF, CHR 0xAF, CHR 0xE7, CHR 0x9A, CHR
      0x84, CHR 0xE8, CHR 0xAE, CHR 0xBF, CHR 0xE9, CHR 0x97, CHR 0xAE, CHR 0xEF, CHR 0xBC, CHR
      0x8C, CHR 0xE5, CHR 0xA6, CHR 0x82, CHR 0xE5, CHR 0x8F, CHR 0x82, CHR 0xE6, CHR 0x95, CHR
      0xB0, CHR 0xE9, CHR 0x94, CHR 0x99, CHR 0xE8, CHR 0xAF, CHR 0xAF, CHR 0xE7, CHR 0xAD, CHR
      0x89]
     else
      [CHR 0xE6, CHR 0x9C, CHR 0xAA, CHR 0xE7, CHR 0x9F, CHR 0xA5, CHR 0xE7, CHR 0x9A, CHR
      0x84, CHR 0xE9, CHR 0x94, CHR 0x99, CHR 0xE8, CHR 0xAF, CHR 0xAF])"

section \<open>Throwing\<close>

definition check_status_code :: "MiraiStatus \<Rightarrow> unit res" where
  "check_status_code code =
     (if code \<noteq> MiraiStatus_success then throw (Mirai_exception code) else Inr ())"

text \<open>
  The text an exception reports.  The classes defined here report the description of
  their status, the HTTP reason phrase, or the text given to \<open>std::runtime_error\<close>; the
  texts of the library's exceptions (and whether a user's exception derives from
  \<open>std::exception\<close> at all) are the parameter \<open>lib_what\<close>.
\<close>

fun exn_what :: "(exn \<Rightarrow> string option) \<Rightarrow> exn \<Rightarrow> string option" where
  "exn_what lib_what (Mirai_exception code) = Some (get_description code)"
| "exn_what lib_what (Http_status_exception status reason) = Some reason"
| "exn_what lib_what (Runtime_error msg) = Some msg"
| "exn_what lib_what e = lib_what e"

text \<open>\<open>log_exception\<close> appends one line to \<open>stderr\<close>.\<close>

definition log_exception :: "(exn \<Rightarrow> string option) \<Rightarrow> exn \<Rightarrow> string \<Rightarrow> string" where
  "log_exception lib_what e err =
     (case exn_what lib_what e of
        Some what \<Rightarrow> err @ ''Caught exception: '' @ what @ [CHR 0x0A]
      | None \<Rightarrow> err @ ''Unknown exception caught'' @ [CHR 0x0A])"

lemma check_status_code_ok [simp]: "check_status_code code = Inr () \<longleftrightarrow> code = 0"
  by (simp add: check_status_code_def MiraiStatus_success_def)

lemma check_status_code_throws:
  "code \<noteq> 0 \<Longrightarrow> check_status_code code = throw (Mirai_exception code)"
  by (simp add: check_status_code_def MiraiStatus_success_def)

end
