(* ===== verification/Bot_Operations.thy ===== *)
theory Bot_Operations
  imports Bot_Bodies Segment_Roundtrip Event_Json Exceptions
begin

text \<open>
  The operations of \<open>Bot\<close> that wait for the answer of each request
  (\<open>lib/src/core/bot.cpp\<close>).  They act on the bot's state and its world; a failure
  leaves the effects made so far.  The JSON library \<open>D\<close> and the network \<open>N\<close> are
  arguments.
\<close>

section \<open>Checking responses\<close>

text \<open>
  A response without an integer field \<open>code\<close>, or that is not an object, passes.  The
  64-bit code is converted to the 32-bit \<open>MiraiStatus\<close> before it is checked.
\<close>

definition check_json :: "'j deps \<Rightarrow> 'j json_res \<Rightarrow> unit res" where
  "check_json D json =
     (let code = res_at D json ''code''
      in if code \<noteq> Inl NO_SUCH_FIELD \<and> code \<noteq> Inl INCORRECT_TYPE
         then bindE (json_conv (sj_get_int64 D) code) (\<lambda>int_code. check_status_code (i64_to_i32 int_code))
         else Inr ())"

definition get_checked_response_json :: "'j deps \<Rightarrow> string \<Rightarrow> 'j json_res res" where
  "get_checked_response_json D response =
     (let json = sj_parse D response in bindE (check_json D json) (\<lambda>_. Inr json))"

text \<open>
  \<open>get_checked_response_json(net_client_.http_get(target))\<close> and its variants; target and
  body are computed from the bot's state before the request is made.
\<close>

definition checked_get :: "'j deps \<Rightarrow> 'w net \<Rightarrow> ('w Bot \<Rightarrow> string) \<Rightarrow> ('w Bot, 'j json_res) act" where
  "checked_get D N target =
     (\<lambda>b. bindS (on_world (Client_http_get N (b_client b) (target b)))
            (\<lambda>response. liftS (get_checked_response_json D response)) b)"

definition checked_post ::
  "'j deps \<Rightarrow> 'w net \<Rightarrow> string \<Rightarrow> string \<Rightarrow> ('w Bot \<Rightarrow> string res) \<Rightarrow> ('w Bot, 'j json_res) act" where
  "checked_post D N target content_type body =
     (\<lambda>b. bindS (liftS (body b))
            (\<lambda>text. bindS (on_world (Client_http_post N (b_client b) target content_type text))
            (\<lambda>response. liftS (get_checked_response_json D response))) b)"

definition checked_post_json ::
  "'j deps \<Rightarrow> 'w net \<Rightarrow> string \<Rightarrow> ('w Bot \<Rightarrow> string res) \<Rightarrow> ('w Bot, 'j json_res) act" where
  "checked_post_json D N target body =
     (\<lambda>b. bindS (liftS (body b))
            (\<lambda>text. bindS (on_world (Client_http_post_json N (b_client b) target text))
            (\<lambda>response. liftS (get_checked_response_json D response))) b)"

section \<open>Sessions\<close>

text \<open>The text of the exception says that a bot instance can be bound to one account only.\<close>

definition check_auth_gen_body :: "string \<Rightarrow> 'w Bot \<Rightarrow> string res" where
  "check_auth_gen_body auth_key b =
     (if Bot_authorized b
      then throw (Runtime_error
        ([CHR 0xE4, CHR 0xB8, CHR 0x80, CHR 0xE4, CHR 0xB8, CHR 0xAA] @ '' Bot '' @
         [CHR 0xE5, CHR 0xAE, CHR 0x9E, CHR 0xE4, CHR 0xBE, CHR 0x8B, CHR 0xE5, CHR 0x8F, CHR 0xAA,
          CHR 0xE8, CHR 0x83, CHR 0xBD, CHR 0xE7, CHR 0xBB, CHR 0x91, CHR 0xE5, CHR 0xAE, CHR 0x9A,
          CHR 0xE4, CHR 0xB8, CHR 0x80, CHR 0xE4, CHR 0xB8, CHR 0xAA] @ '' bot '' @
         [CHR 0xE8, CHR 0xB4, CHR 0xA6, CHR 0xE5, CHR 0x8F, CHR 0xB7]))
      else Inr (perform_format
        (\<lambda>ctx. fmt_out ''}'' (JsonQuoted_format auth_key (fmt_out (''{'' @ dq @ ''authKey'' @ dq @ '':'') ctx)))))"

definition verify_body :: "UserId \<Rightarrow> 'w Bot \<Rightarrow> string" where
  "verify_body i b =
     perform_format
       (\<lambda>ctx. fmt_out (dec_i64 (uid_id i) @ ''}'')
          (fmt_out ('','' @ dq @ ''qq'' @ dq @ '':'')
            (JsonQuoted_format (b_sess_key b) (fmt_out (''{'' @ dq @ ''sessionKey'' @ dq @ '':'') ctx))))"

definition Bot_authorize :: "'j deps \<Rightarrow> 'w net \<Rightarrow> string \<Rightarrow> UserId \<Rightarrow> ('w Bot, unit) act" where
  "Bot_authorize D N auth_key i =
     bindS (checked_post_json D N ''/auth'' (check_auth_gen_body auth_key)) (\<lambda>auth_json.
     bindS (liftS (from_json_string D (res_at D auth_json ''session''))) (\<lambda>key.
     bindS (updS (\<lambda>b. b\<lparr>b_sess_key := key\<rparr>)) (\<lambda>_.
     bindS (checked_post_json D N ''/verify'' (\<lambda>b. Inr (verify_body i b))) (\<lambda>_.
     updS (\<lambda>b. b\<lparr>b_id := i\<rparr>)))))"

definition Bot_release :: "'j deps \<Rightarrow> 'w net \<Rightarrow> ('w Bot, unit) act" where
  "Bot_release D N =
     bindS (checked_post_json D N ''/release'' (\<lambda>b. Inr (release_body b))) (\<lambda>_.
     bindS (updS (\<lambda>b. b\<lparr>b_id := UserId_default\<rparr>)) (\<lambda>_.
     updS (\<lambda>b. b\<lparr>b_sess_key := []\<rparr>)))"

text \<open>The destructor ends the program when releasing the session fails.\<close>

definition Bot_destroy :: "'j deps \<Rightarrow> 'w net \<Rightarrow> ('w Bot, unit) act" where
  "Bot_destroy D N =
     (\<lambda>b. catchS (if Bot_authorized b then Bot_release D N else returnS ()) (\<lambda>_. liftS (Inl Terminate)) b)"

section \<open>Parsing events\<close>

definition Bot_parse_event :: "'j deps \<Rightarrow> 'j \<Rightarrow> ('w Bot, Event) act" where
  "Bot_parse_event D json =
     askS (\<lambda>b. bindE (Event_from_json (segment_fuel (sj_max_depth D)) D json) (\<lambda>ev.
       Inr (Event_set_bot (b_addr b) ev)))"

definition Bot_parse_events :: "'j deps \<Rightarrow> 'j json_res \<Rightarrow> ('w Bot, Event list) act" where
  "Bot_parse_events D r =
     askS (\<lambda>b. bindE (json_value r) (\<lambda>json.
       bindE (throwing (sj_get_array D json)) (traverseE (\<lambda>elem.
         bindE (Event_from_json (segment_fuel (sj_max_depth D)) D elem) (\<lambda>ev.
           Inr (Event_set_bot (b_addr b) ev))))))"

section \<open>Operations\<close>

definition Bot_get_version :: "'j deps \<Rightarrow> 'w net \<Rightarrow> ('w Bot, string) act" where
  "Bot_get_version D N =
     bindS
       (checked_get D N (\<lambda>_. ''/about''))
       (\<lambda>json. liftS (from_json_string D (res_at_pointer D json ''/data/version'')))"

definition Bot_send_message_user :: "'j deps \<Rightarrow> 'w net \<Rightarrow> UserId \<Rightarrow> Message \<Rightarrow> MessageId option \<Rightarrow> ('w Bot, MessageId) act" where
  "Bot_send_message_user D N i message quote =
     bindS
       (checked_post_json D N ''/sendFriendMessage'' (\<lambda>b. Inr (send_message_body b (uid_id i) message quote)))
       (\<lambda>res. liftS (bindE (from_json_i32 D (res_at D res ''messageId'')) (\<lambda>i. Inr (MessageId i))))"

definition Bot_send_message_group :: "'j deps \<Rightarrow> 'w net \<Rightarrow> GroupId \<Rightarrow> Message \<Rightarrow> MessageId option \<Rightarrow> ('w Bot, MessageId) act" where
  "Bot_send_message_group D N i message quote =
     bindS
       (checked_post_json D N ''/sendGroupMessage'' (\<lambda>b. Inr (send_message_body b (gid_id i) message quote)))
       (\<lambda>res. liftS (bindE (from_json_i32 D (res_at D res ''messageId'')) (\<lambda>i. Inr (MessageId i))))"

definition Bot_send_message_temp :: "'j deps \<Rightarrow> 'w net \<Rightarrow> TempId \<Rightarrow> Message \<Rightarrow> MessageId option \<Rightarrow> ('w Bot, MessageId) act" where
  "Bot_send_message_temp D N i message quote =
     bindS
       (checked_post_json D N ''/sendTempMessage'' (\<lambda>b. Inr (send_temp_message_body b i message quote)))
       (\<lambda>res. liftS (bindE (from_json_i32 D (res_at D res ''messageId'')) (\<lambda>i. Inr (MessageId i))))"

definition Bot_recall :: "'j deps \<Rightarrow> 'w net \<Rightarrow> MessageId \<Rightarrow> ('w Bot, unit) act" where
  "Bot_recall D N i =
     bindS
       (checked_post_json D N ''/recall'' (\<lambda>b. Inr (target_id_body b (sint (mid_id i)))))
       (\<lambda>_. returnS ())"

definition Bot_send_image_message_user :: "'j deps \<Rightarrow> 'w net \<Rightarrow> UserId \<Rightarrow> string list \<Rightarrow> ('w Bot, string list) act" where
  "Bot_send_image_message_user D N i urls =
     bindS
       (checked_post_json D N ''/sendImageMessage'' (\<lambda>b. Inr (send_image_message_user_body b i urls)))
       (\<lambda>json. liftS (from_json_vector D (from_json_string D) json))"

definition Bot_send_image_message_group :: "'j deps \<Rightarrow> 'w net \<Rightarrow> GroupId \<Rightarrow> string list \<Rightarrow> ('w Bot, string list) act" where
  "Bot_send_image_message_group D N i urls =
     bindS
       (checked_post_json D N ''/sendImageMessage'' (\<lambda>b. Inr (send_image_message_group_body b i urls)))
       (\<lambda>json. liftS (from_json_vector D (from_json_string D) json))"

definition Bot_send_image_message_temp :: "'j deps \<Rightarrow> 'w net \<Rightarrow> TempId \<Rightarrow> string list \<Rightarrow> ('w Bot, string list) act" where
  "Bot_send_image_message_temp D N i urls =
     bindS
       (checked_post_json D N ''/sendImageMessage'' (\<lambda>b. Inr (send_image_message_temp_body b i urls)))
       (\<lambda>json. liftS (from_json_vector D (from_json_string D) json))"

definition Bot_upload_image :: "'j deps \<Rightarrow> 'w net \<Rightarrow> TargetType \<Rightarrow> string \<Rightarrow> ('w Bot, Image) act" where
  "Bot_upload_image D N ty path =
     bindS
       (checked_post D N ''/uploadImage'' multipart_content_type (\<lambda>b. upload_file_body N ty ''img'' path b))
       (\<lambda>json. liftS (from_json_class (Image_from_json D) json))"

definition Bot_upload_voice :: "'j deps \<Rightarrow> 'w net \<Rightarrow> TargetType \<Rightarrow> string \<Rightarrow> ('w Bot, Voice) act" where
  "Bot_upload_voice D N ty path =
     bindS
       (checked_post D N ''/uploadVoice'' multipart_content_type (\<lambda>b. upload_file_body N ty ''voice'' path b))
       (\<lambda>json. liftS (from_json_class (Voice_from_json D) json))"

definition Bot_pop_events :: "'j deps \<Rightarrow> 'w net \<Rightarrow> u64 \<Rightarrow> ('w Bot, Event list) act" where
  "Bot_pop_events D N cnt =
     bindS
       (checked_get D N (\<lambda>b. ''/fetchMessage?sessionKey='' @ b_sess_key b @ ''&count='' @ dec_u64 cnt))
       (\<lambda>json. Bot_parse_events D (res_at D json ''data''))"

definition Bot_pop_latest_events :: "'j deps \<Rightarrow> 'w net \<Rightarrow> u64 \<Rightarrow> ('w Bot, Event list) act" where
  "Bot_pop_latest_events D N cnt =
     bindS
       (checked_get D N (\<lambda>b. ''/fetchLatestMessage?sessionKey='' @ b_sess_key b @ ''&count='' @ dec_u64 cnt))
       (\<lambda>json. Bot_parse_events D (res_at D json ''data''))"

definition Bot_peek_events :: "'j deps \<Rightarrow> 'w net \<Rightarrow> u64 \<Rightarrow> ('w Bot, Event list) act" where
  "Bot_peek_events D N cnt =
     bindS
       (checked_get D N (\<lambda>b. ''/peekMessage?sessionKey='' @ b_sess_key b @ ''&count='' @ dec_u64 cnt))
       (\<lambda>json. Bot_parse_events D (res_at D json ''data''))"

definition Bot_peek_latest_events :: "'j deps \<Rightarrow> 'w net \<Rightarrow> u64 \<Rightarrow> ('w Bot, Event list) act" where
  "Bot_peek_latest_events D N cnt =
     bindS
       (checked_get D N (\<lambda>b. ''/peekLatestMessage?sessionKey='' @ b_sess_key b @ ''&count='' @ dec_u64 cnt))
       (\<lambda>json. Bot_parse_events D (res_at D json ''data''))"

definition Bot_retrieve_message :: "'j deps \<Rightarrow> 'w net \<Rightarrow> MessageId \<Rightarrow> ('w Bot, Event) act" where
  "Bot_retrieve_message D N i =
     bindS
       (checked_get D N (\<lambda>b. ''/messageFromId?sessionKey='' @ b_sess_key b @ ''&id='' @ dec_i32 (mid_id i)))
       (\<lambda>json. liftS (from_json_class (Event_from_json (segment_fuel (sj_max_depth D)) D) (res_at D json ''data'')))"

definition Bot_count_message :: "'j deps \<Rightarrow> 'w net \<Rightarrow> ('w Bot, u64) act" where
  "Bot_count_message D N =
     bindS
       (checked_get D N (\<lambda>b. ''/countMessage?sessionKey='' @ b_sess_key b))
       (\<lambda>json. liftS (from_json_u64 D (res_at D json ''data'')))"

definition Bot_list_friends :: "'j deps \<Rightarrow> 'w net \<Rightarrow> ('w Bot, Friend list) act" where
  "Bot_list_friends D N =
     bindS
       (checked_get D N (\<lambda>b. ''/friendList?sessionKey='' @ b_sess_key b))
       (\<lambda>json. liftS (from_json_vector D (from_json_class (Friend_from_json D)) json))"

definition Bot_list_groups :: "'j deps \<Rightarrow> 'w net \<Rightarrow> ('w Bot, Group list) act" where
  "Bot_list_groups D N =
     bindS
       (checked_get D N (\<lambda>b. ''/groupList?sessionKey='' @ b_sess_key b))
       (\<lambda>json. liftS (from_json_vector D (from_json_class (Group_from_json D)) json))"

definition Bot_list_members :: "'j deps \<Rightarrow> 'w net \<Rightarrow> GroupId \<Rightarrow> ('w Bot, Member list) act" where
  "Bot_list_members D N i =
     bindS
       (checked_get D N (\<lambda>b. ''/memberList?sessionKey='' @ b_sess_key b @ ''&target='' @ dec_i64 (gid_id i)))
       (\<lambda>json. liftS (from_json_vector D (from_json_class (Member_from_json D)) json))"

definition Bot_mute :: "'j deps \<Rightarrow> 'w net \<Rightarrow> GroupId \<Rightarrow> UserId \<Rightarrow> i64 \<Rightarrow> ('w Bot, unit) act" where
  "Bot_mute D N gid user duration =
     bindS
       (checked_post_json D N ''/mute'' (\<lambda>b. Inr (mute_body b gid user duration)))
       (\<lambda>_. returnS ())"

definition Bot_unmute :: "'j deps \<Rightarrow> 'w net \<Rightarrow> GroupId \<Rightarrow> UserId \<Rightarrow> ('w Bot, unit) act" where
  "Bot_unmute D N gid user =
     bindS
       (checked_post_json D N ''/unmute'' (\<lambda>b. Inr (unmute_body b gid user)))
       (\<lambda>_. returnS ())"

definition Bot_mute_all :: "'j deps \<Rightarrow> 'w net \<Rightarrow> GroupId \<Rightarrow> ('w Bot, unit) act" where
  "Bot_mute_all D N gid =
     bindS
       (checked_post_json D N ''/muteAll'' (\<lambda>b. Inr (target_id_body b (sint (gid_id gid)))))
       (\<lambda>_. returnS ())"

definition Bot_unmute_all :: "'j deps \<Rightarrow> 'w net \<Rightarrow> GroupId \<Rightarrow> ('w Bot, unit) act" where
  "Bot_unmute_all D N gid =
     bindS
       (checked_post_json D N ''/unmuteAll'' (\<lambda>b. Inr (target_id_body b (sint (gid_id gid)))))
       (\<lambda>_. returnS ())"

definition Bot_kick :: "'j deps \<Rightarrow> 'w net \<Rightarrow> GroupId \<Rightarrow> UserId \<Rightarrow> string \<Rightarrow> ('w Bot, unit) act" where
  "Bot_kick D N gid user reason =
     bindS
       (checked_post_json D N ''/kick'' (\<lambda>b. Inr (kick_body b gid user reason)))
       (\<lambda>_. returnS ())"

definition Bot_quit :: "'j deps \<Rightarrow> 'w net \<Rightarrow> GroupId \<Rightarrow> ('w Bot, unit) act" where
  "Bot_quit D N gid =
     bindS
       (checked_post_json D N ''/quit'' (\<lambda>b. Inr (target_id_body b (sint (gid_id gid)))))
       (\<lambda>_. returnS ())"

definition Bot_respond_new_friend :: "'j deps \<Rightarrow> 'w net \<Rightarrow> NewFriendRequestEvent \<Rightarrow> NewFriendResponseType \<Rightarrow> string \<Rightarrow> ('w Bot, unit) act" where
  "Bot_respond_new_friend D N ev ty reason =
     bindS
       (checked_post_json D N ''/resp/newFriendRequestEvent'' (\<lambda>b. Inr (respond_new_friend_body b ev ty reason)))
       (\<lambda>_. returnS ())"

definition Bot_respond_member_join :: "'j deps \<Rightarrow> 'w net \<Rightarrow> MemberJoinRequestEvent \<Rightarrow> MemberJoinResponseType \<Rightarrow> string \<Rightarrow> ('w Bot, unit) act" where
  "Bot_respond_member_join D N ev ty reason =
     bindS
       (checked_post_json D N ''/resp/memberJoinRequestEvent'' (\<lambda>b. Inr (respond_member_join_body b ev ty reason)))
       (\<lambda>_. returnS ())"

definition Bot_respond_bot_invited :: "'j deps \<Rightarrow> 'w net \<Rightarrow> BotInvitedJoinGroupRequestEvent \<Rightarrow> BotInvitedJoinGroupResponseType \<Rightarrow> string \<Rightarrow> ('w Bot, unit) act" where
  "Bot_respond_bot_invited D N ev ty reason =
     bindS
       (checked_post_json D N ''/resp/botInvitedJoinGroupRequestEvent'' (\<lambda>b. Inr (respond_bot_invited_body b ev ty reason)))
       (\<lambda>_. returnS ())"

definition Bot_get_group_config :: "'j deps \<Rightarrow> 'w net \<Rightarrow> GroupId \<Rightarrow> ('w Bot, GroupConfig) act" where
  "Bot_get_group_config D N gid =
     bindS
       (checked_get D N (\<lambda>b. ''/groupConfig?sessionKey='' @ b_sess_key b @ ''&target='' @ dec_i64 (gid_id gid)))
       (\<lambda>json. liftS (from_json_class (GroupConfig_from_json D) json))"

definition Bot_config_group :: "'j deps \<Rightarrow> 'w net \<Rightarrow> GroupId \<Rightarrow> GroupConfig \<Rightarrow> ('w Bot, unit) act" where
  "Bot_config_group D N gid config =
     bindS
       (checked_post_json D N ''/groupConfig'' (\<lambda>b. Inr (config_group_body b gid config)))
       (\<lambda>_. returnS ())"

definition Bot_get_member_info :: "'j deps \<Rightarrow> 'w net \<Rightarrow> GroupId \<Rightarrow> UserId \<Rightarrow> ('w Bot, MemberInfo) act" where
  "Bot_get_member_info D N gid user =
     bindS
       (checked_get D N (\<lambda>b. ''/groupConfig?sessionKey='' @ b_sess_key b @ ''&target='' @ dec_i64 (gid_id gid)
       @ ''&memberId='' @ dec_i64 (uid_id user)))
       (\<lambda>json. liftS (from_json_class (MemberInfo_from_json D) json))"

definition Bot_set_member_info :: "'j deps \<Rightarrow> 'w net \<Rightarrow> GroupId \<Rightarrow> UserId \<Rightarrow> MemberInfo \<Rightarrow> ('w Bot, unit) act" where
  "Bot_set_member_info D N gid user info =
     bindS
       (checked_post_json D N ''/memberInfo'' (\<lambda>b. Inr (set_member_info_body b gid user info)))
       (\<lambda>_. returnS ())"

definition Bot_get_config :: "'j deps \<Rightarrow> 'w net \<Rightarrow> ('w Bot, SessionConfig) act" where
  "Bot_get_config D N =
     bindS
       (checked_get D N (\<lambda>b. ''/config?sessionKey='' @ b_sess_key b))
       (\<lambda>json. liftS (from_json_class (SessionConfig_from_json D) json))"

definition Bot_config :: "'j deps \<Rightarrow> 'w net \<Rightarrow> SessionConfig \<Rightarrow> ('w Bot, unit) act" where
  "Bot_config D N config =
     bindS
       (checked_post_json D N ''/config'' (\<lambda>b. Inr (config_body b config)))
       (\<lambda>_. returnS ())"

end
