(* ===== verification/Bot_Async.thy ===== *)
theory Bot_Async
  imports Bot_Operations
begin

text \<open>
  The asynchronous operations of \<open>Bot\<close> (\<open>lib/src/core/bot.cpp\<close>, the
  functions named \<open>..._async\<close>) as tasks that are suspended on each request.
\<close>

section \<open>Checked requests\<close>

text \<open>
  \<open>get_checked_response_json(co_await net_client_.http_get_async(target))\<close> and its
  variants.
\<close>

definition checked_get_async ::
  "'j deps \<Rightarrow> 'w net \<Rightarrow> ('w Bot \<Rightarrow> string) \<Rightarrow> ('w Bot, 'j json_res) co" where
  "checked_get_async D N target =
     Local id (\<lambda>b. bindT (Client_http_get_async N (b_client b) (target b))
       (\<lambda>response. Finished (get_checked_response_json D response)))"

definition checked_post_async ::
  "'j deps \<Rightarrow> 'w net \<Rightarrow> string \<Rightarrow> string \<Rightarrow> ('w Bot \<Rightarrow> string res) \<Rightarrow> ('w Bot, 'j json_res) co" where
  "checked_post_async D N target content_type body =
     Local id (\<lambda>b. bindT (Finished (body b))
       (\<lambda>text. bindT (Client_http_post_async N (b_client b) target content_type text)
       (\<lambda>response. Finished (get_checked_response_json D response))))"

definition checked_post_json_async ::
  "'j deps \<Rightarrow> 'w net \<Rightarrow> string \<Rightarrow> ('w Bot \<Rightarrow> string res) \<Rightarrow> ('w Bot, 'j json_res) co" where
  "checked_post_json_async D N target body =
     Local id (\<lambda>b. bindT (Finished (body b))
       (\<lambda>text. bindT (Client_http_post_json_async N (b_client b) target text)
       (\<lambda>response. Finished (get_checked_response_json D response))))"

section \<open>Sessions\<close>

definition Bot_authorize_async :: "'j deps \<Rightarrow> 'w net \<Rightarrow> string \<Rightarrow> UserId \<Rightarrow> ('w Bot, unit) co" where
  "Bot_authorize_async D N auth_key i =
     bindT (checked_post_json_async D N ''/auth'' (check_auth_gen_body auth_key)) (\<lambda>auth_json.
     bindT (Finished (from_json_string D (res_at D auth_json ''session''))) (\<lambda>key.
     bindT (act_task (updS (\<lambda>b. b\<lparr>b_sess_key := key\<rparr>))) (\<lambda>_.
     bindT (checked_post_json_async D N ''/verify'' (\<lambda>b. Inr (verify_body i b))) (\<lambda>_.
     act_task (updS (\<lambda>b. b\<lparr>b_id := i\<rparr>))))))"

definition Bot_release_async :: "'j deps \<Rightarrow> 'w net \<Rightarrow> ('w Bot, unit) co" where
  "Bot_release_async D N =
     bindT (checked_post_json_async D N ''/release'' (\<lambda>b. Inr (release_body b))) (\<lambda>_.
     bindT (act_task (updS (\<lambda>b. b\<lparr>b_id := UserId_default\<rparr>))) (\<lambda>_.
     act_task (updS (\<lambda>b. b\<lparr>b_sess_key := []\<rparr>))))"

section \<open>Operations\<close>

definition Bot_get_version_async :: "'j deps \<Rightarrow> 'w net \<Rightarrow> ('w Bot, string) co" where
  "Bot_get_version_async D N =
     bindT
       (checked_get_async D N (\<lambda>_. ''/about''))
       (\<lambda>json. Finished (from_json_string D (res_at_pointer D json ''/data/version'')))"

definition Bot_send_message_user_async :: "'j deps \<Rightarrow> 'w net \<Rightarrow> UserId \<Rightarrow> Message \<Rightarrow> MessageId option \<Rightarrow> ('w Bot, MessageId) co" where
  "Bot_send_message_user_async D N i message quote =
     bindT
       (checked_post_json_async D N ''/sendFriendMessage'' (\<lambda>b. Inr (send_message_body b (uid_id i) message quote)))
       (\<lambda>res. Finished (bindE (from_json_i32 D (res_at D res ''messageId'')) (\<lambda>i. Inr (MessageId i))))"

definition Bot_send_message_group_async :: "'j deps \<Rightarrow> 'w net \<Rightarrow> GroupId \<Rightarrow> Message \<Rightarrow> MessageId option \<Rightarrow> ('w Bot, MessageId) co" where
  "Bot_send_message_group_async D N i message quote =
     bindT
       (checked_post_json_async D N ''/sendGroupMessage'' (\<lambda>b. Inr (send_message_body b (gid_id i) message quote)))
       (\<lambda>res. Finished (bindE (from_json_i32 D (res_at D res ''messageId'')) (\<lambda>i. Inr (MessageId i))))"

definition Bot_send_message_temp_async :: "'j deps \<Rightarrow> 'w net \<Rightarrow> TempId \<Rightarrow> Message \<Rightarrow> MessageId option \<Rightarrow> ('w Bot, MessageId) co" where
  "Bot_send_message_temp_async D N i message quote =
     bindT
       (checked_post_json_async D N ''/sendTempMessage'' (\<lambda>b. Inr (send_temp_message_body b i message quote)))
       (\<lambda>res. Finished (bindE (from_json_i32 D (res_at D res ''messageId'')) (\<lambda>i. Inr (MessageId i))))"

definition Bot_recall_async :: "'j deps \<Rightarrow> 'w net \<Rightarrow> MessageId \<Rightarrow> ('w Bot, unit) co" where
  "Bot_recall_async D N i =
     bindT
       (checked_post_json_async D N ''/recall'' (\<lambda>b. Inr (target_id_body b (sint (mid_id i)))))
       (\<lambda>_. returnT ())"

definition Bot_send_image_message_user_async :: "'j deps \<Rightarrow> 'w net \<Rightarrow> UserId \<Rightarrow> string list \<Rightarrow> ('w Bot, string list) co" where
  "Bot_send_image_message_user_async D N i urls =
     bindT
       (checked_post_json_async D N ''/sendImageMessage'' (\<lambda>b. Inr (send_image_message_user_body b i urls)))
       (\<lambda>json. Finished (from_json_vector D (from_json_string D) json))"

definition Bot_send_image_message_group_async :: "'j deps \<Rightarrow> 'w net \<Rightarrow> GroupId \<Rightarrow> string list \<Rightarrow> ('w Bot, string list) co" where
  "Bot_send_image_message_group_async D N i urls =
     bindT
       (checked_post_json_async D N ''/sendImageMessage'' (\<lambda>b. Inr (send_image_message_group_body b i urls)))
       (\<lambda>json. Finished (from_json_vector D (from_json_string D) json))"

definition Bot_send_image_message_temp_async :: "'j deps \<Rightarrow> 'w net \<Rightarrow> TempId \<Rightarrow> string list \<Rightarrow> ('w Bot, string list) co" where
  "Bot_send_image_message_temp_async D N i urls =
     bindT
       (checked_post_json_async D N ''/sendImageMessage'' (\<lambda>b. Inr (send_image_message_temp_body b i urls)))
       (\<lambda>json. Finished (from_json_vector D (from_json_string D) json))"

definition Bot_upload_image_async :: "'j deps \<Rightarrow> 'w net \<Rightarrow> TargetType \<Rightarrow> string \<Rightarrow> ('w Bot, Image) co" where
  "Bot_upload_image_async D N ty path =
     bindT
       (checked_post_async D N ''/uploadImage'' multipart_content_type (\<lambda>b. upload_file_body N ty ''img'' path b))
       (\<lambda>json. Finished (from_json_class (Image_from_json D) json))"

definition Bot_upload_voice_async :: "'j deps \<Rightarrow> 'w net \<Rightarrow> TargetType \<Rightarrow> string \<Rightarrow> ('w Bot, Voice) co" where
  "Bot_upload_voice_async D N ty path =
     bindT
       (checked_post_async D N ''/uploadVoice'' multipart_content_type (\<lambda>b. upload_file_body N ty ''voice'' path b))
       (\<lambda>json. Finished (from_json_class (Voice_from_json D) json))"

definition Bot_pop_events_async :: "'j deps \<Rightarrow> 'w net \<Rightarrow> u64 \<Rightarrow> ('w Bot, Event list) co" where
  "Bot_pop_events_async D N cnt =
     bindT
       (checked_get_async D N (\<lambda>b. ''/fetchMessage?sessionKey='' @ b_sess_key b @ ''&count='' @ dec_u64 cnt))
       (\<lambda>json. act_task (Bot_parse_events D (res_at D json ''data'')))"

definition Bot_pop_latest_events_async :: "'j deps \<Rightarrow> 'w net \<Rightarrow> u64 \<Rightarrow> ('w Bot, Event list) co" where
  "Bot_pop_latest_events_async D N cnt =
     bindT
       (checked_get_async D N (\<lambda>b. ''/fetchLatestMessage?sessionKey='' @ b_sess_key b @ ''&count='' @ dec_u64 cnt))
       (\<lambda>json. act_task (Bot_parse_events D (res_at D json ''data'')))"

definition Bot_peek_events_async :: "'j deps \<Rightarrow> 'w net \<Rightarrow> u64 \<Rightarrow> ('w Bot, Event list) co" where
  "Bot_peek_events_async D N cnt =
     bindT
       (checked_get_async D N (\<lambda>b. ''/peekMessage?sessionKey='' @ b_sess_key b @ ''&count='' @ dec_u64 cnt))
       (\<lambda>json. act_task (Bot_parse_events D (res_at D json ''data'')))"

definition Bot_peek_latest_events_async :: "'j deps \<Rightarrow> 'w net \<Rightarrow> u64 \<Rightarrow> ('w Bot, Event list) co" where
  "Bot_peek_latest_events_async D N cnt =
     bindT
       (checked_get_async D N (\<lambda>b. ''/peekLatestMessage?sessionKey='' @ b_sess_key b @ ''&count='' @ dec_u64 cnt))
       (\<lambda>json. act_task (Bot_parse_events D (res_at D json ''data'')))"

definition Bot_retrieve_message_async :: "'j deps \<Rightarrow> 'w net \<Rightarrow> MessageId \<Rightarrow> ('w Bot, Event) co" where
  "Bot_retrieve_message_async D N i =
     bindT
       (checked_get_async D N (\<lambda>b. ''/messageFromId?sessionKey='' @ b_sess_key b @ ''&id='' @ dec_i32 (mid_id i)))
       (\<lambda>json. Finished (from_json_class (Event_from_json (segment_fuel (sj_max_depth D)) D) (res_at D json ''data'')))"

definition Bot_count_message_async :: "'j deps \<Rightarrow> 'w net \<Rightarrow> ('w Bot, u64) co" where
  "Bot_count_message_async D N =
     bindT
       (checked_get_async D N (\<lambda>b. ''/countMessage?sessionKey='' @ b_sess_key b))
       (\<lambda>json. Finished (from_json_u64 D (res_at D json ''data'')))"

definition Bot_list_friends_async :: "'j deps \<Rightarrow> 'w net \<Rightarrow> ('w Bot, Friend list) co" where
  "Bot_list_friends_async D N =
     bindT
       (checked_get_async D N (\<lambda>b. ''/friendList?sessionKey='' @ b_sess_key b))
       (\<lambda>json. Finished (from_json_vector D (from_json_class (Friend_from_json D)) json))"

definition Bot_list_groups_async :: "'j deps \<Rightarrow> 'w net \<Rightarrow> ('w Bot, Group list) co" where
  "Bot_list_groups_async D N =
     bindT
       (checked_get_async D N (\<lambda>b. ''/groupList?sessionKey='' @ b_sess_key b))
       (\<lambda>json. Finished (from_json_vector D (from_json_class (Group_from_json D)) json))"

definition Bot_list_members_async :: "'j deps \<Rightarrow> 'w net \<Rightarrow> GroupId \<Rightarrow> ('w Bot, Member list) co" where
  "Bot_list_members_async D N i =
     bindT
       (checked_get_async D N (\<lambda>b. ''/memberList?sessionKey='' @ b_sess_key b @ ''&target='' @ dec_i64 (gid_id i)))
       (\<lambda>json. Finished (from_json_vector D (from_json_class (Member_from_json D)) json))"

definition Bot_mute_async :: "'j deps \<Rightarrow> 'w net \<Rightarrow> GroupId \<Rightarrow> UserId \<Rightarrow> i64 \<Rightarrow> ('w Bot, unit) co" where
  "Bot_mute_async D N gid user duration =
     bindT
       (checked_post_json_async D N ''/mute'' (\<lambda>b. Inr (mute_body b gid user duration)))
       (\<lambda>_. returnT ())"

definition Bot_unmute_async :: "'j deps \<Rightarrow> 'w net \<Rightarrow> GroupId \<Rightarrow> UserId \<Rightarrow> ('w Bot, unit) co" where
  "Bot_unmute_async D N gid user =
     bindT
       (checked_post_json_async D N ''/unmute'' (\<lambda>b. Inr (unmute_body b gid user)))
       (\<lambda>_. returnT ())"

definition Bot_mute_all_async :: "'j deps \<Rightarrow> 'w net \<Rightarrow> GroupId \<Rightarrow> ('w Bot, unit) co" where
  "Bot_mute_all_async D N gid =
     bindT
       (checked_post_json_async D N ''/muteAll'' (\<lambda>b. Inr (target_id_body b (sint (gid_id gid)))))
       (\<lambda>_. returnT ())"

definition Bot_unmute_all_async :: "'j deps \<Rightarrow> 'w net \<Rightarrow> GroupId \<Rightarrow> ('w Bot, unit) co" where
  "Bot_unmute_all_async D N gid =
     bindT
       (checked_post_json_async D N ''/unmuteAll'' (\<lambda>b. Inr (target_id_body b (sint (gid_id gid)))))
       (\<lambda>_. returnT ())"

definition Bot_kick_async :: "'j deps \<Rightarrow> 'w net \<Rightarrow> GroupId \<Rightarrow> UserId \<Rightarrow> string \<Rightarrow> ('w Bot, unit) co" where
  "Bot_kick_async D N gid user reason =
     bindT
       (checked_post_json_async D N ''/kick'' (\<lambda>b. Inr (kick_body b gid user reason)))
       (\<lambda>_. returnT ())"

definition Bot_quit_async :: "'j deps \<Rightarrow> 'w net \<Rightarrow> GroupId \<Rightarrow> ('w Bot, unit) co" where
  "Bot_quit_async D N gid =
     bindT
       (checked_post_json_async D N ''/quit'' (\<lambda>b. Inr (target_id_body b (sint (gid_id gid)))))
       (\<lambda>_. returnT ())"

definition Bot_respond_new_friend_async :: "'j deps \<Rightarrow> 'w net \<Rightarrow> NewFriendRequestEvent \<Rightarrow> NewFriendResponseType \<Rightarrow> string \<Rightarrow> ('w Bot, unit) co" where
  "Bot_respond_new_friend_async D N ev ty reason =
     bindT
       (checked_post_json_async D N ''/resp/newFriendRequestEvent'' (\<lambda>b. Inr (respond_new_friend_body b ev ty reason)))
       (\<lambda>_. returnT ())"

definition Bot_respond_member_join_async :: "'j deps \<Rightarrow> 'w net \<Rightarrow> MemberJoinRequestEvent \<Rightarrow> MemberJoinResponseType \<Rightarrow> string \<Rightarrow> ('w Bot, unit) co" where
  "Bot_respond_member_join_async D N ev ty reason =
     bindT
       (checked_post_json_async D N ''/resp/memberJoinRequestEvent'' (\<lambda>b. Inr (respond_member_join_body b ev ty reason)))
       (\<lambda>_. returnT ())"

definition Bot_respond_bot_invited_async :: "'j deps \<Rightarrow> 'w net \<Rightarrow> BotInvitedJoinGroupRequestEvent \<Rightarrow> BotInvitedJoinGroupResponseType \<Rightarrow> string \<Rightarrow> ('w Bot, unit) co" where
  "Bot_respond_bot_invited_async D N ev ty reason =
     bindT
       (checked_post_json_async D N ''/resp/botInvitedJoinGroupRequestEvent'' (\<lambda>b. Inr (respond_bot_invited_body b ev ty reason)))
       (\<lambda>_. returnT ())"

definition Bot_get_group_config_async :: "'j deps \<Rightarrow> 'w net \<Rightarrow> GroupId \<Rightarrow> ('w Bot, GroupConfig) co" where
  "Bot_get_group_config_async D N gid =
     bindT
       (checked_get_async D N (\<lambda>b. ''/groupConfig?sessionKey='' @ b_sess_key b @ ''&target='' @ dec_i64 (gid_id gid)))
       (\<lambda>json. Finished (from_json_class (GroupConfig_from_json D) json))"

definition Bot_config_group_async :: "'j deps \<Rightarrow> 'w net \<Rightarrow> GroupId \<Rightarrow> GroupConfig \<Rightarrow> ('w Bot, unit) co" where
  "Bot_config_group_async D N gid config =
     bindT
       (checked_post_json_async D N ''/groupConfig'' (\<lambda>b. Inr (config_group_body b gid config)))
       (\<lambda>_. returnT ())"

definition Bot_get_member_info_async :: "'j deps \<Rightarrow> 'w net \<Rightarrow> GroupId \<Rightarrow> UserId \<Rightarrow> ('w Bot, MemberInfo) co" where
  "Bot_get_member_info_async D N gid user =
     bindT
       (checked_get_async D N (\<lambda>b. ''/groupConfig?sessionKey='' @ b_sess_key b @ ''&target='' @ dec_i64 (gid_id gid)
       @ ''&memberId='' @ dec_i64 (uid_id user)))
       (\<lambda>json. Finished (from_json_class (MemberInfo_from_json D) json))"

definition Bot_set_member_info_async :: "'j deps \<Rightarrow> 'w net \<Rightarrow> GroupId \<Rightarrow> UserId \<Rightarrow> MemberInfo \<Rightarrow> ('w Bot, unit) co" where
  "Bot_set_member_info_async D N gid user info =
     bindT
       (checked_post_json_async D N ''/memberInfo'' (\<lambda>b. Inr (set_member_info_body b gid user info)))
       (\<lambda>_. returnT ())"

definition Bot_get_config_async :: "'j deps \<Rightarrow> 'w net \<Rightarrow> ('w Bot, SessionConfig) co" where
  "Bot_get_config_async D N =
     bindT
       (checked_get_async D N (\<lambda>b. ''/config?sessionKey='' @ b_sess_key b))
       (\<lambda>json. Finished (from_json_class (SessionConfig_from_json D) json))"

definition Bot_config_async :: "'j deps \<Rightarrow> 'w net \<Rightarrow> SessionConfig \<Rightarrow> ('w Bot, unit) co" where
  "Bot_config_async D N config =
     bindT
       (checked_post_json_async D N ''/config'' (\<lambda>b. Inr (config_body b config)))
       (\<lambda>_. returnT ())"

end
