(* ===== verification/Bot_Calls.thy ===== *)
theory Bot_Calls
  imports Bot_Async
begin

text \<open>
  Every operation of \<open>Bot\<close> as a value, with its two forms: the one that waits and
  the task.  The facts that hold of all operations are stated over these values.
\<close>

section \<open>Calls and results\<close>

datatype bot_call =
    Call_authorize string UserId
  | Call_release
  | Call_get_version
  | Call_send_message_user UserId Message "MessageId option"
  | Call_send_message_group GroupId Message "MessageId option"
  | Call_send_message_temp TempId Message "MessageId option"
  | Call_recall MessageId
  | Call_send_image_message_user UserId "string list"
  | Call_send_image_message_group GroupId "string list"
  | Call_send_image_message_temp TempId "string list"
  | Call_upload_image TargetType string
  | Call_upload_voice TargetType string
  | Call_pop_events u64
  | Call_pop_latest_events u64
  | Call_peek_events u64
  | Call_peek_latest_events u64
  | Call_retrieve_message MessageId
  | Call_count_message
  | Call_list_friends
  | Call_list_groups
  | Call_list_members GroupId
  | Call_mute GroupId UserId i64
  | Call_unmute GroupId UserId
  | Call_mute_all GroupId
  | Call_unmute_all GroupId
  | Call_kick GroupId UserId string
  | Call_quit GroupId
  | Call_respond_new_friend NewFriendRequestEvent NewFriendResponseType string
  | Call_respond_member_join MemberJoinRequestEvent MemberJoinResponseType string
  | Call_respond_bot_invited BotInvitedJoinGroupRequestEvent BotInvitedJoinGroupResponseType string
  | Call_get_group_config GroupId
  | Call_config_group GroupId GroupConfig
  | Call_get_member_info GroupId UserId
  | Call_set_member_info GroupId UserId MemberInfo
  | Call_get_config
  | Call_config SessionConfig

datatype bot_result =
    Res_string string
  | Res_message_id MessageId
  | Res_unit
  | Res_strings "string list"
  | Res_image Image
  | Res_voice Voice
  | Res_events "Event list"
  | Res_event Event
  | Res_count u64
  | Res_friends "Friend list"
  | Res_groups "Group list"
  | Res_members "Member list"
  | Res_group_config GroupConfig
  | Res_member_info MemberInfo
  | Res_session_config SessionConfig

definition mapS :: "('a \<Rightarrow> 'b) \<Rightarrow> ('s, 'e, 'a) fallible \<Rightarrow> ('s, 'e, 'b) fallible" where
  "mapS f m = bindS m (\<lambda>x. returnS (f x))"

definition mapT :: "('a \<Rightarrow> 'b) \<Rightarrow> ('s, 'q, 'r, 'a) task \<Rightarrow> ('s, 'q, 'r, 'b) task" where
  "mapT f t = bindT t (\<lambda>x. returnT (f x))"

fun Bot_call :: "'j deps \<Rightarrow> 'w net \<Rightarrow> bot_call \<Rightarrow> ('w Bot, bot_result) act" where
  "Bot_call D N (Call_authorize auth_key i) = mapS (\<lambda>_. Res_unit) (Bot_authorize D N auth_key i)"
| "Bot_call D N Call_release = mapS (\<lambda>_. Res_unit) (Bot_release D N)"
| "Bot_call D N Call_get_version = mapS Res_string (Bot_get_version D N)"
| "Bot_call D N (Call_send_message_user i message quote) = mapS Res_message_id (Bot_send_message_user D N i message quote)"
| "Bot_call D N (Call_send_message_group i message quote) = mapS Res_message_id (Bot_send_message_group D N i message quote)"
| "Bot_call D N (Call_send_message_temp i message quote) = mapS Res_message_id (Bot_send_message_temp D N i message quote)"
| "Bot_call D N (Call_recall i) = mapS (\<lambda>_. Res_unit) (Bot_recall D N i)"
| "Bot_call D N (Call_send_image_message_user i urls) = mapS Res_strings (Bot_send_image_message_user D N i urls)"
| "Bot_call D N (Call_send_image_message_group i urls) = mapS Res_strings (Bot_send_image_message_group D N i urls)"
| "Bot_call D N (Call_send_image_message_temp i urls) = mapS Res_strings (Bot_send_image_message_temp D N i urls)"
| "Bot_call D N (Call_upload_image ty path) = mapS Res_image (Bot_upload_image D N ty path)"
| "Bot_call D N (Call_upload_voice ty path) = mapS Res_voice (Bot_upload_voice D N ty path)"
| "Bot_call D N (Call_pop_events cnt) = mapS Res_events (Bot_pop_events D N cnt)"
| "Bot_call D N (Call_pop_latest_events cnt) = mapS Res_events (Bot_pop_latest_events D N cnt)"
| "Bot_call D N (Call_peek_events cnt) = mapS Res_events (Bot_peek_events D N cnt)"
| "Bot_call D N (Call_peek_latest_events cnt) = mapS Res_events (Bot_peek_latest_events D N cnt)"
| "Bot_call D N (Call_retrieve_message i) = mapS Res_event (Bot_retrieve_message D N i)"
| "Bot_call D N Call_count_message = mapS Res_count (Bot_count_message D N)"
| "Bot_call D N Call_list_friends = mapS Res_friends (Bot_list_friends D N)"
| "Bot_call D N Call_list_groups = mapS Res_groups (Bot_list_groups D N)"
| "Bot_call D N (Call_list_members i) = mapS Res_members (Bot_list_members D N i)"
| "Bot_call D N (Call_mute gid user duration) = mapS (\<lambda>_. Res_unit) (Bot_mute D N gid user duration)"
| "Bot_call D N (Call_unmute gid user) = mapS (\<lambda>_. Res_unit) (Bot_unmute D N gid user)"
| "Bot_call D N (Call_mute_all gid) = mapS (\<lambda>_. Res_unit) (Bot_mute_all D N gid)"
| "Bot_call D N (Call_unmute_all gid) = mapS (\<lambda>_. Res_unit) (Bot_unmute_all D N gid)"
| "Bot_call D N (Call_kick gid user reason) = mapS (\<lambda>_. Res_unit) (Bot_kick D N gid user reason)"
| "Bot_call D N (Call_quit gid) = mapS (\<lambda>_. Res_unit) (Bot_quit D N gid)"
| "Bot_call D N (Call_respond_new_friend ev ty reason) = mapS (\<lambda>_. Res_unit) (Bot_respond_new_friend D N ev ty reason)"
| "Bot_call D N (Call_respond_member_join ev ty reason) = mapS (\<lambda>_. Res_unit) (Bot_respond_member_join D N ev ty reason)"
| "Bot_call D N (Call_respond_bot_invited ev ty reason) = mapS (\<lambda>_. Res_unit) (Bot_respond_bot_invited D N ev ty reason)"
| "Bot_call D N (Call_get_group_config gid) = mapS Res_group_config (Bot_get_group_config D N gid)"
| "Bot_call D N (Call_config_group gid config) = mapS (\<lambda>_. Res_unit) (Bot_config_group D N gid config)"
| "Bot_call D N (Call_get_member_info gid user) = mapS Res_member_info (Bot_get_member_info D N gid user)"
| "Bot_call D N (Call_set_member_info gid user info) = mapS (\<lambda>_. Res_unit) (Bot_set_member_info D N gid user info)"
| "Bot_call D N Call_get_config = mapS Res_session_config (Bot_get_config D N)"
| "Bot_call D N (Call_config config) = mapS (\<lambda>_. Res_unit) (Bot_config D N config)"

fun Bot_call_async :: "'j deps \<Rightarrow> 'w net \<Rightarrow> bot_call \<Rightarrow> ('w Bot, bot_result) co" where
  "Bot_call_async D N (Call_authorize auth_key i) = mapT (\<lambda>_. Res_unit) (Bot_authorize_async D N auth_key i)"
| "Bot_call_async D N Call_release = mapT (\<lambda>_. Res_unit) (Bot_release_async D N)"
| "Bot_call_async D N Call_get_version = mapT Res_string (Bot_get_version_async D N)"
| "Bot_call_async D N (Call_send_message_user i message quote) = mapT Res_message_id (Bot_send_message_user_async D N i message quote)"
| "Bot_call_async D N (Call_send_message_group i message quote) = mapT Res_message_id (Bot_send_message_group_async D N i message quote)"
| "Bot_call_async D N (Call_send_message_temp i message quote) = mapT Res_message_id (Bot_send_message_temp_async D N i message quote)"
| "Bot_call_async D N (Call_recall i) = mapT (\<lambda>_. Res_unit) (Bot_recall_async D N i)"
| "Bot_call_async D N (Call_send_image_message_user i urls) = mapT Res_strings (Bot_send_image_message_user_async D N i urls)"
| "Bot_call_async D N (Call_send_image_message_group i urls) = mapT Res_strings (Bot_send_image_message_group_async D N i urls)"
| "Bot_call_async D N (Call_send_image_message_temp i urls) = mapT Res_strings (Bot_send_image_message_temp_async D N i urls)"
| "Bot_call_async D N (Call_upload_image ty path) = mapT Res_image (Bot_upload_image_async D N ty path)"
| "Bot_call_async D N (Call_upload_voice ty path) = mapT Res_voice (Bot_upload_voice_async D N ty path)"
| "Bot_call_async D N (Call_pop_events cnt) = mapT Res_events (Bot_pop_events_async D N cnt)"
| "Bot_call_async D N (Call_pop_latest_events cnt) = mapT Res_events (Bot_pop_latest_events_async D N cnt)"
| "Bot_call_async D N (Call_peek_events cnt) = mapT Res_events (Bot_peek_events_async D N cnt)"
| "Bot_call_async D N (Call_peek_latest_events cnt) = mapT Res_events (Bot_peek_latest_events_async D N cnt)"
| "Bot_call_async D N (Call_retrieve_message i) = mapT Res_event (Bot_retrieve_message_async D N i)"
| "Bot_call_async D N Call_count_message = mapT Res_count (Bot_count_message_async D N)"
| "Bot_call_async D N Call_list_friends = mapT Res_friends (Bot_list_friends_async D N)"
| "Bot_call_async D N Call_list_groups = mapT Res_groups (Bot_list_groups_async D N)"
| "Bot_call_async D N (Call_list_members i) = mapT Res_members (Bot_list_members_async D N i)"
| "Bot_call_async D N (Call_mute gid user duration) = mapT (\<lambda>_. Res_unit) (Bot_mute_async D N gid user duration)"
| "Bot_call_async D N (Call_unmute gid user) = mapT (\<lambda>_. Res_unit) (Bot_unmute_async D N gid user)"
| "Bot_call_async D N (Call_mute_all gid) = mapT (\<lambda>_. Res_unit) (Bot_mute_all_async D N gid)"
| "Bot_call_async D N (Call_unmute_all gid) = mapT (\<lambda>_. Res_unit) (Bot_unmute_all_async D N gid)"
| "Bot_call_async D N (Call_kick gid user reason) = mapT (\<lambda>_. Res_unit) (Bot_kick_async D N gid user reason)"
| "Bot_call_async D N (Call_quit gid) = mapT (\<lambda>_. Res_unit) (Bot_quit_async D N gid)"
| "Bot_call_async D N (Call_respond_new_friend ev ty reason) = mapT (\<lambda>_. Res_unit) (Bot_respond_new_friend_async D N ev ty reason)"
| "Bot_call_async D N (Call_respond_member_join ev ty reason) = mapT (\<lambda>_. Res_unit) (Bot_respond_member_join_async D N ev ty reason)"
| "Bot_call_async D N (Call_respond_bot_invited ev ty reason) = mapT (\<lambda>_. Res_unit) (Bot_respond_bot_invited_async D N ev ty reason)"
| "Bot_call_async D N (Call_get_group_config gid) = mapT Res_group_config (Bot_get_group_config_async D N gid)"
| "Bot_call_async D N (Call_config_group gid config) = mapT (\<lambda>_. Res_unit) (Bot_config_group_async D N gid config)"
| "Bot_call_async D N (Call_get_member_info gid user) = mapT Res_member_info (Bot_get_member_info_async D N gid user)"
| "Bot_call_async D N (Call_set_member_info gid user info) = mapT (\<lambda>_. Res_unit) (Bot_set_member_info_async D N gid user info)"
| "Bot_call_async D N Call_get_config = mapT Res_session_config (Bot_get_config_async D N)"
| "Bot_call_async D N (Call_config config) = mapT (\<lambda>_. Res_unit) (Bot_config_async D N config)"

lemmas Bot_sync_defs =
  Bot_authorize_def
  Bot_release_def
  Bot_get_version_def
  Bot_send_message_user_def
  Bot_send_message_group_def
  Bot_send_message_temp_def
  Bot_recall_def
  Bot_send_image_message_user_def
  Bot_send_image_message_group_def
  Bot_send_image_message_temp_def
  Bot_upload_image_def
  Bot_upload_voice_def
  Bot_pop_events_def
  Bot_pop_latest_events_def
  Bot_peek_events_def
  Bot_peek_latest_events_def
  Bot_retrieve_message_def
  Bot_count_message_def
  Bot_list_friends_def
  Bot_list_groups_def
  Bot_list_members_def
  Bot_mute_def
  Bot_unmute_def
  Bot_mute_all_def
  Bot_unmute_all_def
  Bot_kick_def
  Bot_quit_def
  Bot_respond_new_friend_def
  Bot_respond_member_join_def
  Bot_respond_bot_invited_def
  Bot_get_group_config_def
  Bot_config_group_def
  Bot_get_member_info_def
  Bot_set_member_info_def
  Bot_get_config_def
  Bot_config_def

lemmas Bot_async_defs =
  Bot_authorize_async_def
  Bot_release_async_def
  Bot_get_version_async_def
  Bot_send_message_user_async_def
  Bot_send_message_group_async_def
  Bot_send_message_temp_async_def
  Bot_recall_async_def
  Bot_send_image_message_user_async_def
  Bot_send_image_message_group_async_def
  Bot_send_image_message_temp_async_def
  Bot_upload_image_async_def
  Bot_upload_voice_async_def
  Bot_pop_events_async_def
  Bot_pop_latest_events_async_def
  Bot_peek_events_async_def
  Bot_peek_latest_events_async_def
  Bot_retrieve_message_async_def
  Bot_count_message_async_def
  Bot_list_friends_async_def
  Bot_list_groups_async_def
  Bot_list_members_async_def
  Bot_mute_async_def
  Bot_unmute_async_def
  Bot_mute_all_async_def
  Bot_unmute_all_async_def
  Bot_kick_async_def
  Bot_quit_async_def
  Bot_respond_new_friend_async_def
  Bot_respond_member_join_async_def
  Bot_respond_bot_invited_async_def
  Bot_get_group_config_async_def
  Bot_config_group_async_def
  Bot_get_member_info_async_def
  Bot_set_member_info_async_def
  Bot_get_config_async_def
  Bot_config_async_def

section \<open>A task run alone does what the waiting operation does\<close>

text \<open>The completions that the bot's world gives.\<close>

definition bot_answer :: "'w net \<Rightarrow> job \<Rightarrow> 'w Bot \<Rightarrow> completion \<times> 'w Bot" where
  "bot_answer N q b = (case perform_job N q (b_world b) of (cp, w) \<Rightarrow> (cp, b\<lparr>b_world := w\<rparr>))"

lemma run_http_request_async [task_simps]:
  "run_task (bot_answer N) (http_request_async c req) = on_world (http_request N c req)"
  by (rule ext)
    (auto simp: http_request_async_def bot_answer_def on_world_def spawned_def http_request_def
      http_request_impl_def AsioAwaiter_await_resume_def split: prod.splits sum.splits)

lemma run_Local_id [task_simps]: "run_task d (Local id k) = (\<lambda>s. run_task d (k s) s)"
  by (rule ext) simp

lemma run_Finished [task_simps]: "run_task d (Finished r) = liftS r"
  by (rule ext) simp

lemma run_checked_async [task_simps]:
  "run_task (bot_answer N) (checked_get_async D N target) = checked_get D N target"
  "run_task (bot_answer N) (checked_post_async D N path ct body) = checked_post D N path ct body"
  "run_task (bot_answer N) (checked_post_json_async D N path body) = checked_post_json D N path body"
  by (simp_all add: checked_get_async_def checked_post_async_def checked_post_json_async_def
      checked_get_def checked_post_def checked_post_json_def task_simps Client_http_get_async_def
      Client_http_post_async_def Client_http_post_json_async_def Client_http_get_def
      Client_http_post_def Client_http_post_json_def del: run_task.simps bindT.simps)

lemma run_mapT [task_simps]: "run_task d (mapT f t) = mapS f (run_task d t)"
  by (simp add: mapT_def mapS_def task_simps del: run_task.simps bindT.simps)

text \<open>
  C9: every asynchronous operation of the bot, run alone with its
  awaited operations performed on the bot's world, gives the outcome of the synchronous
  operation of the same name and leaves the same state, whatever the network and the JSON
  library do, failures included.\<close>

theorem async_call_as_sync:
  "run_task (bot_answer N) (Bot_call_async D N c) b = Bot_call D N c b"
  by (cases c)
    (simp_all add: Bot_sync_defs Bot_async_defs task_simps del: run_task.simps bindT.simps)

end
