(* ===== verification/Bot_Views.thy ===== *)
theory Bot_Views
  imports Bot_Calls
begin

text \<open>
  What the operations of a bot leave alone.  A view is anything that can be read off the
  bot's state; two interfaces say which views no request changes, and which views the
  session fields do not enter.
\<close>

section \<open>Calls that preserve a view\<close>

named_theorems preserves_intros \<open>introduction rules for preserved views\<close>

definition preserves :: "('s \<Rightarrow> 'v) \<Rightarrow> ('s, 'e, 'a) fallible \<Rightarrow> bool" where
  "preserves view m \<longleftrightarrow> (\<forall>s r s'. m s = (r, s') \<longrightarrow> view s' = view s)"

lemma preservesD: "preserves view m \<Longrightarrow> m s = (r, s') \<Longrightarrow> view s' = view s"
  by (simp add: preserves_def)

lemma preserves_snd: "preserves view m \<Longrightarrow> view (snd (m s)) = view s"
  by (cases "m s") (simp add: preserves_def)

lemma preservesI: "(\<And>s r s'. m s = (r, s') \<Longrightarrow> view s' = view s) \<Longrightarrow> preserves view m"
  by (simp add: preserves_def)

lemma preserves_liftS [preserves_intros]: "preserves view (liftS r)"
  by (simp add: preserves_def)

lemma preserves_returnS [preserves_intros]: "preserves view (returnS x)"
  by (simp add: preserves_def)

lemma preserves_askS [preserves_intros]: "preserves view (askS f)"
  by (simp add: preserves_def)

lemma preserves_updS [preserves_intros]: "(\<And>s. view (f s) = view s) \<Longrightarrow> preserves view (updS f)"
  by (simp add: preserves_def)

lemma preserves_bindS [preserves_intros]:
  "preserves view m \<Longrightarrow> (\<And>x. preserves view (f x)) \<Longrightarrow> preserves view (bindS m f)"
proof (rule preservesI)
  fix s r s'
  assume m: "preserves view m" and f: "\<And>x. preserves view (f x)" and "bindS m f s = (r, s')"
  then consider e where "m s = (Inl e, s')" | x u where "m s = (Inr x, u)" "f x u = (r, s')"
    by (auto simp: bindS_def split: prod.splits sum.splits)
  then show "view s' = view s"
    by cases (use m f preservesD in metis)+
qed

lemma preserves_mapS [preserves_intros]: "preserves view m \<Longrightarrow> preserves view (mapS f m)"
  unfolding mapS_def by (intro preserves_intros)

lemma preserves_here:
  "(\<And>s. preserves view (bindS (m s) (f s))) \<Longrightarrow> preserves view (\<lambda>s. bindS (m s) (f s) s)"
  "(\<And>s. preserves view (catchS (n s) h)) \<Longrightarrow> preserves view (\<lambda>s. catchS (n s) h s)"
  by (simp_all add: preserves_def)

lemma preserves_catchS [preserves_intros]:
  "preserves view m \<Longrightarrow> (\<And>e. preserves view (h e)) \<Longrightarrow> preserves view (catchS m h)"
proof (rule preservesI)
  fix s r s'
  assume m: "preserves view m" and h: "\<And>e. preserves view (h e)" and "catchS m h s = (r, s')"
  then consider "m s = (r, s')" | e u where "m s = (Inl (Throw e), u)" "h e u = (r, s')"
    by (auto simp: catchS_def split: prod.splits sum.splits failure.splits)
  then show "view s' = view s"
    by cases (use m h preservesD in metis)+
qed

section \<open>Views that requests do not change\<close>

locale bot_view =
  fixes N :: "'w net" and view :: "'w Bot \<Rightarrow> 'v"
  assumes request_kept: "view (b\<lparr>b_world := snd (http_request N c req (b_world b))\<rparr>) = view b"
begin

lemma preserves_request: "preserves view (on_world (http_request N c req))"
proof (rule preservesI)
  fix b r b'
  assume "on_world (http_request N c req) b = (r, b')"
  then have "b' = b\<lparr>b_world := snd (http_request N c req (b_world b))\<rparr>"
    by (auto simp: on_world_def split: prod.splits)
  then show "view b' = view b" by (simp add: request_kept)
qed

lemma preserves_checked:
  "preserves view (checked_get D N target)"
  "preserves view (checked_post D N path ct body)"
  "preserves view (checked_post_json D N path body)"
  unfolding checked_get_def checked_post_def checked_post_json_def Client_http_get_def
    Client_http_post_def Client_http_post_json_def
  by (rule preserves_here, intro preserves_intros preserves_request)+

lemma preserves_parse_events: "preserves view (Bot_parse_events D r)"
  unfolding Bot_parse_events_def by (intro preserves_intros)

lemma preserves_call:
  assumes "\<And>k i. c \<noteq> Call_authorize k i" and "c \<noteq> Call_release"
  shows "preserves view (Bot_call D N c)"
  by (cases c; ((use assms in \<open>simp; fail\<close>)
      | (simp only: Bot_call.simps Bot_sync_defs,
         intro preserves_intros preserves_checked preserves_parse_events)))

end

text \<open>Views that do not depend on the session fields either.\<close>

locale world_view = bot_view N view for N :: "'w net" and view :: "'w Bot \<Rightarrow> 'v" +
  assumes id_ignored: "view (b\<lparr>b_id := i\<rparr>) = view b"
    and key_ignored: "view (b\<lparr>b_sess_key := k\<rparr>) = view b"
begin

lemma preserves_all: "preserves view (Bot_call D N c)"
proof -
  consider k i where "c = Call_authorize k i" | "c = Call_release"
    | "\<And>k i. c \<noteq> Call_authorize k i" "c \<noteq> Call_release" by blast
  then show ?thesis
  proof cases
    case 1
    then show ?thesis
      unfolding 1 Bot_call.simps Bot_authorize_def
      by (intro preserves_intros preserves_checked) (simp_all add: id_ignored key_ignored)
  next
    case 2
    then show ?thesis
      unfolding 2 Bot_call.simps Bot_release_def
      by (intro preserves_intros preserves_checked) (simp_all add: id_ignored key_ignored)
  next
    case 3
    then show ?thesis by (rule preserves_call)
  qed
qed

lemma preserves_destroy: "preserves view (Bot_destroy D N)"
proof -
  have release: "preserves view (Bot_release D N)"
    unfolding Bot_release_def
    by (intro preserves_intros preserves_checked) (simp_all add: id_ignored key_ignored)
  show ?thesis
    unfolding Bot_destroy_def
    by (rule preserves_here(2), rule preserves_catchS)
      (simp_all add: release preserves_returnS preserves_liftS)
qed

end

section \<open>The bot's own fields\<close>

definition session_fields :: "'w Bot \<Rightarrow> nat \<times> Client \<times> UserId \<times> string" where
  "session_fields b = (b_addr b, b_client b, b_id b, b_sess_key b)"

interpretation session_kept: bot_view N session_fields
  by unfold_locales (simp add: session_fields_def)

interpretation identity_kept: world_view N "\<lambda>b. (b_addr b, b_client b)"
  by unfold_locales simp_all

lemma Bot_call_session_fields:
  assumes "Bot_call D N c b = (r, b')"
    and "\<And>k i. c \<noteq> Call_authorize k i" and "c \<noteq> Call_release"
  shows "session_fields b' = session_fields b"
  using session_kept.preserves_call [OF assms(2,3)] assms(1) by (rule preservesD)

section \<open>Open sockets\<close>

text \<open>
  The hypothesis on the network: \<open>opened\<close> is the set of streams that exist; a new
  stream is not among them, destroying one removes it, the other operations create and
  destroy none.
\<close>

locale stream_accounting =
  fixes N :: "'w net" and opened :: "'w \<Rightarrow> nat set"
  assumes stream_new: "net_stream N w = (s, w') \<Longrightarrow> s \<notin> opened w \<and> opened w' = insert s (opened w)"
    and stream_drop: "opened (net_drop N s w) = opened w - {s}"
    and stream_connect: "opened (snd (net_connect N s eps w)) = opened w"
    and stream_write: "opened (snd (net_http_write N s req w)) = opened w"
    and stream_read: "opened (snd (net_http_read N s w)) = opened w"
    and stream_shutdown: "opened (snd (net_shutdown N s w)) = opened w"
begin

lemma http_request_opened: "opened (snd (http_request N c req w)) = opened w"
proof -
  obtain s w1 where s: "net_stream N w = (s, w1)" by fastforce
  let ?body = "\<lambda>stream. bindS (net_connect N stream (cl_eps c)) (\<lambda>_.
       bindS (net_http_write N stream req) (\<lambda>_.
       bindS (net_http_read N stream) (\<lambda>res.
       bindS (shutdown_socket N stream) (\<lambda>_.
       bindS (liftS (check_response_status N res)) (\<lambda>_.
       returnS (rs_body res))))))"
  have frame: "preserves opened m" if "\<And>w. opened (snd (m w)) = opened w" for m :: "('w, 'x) io"
    using that by (metis preservesI snd_conv)
  have sd: "preserves opened (shutdown_socket N s)"
  proof (rule frame)
    fix w
    show "opened (snd (shutdown_socket N s w)) = opened w"
      using stream_shutdown [of s w] by (cases "net_shutdown N s w") (simp add: shutdown_socket_def)
  qed
  have "preserves opened (net_connect N s (cl_eps c))" "preserves opened (net_http_write N s req)"
    "preserves opened (net_http_read N s)"
    by (rule frame, simp add: stream_connect stream_write stream_read)+
  with sd have body: "preserves opened (?body s)"
    by (intro preserves_intros)
  have "opened (snd (?body s w1)) = insert s (opened w)"
    using stream_new [OF s] preserves_snd [OF body, of w1] by simp
  moreover have "snd (http_request N c req w) = net_drop N s (snd (?body s w1))"
    using s by (simp add: http_request_def with_tcp_stream_def split: prod.split)
  ultimately show ?thesis
    using stream_new [OF s] by (simp add: stream_drop)
qed

end

sublocale stream_accounting \<subseteq> opened_kept: world_view N "\<lambda>b. opened (b_world b)"
  by unfold_locales (simp_all add: http_request_opened)

context stream_accounting
begin

lemma call_opened: "preserves (\<lambda>b. opened (b_world b)) (Bot_call D N c)"
  by (rule opened_kept.preserves_all)

end

end
