(* ===== verification/Net_Script.thy ===== *)
theory Net_Script
  imports Bot_Views
begin

text \<open>
  A concrete network for examples: a peer that answers the HTTP requests it is sent with a
  list of prepared responses and delivers prepared WebSocket frames.  It records the
  requests and keeps the list of open streams.
\<close>

record peer =
  pr_open :: "nat list"
  pr_replies :: "response list"
  pr_requests :: "request list"
  pr_frames :: "(nat \<times> string) list"
  pr_files :: "(string \<times> string) list"
  pr_closed :: "nat list"

definition fresh_handle :: "nat list \<Rightarrow> nat" where
  "fresh_handle hs = Suc (sum_list hs)"

definition peer_status_class :: "nat \<Rightarrow> status_class" where
  "peer_status_class n =
     (if 100 \<le> n \<and> n < 200 then Class_informational else if 200 \<le> n \<and> n < 300 then Class_successful
      else if 300 \<le> n \<and> n < 400 then Class_redirection else if 400 \<le> n \<and> n < 500 then Class_client_error
      else if 500 \<le> n \<and> n < 600 then Class_server_error else Class_unknown)"

definition peer_http_read :: "nat \<Rightarrow> (peer, response) io" where
  "peer_http_read s w =
     (case pr_replies w of
        [] \<Rightarrow> (Inl (System_error 2), w)
      | r # rs \<Rightarrow> (Inr r, w\<lparr>pr_replies := rs\<rparr>))"

definition peer_ws_read :: "nat \<Rightarrow> peer \<Rightarrow> (nat \<times> string) \<times> peer" where
  "peer_ws_read s w =
     (case pr_frames w of
        [] \<Rightarrow> ((1, []), w)
      | f # fs \<Rightarrow> (f, w\<lparr>pr_frames := fs\<rparr>))"

definition peer_net :: "peer net" where
  "peer_net =
     \<lparr>net_resolve = (\<lambda>host port. returnS 7),
      net_stream = (\<lambda>w. let s = fresh_handle (pr_open w) in (s, w\<lparr>pr_open := s # pr_open w\<rparr>)),
      net_drop = (\<lambda>s w. w\<lparr>pr_open := filter (\<lambda>t. t \<noteq> s) (pr_open w)\<rparr>),
      net_connect = (\<lambda>s eps. returnS 8080),
      net_http_write = (\<lambda>s req. updS (\<lambda>w. w\<lparr>pr_requests := pr_requests w @ [req]\<rparr>)),
      net_http_read = peer_http_read,
      net_shutdown = (\<lambda>s w. (0, w)),
      net_not_connected = 107,
      net_status_class = peer_status_class,
      net_prepare_payload = (\<lambda>req. request_set (Field_other ''Content-Length'') (dec_nat (length (rq_body req))) req),
      net_version_string = ''Boost.Beast/322'',
      ws_stream_new = (\<lambda>w. let s = fresh_handle (pr_open w) in (s, w\<lparr>pr_open := s # pr_open w\<rparr>)),
      ws_stream_drop = (\<lambda>s w. w\<lparr>pr_open := filter (\<lambda>t. t \<noteq> s) (pr_open w)\<rparr>),
      ws_connect = (\<lambda>s eps. returnS 8080),
      ws_set_user_agent = (\<lambda>s agent w. w),
      ws_handshake = (\<lambda>s host target. returnS ()),
      ws_read = peer_ws_read,
      ws_close = (\<lambda>s. updS (\<lambda>w. w\<lparr>pr_closed := s # pr_closed w\<rparr>)),
      ws_closed = 1, sys_operation_canceled = 125, asio_operation_aborted = 125,
      timer_wait = (\<lambda>tp w. (0, w)),
      fs_open = (\<lambda>w path. map_option whole_file (map_of (pr_files w) path))\<rparr>"

definition peer_ok :: "string \<Rightarrow> response" where
  "peer_ok body = \<lparr>rs_result = 200, rs_reason = ''OK'', rs_body = body\<rparr>"

definition peer_world :: "response list \<Rightarrow> peer" where
  "peer_world rs =
     \<lparr>pr_open = [], pr_replies = rs, pr_requests = [], pr_frames = [], pr_files = [], pr_closed = []\<rparr>"

text \<open>A bot on that network, at address 1, with an open session or without one.\<close>

definition idle_bot :: "response list \<Rightarrow> peer Bot" where
  "idle_bot rs =
     \<lparr>b_addr = 1, b_world = peer_world rs, b_client = \<lparr>cl_host = ''h'', cl_eps = 7\<rparr>,
      b_id = UserId_default, b_sess_key = []\<rparr>"

definition session_bot :: "response list \<Rightarrow> peer Bot" where
  "session_bot rs = (idle_bot rs)\<lparr>b_id := UserId 42, b_sess_key := ''key''\<rparr>"

text \<open>A parser that knows the texts of a table.\<close>

definition table_deps :: "(string \<times> json) list \<Rightarrow> json deps" where
  "table_deps texts = ref_deps (map_of texts)"

lemma fresh_handle: "fresh_handle hs \<notin> set hs"
proof
  assume "fresh_handle hs \<in> set hs"
  then have "fresh_handle hs \<le> sum_list hs" by (rule member_le_sum_list) simp_all
  then show False by (simp add: fresh_handle_def)
qed

interpretation peer_streams: stream_accounting peer_net "\<lambda>w. set (pr_open w)"
  by unfold_locales
    (auto simp: peer_net_def fresh_handle Let_def returnS_def updS_def peer_http_read_def split: list.split)

lemma peer_request:
  "http_request peer_net c req w =
     (case pr_replies w of
        [] \<Rightarrow> (Inl (System_error 2), w\<lparr>pr_requests := pr_requests w @ [req]\<rparr>)
      | r # rs \<Rightarrow> (case check_response_status peer_net r of Inl e \<Rightarrow> Inl e | Inr _ \<Rightarrow> Inr (rs_body r),
                   w\<lparr>pr_requests := pr_requests w @ [req], pr_replies := rs\<rparr>))"
proof -
  have "filter (\<lambda>t. t \<noteq> fresh_handle hs) hs = hs" for hs
    using fresh_handle by (auto intro: filter_True)
  then show ?thesis
    by (simp add: http_request_def with_tcp_stream_def peer_net_def Let_def bindS_def shutdown_socket_def
        peer_http_read_def split: list.split sum.split)
qed

lemma peer_ok_passes [simp]: "check_response_status peer_net (peer_ok text) = Inr ()"
  by (simp add: check_response_status_def peer_net_def peer_ok_def peer_status_class_def)

lemma peer_ok_body [simp]: "rs_body (peer_ok text) = text"
  by (simp add: peer_ok_def)

lemma peer_net_fs [simp]: "fs_open peer_net w path = map_option whole_file (map_of (pr_files w) path)"
  by (simp add: peer_net_def)

text \<open>The outcome of a request to the peer that is answered with 404.\<close>

definition not_found :: response where
  "not_found = \<lparr>rs_result = 404, rs_reason = ''no'', rs_body = ''b''\<rparr>"

theorem request_returns_checked_body_witness:
  "\<exists>stream w1 w2. net_stream peer_net (peer_world [not_found]) = (stream, w1) \<and>
     snd (http_request peer_net \<lparr>cl_host = ''h'', cl_eps = 7\<rparr>
       (generate_http_get_request peer_net \<lparr>cl_host = ''h'', cl_eps = 7\<rparr> ''/about'')
       (peer_world [not_found])) = net_drop peer_net stream w2 \<and>
     fst (http_request peer_net \<lparr>cl_host = ''h'', cl_eps = 7\<rparr>
       (generate_http_get_request peer_net \<lparr>cl_host = ''h'', cl_eps = 7\<rparr> ''/about'')
       (peer_world [not_found])) = Inl (Http_status_exception 404 ''no'')"
proof -
  have "check_response_status peer_net not_found = Inl (Http_status_exception 404 ''no'')"
    by (simp add: check_response_status_def peer_net_def not_found_def peer_status_class_def)
  then have "fst (http_request peer_net \<lparr>cl_host = ''h'', cl_eps = 7\<rparr>
      (generate_http_get_request peer_net \<lparr>cl_host = ''h'', cl_eps = 7\<rparr> ''/about'')
      (peer_world [not_found])) = Inl (Http_status_exception 404 ''no'')"
    by (simp add: peer_request peer_world_def)
  then show ?thesis
    using request_returns_checked_body [where N = peer_net and c = "\<lparr>cl_host = ''h'', cl_eps = 7\<rparr>"
        and req = "generate_http_get_request peer_net \<lparr>cl_host = ''h'', cl_eps = 7\<rparr> ''/about''"
        and w = "peer_world [not_found]", OF prod.collapse [symmetric]]
    by blast
qed

end
