(* ===== verification/Bot_Protocol.thy ===== *)
theory Bot_Protocol
  imports Net_Script
begin

text \<open>
  The HTTP interface of the service as the bot uses it: a table of one request per
  operation, with bodies as JSON values, and the proof that each operation makes exactly the
  request of the table.
\<close>

section \<open>Configurations as values\<close>

definition GroupConfig_json :: "GroupConfig \<Rightarrow> json" where
  "GroupConfig_json c =
     JObj [(''name'', opt_json JStr (gc_name c)), (''announcement'', opt_json JStr (gc_announcement c)),
           (''confessTalk'', opt_json JBool (gc_allow_confess_talk c)),
           (''allowMemberInvite'', opt_json JBool (gc_allow_member_invitation c)),
           (''autoApprove'', opt_json JBool (gc_auto_approve c)),
           (''anonymousChat'', opt_json JBool (gc_allow_anonymous_chat c))]"

definition MemberInfo_json :: "MemberInfo \<Rightarrow> json" where
  "MemberInfo_json i =
     JObj [(''name'', opt_json JStr (mi_name i)), (''specialTitle'', opt_json JStr (mi_special_title i))]"

definition field_json :: "string \<Rightarrow> ('a \<Rightarrow> json) \<Rightarrow> 'a option \<Rightarrow> (string \<times> json) list" where
  "field_json key f x = (case x of None \<Rightarrow> [] | Some v \<Rightarrow> [(key, f v)])"

definition quote_json :: "MessageId option \<Rightarrow> (string \<times> json) list" where
  "quote_json quote = field_json ''quote'' (\<lambda>m. JNum (sint (mid_id m))) quote"

section \<open>The table\<close>

datatype exchange = Get string | Post string json

text \<open>Authorization makes two requests and uploads send a file; they are not in the table.\<close>

fun call_exchange :: "'w Bot \<Rightarrow> bot_call \<Rightarrow> exchange option" where
  "call_exchange b Call_release =
     Some (Post ''/release'' (JObj [(''sessionKey'', JStr (b_sess_key b)),
         (''qq'', JNum (sint (uid_id (b_id b))))]))"
| "call_exchange b Call_get_version =
     Some (Get (''/about''))"
| "call_exchange b (Call_send_message_user i message quote) =
     Some (Post ''/sendFriendMessage'' (JObj ([(''sessionKey'', JStr (b_sess_key b)),
         (''target'', JNum (sint (uid_id i))),
         (''messageChain'', Message_json message)] @ quote_json quote)))"
| "call_exchange b (Call_send_message_group i message quote) =
     Some (Post ''/sendGroupMessage'' (JObj ([(''sessionKey'', JStr (b_sess_key b)),
         (''target'', JNum (sint (gid_id i))),
         (''messageChain'', Message_json message)] @ quote_json quote)))"
| "call_exchange b (Call_send_message_temp i message quote) =
     Some (Post ''/sendTempMessage'' (JObj ([(''sessionKey'', JStr (b_sess_key b)),
         (''qq'', JNum (sint (uid_id (tid_uid i)))),
         (''group'', JNum (sint (gid_id (tid_gid i)))),
         (''messageChain'', Message_json message)] @ quote_json quote)))"
| "call_exchange b (Call_recall i) =
     Some (Post ''/recall'' (JObj [(''sessionKey'', JStr (b_sess_key b)),
         (''target'', JNum (sint (mid_id i)))]))"
| "call_exchange b (Call_send_image_message_user i urls) =
     Some (Post ''/sendImageMessage'' (JObj [(''sessionKey'', JStr (b_sess_key b)),
         (''qq'', JNum (sint (uid_id i))), (''urls'', JArr (map JStr urls))]))"
| "call_exchange b (Call_send_image_message_group i urls) =
     Some (Post ''/sendImageMessage'' (JObj [(''sessionKey'', JStr (b_sess_key b)),
         (''group'', JNum (sint (gid_id i))), (''urls'', JArr (map JStr urls))]))"
| "call_exchange b (Call_send_image_message_temp i urls) =
     Some (Post ''/sendImageMessage'' (JObj [(''sessionKey'', JStr (b_sess_key b)),
         (''qq'', JNum (sint (uid_id (tid_uid i)))),
         (''group'', JNum (sint (gid_id (tid_gid i)))), (''urls'', JArr (map JStr urls))]))"
| "call_exchange b (Call_pop_events cnt) =
     Some (Get (''/fetchMessage?sessionKey='' @ b_sess_key b @ ''&count='' @ dec_u64 cnt))"
| "call_exchange b (Call_pop_latest_events cnt) =
     Some (Get (''/fetchLatestMessage?sessionKey='' @ b_sess_key b @ ''&count='' @ dec_u64 cnt))"
| "call_exchange b (Call_peek_events cnt) =
     Some (Get (''/peekMessage?sessionKey='' @ b_sess_key b @ ''&count='' @ dec_u64 cnt))"
| "call_exchange b (Call_peek_latest_events cnt) =
     Some (Get (''/peekLatestMessage?sessionKey='' @ b_sess_key b @ ''&count='' @ dec_u64 cnt))"
| "call_exchange b (Call_retrieve_message i) =
     Some (Get (''/messageFromId?sessionKey='' @ b_sess_key b @ ''&id='' @ dec_i32 (mid_id i)))"
| "call_exchange b Call_count_message =
     Some (Get (''/countMessage?sessionKey='' @ b_sess_key b))"
| "call_exchange b Call_list_friends =
     Some (Get (''/friendList?sessionKey='' @ b_sess_key b))"
| "call_exchange b Call_list_groups =
     Some (Get (''/groupList?sessionKey='' @ b_sess_key b))"
| "call_exchange b (Call_list_members i) =
     Some (Get (''/memberList?sessionKey='' @ b_sess_key b @ ''&target='' @ dec_i64 (gid_id i)))"
| "call_exchange b (Call_mute gid user duration) =
     Some (Post ''/mute'' (JObj [(''sessionKey'', JStr (b_sess_key b)),
         (''target'', JNum (sint (gid_id gid))), (''memberId'', JNum (sint (uid_id user))),
         (''time'', JNum (sint duration))]))"
| "call_exchange b (Call_unmute gid user) =
     Some (Post ''/unmute'' (JObj [(''sessionKey'', JStr (b_sess_key b)),
         (''target'', JNum (sint (gid_id gid))), (''memberId'', JNum (sint (uid_id user)))]))"
| "call_exchange b (Call_mute_all gid) =
     Some (Post ''/muteAll'' (JObj [(''sessionKey'', JStr (b_sess_key b)),
         (''target'', JNum (sint (gid_id gid)))]))"
| "call_exchange b (Call_unmute_all gid) =
     Some (Post ''/unmuteAll'' (JObj [(''sessionKey'', JStr (b_sess_key b)),
         (''target'', JNum (sint (gid_id gid)))]))"
| "call_exchange b (Call_kick gid user reason) =
     Some (Post ''/kick'' (JObj [(''sessionKey'', JStr (b_sess_key b)),
         (''target'', JNum (sint (gid_id gid))), (''memberId'', JNum (sint (uid_id user))),
         (''msg'', JStr reason)]))"
| "call_exchange b (Call_quit gid) =
     Some (Post ''/quit'' (JObj [(''sessionKey'', JStr (b_sess_key b)),
         (''target'', JNum (sint (gid_id gid)))]))"
| "call_exchange b (Call_respond_new_friend ev ty reason) =
     Some (Post ''/resp/newFriendRequestEvent'' (JObj [(''sessionKey'', JStr (b_sess_key b)),
         (''eventId'', JNum (sint (nfr_id ev))),
         (''fromId'', JNum (sint (uid_id (nfr_from_id ev)))),
         (''groupId'', JNum (sint (gid_id (nfr_group_id ev)))),
         (''operate'', JNum (uint (NewFriendResponseType_code ty))), (''message'', JStr reason)]))"
| "call_exchange b (Call_respond_member_join ev ty reason) =
     Some (Post ''/resp/memberJoinRequestEvent'' (JObj [(''sessionKey'', JStr (b_sess_key b)),
         (''eventId'', JNum (sint (mjr_id ev))),
         (''fromId'', JNum (sint (uid_id (mjr_from_id ev)))),
         (''groupId'', JNum (sint (gid_id (mjr_group_id ev)))),
         (''operate'', JNum (uint (MemberJoinResponseType_code ty))), (''message'', JStr reason)]))"
| "call_exchange b (Call_respond_bot_invited ev ty reason) =
     Some (Post ''/resp/botInvitedJoinGroupRequestEvent'' (JObj [(''sessionKey'', JStr (b_sess_key b)), (''eventId'', JNum (sint (bij_id ev))), (''fromId'', JNum (sint (uid_id (bij_from_id ev)))), (''groupId'', JNum (sint (gid_id (bij_group_id ev)))), (''operate'', JNum (uint (BotInvitedJoinGroupResponseType_code ty))), (''message'', JStr reason)]))"
| "call_exchange b (Call_get_group_config gid) =
     Some (Get (''/groupConfig?sessionKey='' @ b_sess_key b @ ''&target='' @ dec_i64 (gid_id gid)))"
| "call_exchange b (Call_config_group gid config) =
     Some (Post ''/groupConfig'' (JObj [(''sessionKey'', JStr (b_sess_key b)),
         (''target'', JNum (sint (gid_id gid))), (''config'', GroupConfig_json config)]))"
| "call_exchange b (Call_get_member_info gid user) =
     Some (Get (''/groupConfig?sessionKey='' @ b_sess_key b @ ''&target='' @ dec_i64 (gid_id gid)
       @ ''&memberId='' @ dec_i64 (uid_id user)))"
| "call_exchange b (Call_set_member_info gid user info) =
     Some (Post ''/memberInfo'' (JObj [(''sessionKey'', JStr (b_sess_key b)),
         (''target'', JNum (sint (gid_id gid))), (''memberId'', JNum (sint (uid_id user))),
         (''info'', MemberInfo_json info)]))"
| "call_exchange b Call_get_config =
     Some (Get (''/config?sessionKey='' @ b_sess_key b))"
| "call_exchange b (Call_config config) =
     Some (Post ''/config'' (JObj ([(''sessionKey'', JStr (b_sess_key b))] @ field_json ''cacheSize'' (\<lambda>v. JNum (sint v)) (sc_cache_size config)
         @ field_json ''enableWebsocket'' JBool (sc_enable_websocket config))))"
| "call_exchange b c = None"

fun exchange_plain :: "exchange \<Rightarrow> bool" where
  "exchange_plain (Get target) = True"
| "exchange_plain (Post target v) = json_plain v"

fun exchange_request :: "'w net \<Rightarrow> Client \<Rightarrow> exchange \<Rightarrow> request" where
  "exchange_request N c (Get target) = generate_http_get_request N c target"
| "exchange_request N c (Post target v) =
     generate_http_post_request N c target json_content_type (json_render v)"

text \<open>
  \<open>sends N b m ex\<close>: from the state \<open>b\<close>, the call \<open>m\<close> first makes the
  request \<open>ex\<close>, and what it does with the response makes no further one.
\<close>

definition sends :: "'w net \<Rightarrow> 'w Bot \<Rightarrow> ('w Bot, 'a) act \<Rightarrow> exchange \<Rightarrow> bool" where
  "sends N b m ex \<longleftrightarrow>
     (\<exists>rest. (\<forall>response. preserves b_world (rest response)) \<and>
        m b = bindS (on_world (http_request N (b_client b) (exchange_request N (b_client b) ex))) rest b)"

lemma sends_get:
  assumes "target b = t" and "\<And>x. preserves b_world (k x)"
  shows "sends N b (bindS (checked_get D N target) k) (Get t)"
  unfolding sends_def
proof (intro exI conjI allI)
  show "preserves b_world (bindS (liftS (get_checked_response_json D response)) k)" for response
    by (intro preserves_intros assms(2))
  show "bindS (checked_get D N target) k b =
    bindS (on_world (http_request N (b_client b) (exchange_request N (b_client b) (Get t))))
      (\<lambda>response. bindS (liftS (get_checked_response_json D response)) k) b"
    using assms(1)
    by (simp add: checked_get_def Client_http_get_def bindS_def split: prod.split sum.split)
qed

lemma sends_post:
  assumes "body b = Inr (json_render v)" and "\<And>x. preserves b_world (k x)"
  shows "sends N b (bindS (checked_post_json D N t body) k) (Post t v)"
  unfolding sends_def
proof (intro exI conjI allI)
  show "preserves b_world (bindS (liftS (get_checked_response_json D response)) k)" for response
    by (intro preserves_intros assms(2))
  show "bindS (checked_post_json D N t body) k b =
    bindS (on_world (http_request N (b_client b) (exchange_request N (b_client b) (Post t v))))
      (\<lambda>response. bindS (liftS (get_checked_response_json D response)) k) b"
    using assms(1)
    by (simp add: checked_post_json_def Client_http_post_json_def bindS_def split: prod.split sum.split)
qed

lemma sends_mapS: "sends N b m ex \<Longrightarrow> sends N b (mapS f m) ex"
  unfolding sends_def
proof (elim exE conjE)
  fix rest
  assume rest: "\<forall>response. preserves b_world (rest response)"
    and m: "m b = bindS (on_world (http_request N (b_client b) (exchange_request N (b_client b) ex))) rest b"
  have "mapS f m b =
      bindS (on_world (http_request N (b_client b) (exchange_request N (b_client b) ex)))
        (\<lambda>response. mapS f (rest response)) b"
    by (simp add: mapS_def m bindS_def split: prod.split sum.split)
  moreover have "\<forall>response. preserves b_world (mapS f (rest response))"
    using rest by (auto intro: preserves_mapS)
  ultimately show "\<exists>rest. (\<forall>response. preserves b_world (rest response)) \<and> mapS f m b =
      bindS (on_world (http_request N (b_client b) (exchange_request N (b_client b) ex))) rest b"
    by (intro exI [of _ "\<lambda>response. mapS f (rest response)"] conjI)
qed

section \<open>Bodies\<close>

lemma perform_obj: "list_all2 writes_entry es kvs \<Longrightarrow> perform_format (write_obj es) = json_render (JObj kvs)"
  using writes_obj [of es kvs] by (simp add: perform_format_def writes_def appends_def)

lemma bare_text_body_keys [simp]:
  "bare_text ''sessionKey''" "bare_text ''qq''" "bare_text ''group''" "bare_text ''urls''"
  "bare_text ''quote''" "bare_text ''memberId''" "bare_text ''msg''" "bare_text ''eventId''"
  "bare_text ''fromId''" "bare_text ''groupId''" "bare_text ''operate''" "bare_text ''message''"
  "bare_text ''config''" "bare_text ''info''" "bare_text ''cacheSize''" "bare_text ''enableWebsocket''"
  "bare_text ''announcement''" "bare_text ''confessTalk''" "bare_text ''allowMemberInvite''"
  "bare_text ''autoApprove''" "bare_text ''anonymousChat''" "bare_text ''specialTitle''"
  by (simp_all add: bare_text_eval)

lemma writes_Message [writer_simps]:
  "json_plain (Message_json m) \<Longrightarrow>
   writes (Message_format_as_json m) (Message_json m)"
  unfolding Message_json_def Message_writer_range
  by (intro writes_serializable_map segments_written) (auto simp: list_all_iff)

lemma writes_opt_bool [writer_simps]:
  "writes (format_to_json (J_opt (map_option J_bool x))) (opt_json JBool x)"
  by (cases x) (simp_all add: writer_simps)

lemma writes_GroupConfig [writer_simps]:
  "json_plain (GroupConfig_json c) \<Longrightarrow>
   writes (GroupConfig_format_as_json c) (GroupConfig_json c)"
  unfolding GroupConfig_json_def GroupConfig_format_as_json_def
  by (rule writes_obj) (simp add: writer_simps)

lemma writes_MemberInfo [writer_simps]:
  "json_plain (MemberInfo_json i) \<Longrightarrow>
   writes (MemberInfo_format_as_json i) (MemberInfo_json i)"
  unfolding MemberInfo_json_def MemberInfo_format_as_json_def
  by (rule writes_obj) (simp add: writer_simps)

lemma writes_texts [writer_simps]:
  "list_all plain_text ts \<Longrightarrow> writes (format_to_json (J_range (map J_text ts))) (JArr (map JStr ts))"
  by (rule writes_range) (auto simp: list_all2_map1 list_all2_map2 list_all2_same list_all_iff writer_simps)

lemma writes_quote: "list_all2 writes_entry (quote_entry q) (quote_json q)"
  by (cases q) (simp_all add: quote_entry_def quote_json_def field_json_def writer_simps)

lemma writes_field:
  "bare_text key \<Longrightarrow> (\<And>v. writes (format_to_json (f v)) (g v)) \<Longrightarrow>
   list_all2 writes_entry (opt_entry key f x) (field_json key g x)"
  by (cases x) (simp_all add: opt_entry_def field_json_def writer_simps)

lemma release_body_json:
  "plain_text (b_sess_key b) \<Longrightarrow>
   release_body b = json_render (JObj [(''sessionKey'', JStr (b_sess_key b)), (''qq'', JNum (sint (uid_id (b_id b))))])"
  by (simp add: release_body_def perform_format_def JsonQuoted_plain fmt_out_def json_quote_bare
      dquote_def dec_i64_def)

lemmas body_defs =
  send_message_body_def send_temp_message_body_def target_id_body_def
  send_image_message_user_body_def send_image_message_group_body_def send_image_message_temp_body_def
  config_body_def mute_body_def unmute_body_def kick_body_def respond_new_friend_body_def
  respond_member_join_body_def respond_bot_invited_body_def config_group_body_def set_member_info_body_def

lemma preserves_event_result: "preserves b_world (Bot_parse_events D r)"
  unfolding Bot_parse_events_def by (intro preserves_intros)

lemma plain_map_JStr: "list_all json_plain (map JStr ts) \<longleftrightarrow> list_all plain_text ts"
  by (simp add: list_all_iff)

text \<open>
  C6: every operation of the bot other than authorize and the
  uploads makes the one request of the table: the path and query, or the path and the JSON
  object with the session key and the arguments, rendered as valid JSON, provided no string
  in it needs an escape the quoting does not make.  What is done with the response makes no
  further request.\<close>

theorem call_makes_its_request:
  assumes "call_exchange b c = Some ex" and "exchange_plain ex"
  shows "sends N b (Bot_call D N c) ex"
  using assms
  by (cases c)
    (auto simp: Bot_sync_defs body_defs release_body_json writer_simps plain_map_JStr
      simp del: Message_format_as_json.simps
      intro!: sends_mapS sends_get sends_post preserves_intros preserves_event_result perform_obj
        list_all2_appendI writes_quote writes_field)

definition example_message :: Message where
  "example_message = [SegPlain \<lparr>pl_text = ''hi''\<rparr>, SegAt \<lparr>at_target = UserId 7, at_display = []\<rparr>]"

theorem call_makes_its_request_witness:
  "sends peer_net (session_bot []) (Bot_call (ref_deps Map.empty) peer_net
      (Call_send_message_group (GroupId 5) example_message (Some (MessageId 9))))
    (Post ''/sendGroupMessage'' (JObj [(''sessionKey'', JStr ''key''), (''target'', JNum 5),
       (''messageChain'', Message_json example_message), (''quote'', JNum 9)]))"
  by (rule call_makes_its_request)
    (simp_all add: session_bot_def quote_json_def field_json_def example_message_def Message_json_def
      plain_text_def plain_char_def is_control_def dquote_def bslash_def)

section \<open>Reading configurations back\<close>

lemma GroupConfig_read_back: "GroupConfig_from_json (ref_deps p) (GroupConfig_json c) = Inr c"
  by (cases "gc_name c"; cases "gc_announcement c"; cases "gc_allow_confess_talk c";
      cases "gc_allow_member_invitation c"; cases "gc_auto_approve c"; cases "gc_allow_anonymous_chat c")
    (simp_all add: GroupConfig_from_json_def GroupConfig_json_def from_json_defs)

lemma MemberInfo_read_back: "MemberInfo_from_json (ref_deps p) (MemberInfo_json i) = Inr i"
  by (cases "mi_name i"; cases "mi_special_title i")
    (simp_all add: MemberInfo_from_json_def MemberInfo_json_def from_json_defs)

lemma config_depth: "json_depth (GroupConfig_json c) \<le> 1024" "json_depth (MemberInfo_json i) \<le> 1024"
proof -
  have "json_depth (opt_json JStr x) = 0" "json_depth (opt_json JBool y) = 0" for x y
    by (cases x; simp) (cases y; simp)
  then show "json_depth (GroupConfig_json c) \<le> 1024" "json_depth (MemberInfo_json i) \<le> 1024"
    by (simp_all add: GroupConfig_json_def MemberInfo_json_def)
qed

text \<open>
  C32: the configuration of a group and the information about a member
  that the bot sends are read back unchanged by the readers the bot uses for the ones it
  receives, whichever fields are set, provided the parser returns the value of the text it is
  given and no text needs an escape the quoting does not make.\<close>

theorem config_roundtrip:
  assumes "json_plain (GroupConfig_json c)" and "json_plain (MemberInfo_json i)"
    and "p (json_render (GroupConfig_json c)) = Some (GroupConfig_json c)"
    and "p (json_render (MemberInfo_json i)) = Some (MemberInfo_json i)"
  shows "bindE (throwing (sj_parse (ref_deps p) (perform_format (GroupConfig_format_as_json c))))
           (GroupConfig_from_json (ref_deps p)) = Inr c \<and>
         bindE (throwing (sj_parse (ref_deps p) (perform_format (MemberInfo_format_as_json i))))
           (MemberInfo_from_json (ref_deps p)) = Inr i"
proof -
  have "perform_format (GroupConfig_format_as_json c) = json_render (GroupConfig_json c)"
    "perform_format (MemberInfo_format_as_json i) = json_render (MemberInfo_json i)"
    using writes_GroupConfig [OF assms(1)] writes_MemberInfo [OF assms(2)]
    by (simp_all add: perform_format_def writesD)
  then show ?thesis
    using assms(3,4) config_depth(1) [of c] config_depth(2) [of i]
    by (simp add: ref_parse_def GroupConfig_read_back MemberInfo_read_back)
qed

definition example_config :: GroupConfig where
  "example_config =
     \<lparr>gc_name = Some ''g'', gc_announcement = None, gc_allow_confess_talk = Some True,
      gc_allow_member_invitation = None, gc_auto_approve = Some False, gc_allow_anonymous_chat = None\<rparr>"

definition example_info :: MemberInfo where
  "example_info = \<lparr>mi_name = None, mi_special_title = Some ''t''\<rparr>"

theorem config_roundtrip_witness:
  "let p = [json_render (GroupConfig_json example_config) \<mapsto> GroupConfig_json example_config,
            json_render (MemberInfo_json example_info) \<mapsto> MemberInfo_json example_info]
   in bindE (throwing (sj_parse (ref_deps p) (perform_format (GroupConfig_format_as_json example_config))))
        (GroupConfig_from_json (ref_deps p)) = Inr example_config"
  unfolding Let_def
  by (rule config_roundtrip [where i = example_info, THEN conjunct1])
    (simp_all add: GroupConfig_json_def MemberInfo_json_def example_config_def example_info_def
      plain_text_def plain_char_def is_control_def dquote_def bslash_def json_quote_def json_escapes_def
      json_escape_def)

section \<open>Uploads\<close>

lemma upload_body:
  assumes "fs_open N (b_world b) path = Some (whole_file bytes)"
  shows "upload_file_body N ty key path b =
    Inr (fst (MultipartBuilder_take_string (projr (add_parts
      [Key_value ''sessionKey'' (b_sess_key b), Key_value ''type'' (TargetType_to_string_view ty),
       File_part key path bytes] MultipartBuilder_new))))"
  using assms by (simp add: upload_file_body_def add_part_text [of "File_part key path bytes", simplified])

lemma upload_no_file:
  assumes "fs_open N (b_world b) path = None"
  shows "Bot_upload_image D N ty path b = (throw (Runtime_error ''failed to open binary file''), b)"
    and "Bot_upload_voice D N ty path b = (throw (Runtime_error ''failed to open binary file''), b)"
  using assms
  by (simp_all add: Bot_upload_image_def Bot_upload_voice_def checked_post_def upload_file_body_def
      MultipartBuilder_add_file_def bindS_def throw_def)

text \<open>
  C22: an upload of a file that can be read makes one POST request to its
  path, with a form body that a receiver reads back as the session key, the kind of target
  and exactly the bytes of the file, provided key and bytes have no line that starts with
  the boundary and the file name no carriage return.\<close>

theorem upload_sends_file:
  fixes b :: "'w Bot"
  assumes "(c, target, key) \<in> {(Call_upload_image ty path, ''/uploadImage'', ''img''),
      (Call_upload_voice ty path, ''/uploadVoice'', ''voice'')}"
    and "fs_open N (b_world b) path = Some (whole_file bytes)"
    and "transmissible (Key_value ''sessionKey'' (b_sess_key b))"
    and "transmissible (File_part key path bytes)"
  shows "\<exists>body headers rest.
    read_multipart body = Some (zip headers [b_sess_key b, TargetType_to_string_view ty, bytes]) \<and>
    headers = map part_header [Key_value ''sessionKey'' (b_sess_key b),
      Key_value ''type'' (TargetType_to_string_view ty), File_part key path bytes] \<and>
    (\<forall>response. preserves b_world (rest response)) \<and>
    Bot_call D N c b =
      bindS (on_world (http_request N (b_client b)
        (generate_http_post_request N (b_client b) target multipart_content_type body))) rest b"
proof -
  let ?ps = "[Key_value ''sessionKey'' (b_sess_key b), Key_value ''type'' (TargetType_to_string_view ty),
       File_part key path bytes]"
  let ?str = "projr (add_parts ?ps MultipartBuilder_new)"
  let ?body = "fst (MultipartBuilder_take_string ?str)"
  have "transmissible (Key_value ''type'' (TargetType_to_string_view ty))"
    by (cases ty) (simp_all add: transmissible_def delimiter_def sublist_Cons_right)
  then have "list_all transmissible ?ps" using assms(3,4) by simp
  moreover have "add_parts ?ps MultipartBuilder_new = Inr ?str" by (simp add: add_parts_text)
  ultimately have "read_multipart ?body = Some (map (\<lambda>p. (part_header p, part_content p)) ?ps)"
    using read_multipart_parts [OF _ _ prod.collapse [symmetric]] by blast
  then have read: "read_multipart ?body =
      Some (zip (map part_header ?ps) [b_sess_key b, TargetType_to_string_view ty, bytes])"
    by simp
  have body: "upload_file_body N ty key path b = Inr ?body" by (rule upload_body [OF assms(2)])
  define rest :: "string \<Rightarrow> ('w Bot, bot_result) act" where "rest = (\<lambda>response. if c = Call_upload_image ty path
      then mapS Res_image (bindS (liftS (get_checked_response_json D response))
        (\<lambda>json. liftS (from_json_class (Image_from_json D) json)))
      else mapS Res_voice (bindS (liftS (get_checked_response_json D response))
        (\<lambda>json. liftS (from_json_class (Voice_from_json D) json))))"
  have "preserves b_world (rest response)" for response :: string
    unfolding rest_def by (auto intro!: preserves_intros)
  moreover have "Bot_call D N c b =
      bindS (on_world (http_request N (b_client b)
        (generate_http_post_request N (b_client b) target multipart_content_type ?body))) rest b"
    using assms(1) body
    by (auto simp: rest_def Bot_upload_image_def Bot_upload_voice_def mapS_def checked_post_def
        Client_http_post_def bindS_def split: prod.split sum.split)
  ultimately show ?thesis using read by blast
qed

theorem upload_sends_file_witness:
  "\<exists>body headers rest.
    read_multipart body = Some (zip headers [''key'', ''group'', ''PNG'']) \<and>
    headers = map part_header [Key_value ''sessionKey'' ''key'', Key_value ''type'' ''group'',
      File_part ''img'' ''/a.png'' ''PNG''] \<and>
    (\<forall>response. preserves b_world (rest response)) \<and>
    Bot_call (ref_deps Map.empty) peer_net (Call_upload_image TargetType_group ''/a.png'')
        ((session_bot [])\<lparr>b_world := (peer_world [])\<lparr>pr_files := [(''/a.png'', ''PNG'')]\<rparr>\<rparr>) =
      bindS (on_world (http_request peer_net \<lparr>cl_host = ''h'', cl_eps = 7\<rparr>
        (generate_http_post_request peer_net \<lparr>cl_host = ''h'', cl_eps = 7\<rparr> ''/uploadImage''
          multipart_content_type body))) rest
        ((session_bot [])\<lparr>b_world := (peer_world [])\<lparr>pr_files := [(''/a.png'', ''PNG'')]\<rparr>\<rparr>)"
  using upload_sends_file [of "Call_upload_image TargetType_group ''/a.png''" "''/uploadImage''" "''img''"
      TargetType_group "''/a.png''" peer_net
      "(session_bot [])\<lparr>b_world := (peer_world [])\<lparr>pr_files := [(''/a.png'', ''PNG'')]\<rparr>\<rparr>" "''PNG''"
      "ref_deps Map.empty"]
  by (simp add: session_bot_def idle_bot_def peer_world_def peer_net_fs transmissible_def delimiter_def
      sublist_Cons_right)

end
