(* ===== verification/Bot_Session.thy ===== *)
theory Bot_Session
  imports Net_Script
begin

text \<open>
  Sessions of a bot: an abstract machine with two states, and the proof that every sequence
  of operations of \<open>Bot\<close> is a run of it.
\<close>

section \<open>The abstract machine\<close>

datatype session = No_session | Session UserId string

text \<open>
  A step is labelled with the operation and whether it returned.  Only a successful
  authorization opens a session, only in the state without one and only for a valid
  account; only a successful release closes it.
\<close>

inductive session_step :: "session \<Rightarrow> bot_call \<Rightarrow> bool \<Rightarrow> session \<Rightarrow> bool" where
  opened: "UserId_valid i \<Longrightarrow> session_step No_session (Call_authorize k i) True (Session i key)"
| opened_invalid: "\<not> UserId_valid i \<Longrightarrow> session_step No_session (Call_authorize k i) True No_session"
| refused: "session_step s (Call_authorize k i) False s"
| closed: "session_step s Call_release True No_session"
| close_failed: "session_step s Call_release False s"
| used: "(\<And>k i. c \<noteq> Call_authorize k i) \<Longrightarrow> c \<noteq> Call_release \<Longrightarrow> session_step s c ok s"

inductive_cases session_step_authorize: "session_step s (Call_authorize k i) ok s'"
inductive_cases session_step_from: "session_step (Session u key) c ok No_session"

inductive session_run :: "session \<Rightarrow> (bot_call \<times> bool) list \<Rightarrow> session \<Rightarrow> bool" where
  run_nil: "session_run s [] s"
| run_cons: "session_step s c ok s1 \<Longrightarrow> session_run s1 tr s2 \<Longrightarrow> session_run s ((c, ok) # tr) s2"

inductive_cases session_run_cons: "session_run s (e # tr) s'"
inductive_cases session_run_nil: "session_run s [] s'"

lemma session_run_append:
  "session_run s (xs @ ys) s2 \<longleftrightarrow> (\<exists>s1. session_run s xs s1 \<and> session_run s1 ys s2)"
proof (induction xs arbitrary: s)
  case Nil
  then show ?case by (auto intro: run_nil elim: session_run_nil)
next
  case (Cons x xs)
  show ?case
  proof
    assume "session_run s ((x # xs) @ ys) s2"
    then obtain s1 where "session_step s (fst x) (snd x) s1" "session_run s1 (xs @ ys) s2"
      by (auto elim: session_run_cons)
    with Cons.IH show "\<exists>s1. session_run s (x # xs) s1 \<and> session_run s1 ys s2"
      by (metis prod.collapse run_cons)
  next
    assume "\<exists>s1. session_run s (x # xs) s1 \<and> session_run s1 ys s2"
    then show "session_run s ((x # xs) @ ys) s2"
      using Cons.IH by (auto elim!: session_run_cons intro: run_cons)
  qed
qed

text \<open>An open session stays until a successful release.\<close>

lemma session_stays:
  assumes "session_run s tr s'" and "s \<noteq> No_session" and "(Call_release, True) \<notin> set tr"
  shows "s' = s"
  using assms
proof (induction rule: session_run.induct)
  case (run_nil s)
  then show ?case by simp
next
  case (run_cons s c ok s1 tr s2)
  have "s1 = s" using run_cons.hyps(1) run_cons.prems
    by (cases rule: session_step.cases) auto
  with run_cons show ?case by simp
qed

section \<open>Operations on the session fields\<close>

abbreviation returned :: "'a res \<Rightarrow> bool" where
  "returned r \<equiv> \<not> isl r"

definition session_of :: "'w Bot \<Rightarrow> session" where
  "session_of b = (if Bot_authorized b then Session (b_id b) (b_sess_key b) else No_session)"

lemma checked_post_json_fields:
  "checked_post_json D N path body b = (r, b') \<Longrightarrow> session_fields b' = session_fields b"
  using session_kept.preserves_checked(3) by (rule preservesD)

lemma checked_post_json_failed_body:
  "body b = Inl f \<Longrightarrow> checked_post_json D N path body b = (Inl f, b)"
  by (simp add: checked_post_json_def)

lemma session_of_fields: "session_fields b' = session_fields b \<Longrightarrow> session_of b' = session_of b"
  by (simp add: session_fields_def session_of_def Bot_authorized_def)

lemma authorize_when_authorized:
  assumes "Bot_authorized b"
  shows "\<exists>e. Bot_authorize D N k i b = (throw e, b)"
  using assms
  by (auto simp: Bot_authorize_def bindS_def checked_post_json_failed_body check_auth_gen_body_def throw_def)

lemma authorize_when_idle:
  assumes "\<not> Bot_authorized b" and run: "Bot_authorize D N k i b = (r, b')"
  shows "(case r of Inr _ \<Rightarrow> b_id b' = i | Inl _ \<Rightarrow> \<not> Bot_authorized b')"
proof -
  obtain r1 b1 where 1: "checked_post_json D N ''/auth'' (check_auth_gen_body k) b = (r1, b1)"
    by fastforce
  then have id1: "b_id b1 = b_id b" using checked_post_json_fields by (fastforce simp: session_fields_def)
  show ?thesis
  proof (cases r1)
    case (Inl e)
    with 1 run assms id1 show ?thesis by (auto simp: Bot_authorize_def bindS_def Bot_authorized_def)
  next
    case (Inr json)
    show ?thesis
    proof (cases "from_json_string D (res_at D json ''session'')")
      case (Inl e)
      with 1 Inr run assms id1 show ?thesis by (auto simp: Bot_authorize_def bindS_def Bot_authorized_def)
    next
      case key: (Inr key)
      obtain r2 b2 where
        2: "checked_post_json D N ''/verify'' (\<lambda>b. Inr (verify_body i b)) (b1\<lparr>b_sess_key := key\<rparr>) = (r2, b2)"
        by fastforce
      then have "b_id b2 = b_id b"
        using checked_post_json_fields id1 by (fastforce simp: session_fields_def)
      with 1 2 Inr key run assms show ?thesis
        by (cases r2) (auto simp: Bot_authorize_def bindS_def Bot_authorized_def)
    qed
  qed
qed

lemma release_outcome:
  assumes "Bot_release D N b = (r, b')"
  shows "(case r of Inr _ \<Rightarrow> \<not> Bot_authorized b' | Inl _ \<Rightarrow> session_fields b' = session_fields b)"
proof -
  obtain r1 b1 where 1: "checked_post_json D N ''/release'' (\<lambda>b. Inr (release_body b)) b = (r1, b1)"
    by fastforce
  with checked_post_json_fields [OF 1] assms show ?thesis
    by (cases r1) (auto simp: Bot_release_def bindS_def Bot_authorized_def)
qed

lemma mapS_outcome:
  "mapS f m s = (r, s') \<longleftrightarrow>
     (\<exists>r0. m s = (r0, s') \<and> r = (case r0 of Inl e \<Rightarrow> Inl e | Inr x \<Rightarrow> Inr (f x)))"
  by (auto simp: mapS_def bindS_def split: prod.splits sum.splits)

lemma call_session_step:
  assumes "Bot_call D N c b = (r, b')"
  shows "session_step (session_of b) c (returned r) (session_of b')"
proof -
  consider k i where "c = Call_authorize k i" | "c = Call_release"
    | "\<And>k i. c \<noteq> Call_authorize k i" "c \<noteq> Call_release" by blast
  then show ?thesis
  proof cases
    case 1
    with assms obtain r0 where r0: "Bot_authorize D N k i b = (r0, b')" "returned r = returned r0"
      by (auto simp: mapS_outcome split: sum.split)
    show ?thesis
    proof (cases "Bot_authorized b")
      case True
      with authorize_when_authorized [OF True, of D N k i] r0 have "b' = b" "isl r0"
        by (auto simp: throw_def)
      with 1 r0 show ?thesis by (cases r0) (auto intro: refused)
    next
      case False
      from authorize_when_idle [OF False r0(1)] False 1 r0(2) show ?thesis
        by (cases r0) (auto simp: session_of_def Bot_authorized_def intro: session_step.intros)
    qed
  next
    case 2
    with assms obtain r0 where r0: "Bot_release D N b = (r0, b')" "returned r = returned r0"
      by (auto simp: mapS_outcome split: sum.split)
    from release_outcome [OF r0(1)] 2 r0(2) show ?thesis
      by (cases r0) (auto simp: session_of_def Bot_authorized_def session_fields_def intro: session_step.intros)
  next
    case 3
    have "session_of b' = session_of b"
      using Bot_call_session_fields [OF assms 3] by (rule session_of_fields)
    with 3 show ?thesis by (auto intro: used)
  qed
qed

section \<open>Sequences of operations\<close>

text \<open>A program that makes one call after another and goes on after a failed one.\<close>

fun Bot_calls :: "'j deps \<Rightarrow> 'w net \<Rightarrow> bot_call list \<Rightarrow> 'w Bot \<Rightarrow> bot_result res list \<times> 'w Bot" where
  "Bot_calls D N [] b = ([], b)"
| "Bot_calls D N (c # cs) b =
     (case Bot_call D N c b of (r, b') \<Rightarrow> (case Bot_calls D N cs b' of (rs, b'') \<Rightarrow> (r # rs, b'')))"

definition call_trace :: "bot_call list \<Rightarrow> bot_result res list \<Rightarrow> (bot_call \<times> bool) list" where
  "call_trace cs rs = zip cs (map returned rs)"

lemma calls_session_run:
  "Bot_calls D N cs b = (rs, b') \<Longrightarrow> session_run (session_of b) (call_trace cs rs) (session_of b')"
proof (induction cs arbitrary: b rs)
  case Nil
  then show ?case by (simp add: call_trace_def run_nil)
next
  case (Cons c cs)
  then obtain r b1 rs1 where "Bot_call D N c b = (r, b1)" "Bot_calls D N cs b1 = (rs1, b')" "rs = r # rs1"
    by (auto split: prod.splits)
  then show ?case
    using Cons.IH call_session_step by (fastforce simp: call_trace_def intro: run_cons)
qed

text \<open>
  C8: seen through its session, every sequence of operations of a bot,
  whichever of them fail, is a run of the two-state machine: a session is opened only by a
  successful authorize of a valid account while none is open, closed only by a successful
  release, and no other operation changes its account or key.\<close>

theorem calls_refine_session:
  assumes "Bot_calls D N cs b = (rs, b')"
  shows "session_run (session_of b) (call_trace cs rs) (session_of b')"
  using assms by (rule calls_session_run)

text \<open>
  C24: between two successful authorizations of valid accounts there
  is a successful release, in every sequence of operations of a bot.\<close>

theorem one_session_at_a_time:
  assumes "Bot_calls D N cs b = (rs, b')"
    and "call_trace cs rs = xs @ (Call_authorize k i, True) # ys @ (Call_authorize k' i', True) # zs"
    and "UserId_valid i"
  shows "(Call_release, True) \<in> set ys"
proof (rule ccontr)
  assume none: "(Call_release, True) \<notin> set ys"
  from calls_session_run [OF assms(1)] obtain s1 s2 where
    a: "session_run s1 ((Call_authorize k i, True) # ys) s2"
    and c: "session_run s2 ((Call_authorize k' i', True) # zs) (session_of b')"
    unfolding assms(2) by (simp add: session_run_append) (metis append_Cons session_run_append)
  from a obtain s where s: "session_step s1 (Call_authorize k i) True s" "session_run s ys s2"
    by (auto elim: session_run_cons)
  with assms(3) have "s \<noteq> No_session" by (auto elim: session_step_authorize)
  with s(2) none have "s2 = s" by (simp add: session_stays)
  with c \<open>s \<noteq> No_session\<close> show False by (auto elim!: session_run_cons session_step_authorize)
qed

text \<open>
  C26: when authorizing a bot that is not authorized yet fails, at
  whichever of its requests, it stays not authorized, and its destructor makes no request:
  a session that the service has opened before the failure (when \<open>/auth\<close> succeeded
  and \<open>/verify\<close> did not) is never released.\<close>

theorem failed_authorize_unreleased:
  assumes "\<not> Bot_authorized b" and "Bot_authorize D N k i b = (Inl f, b')"
  shows "\<not> Bot_authorized b' \<and> Bot_destroy D N b' = (Inr (), b')"
proof -
  have "\<not> Bot_authorized b'" using authorize_when_idle [OF assms] by simp
  then show ?thesis by (simp add: Bot_destroy_def catchS_def)
qed

section \<open>The properties on an example\<close>

text \<open>
  The service opens session \<open>K\<close>, verifies it, and answers a release.
\<close>

definition ok_text :: string where "ok_text = ''{code:0}''"
definition auth_text :: string where "auth_text = ''{code:0,session:K}''"
definition refused_text :: string where "refused_text = ''{code:2}''"

definition example_deps :: "json deps" where
  "example_deps = table_deps
     [(ok_text, JObj [(''code'', JNum 0)]),
      (auth_text, JObj [(''code'', JNum 0), (''session'', JStr ''K'')]),
      (refused_text, JObj [(''code'', JNum 2)])]"

lemma example_parse:
  "get_checked_response_json example_deps ok_text = Inr (Inr (JObj [(''code'', JNum 0)]))"
  "get_checked_response_json example_deps auth_text =
     Inr (Inr (JObj [(''code'', JNum 0), (''session'', JStr ''K'')]))"
  "get_checked_response_json example_deps refused_text = throw (Mirai_exception 2)"
  by (simp_all add: get_checked_response_json_def check_json_def example_deps_def table_deps_def
      ref_parse_def ok_text_def auth_text_def refused_text_def check_status_code_def
      MiraiStatus_success_def i64_to_i32_def)

lemma example_session_field:
  "from_json_string example_deps
     (sj_at_key example_deps (JObj [(''code'', JNum 0), (''session'', JStr ''K'')]) ''session'') = Inr ''K''"
  by (simp add: example_deps_def table_deps_def res_at_def from_json_string_def)

lemma peer_post:
  assumes "body b = Inr text" and "pr_replies (b_world b) = peer_ok reply # rs"
  shows "checked_post_json D peer_net path body b =
    (get_checked_response_json D reply,
     b\<lparr>b_world := (b_world b)\<lparr>pr_replies := rs, pr_requests := pr_requests (b_world b) @
        [generate_http_post_request peer_net (b_client b) path json_content_type text]\<rparr>\<rparr>)"
  using assms
  by (simp add: checked_post_json_def Client_http_post_json_def on_world_def bindS_def peer_request)

lemma example_authorize:
  assumes "b_id b = UserId_default"
    and "pr_replies (b_world b) = peer_ok auth_text # peer_ok reply # rs"
    and "get_checked_response_json example_deps reply = r"
  shows "\<exists>b'. Bot_authorize example_deps peer_net k i b = (bindE r (\<lambda>_. Inr ()), b') \<and>
     b_sess_key b' = ''K'' \<and> b_id b' = (if isl r then UserId_default else i) \<and>
     pr_replies (b_world b') = rs"
  using assms
  by (cases r)
    (auto simp: Bot_authorize_def bindS_def peer_post example_parse
      check_auth_gen_body_def Bot_authorized_def example_session_field)

lemma idle_bot_fields:
  "b_id (idle_bot rs) = UserId_default" "pr_replies (b_world (idle_bot rs)) = rs"
  by (simp_all add: idle_bot_def peer_world_def)

lemma example_release:
  assumes "pr_replies (b_world b) = peer_ok reply # rs"
    and "get_checked_response_json example_deps reply = r"
  shows "\<exists>b'. Bot_release example_deps peer_net b = (bindE r (\<lambda>_. Inr ()), b') \<and>
     (if isl r then session_fields b' = session_fields b else b_id b' = UserId_default) \<and>
     pr_replies (b_world b') = rs"
  using assms
  by (cases r) (auto simp: Bot_release_def bindS_def peer_post session_fields_def)

lemma session_of_idle: "session_of (idle_bot rs) = No_session"
  by (simp add: session_of_def idle_bot_def Bot_authorized_def)

lemma authorized_42: "UserId_valid (UserId 42)"
  by (simp add: UserId_valid_def)

theorem calls_refine_session_witness:
  "\<exists>rs b'. Bot_calls example_deps peer_net [Call_authorize ''pw'' (UserId 42), Call_release]
       (idle_bot [peer_ok auth_text, peer_ok ok_text, peer_ok refused_text]) = (rs, b') \<and>
     rs = [Inr Res_unit, throw (Mirai_exception 2)] \<and> session_of b' = Session (UserId 42) ''K'' \<and>
     session_run No_session [(Call_authorize ''pw'' (UserId 42), True), (Call_release, False)]
       (Session (UserId 42) ''K'')"
proof -
  let ?b = "idle_bot [peer_ok auth_text, peer_ok ok_text, peer_ok refused_text]"
  obtain b1 where b1: "Bot_authorize example_deps peer_net ''pw'' (UserId 42) ?b = (Inr (), b1)"
    "b_sess_key b1 = ''K''" "b_id b1 = UserId 42" "pr_replies (b_world b1) = [peer_ok refused_text]"
    using example_authorize [OF idle_bot_fields example_parse(1)] by fastforce
  obtain b2 where b2: "Bot_release example_deps peer_net b1 = (throw (Mirai_exception 2), b2)"
    "session_fields b2 = session_fields b1"
    using example_release [OF b1(4) example_parse(3)] by (auto simp: throw_def)
  have calls: "Bot_calls example_deps peer_net [Call_authorize ''pw'' (UserId 42), Call_release] ?b =
      ([Inr Res_unit, throw (Mirai_exception 2)], b2)"
    using b1 b2 by (simp add: mapS_def bindS_def throw_def)
  have "session_of b2 = Session (UserId 42) ''K''"
    using b1 b2 authorized_42 by (simp add: session_of_def session_fields_def Bot_authorized_def)
  moreover from this have "session_run No_session [(Call_authorize ''pw'' (UserId 42), True), (Call_release, False)]
       (Session (UserId 42) ''K'')"
    using calls_refine_session [OF calls] by (simp add: call_trace_def session_of_idle throw_def)
  ultimately show ?thesis using calls by blast
qed

theorem one_session_at_a_time_witness:
  "\<exists>rs b'. Bot_calls example_deps peer_net
       [Call_authorize ''pw'' (UserId 42), Call_release, Call_authorize ''pw'' (UserId 42)]
       (idle_bot [peer_ok auth_text, peer_ok ok_text, peer_ok ok_text, peer_ok auth_text, peer_ok ok_text]) = (rs, b') \<and>
     rs = [Inr Res_unit, Inr Res_unit, Inr Res_unit] \<and> (Call_release, True) \<in> set [(Call_release, True)]"
proof -
  let ?b = "idle_bot [peer_ok auth_text, peer_ok ok_text, peer_ok ok_text, peer_ok auth_text, peer_ok ok_text]"
  obtain b1 where b1: "Bot_authorize example_deps peer_net ''pw'' (UserId 42) ?b = (Inr (), b1)"
    "pr_replies (b_world b1) = [peer_ok ok_text, peer_ok auth_text, peer_ok ok_text]"
    using example_authorize [OF idle_bot_fields example_parse(1)] by fastforce
  obtain b2 where b2: "Bot_release example_deps peer_net b1 = (Inr (), b2)"
    "b_id b2 = UserId_default" "pr_replies (b_world b2) = [peer_ok auth_text, peer_ok ok_text]"
    using example_release [OF b1(2) example_parse(1)] by auto
  obtain b3 where b3: "Bot_authorize example_deps peer_net ''pw'' (UserId 42) b2 = (Inr (), b3)"
    using example_authorize [OF b2(2,3) example_parse(1)] by fastforce
  have calls: "Bot_calls example_deps peer_net
       [Call_authorize ''pw'' (UserId 42), Call_release, Call_authorize ''pw'' (UserId 42)] ?b =
      ([Inr Res_unit, Inr Res_unit, Inr Res_unit], b3)"
    using b1 b2 b3 by (simp add: mapS_def bindS_def)
  moreover have "call_trace [Call_authorize ''pw'' (UserId 42), Call_release, Call_authorize ''pw'' (UserId 42)]
      [Inr Res_unit, Inr Res_unit, Inr Res_unit] =
      [] @ (Call_authorize ''pw'' (UserId 42), True) # [(Call_release, True)] @
        (Call_authorize ''pw'' (UserId 42), True) # []"
    by (simp add: call_trace_def)
  ultimately show ?thesis
    using one_session_at_a_time [OF calls _ authorized_42] by blast
qed

theorem failed_authorize_unreleased_witness:
  "\<exists>b'. Bot_authorize example_deps peer_net ''pw'' (UserId 42)
       (idle_bot [peer_ok auth_text, peer_ok refused_text]) = (Inl (Throw (Mirai_exception 2)), b') \<and>
     b_sess_key b' = ''K'' \<and> \<not> Bot_authorized b' \<and> Bot_destroy example_deps peer_net b' = (Inr (), b')"
proof -
  let ?b = "idle_bot [peer_ok auth_text, peer_ok refused_text]"
  obtain b' where b': "Bot_authorize example_deps peer_net ''pw'' (UserId 42) ?b =
      (Inl (Throw (Mirai_exception 2)), b')" "b_sess_key b' = ''K''"
    using example_authorize [OF idle_bot_fields example_parse(3)] by (fastforce simp: throw_def)
  have "\<not> Bot_authorized ?b" by (simp add: idle_bot_def Bot_authorized_def)
  from failed_authorize_unreleased [OF this b'(1)] b' show ?thesis by blast
qed

end
