(* ===== verification/Bot_Facts.thy ===== *)
theory Bot_Facts
  imports Bot_Session Event_Facts
begin

text \<open>
  What every operation of a bot guarantees: which responses are accepted, that it returns or
  throws, which bot the events it returns belong to, and that it leaves no socket open.
\<close>

section \<open>Accepted responses\<close>

lemma i64_to_i32_eq_0_iff: "i64_to_i32 w = 0 \<longleftrightarrow> 2 ^ 32 dvd sint w"
proof -
  have "i64_to_i32 w = word_of_int (sint w)"
    using i64_to_i32_of_int [of "sint w"] by simp
  then show ?thesis by (simp only: word_of_int_eq_0_iff) simp
qed

text \<open>
  C23: a response that is valid JSON passes the status check exactly
  when it has no \<open>code\<close> field (or is no object), or its code is an integer divisible by
  \<open>2 ^ 32\<close>: the 64-bit code is truncated to 32 bits before it is compared with success.
  So a code such as 4294967296 is taken for success.\<close>

theorem check_json_accepts_iff:
  "check_json D (Inr j) = Inr () \<longleftrightarrow>
     sj_at_key D j ''code'' = Inl NO_SUCH_FIELD \<or> sj_at_key D j ''code'' = Inl INCORRECT_TYPE \<or>
     (\<exists>v w. sj_at_key D j ''code'' = Inr v \<and> sj_get_int64 D v = Inr w \<and> 2 ^ 32 dvd sint w)"
proof (cases "sj_at_key D j ''code''")
  case (Inl e)
  then show ?thesis by (simp add: check_json_def Let_def)
next
  case (Inr v)
  then show ?thesis by (auto simp: check_json_def Let_def i64_to_i32_eq_0_iff)
qed

section \<open>Operations return or throw\<close>

text \<open>
  \<open>settles m Q\<close>: the call returns or throws from every state, and what it returns
  satisfies \<open>Q\<close>.
\<close>

named_theorems settles_intros \<open>introduction rules for calls that return or throw\<close>

definition settles :: "('s, 'a) act \<Rightarrow> ('a \<Rightarrow> bool) \<Rightarrow> bool" where
  "settles m Q \<longleftrightarrow>
     (\<forall>s. graceful (fst (m s)) \<and> fuelled (fst (m s)) \<and> (\<forall>x. fst (m s) = Inr x \<longrightarrow> Q x))"

lemma settlesD: "settles m Q \<Longrightarrow> m s = (r, s') \<Longrightarrow> graceful r \<and> fuelled r \<and> (\<forall>x. r = Inr x \<longrightarrow> Q x)"
  by (metis settles_def fst_conv)

lemma settlesI:
  "(\<And>s r s'. m s = (r, s') \<Longrightarrow> graceful r \<and> fuelled r \<and> (\<forall>x. r = Inr x \<longrightarrow> Q x)) \<Longrightarrow> settles m Q"
  unfolding settles_def by (metis prod.collapse)

lemma settles_weaken: "settles m P \<Longrightarrow> (\<And>x. P x \<Longrightarrow> Q x) \<Longrightarrow> settles m Q"
  by (simp add: settles_def)

lemma settles_bindS:
  assumes "settles m P" and "\<And>x. P x \<Longrightarrow> settles (f x) Q"
  shows "settles (bindS m f) Q"
proof (rule settlesI)
  fix s r s'
  assume "bindS m f s = (r, s')"
  then consider e where "m s = (Inl e, s')" "r = Inl e" | x u where "m s = (Inr x, u)" "f x u = (r, s')"
    by (auto simp: bindS_def split: prod.splits sum.splits)
  then show "graceful r \<and> fuelled r \<and> (\<forall>x. r = Inr x \<longrightarrow> Q x)"
  proof cases
    case 1
    with settlesD [OF assms(1) 1(1)] show ?thesis by (simp add: graceful_def fuelled_def)
  next
    case 2
    with settlesD [OF assms(1) 2(1)] have "P x" by simp
    from settlesD [OF assms(2) [OF this] 2(2)] show ?thesis .
  qed
qed

lemma settles_liftS [settles_intros]:
  "graceful r \<Longrightarrow> fuelled r \<Longrightarrow> (\<And>x. r = Inr x \<Longrightarrow> Q x) \<Longrightarrow> settles (liftS r) Q"
  by (simp add: settles_def)

lemma settles_returnS [settles_intros]: "Q x \<Longrightarrow> settles (returnS x) Q"
  by (simp add: settles_def)

lemma settles_updS [settles_intros]: "Q () \<Longrightarrow> settles (updS f) Q"
  by (simp add: settles_def)

lemma settles_askS [settles_intros]:
  "(\<And>s. graceful (f s)) \<Longrightarrow> (\<And>s. fuelled (f s)) \<Longrightarrow> (\<And>s x. f s = Inr x \<Longrightarrow> Q x) \<Longrightarrow> settles (askS f) Q"
  by (auto simp: settles_def)

lemma settles_on_world: "settles (on_world m) (\<lambda>_. True)"
  by (rule settlesI) (auto simp: on_world_def throw_of_def split: prod.splits sum.splits)

lemma settles_mapS: "settles m (\<lambda>_. True) \<Longrightarrow> settles (mapS f m) (\<lambda>_. True)"
  unfolding mapS_def by (rule settles_bindS) (simp_all add: settles_returnS)

lemma settles_here:
  "(\<And>s. settles (bindS (m s) (f s)) Q) \<Longrightarrow> settles (\<lambda>s. bindS (m s) (f s) s) Q"
  by (simp add: settles_def)

lemma settled_check_json:
  "graceful (check_json D r)" "fuelled (check_json D r)"
  by (auto simp: check_json_def Let_def check_status_code_def intro!: graceful_intros fuel_intros)

lemma settled_check:
  "graceful (get_checked_response_json D response)" "fuelled (get_checked_response_json D response)"
  by (auto simp: get_checked_response_json_def Let_def settled_check_json intro!: graceful_intros fuel_intros)

text \<open>The bodies that can fail.\<close>

lemma settled_bodies:
  "graceful (check_auth_gen_body k b)" "fuelled (check_auth_gen_body k b)"
  "graceful (upload_file_body N ty key path b)" "fuelled (upload_file_body N ty key path b)"
  by (auto simp: check_auth_gen_body_def upload_file_body_def Let_def MultipartBuilder_add_file_def
      intro!: graceful_intros fuel_intros split: option.split)

context json_dom
begin

text \<open>A response that was parsed is no deeper than the parser allows.\<close>

definition parsed :: "'j json_res \<Rightarrow> bool" where
  "parsed r \<longleftrightarrow> (\<forall>j. r = Inr j \<longrightarrow> depth j \<le> sj_max_depth D)"

lemma check_parsed: "get_checked_response_json D response = Inr r \<Longrightarrow> parsed r"
  by (auto simp: get_checked_response_json_def Let_def parsed_def depth_parse)

lemma settles_response: "settles (liftS (get_checked_response_json D response)) parsed"
  by (intro settles_intros settled_check check_parsed)

lemma settles_checked:
  "settles (checked_get D N target) parsed"
  "(\<And>b. graceful (body b) \<and> fuelled (body b)) \<Longrightarrow> settles (checked_post D N path ct body) parsed"
  "(\<And>b. graceful (body b) \<and> fuelled (body b)) \<Longrightarrow> settles (checked_post_json D N path body) parsed"
  unfolding checked_get_def checked_post_def checked_post_json_def
  by (rule settles_here, (rule settles_bindS [where P = "\<lambda>_. True"] settles_on_world settles_response
      settles_liftS | simp)+)+

lemma Event_from_json_settled:
  "depth j \<le> sj_max_depth D \<Longrightarrow>
   graceful (Event_from_json (segment_fuel (sj_max_depth D)) D j) \<and>
   fuelled (Event_from_json (segment_fuel (sj_max_depth D)) D j)"
  by (simp add: Event_from_json_graceful Event_from_json_fuelled)

lemma settles_parse_events:
  assumes "parsed r"
  shows "settles (Bot_parse_events D (res_at D r ''data'')) (\<lambda>_. True)"
proof -
  have data: "depth j \<le> sj_max_depth D" if "res_at D r ''data'' = Inr j" for j
    using that assms by (cases r) (auto simp: parsed_def dest!: depth_at_key)
  have elem: "fuelled (Event_from_json (segment_fuel (sj_max_depth D)) D e)"
    if "res_at D r ''data'' = Inr j" "sj_get_array D j = Inr es" "e \<in> set es" for j es e
    using data [OF that(1)] depth_array [OF that(2,3)] by (intro Event_from_json_fuelled) simp
  show ?thesis
    unfolding Bot_parse_events_def
    by (intro settles_intros graceful_bindE fuelled_bindE graceful_traverseE fuelled_traverseE)
      (auto simp: json_value_def Event_from_json_graceful intro!: graceful_intros fuel_intros elem)
qed

lemma settles_retrieve:
  assumes "parsed r"
  shows "settles (liftS (from_json_class (Event_from_json (segment_fuel (sj_max_depth D)) D) (res_at D r ''data'')))
    (\<lambda>_. True)"
proof -
  have "depth j \<le> sj_max_depth D" if "res_at D r ''data'' = Inr j" for j
    using that assms by (cases r) (auto simp: parsed_def dest!: depth_at_key)
  then show ?thesis
    by (intro settles_intros graceful_class fuelled_class) (auto simp: Event_from_json_settled Event_from_json_graceful)
qed


lemma settles_authorize: "settles (Bot_authorize D N k i) (\<lambda>_. True)"
  unfolding Bot_authorize_def
  by (rule settles_bindS [OF settles_checked(3)])
    (auto intro!: settles_bindS [where P = "\<lambda>_. True"] settles_intros graceful_readers fuelled_readers
      settles_weaken [OF settles_checked(3)] simp: settled_bodies)

lemma settles_release: "settles (Bot_release D N) (\<lambda>_. True)"
  unfolding Bot_release_def
  by (rule settles_bindS [OF settles_checked(3)])
    (auto intro!: settles_bindS [where P = "\<lambda>_. True"] settles_intros)

text \<open>A request whose response is read by one of the simple readers.\<close>

lemma settles_simple:
  assumes "\<And>r. graceful (k r)" and "\<And>r. fuelled (k r)"
  shows "settles (bindS (checked_get D N target) (\<lambda>r. liftS (k r))) (\<lambda>_. True)"
    and "(\<And>b. graceful (body b) \<and> fuelled (body b)) \<Longrightarrow>
      settles (bindS (checked_post D N path ct body) (\<lambda>r. liftS (k r))) (\<lambda>_. True)"
    and "(\<And>b. graceful (body b) \<and> fuelled (body b)) \<Longrightarrow>
      settles (bindS (checked_post_json D N path body) (\<lambda>r. liftS (k r))) (\<lambda>_. True)"
  using assms
  by (auto intro!: settles_bindS [OF settles_checked(1)] settles_bindS [OF settles_checked(2)]
      settles_bindS [OF settles_checked(3)] settles_intros)

lemma settles_void:
  "settles (bindS (checked_post_json D N path (\<lambda>b. Inr (f b))) (\<lambda>_. returnS ())) (\<lambda>_. True)"
  by (rule settles_bindS [OF settles_checked(3)]) (simp_all add: settles_returnS)

lemma settles_events:
  "settles (bindS (checked_get D N target) (\<lambda>r. Bot_parse_events D (res_at D r ''data''))) (\<lambda>_. True)"
  by (rule settles_bindS [OF settles_checked(1) settles_parse_events])

lemma settles_event:
  "settles (bindS (checked_get D N target) (\<lambda>r. liftS (from_json_class
      (Event_from_json (segment_fuel (sj_max_depth D)) D) (res_at D r ''data'')))) (\<lambda>_. True)"
  by (rule settles_bindS [OF settles_checked(1) settles_retrieve])

lemma settles_call: "settles (Bot_call D N c) (\<lambda>_. True)"
  by (cases c; simp only: Bot_call.simps; rule settles_mapS;
      (rule settles_authorize settles_release
       | (simp only: Bot_sync_defs,
          (rule settles_void settles_events settles_event
           | (rule settles_simple;
              (auto simp: settled_bodies intro!: graceful_intros fuel_intros; fail))))))

end

text \<open>
  C10: every operation of the bot, from every state and whatever the
  network answers, returns a value or throws: it does not abort the program, has no
  undefined behaviour, and its reading of the response ends, since a parsed document is no
  deeper than the parser allows.\<close>

theorem call_returns_or_throws:
  assumes "json_dom D depth" and "Bot_call D N c b = (r, b')"
  shows "(\<exists>x. r = Inr x) \<or> (\<exists>e. r = throw e)"
proof -
  have "graceful r \<and> fuelled r"
    using settlesD [OF json_dom.settles_call [OF assms(1)] assms(2)] by simp
  then show ?thesis using graceful_fuelled by blast
qed

theorem call_returns_or_throws_witness:
  "(\<exists>x. fst (Bot_call example_deps peer_net (Call_pop_events 5) (session_bot [peer_ok ok_text])) = Inr x) \<or>
   (\<exists>e. fst (Bot_call example_deps peer_net (Call_pop_events 5) (session_bot [peer_ok ok_text])) = throw e)"
proof (rule call_returns_or_throws)
  show "json_dom example_deps json_depth"
    unfolding example_deps_def table_deps_def by (rule ref_dom.json_dom_axioms)
qed (rule prod.collapse [symmetric])

section \<open>The events an operation returns\<close>

lemma Event_bot_set [simp]: "Event_bot (Event_set_bot a ev) = Inr a"
  by (cases ev) (simp_all add: EventBase_bot_def)

lemma Event_type_set [simp]: "Event_type (Event_set_bot a ev) = Event_type ev"
  by (cases ev) simp_all

lemma parse_events_bot:
  assumes "Bot_parse_events D r b = (Inr evs, b')" and "ev \<in> set evs"
  shows "Event_bot ev = Inr (b_addr b)"
proof -
  obtain es where es: "list_all2 (\<lambda>e ev. \<exists>x. Event_from_json (segment_fuel (sj_max_depth D)) D e = Inr x \<and>
      Event_set_bot (b_addr b) x = ev) es evs"
    using assms(1) by (auto simp: Bot_parse_events_def traverseE_eq_Inr)
  obtain n where "n < length evs" "ev = evs ! n" using assms(2) by (auto simp: in_set_conv_nth)
  with list_all2_nthD2 [OF es] obtain x where "Event_set_bot (b_addr b) x = ev" by blast
  then show ?thesis by auto
qed

lemma mapS_Inr: "mapS f m s = (Inr y, s') \<longleftrightarrow> (\<exists>x. m s = (Inr x, s') \<and> y = f x)"
  by (auto simp: mapS_def bindS_eq_Inr)

lemma checked_get_addr: "checked_get D N target b = (r, b') \<Longrightarrow> b_addr b' = b_addr b"
  using preservesD [OF session_kept.preserves_checked(1)] by (fastforce simp: session_fields_def)

lemma event_call_bot:
  assumes "bindS (checked_get D N target) (\<lambda>r. Bot_parse_events D (res_at D r ''data'')) b = (Inr evs, b')"
    and "ev \<in> set evs"
  shows "Event_bot ev = Inr (b_addr b)"
  using assms by (auto simp: bindS_eq_Inr dest!: parse_events_bot checked_get_addr)

lemma call_address:
  assumes "Bot_call D N c b = (r, b')"
  shows "b_addr b' = b_addr b"
  using preservesD [OF identity_kept.preserves_all assms] by simp

text \<open>
  C14: every event in a list that an operation returns points to
  the bot that was asked for it, so the operations reached through the event act on that
  bot.\<close>

theorem returned_events_own_bot:
  assumes "Bot_call D N c b = (Inr (Res_events evs), b')" and "ev \<in> set evs"
  shows "Event_bot ev = Inr (b_addr b')"
proof -
  have "Event_bot ev = Inr (b_addr b)"
    using assms
    by (cases c)
      (auto simp: mapS_Inr Bot_pop_events_def Bot_pop_latest_events_def Bot_peek_events_def
        Bot_peek_latest_events_def dest: event_call_bot)
  with call_address [OF assms(1)] show ?thesis by simp
qed

text \<open>The event that \<open>retrieve_message\<close> returns has a null bot pointer.\<close>

lemma retrieved_event_bot:
  assumes "Bot_call D N (Call_retrieve_message i) b = (Inr (Res_event ev), b')"
  shows "Event_bot ev = Inl Undefined_behaviour"
proof -
  have "Bot_retrieve_message D N i b = (Inr ev, b')"
    using assms by (auto simp: mapS_Inr)
  then obtain j where "Event_from_json (segment_fuel (sj_max_depth D)) D j = Inr ev"
    unfolding Bot_retrieve_message_def bindS_eq_Inr by (auto simp: from_json_class_def)
  then show ?thesis by (rule Event_from_json_cases)
qed

section \<open>Sockets\<close>

text \<open>
  C25: no operation of the bot leaves a socket open: the streams that
  exist after it, whether it returned or threw, are those that existed before.  The
  hypothesis is the accounting of streams by the network.\<close>

theorem call_closes_sockets:
  assumes "stream_accounting N opened" and "Bot_call D N c b = (r, b')"
  shows "opened (b_world b') = opened (b_world b)"
  using preservesD [OF stream_accounting.call_opened [OF assms(1)] assms(2)] .

section \<open>The properties on examples\<close>

definition event_text :: string where "event_text = ''{code:0,data:...}''"

definition event_deps :: "json deps" where
  "event_deps = table_deps
     [(ok_text, JObj [(''code'', JNum 0), (''data'', JArr [example_event])]),
      (event_text, JObj [(''code'', JNum 0), (''data'', example_event)])]"

lemma event_parse:
  "get_checked_response_json event_deps ok_text = Inr (Inr (JObj [(''code'', JNum 0), (''data'', JArr [example_event])]))"
  "get_checked_response_json event_deps event_text = Inr (Inr (JObj [(''code'', JNum 0), (''data'', example_event)]))"
  by (simp_all add: get_checked_response_json_def check_json_def event_deps_def table_deps_def
      ref_parse_def ok_text_def event_text_def check_status_code_def MiraiStatus_success_def
      i64_to_i32_def example_event_def)

lemma peer_get:
  assumes "pr_replies (b_world b) = peer_ok reply # rs"
  shows "checked_get D peer_net target b =
    (get_checked_response_json D reply,
     b\<lparr>b_world := (b_world b)\<lparr>pr_replies := rs, pr_requests := pr_requests (b_world b) @
        [generate_http_get_request peer_net (b_client b) (target b)]\<rparr>\<rparr>)"
  using assms
  by (simp add: checked_get_def Client_http_get_def on_world_def bindS_def peer_request)

lemma event_deps_simps:
  "sj_at_key event_deps = ref_at_key" "sj_get_array event_deps = ref_get_array"
  "Event_from_json n event_deps example_event = Inr example_read"
  by (simp_all add: event_deps_def table_deps_def example_event_read)

theorem returned_events_own_bot_witness:
  "\<exists>evs b'. Bot_call event_deps peer_net (Call_pop_events 5) (session_bot [peer_ok ok_text]) =
      (Inr (Res_events evs), b') \<and> Event_set_bot 1 example_read \<in> set evs \<and>
      Event_bot (Event_set_bot 1 example_read) = Inr (b_addr b')"
proof -
  obtain b' where b': "Bot_call event_deps peer_net (Call_pop_events 5) (session_bot [peer_ok ok_text]) =
      (Inr (Res_events [Event_set_bot 1 example_read]), b')"
    by (simp add: mapS_Inr Bot_pop_events_def bindS_eq_Inr peer_get session_bot_def idle_bot_def
        peer_world_def event_parse Bot_parse_events_def event_deps_simps)
  have "Event_set_bot 1 example_read \<in> set [Event_set_bot 1 example_read]" by simp
  with returned_events_own_bot [OF b' this] b' show ?thesis by blast
qed

theorem call_closes_sockets_witness:
  "set (pr_open (b_world (snd (Bot_call event_deps peer_net (Call_pop_events 5) (session_bot [peer_ok ok_text]))))) =
   set (pr_open (b_world (session_bot [peer_ok ok_text])))"
  by (rule call_closes_sockets [OF peer_streams.stream_accounting_axioms]) (rule prod.collapse [symmetric])

end
