(* ===== verification/Event_Actions.thy ===== *)
theory Event_Actions
  imports Bot_Protocol Bot_Facts
begin

text \<open>
  The operations offered by the events themselves: \<open>lib/src/event/event_bases.cpp\<close>,
  \<open>event_types.cpp\<close> and the inline members of \<open>event_types.h\<close>.  Each goes
  through the event's bot pointer to an operation of the bot.
\<close>

section \<open>Through the bot pointer\<close>

text \<open>
  The state holds one bot; following a null pointer, or a pointer to anything but a live
  bot, is undefined behaviour.  \<open>bot()\<close> is evaluated when the member function is
  called, before the task it returns is started.
\<close>

definition via_bot :: "'a EventBase_scheme \<Rightarrow> ('w Bot, 'b) act \<Rightarrow> ('w Bot, 'b) act" where
  "via_bot e m =
     (\<lambda>b. case EventBase_bot e of
        Inl f \<Rightarrow> (Inl f, b)
      | Inr a \<Rightarrow> if a = b_addr b then m b else (Inl Undefined_behaviour, b))"

definition via_bot_async :: "'a EventBase_scheme \<Rightarrow> ('w Bot, 'b) co \<Rightarrow> ('w Bot, 'b) co" where
  "via_bot_async e t =
     Local id (\<lambda>b. case EventBase_bot e of
        Inl f \<Rightarrow> Finished (Inl f)
      | Inr a \<Rightarrow> if a = b_addr b then t else Finished (Inl Undefined_behaviour))"

section \<open>Members of the base classes\<close>

definition GroupEventBase_send_message ::
  "'j deps \<Rightarrow> 'w net \<Rightarrow> 'a GroupEventBase_scheme \<Rightarrow> Message \<Rightarrow> MessageId option \<Rightarrow> ('w Bot, MessageId) act" where
  "GroupEventBase_send_message D N e message quote =
     via_bot e (Bot_send_message_group D N (gr_id (ge_group e)) message quote)"

definition GroupEventBase_send_message_async ::
  "'j deps \<Rightarrow> 'w net \<Rightarrow> 'a GroupEventBase_scheme \<Rightarrow> Message \<Rightarrow> MessageId option \<Rightarrow> ('w Bot, MessageId) co" where
  "GroupEventBase_send_message_async D N e message quote =
     via_bot_async e (Bot_send_message_group_async D N (gr_id (ge_group e)) message quote)"

definition MemberEventBase_send_message_async ::
  "'j deps \<Rightarrow> 'w net \<Rightarrow> 'a MemberEventBase_scheme \<Rightarrow> Message \<Rightarrow> MessageId option \<Rightarrow> ('w Bot, MessageId) co" where
  "MemberEventBase_send_message_async D N e message quote =
     via_bot_async e (Bot_send_message_group_async D N (gr_id (mb_group (mbe_member e))) message quote)"

definition MemberEventBase_mute_member ::
  "'j deps \<Rightarrow> 'w net \<Rightarrow> 'a MemberEventBase_scheme \<Rightarrow> i64 \<Rightarrow> ('w Bot, unit) act" where
  "MemberEventBase_mute_member D N e duration =
     via_bot e (Bot_mute D N (gr_id (mb_group (mbe_member e))) (mb_id (mbe_member e)) duration)"

definition MemberEventBase_mute_member_async ::
  "'j deps \<Rightarrow> 'w net \<Rightarrow> 'a MemberEventBase_scheme \<Rightarrow> i64 \<Rightarrow> ('w Bot, unit) co" where
  "MemberEventBase_mute_member_async D N e duration =
     via_bot_async e (Bot_mute_async D N (gr_id (mb_group (mbe_member e))) (mb_id (mbe_member e)) duration)"

definition MemberEventBase_unmute_member ::
  "'j deps \<Rightarrow> 'w net \<Rightarrow> 'a MemberEventBase_scheme \<Rightarrow> ('w Bot, unit) act" where
  "MemberEventBase_unmute_member D N e =
     via_bot e (Bot_unmute D N (gr_id (mb_group (mbe_member e))) (mb_id (mbe_member e)))"

definition MemberEventBase_unmute_member_async ::
  "'j deps \<Rightarrow> 'w net \<Rightarrow> 'a MemberEventBase_scheme \<Rightarrow> ('w Bot, unit) co" where
  "MemberEventBase_unmute_member_async D N e =
     via_bot_async e (Bot_unmute_async D N (gr_id (mb_group (mbe_member e))) (mb_id (mbe_member e)))"

section \<open>Members of the concrete events\<close>

definition FriendMessageEvent_send_message ::
  "'j deps \<Rightarrow> 'w net \<Rightarrow> FriendMessageEvent \<Rightarrow> Message \<Rightarrow> MessageId option \<Rightarrow> ('w Bot, MessageId) act" where
  "FriendMessageEvent_send_message D N e message quote =
     via_bot e (Bot_send_message_user D N (fr_id (fme_sender e)) message quote)"

definition FriendMessageEvent_send_message_async ::
  "'j deps \<Rightarrow> 'w net \<Rightarrow> FriendMessageEvent \<Rightarrow> Message \<Rightarrow> MessageId option \<Rightarrow> ('w Bot, MessageId) co" where
  "FriendMessageEvent_send_message_async D N e message quote =
     via_bot_async e (Bot_send_message_user_async D N (fr_id (fme_sender e)) message quote)"

definition FriendMessageEvent_quote_reply ::
  "'j deps \<Rightarrow> 'w net \<Rightarrow> FriendMessageEvent \<Rightarrow> Message \<Rightarrow> ('w Bot, MessageId) act" where
  "FriendMessageEvent_quote_reply D N e message =
     FriendMessageEvent_send_message D N e message (Some (src_id (sm_source (me_msg e))))"

definition FriendMessageEvent_quote_reply_async ::
  "'j deps \<Rightarrow> 'w net \<Rightarrow> FriendMessageEvent \<Rightarrow> Message \<Rightarrow> ('w Bot, MessageId) co" where
  "FriendMessageEvent_quote_reply_async D N e message =
     FriendMessageEvent_send_message_async D N e message (Some (src_id (sm_source (me_msg e))))"

definition GroupMessageEvent_send_message ::
  "'j deps \<Rightarrow> 'w net \<Rightarrow> GroupMessageEvent \<Rightarrow> Message \<Rightarrow> MessageId option \<Rightarrow> ('w Bot, MessageId) act" where
  "GroupMessageEvent_send_message D N e message quote =
     via_bot e (Bot_send_message_group D N (gr_id (mb_group (gme_sender e))) message quote)"

definition GroupMessageEvent_send_message_async ::
  "'j deps \<Rightarrow> 'w net \<Rightarrow> GroupMessageEvent \<Rightarrow> Message \<Rightarrow> MessageId option \<Rightarrow> ('w Bot, MessageId) co" where
  "GroupMessageEvent_send_message_async D N e message quote =
     via_bot_async e (Bot_send_message_group_async D N (gr_id (mb_group (gme_sender e))) message quote)"

definition GroupMessageEvent_quote_reply ::
  "'j deps \<Rightarrow> 'w net \<Rightarrow> GroupMessageEvent \<Rightarrow> Message \<Rightarrow> ('w Bot, MessageId) act" where
  "GroupMessageEvent_quote_reply D N e message =
     GroupMessageEvent_send_message D N e message (Some (src_id (sm_source (me_msg e))))"

definition GroupMessageEvent_quote_reply_async ::
  "'j deps \<Rightarrow> 'w net \<Rightarrow> GroupMessageEvent \<Rightarrow> Message \<Rightarrow> ('w Bot, MessageId) co" where
  "GroupMessageEvent_quote_reply_async D N e message =
     GroupMessageEvent_send_message_async D N e message (Some (src_id (sm_source (me_msg e))))"

definition GroupMessageEvent_recall ::
  "'j deps \<Rightarrow> 'w net \<Rightarrow> GroupMessageEvent \<Rightarrow> ('w Bot, unit) act" where
  "GroupMessageEvent_recall D N e =
     via_bot e (Bot_recall D N (src_id (sm_source (me_msg e))))"

definition GroupMessageEvent_recall_async ::
  "'j deps \<Rightarrow> 'w net \<Rightarrow> GroupMessageEvent \<Rightarrow> ('w Bot, unit) co" where
  "GroupMessageEvent_recall_async D N e =
     via_bot_async e (Bot_recall_async D N (src_id (sm_source (me_msg e))))"

definition GroupMessageEvent_mute_sender ::
  "'j deps \<Rightarrow> 'w net \<Rightarrow> GroupMessageEvent \<Rightarrow> i64 \<Rightarrow> ('w Bot, unit) act" where
  "GroupMessageEvent_mute_sender D N e duration =
     via_bot e (Bot_mute D N (gr_id (mb_group (gme_sender e))) (mb_id (gme_sender e)) duration)"

definition GroupMessageEvent_mute_sender_async ::
  "'j deps \<Rightarrow> 'w net \<Rightarrow> GroupMessageEvent \<Rightarrow> i64 \<Rightarrow> ('w Bot, unit) co" where
  "GroupMessageEvent_mute_sender_async D N e duration =
     via_bot_async e (Bot_mute_async D N (gr_id (mb_group (gme_sender e))) (mb_id (gme_sender e)) duration)"

definition TempMessageEvent_send_message ::
  "'j deps \<Rightarrow> 'w net \<Rightarrow> TempMessageEvent \<Rightarrow> Message \<Rightarrow> MessageId option \<Rightarrow> ('w Bot, MessageId) act" where
  "TempMessageEvent_send_message D N e message quote =
     via_bot e (Bot_send_message_temp D N (TempId (mb_id (tme_sender e)) (gr_id (mb_group (tme_sender e)))) message quote)"

definition TempMessageEvent_send_message_async ::
  "'j deps \<Rightarrow> 'w net \<Rightarrow> TempMessageEvent \<Rightarrow> Message \<Rightarrow> MessageId option \<Rightarrow> ('w Bot, MessageId) co" where
  "TempMessageEvent_send_message_async D N e message quote =
     via_bot_async e (Bot_send_message_temp_async D N (TempId (mb_id (tme_sender e)) (gr_id (mb_group (tme_sender e)))) message quote)"

definition TempMessageEvent_quote_reply ::
  "'j deps \<Rightarrow> 'w net \<Rightarrow> TempMessageEvent \<Rightarrow> Message \<Rightarrow> ('w Bot, MessageId) act" where
  "TempMessageEvent_quote_reply D N e message =
     TempMessageEvent_send_message D N e message (Some (src_id (sm_source (me_msg e))))"

definition TempMessageEvent_quote_reply_async ::
  "'j deps \<Rightarrow> 'w net \<Rightarrow> TempMessageEvent \<Rightarrow> Message \<Rightarrow> ('w Bot, MessageId) co" where
  "TempMessageEvent_quote_reply_async D N e message =
     TempMessageEvent_send_message_async D N e message (Some (src_id (sm_source (me_msg e))))"

definition GroupRecallEvent_quote_reply ::
  "'j deps \<Rightarrow> 'w net \<Rightarrow> GroupRecallEvent \<Rightarrow> Message \<Rightarrow> ('w Bot, MessageId) act" where
  "GroupRecallEvent_quote_reply D N e message =
     GroupEventBase_send_message D N e message (Some (grc_msg_id e))"

definition GroupRecallEvent_quote_reply_async ::
  "'j deps \<Rightarrow> 'w net \<Rightarrow> GroupRecallEvent \<Rightarrow> Message \<Rightarrow> ('w Bot, MessageId) co" where
  "GroupRecallEvent_quote_reply_async D N e message =
     GroupEventBase_send_message_async D N e message (Some (grc_msg_id e))"

definition FriendRecallEvent_quote_reply ::
  "'j deps \<Rightarrow> 'w net \<Rightarrow> FriendRecallEvent \<Rightarrow> Message \<Rightarrow> ('w Bot, MessageId) act" where
  "FriendRecallEvent_quote_reply D N e message =
     via_bot e (Bot_send_message_user D N (frc_sender_id e) message (Some (frc_msg_id e)))"

definition FriendRecallEvent_quote_reply_async ::
  "'j deps \<Rightarrow> 'w net \<Rightarrow> FriendRecallEvent \<Rightarrow> Message \<Rightarrow> ('w Bot, MessageId) co" where
  "FriendRecallEvent_quote_reply_async D N e message =
     via_bot_async e (Bot_send_message_user_async D N (frc_sender_id e) message (Some (frc_msg_id e)))"

definition NewFriendRequestEvent_respond ::
  "'j deps \<Rightarrow> 'w net \<Rightarrow> NewFriendRequestEvent \<Rightarrow> NewFriendResponseType \<Rightarrow> string \<Rightarrow> ('w Bot, unit) act" where
  "NewFriendRequestEvent_respond D N e response reason =
     via_bot e (Bot_respond_new_friend D N e response reason)"

definition NewFriendRequestEvent_respond_async ::
  "'j deps \<Rightarrow> 'w net \<Rightarrow> NewFriendRequestEvent \<Rightarrow> NewFriendResponseType \<Rightarrow> string \<Rightarrow> ('w Bot, unit) co" where
  "NewFriendRequestEvent_respond_async D N e response reason =
     via_bot_async e (Bot_respond_new_friend_async D N e response reason)"

definition MemberJoinRequestEvent_respond ::
  "'j deps \<Rightarrow> 'w net \<Rightarrow> MemberJoinRequestEvent \<Rightarrow> MemberJoinResponseType \<Rightarrow> string \<Rightarrow> ('w Bot, unit) act" where
  "MemberJoinRequestEvent_respond D N e response reason =
     via_bot e (Bot_respond_member_join D N e response reason)"

definition MemberJoinRequestEvent_respond_async ::
  "'j deps \<Rightarrow> 'w net \<Rightarrow> MemberJoinRequestEvent \<Rightarrow> MemberJoinResponseType \<Rightarrow> string \<Rightarrow> ('w Bot, unit) co" where
  "MemberJoinRequestEvent_respond_async D N e response reason =
     via_bot_async e (Bot_respond_member_join_async D N e response reason)"

definition BotInvitedJoinGroupRequestEvent_respond ::
  "'j deps \<Rightarrow> 'w net \<Rightarrow> BotInvitedJoinGroupRequestEvent \<Rightarrow> BotInvitedJoinGroupResponseType \<Rightarrow> string \<Rightarrow> ('w Bot, unit) act" where
  "BotInvitedJoinGroupRequestEvent_respond D N e response reason =
     via_bot e (Bot_respond_bot_invited D N e response reason)"

definition BotInvitedJoinGroupRequestEvent_respond_async ::
  "'j deps \<Rightarrow> 'w net \<Rightarrow> BotInvitedJoinGroupRequestEvent \<Rightarrow> BotInvitedJoinGroupResponseType \<Rightarrow> string \<Rightarrow> ('w Bot, unit) co" where
  "BotInvitedJoinGroupRequestEvent_respond_async D N e response reason =
     via_bot_async e (Bot_respond_bot_invited_async D N e response reason)"

lemmas event_action_defs =
  GroupEventBase_send_message_def
  MemberEventBase_mute_member_def
  MemberEventBase_unmute_member_def
  FriendMessageEvent_send_message_def
  FriendMessageEvent_quote_reply_def
  GroupMessageEvent_send_message_def
  GroupMessageEvent_quote_reply_def
  GroupMessageEvent_recall_def
  GroupMessageEvent_mute_sender_def
  TempMessageEvent_send_message_def
  TempMessageEvent_quote_reply_def
  GroupRecallEvent_quote_reply_def
  FriendRecallEvent_quote_reply_def
  NewFriendRequestEvent_respond_def
  MemberJoinRequestEvent_respond_def
  BotInvitedJoinGroupRequestEvent_respond_def

lemmas event_action_async_defs =
  GroupEventBase_send_message_async_def
  MemberEventBase_send_message_async_def
  MemberEventBase_mute_member_async_def
  MemberEventBase_unmute_member_async_def
  FriendMessageEvent_send_message_async_def
  FriendMessageEvent_quote_reply_async_def
  GroupMessageEvent_send_message_async_def
  GroupMessageEvent_quote_reply_async_def
  GroupMessageEvent_recall_async_def
  GroupMessageEvent_mute_sender_async_def
  TempMessageEvent_send_message_async_def
  TempMessageEvent_quote_reply_async_def
  GroupRecallEvent_quote_reply_async_def
  FriendRecallEvent_quote_reply_async_def
  NewFriendRequestEvent_respond_async_def
  MemberJoinRequestEvent_respond_async_def
  BotInvitedJoinGroupRequestEvent_respond_async_def

section \<open>What they do\<close>

lemma run_via_bot [task_simps]: "run_task d (via_bot_async e t) = via_bot e (run_task d t)"
  by (rule ext) (auto simp: via_bot_async_def via_bot_def split: sum.split)

lemma via_own_bot: "ev_bot e = Some (b_addr b) \<Longrightarrow> via_bot e m b = m b"
  by (simp add: via_bot_def EventBase_bot_def)

lemma via_null_bot: "ev_bot e = None \<Longrightarrow> via_bot e m b = (Inl Undefined_behaviour, b)"
  by (simp add: via_bot_def EventBase_bot_def)

lemma sends_cong: "m b = m' b \<Longrightarrow> sends N b m' ex \<Longrightarrow> sends N b m ex"
  by (simp add: sends_def)

text \<open>The tasks that the events return, run alone.\<close>

lemma run_bot_async [task_simps]:
  "run_task (bot_answer N) (Bot_send_message_user_async D N i m q) = Bot_send_message_user D N i m q"
  "run_task (bot_answer N) (Bot_send_message_group_async D N gid m q) = Bot_send_message_group D N gid m q"
  "run_task (bot_answer N) (Bot_send_message_temp_async D N t m q) = Bot_send_message_temp D N t m q"
  by (simp_all add: Bot_sync_defs Bot_async_defs task_simps del: run_task.simps bindT.simps)

lemma send_message_sends:
  "json_plain (Message_json m) \<Longrightarrow> plain_text (b_sess_key b) \<Longrightarrow>
   sends N b (Bot_send_message_group D N gid m q)
     (Post ''/sendGroupMessage'' (JObj ([(''sessionKey'', JStr (b_sess_key b)),
       (''target'', JNum (sint (gid_id gid))), (''messageChain'', Message_json m)] @ quote_json q)))"
  by (auto simp: Bot_send_message_group_def send_message_body_def writer_simps
      simp del: Message_format_as_json.simps
      intro!: sends_post preserves_intros perform_obj writes_quote)

text \<open>
  C21: replying to a group message that this bot received, by the waiting
  member or by the task run alone, makes one request: it posts to the group of the
  sender, in the bot's session, the message given, quoting the id of the message
  received.  This is for a session key and a message whose strings are quoted correctly,
  that is, have no double quote, no backslash and no control character other than backspace,
  form feed, newline, carriage return and tab; for other messages the body posted is not the
  message given.\<close>

theorem quote_reply_sends:
  assumes "ev_bot e = Some (b_addr b)" and "json_plain (Message_json m)" and "plain_text (b_sess_key b)"
    and "ex = Post ''/sendGroupMessage'' (JObj [(''sessionKey'', JStr (b_sess_key b)),
           (''target'', JNum (sint (gid_id (gr_id (mb_group (gme_sender e)))))),
           (''messageChain'', Message_json m),
           (''quote'', JNum (sint (mid_id (MessageEventBase_msgid e))))])"
  shows "sends N b (GroupMessageEvent_quote_reply D N e m) ex \<and>
         sends N b (run_task (bot_answer N) (GroupMessageEvent_quote_reply_async D N e m)) ex"
proof -
  have "sends N b (Bot_send_message_group D N (gr_id (mb_group (gme_sender e))) m
      (Some (src_id (sm_source (me_msg e))))) ex"
    using send_message_sends [OF assms(2,3), where q = "Some (src_id (sm_source (me_msg e)))"] assms(4)
    by (simp add: quote_json_def field_json_def MessageEventBase_msgid_def)
  then show ?thesis
    using assms(1)
    by (auto simp: event_action_defs event_action_async_defs task_simps via_own_bot elim: sends_cong [rotated])
qed

text \<open>
  The operations that an event offers, inherited members included, called with a message
  \<open>m\<close>, a message \<open>q\<close> to quote, a duration and the answers to requests.
\<close>

record event_args =
  ea_message :: Message
  ea_quote :: "MessageId option"
  ea_duration :: i64
  ea_new_friend :: NewFriendResponseType
  ea_member_join :: MemberJoinResponseType
  ea_invited :: BotInvitedJoinGroupResponseType
  ea_reason :: string

abbreviation ignoring :: "('s, 'a) act \<Rightarrow> ('s, unit) act" where
  "ignoring \<equiv> mapS (\<lambda>_. ())"

abbreviation ignoringT :: "('s, 'q, 'r, 'a) task \<Rightarrow> ('s, 'q, 'r, unit) task" where
  "ignoringT \<equiv> mapT (\<lambda>_. ())"

definition group_event_calls :: "'j deps \<Rightarrow> 'w net \<Rightarrow> event_args \<Rightarrow> 'a GroupEventBase_scheme \<Rightarrow> ('w Bot, unit) act list" where
  "group_event_calls D N x e = [ignoring (GroupEventBase_send_message D N e (ea_message x) (ea_quote x))]"

definition member_event_calls :: "'j deps \<Rightarrow> 'w net \<Rightarrow> event_args \<Rightarrow> 'a MemberEventBase_scheme \<Rightarrow> ('w Bot, unit) act list" where
  "member_event_calls D N x e =
     [MemberEventBase_mute_member D N e (ea_duration x), MemberEventBase_unmute_member D N e]"

fun event_calls :: "'j deps \<Rightarrow> 'w net \<Rightarrow> event_args \<Rightarrow> Event \<Rightarrow> ('w Bot, unit) act list" where
  "event_calls D N x (Ev_friend_message e) =
     [ignoring (FriendMessageEvent_send_message D N e (ea_message x) (ea_quote x)),
      ignoring (FriendMessageEvent_quote_reply D N e (ea_message x))]"
| "event_calls D N x (Ev_group_message e) =
     [ignoring (GroupMessageEvent_send_message D N e (ea_message x) (ea_quote x)),
      ignoring (GroupMessageEvent_quote_reply D N e (ea_message x)),
      GroupMessageEvent_recall D N e, GroupMessageEvent_mute_sender D N e (ea_duration x)]"
| "event_calls D N x (Ev_temp_message e) =
     [ignoring (TempMessageEvent_send_message D N e (ea_message x) (ea_quote x)),
      ignoring (TempMessageEvent_quote_reply D N e (ea_message x))]"
| "event_calls D N x (Ev_group_recall e) =
     ignoring (GroupRecallEvent_quote_reply D N e (ea_message x)) # group_event_calls D N x e"
| "event_calls D N x (Ev_friend_recall e) = [ignoring (FriendRecallEvent_quote_reply D N e (ea_message x))]"
| "event_calls D N x (Ev_bot_group_permission_change e) = group_event_calls D N x e"
| "event_calls D N x (Ev_bot_join_group e) = group_event_calls D N x e"
| "event_calls D N x (Ev_bot_quit e) = group_event_calls D N x e"
| "event_calls D N x (Ev_bot_kicked e) = group_event_calls D N x e"
| "event_calls D N x (Ev_group_name_change e) = group_event_calls D N x e"
| "event_calls D N x (Ev_group_entrance_announcement_change e) = group_event_calls D N x e"
| "event_calls D N x (Ev_group_config e) = group_event_calls D N x e"
| "event_calls D N x (Ev_member_join e) = member_event_calls D N x e"
| "event_calls D N x (Ev_member_quit e) = member_event_calls D N x e"
| "event_calls D N x (Ev_member_kicked e) = member_event_calls D N x e"
| "event_calls D N x (Ev_member_card_change e) = member_event_calls D N x e"
| "event_calls D N x (Ev_member_special_title_change e) = member_event_calls D N x e"
| "event_calls D N x (Ev_member_permission_change e) = member_event_calls D N x e"
| "event_calls D N x (Ev_member_muted e) = member_event_calls D N x e"
| "event_calls D N x (Ev_member_unmuted e) = member_event_calls D N x e"
| "event_calls D N x (Ev_new_friend_request e) = [NewFriendRequestEvent_respond D N e (ea_new_friend x) (ea_reason x)]"
| "event_calls D N x (Ev_member_join_request e) = [MemberJoinRequestEvent_respond D N e (ea_member_join x) (ea_reason x)]"
| "event_calls D N x (Ev_bot_invited_join_group_request e) =
     [BotInvitedJoinGroupRequestEvent_respond D N e (ea_invited x) (ea_reason x)]"
| "event_calls D N x _ = []"

definition group_event_calls_async :: "'j deps \<Rightarrow> 'w net \<Rightarrow> event_args \<Rightarrow> 'a GroupEventBase_scheme \<Rightarrow> ('w Bot, unit) co list" where
  "group_event_calls_async D N x e = [ignoringT (GroupEventBase_send_message_async D N e (ea_message x) (ea_quote x))]"

definition member_event_calls_async :: "'j deps \<Rightarrow> 'w net \<Rightarrow> event_args \<Rightarrow> 'a MemberEventBase_scheme \<Rightarrow> ('w Bot, unit) co list" where
  "member_event_calls_async D N x e =
     [ignoringT (MemberEventBase_send_message_async D N e (ea_message x) (ea_quote x)),
      MemberEventBase_mute_member_async D N e (ea_duration x), MemberEventBase_unmute_member_async D N e]"

fun event_calls_async :: "'j deps \<Rightarrow> 'w net \<Rightarrow> event_args \<Rightarrow> Event \<Rightarrow> ('w Bot, unit) co list" where
  "event_calls_async D N x (Ev_friend_message e) =
     [ignoringT (FriendMessageEvent_send_message_async D N e (ea_message x) (ea_quote x)),
      ignoringT (FriendMessageEvent_quote_reply_async D N e (ea_message x))]"
| "event_calls_async D N x (Ev_group_message e) =
     [ignoringT (GroupMessageEvent_send_message_async D N e (ea_message x) (ea_quote x)),
      ignoringT (GroupMessageEvent_quote_reply_async D N e (ea_message x)),
      GroupMessageEvent_recall_async D N e, GroupMessageEvent_mute_sender_async D N e (ea_duration x)]"
| "event_calls_async D N x (Ev_temp_message e) =
     [ignoringT (TempMessageEvent_send_message_async D N e (ea_message x) (ea_quote x)),
      ignoringT (TempMessageEvent_quote_reply_async D N e (ea_message x))]"
| "event_calls_async D N x (Ev_group_recall e) =
     ignoringT (GroupRecallEvent_quote_reply_async D N e (ea_message x)) # group_event_calls_async D N x e"
| "event_calls_async D N x (Ev_friend_recall e) = [ignoringT (FriendRecallEvent_quote_reply_async D N e (ea_message x))]"
| "event_calls_async D N x (Ev_bot_group_permission_change e) = group_event_calls_async D N x e"
| "event_calls_async D N x (Ev_bot_join_group e) = group_event_calls_async D N x e"
| "event_calls_async D N x (Ev_bot_quit e) = group_event_calls_async D N x e"
| "event_calls_async D N x (Ev_bot_kicked e) = group_event_calls_async D N x e"
| "event_calls_async D N x (Ev_group_name_change e) = group_event_calls_async D N x e"
| "event_calls_async D N x (Ev_group_entrance_announcement_change e) = group_event_calls_async D N x e"
| "event_calls_async D N x (Ev_group_config e) = group_event_calls_async D N x e"
| "event_calls_async D N x (Ev_member_join e) = member_event_calls_async D N x e"
| "event_calls_async D N x (Ev_member_quit e) = member_event_calls_async D N x e"
| "event_calls_async D N x (Ev_member_kicked e) = member_event_calls_async D N x e"
| "event_calls_async D N x (Ev_member_card_change e) = member_event_calls_async D N x e"
| "event_calls_async D N x (Ev_member_special_title_change e) = member_event_calls_async D N x e"
| "event_calls_async D N x (Ev_member_permission_change e) = member_event_calls_async D N x e"
| "event_calls_async D N x (Ev_member_muted e) = member_event_calls_async D N x e"
| "event_calls_async D N x (Ev_member_unmuted e) = member_event_calls_async D N x e"
| "event_calls_async D N x (Ev_new_friend_request e) =
     [NewFriendRequestEvent_respond_async D N e (ea_new_friend x) (ea_reason x)]"
| "event_calls_async D N x (Ev_member_join_request e) =
     [MemberJoinRequestEvent_respond_async D N e (ea_member_join x) (ea_reason x)]"
| "event_calls_async D N x (Ev_bot_invited_join_group_request e) =
     [BotInvitedJoinGroupRequestEvent_respond_async D N e (ea_invited x) (ea_reason x)]"
| "event_calls_async D N x _ = []"

lemma via_null:
  "EventBase_bot e = Inl Undefined_behaviour \<Longrightarrow> via_bot e f b = (Inl Undefined_behaviour, b)"
  by (simp add: via_bot_def)

lemma mapS_fails: "m b = (Inl f, b') \<Longrightarrow> mapS g m b = (Inl f, b')"
  by (simp add: mapS_def bindS_def)

lemma run_null_async:
  "EventBase_bot e = Inl Undefined_behaviour \<Longrightarrow>
     run_task d (via_bot_async e t) b = (Inl Undefined_behaviour, b)"
  by (simp add: run_via_bot via_null)

lemma event_calls_null:
  assumes "Event_bot ev = Inl Undefined_behaviour"
  shows "\<forall>m \<in> set (event_calls D N x ev). m b = (Inl Undefined_behaviour, b)"
  using assms
  by (cases ev)
    (simp_all add: event_action_defs group_event_calls_def member_event_calls_def via_null mapS_fails)

lemma event_calls_async_null:
  assumes "Event_bot ev = Inl Undefined_behaviour"
  shows "\<forall>t \<in> set (event_calls_async D N x ev). run_task d t b = (Inl Undefined_behaviour, b)"
  using assms
  by (cases ev)
    (simp_all add: event_action_async_defs group_event_calls_async_def member_event_calls_async_def run_null_async
      run_mapT mapS_fails)

text \<open>
  C36: an event that \<open>retrieve_message\<close> returned, of whichever
  type, has a null bot pointer: \<open>bot()\<close> is undefined behaviour, and so is every
  operation that it offers (\<open>send_message\<close>, \<open>quote_reply\<close>,
  \<open>recall\<close>, \<open>mute_sender\<close>, \<open>respond\<close> and those it inherits from
  the bases for groups and members), the waiting one and the task run alone, before
  anything is sent.\<close>

theorem reply_to_retrieved_undefined:
  assumes "Bot_call D N (Call_retrieve_message i) b = (Inr (Res_event ev), b')"
  shows "Event_bot ev = Inl Undefined_behaviour \<and>
    (\<forall>m \<in> set (event_calls D N x ev). m b' = (Inl Undefined_behaviour, b')) \<and>
    (\<forall>t \<in> set (event_calls_async D N x ev). run_task d t b' = (Inl Undefined_behaviour, b'))"
  using retrieved_event_bot [OF assms] event_calls_null event_calls_async_null by blast

section \<open>The properties on examples\<close>

definition example_sender :: Member where
  "example_sender = \<lparr>mb_group = example_group, mb_id = UserId 9, mb_name = ''m'', mb_permission = Permission_member\<rparr>"

definition example_group_message :: "nat option \<Rightarrow> GroupMessageEvent" where
  "example_group_message a =
     \<lparr>ev_bot = a, me_msg = SentMessage_default, gme_sender = example_sender\<rparr>"

theorem quote_reply_sends_witness:
  "sends peer_net (session_bot []) (GroupMessageEvent_quote_reply (ref_deps Map.empty) peer_net
       (example_group_message (Some 1)) example_message)
     (Post ''/sendGroupMessage'' (JObj [(''sessionKey'', JStr ''key''), (''target'', JNum 7),
        (''messageChain'', Message_json example_message), (''quote'', JNum 0)]))"
  by (rule quote_reply_sends [THEN conjunct1])
    (simp_all add: session_bot_def idle_bot_def example_group_message_def example_sender_def
      example_group_def example_message_def Message_json_def MessageEventBase_msgid_def
      SentMessage_default_def Source_default_def MessageId_default_def
      plain_text_def plain_char_def is_control_def dquote_def bslash_def)

definition retrieved_json :: json where
  "retrieved_json =
     JObj [(''type'', JStr ''GroupMessage''), (''messageChain'', JArr []),
       (''sender'', JObj [(''id'', JNum 9), (''memberName'', JStr ''m''), (''permission'', JStr ''MEMBER''),
          (''group'', JObj [(''id'', JNum 7), (''name'', JStr ''g''), (''permission'', JStr ''OWNER'')])])]"

definition retrieved_deps :: "json deps" where
  "retrieved_deps = table_deps [(event_text, JObj [(''data'', retrieved_json)])]"

lemma retrieved_read:
  "Event_from_json (segment_fuel d) retrieved_deps retrieved_json = Inr (Ev_group_message (example_group_message None))"
  by (simp add: retrieved_deps_def table_deps_def retrieved_json_def Event_from_json_def from_json_defs
      event_readers event_base_readers event_record_defs EventBase_default_def Group_from_json_def
      Member_from_json_def permission_from_string_def segment_fuel_def example_group_message_def
      example_sender_def example_group_def)

lemma retrieved_parse:
  "get_checked_response_json retrieved_deps event_text = Inr (Inr (JObj [(''data'', retrieved_json)]))"
  by (simp add: get_checked_response_json_def check_json_def retrieved_deps_def table_deps_def
      ref_parse_def event_text_def retrieved_json_def)

definition example_args :: event_args where
  "example_args =
     \<lparr>ea_message = example_message, ea_quote = None, ea_duration = 60, ea_new_friend = NewFriend_approve,
      ea_member_join = MemberJoin_approve, ea_invited = BotInvited_approve, ea_reason = []\<rparr>"

theorem reply_to_retrieved_undefined_witness:
  "\<exists>b'. Bot_call retrieved_deps peer_net (Call_retrieve_message (MessageId 3)) (session_bot [peer_ok event_text]) =
      (Inr (Res_event (Ev_group_message (example_group_message None))), b') \<and>
     GroupMessageEvent_recall retrieved_deps peer_net (example_group_message None) b' = (Inl Undefined_behaviour, b') \<and>
     run_task (bot_answer peer_net) (GroupMessageEvent_recall_async retrieved_deps peer_net (example_group_message None)) b' =
       (Inl Undefined_behaviour, b')"
proof -
  have key: "sj_at_key retrieved_deps = ref_at_key" by (simp add: retrieved_deps_def table_deps_def)
  obtain b' where b': "Bot_call retrieved_deps peer_net (Call_retrieve_message (MessageId 3))
      (session_bot [peer_ok event_text]) =
      (Inr (Res_event (Ev_group_message (example_group_message None))), b')"
    by (simp add: mapS_Inr Bot_retrieve_message_def bindS_eq_Inr peer_get session_bot_def idle_bot_def
        peer_world_def retrieved_parse retrieved_read key from_json_class_def)
  with reply_to_retrieved_undefined [OF b', of example_args "bot_answer peer_net"] show ?thesis by auto
qed

end
