(* ===== verification/Event_Monitor.thy ===== *)
theory Event_Monitor
  imports Bot_Facts
begin

text \<open>
  \<open>Bot::monitor_events\<close> (\<open>lib/src/core/bot.cpp\<close>): the loop that reads events
  from a WebSocket and hands them to a callback until the callback answers false.
\<close>

section \<open>The loop\<close>

text \<open>
  The state is the bot and the session; the callback and the exception handler act on the
  bot.
\<close>

definition on_bot :: "('w Bot, 'a) act \<Rightarrow> ('w Bot \<times> WebsocketSession, 'a) act" where
  "on_bot m = (\<lambda>(b, ws). case m b of (r, b') \<Rightarrow> (r, (b', ws)))"

definition read_frame :: "'w net \<Rightarrow> ('w Bot \<times> WebsocketSession, string) act" where
  "read_frame N =
     (\<lambda>(b, ws). case WebsocketSession_read N (b_world b, ws) of
        (r, (w, ws')) \<Rightarrow> (throw_of r, (b\<lparr>b_world := w\<rparr>, ws')))"

text \<open>The part of the try block after the read.\<close>

definition handle_frame ::
  "'j deps \<Rightarrow> (Event \<Rightarrow> ('w Bot, bool) act) \<Rightarrow> string \<Rightarrow> ('w Bot, bool) act" where
  "handle_frame D callback text =
     (let json = sj_parse D text
      in bindS (liftS (check_json D json)) (\<lambda>_.
         bindS (liftS (json_value json)) (\<lambda>j.
         bindS (Bot_parse_event D j) callback)))"

text \<open>One round: whether to go on.\<close>

definition monitor_round ::
  "'j deps \<Rightarrow> 'w net \<Rightarrow> (Event \<Rightarrow> ('w Bot, bool) act) \<Rightarrow> (exn \<Rightarrow> ('w Bot, unit) act) \<Rightarrow>
   ('w Bot \<times> WebsocketSession, bool) act" where
  "monitor_round D N callback exception_handler =
     catchS (bindS (read_frame N) (\<lambda>text. on_bot (handle_frame D callback text)))
       (\<lambda>e. bindS (on_bot (exception_handler e)) (\<lambda>_. returnS True))"

text \<open>The loop may run forever; \<open>fuel\<close> bounds the number of rounds.\<close>

fun monitor_loop ::
  "nat \<Rightarrow> 'j deps \<Rightarrow> 'w net \<Rightarrow> (Event \<Rightarrow> ('w Bot, bool) act) \<Rightarrow> (exn \<Rightarrow> ('w Bot, unit) act) \<Rightarrow>
   ('w Bot \<times> WebsocketSession, unit) act" where
  "monitor_loop 0 D N callback exception_handler = liftS (Inl Out_of_fuel)"
| "monitor_loop (Suc fuel) D N callback exception_handler =
     bindS (monitor_round D N callback exception_handler) (\<lambda>go_on.
       if go_on then monitor_loop fuel D N callback exception_handler else returnS ())"

text \<open>
  The session is closed when the scope after the connection is left, and destroyed at the
  end.
\<close>

definition Bot_monitor_events ::
  "nat \<Rightarrow> 'j deps \<Rightarrow> 'w net \<Rightarrow> (Event \<Rightarrow> ('w Bot, bool) act) \<Rightarrow> (exn \<Rightarrow> ('w Bot, unit) act) \<Rightarrow>
   ('w Bot, unit) act" where
  "Bot_monitor_events fuel D N callback exception_handler =
     (\<lambda>b. case Client_new_websocket_session N (b_world b) of (ws, w) \<Rightarrow>
        (case scopeS
           (bindS (on_bot (on_world (Client_connect_websocket N (b_client b) ws (''/all?sessionKey='' @ b_sess_key b)))) (\<lambda>_.
            scopeS (monitor_loop fuel D N callback exception_handler)
              (on_bot (on_world (WebsocketSession_close N ws)))))
           (on_bot (updS (\<lambda>b. b\<lparr>b_world := ws_stream_drop N (wss_stream ws) (b_world b)\<rparr>)))
           (b\<lparr>b_world := w\<rparr>, ws) of
         (r, (b', ws')) \<Rightarrow> (r, b')))"

section \<open>Where the frames come from\<close>

text \<open>
  An interface: \<open>frames\<close> lists the messages the peer has still to deliver; a read takes
  the first.
\<close>

locale frame_source =
  fixes N :: "'w net" and frames :: "'w \<Rightarrow> string list"
  assumes next_frame: "frames w = t # ts \<Longrightarrow> \<exists>w'. ws_read N s w = ((0, t), w') \<and> frames w' = ts"
begin

text \<open>Calls that leave the frames alone.\<close>

abbreviation keeps_frames :: "('w Bot, 'a) act \<Rightarrow> bool" where
  "keeps_frames \<equiv> preserves (\<lambda>b. frames (b_world b))"

lemma read_next:
  assumes "frames (b_world b) = t # ts" and "wss_buffer ws = []"
  shows "\<exists>w. read_frame N (b, ws) = (Inr t, (b\<lparr>b_world := w\<rparr>, ws)) \<and> frames w = ts"
proof -
  obtain w where "ws_read N (wss_stream ws) (b_world b) = ((0, t), w)" "frames w = ts"
    using next_frame [OF assms(1)] by blast
  then have "read_frame N (b, ws) = (Inr t, (b\<lparr>b_world := w\<rparr>, ws))"
    using assms(2) by (simp add: read_frame_def WebsocketSession_read_def)
  with \<open>frames w = ts\<close> show ?thesis by blast
qed

lemma handle_frame_keeps:
  assumes "\<forall>ev. keeps_frames (callback ev)"
  shows "keeps_frames (handle_frame D callback t)"
  unfolding handle_frame_def Let_def Bot_parse_event_def
  by (intro preserves_intros) (use assms in blast)

text \<open>One round on the next frame, by the outcome of handling it.\<close>

lemma round_next:
  assumes "frames (b_world b) = t # ts" and "wss_buffer ws = []"
    and "\<forall>ev. keeps_frames (callback ev)" and "\<forall>e. keeps_frames (handler e)"
    and "\<forall>e b. fst (handler e b) = Inr ()"
    and "\<forall>b. (\<exists>v. fst (handle_frame D callback t b) = Inr v \<and> P v) \<or> (\<exists>e. fst (handle_frame D callback t b) = throw e \<and> P True)"
  shows "\<exists>v b'. monitor_round D N callback handler (b, ws) = (Inr v, (b', ws)) \<and> P v \<and> frames (b_world b') = ts"
proof -
  obtain w where w: "read_frame N (b, ws) = (Inr t, (b\<lparr>b_world := w\<rparr>, ws))" "frames w = ts"
    using read_next [OF assms(1,2)] by blast
  obtain r b1 where r: "handle_frame D callback t (b\<lparr>b_world := w\<rparr>) = (r, b1)" by fastforce
  have b1: "frames (b_world b1) = ts"
    using preservesD [OF handle_frame_keeps [OF assms(3)] r] w(2) by simp
  consider v where "r = Inr v" "P v" | e where "r = throw e" "P True"
    using spec [OF assms(6), of "b\<lparr>b_world := w\<rparr>"] r by auto
  then show ?thesis
  proof cases
    case 1
    with w r b1 show ?thesis
      by (simp add: monitor_round_def catchS_def bindS_def on_bot_def)
  next
    case 2
    obtain b2 where h: "handler e b1 = (Inr (), b2)" using assms(5) by (cases "handler e b1") (metis fst_conv)
    then have "frames (b_world b2) = ts" using preservesD [OF spec [OF assms(4)] h] b1 by simp
    moreover have "monitor_round D N callback handler (b, ws) = (Inr True, (b2, ws))"
      using 2 w r h by (simp add: monitor_round_def catchS_def bindS_def on_bot_def throw_def)
    ultimately show ?thesis using 2 by blast
  qed
qed

lemma loop_ends:
  assumes "frames (b_world b) = pre @ t # post" and "wss_buffer ws = []" and "length pre < fuel"
    and "\<forall>ev. keeps_frames (callback ev)" and "\<forall>e. keeps_frames (handler e)"
    and "\<forall>e b. fst (handler e b) = Inr ()"
    and "\<forall>p \<in> set pre. \<forall>b.
      fst (handle_frame D callback p b) = Inr True \<or> (\<exists>e. fst (handle_frame D callback p b) = throw e)"
    and "\<forall>b. fst (handle_frame D callback t b) = Inr False"
  shows "\<exists>b'. monitor_loop fuel D N callback handler (b, ws) = (Inr (), (b', ws)) \<and> frames (b_world b') = post"
  using assms(1,3,7)
proof (induction pre arbitrary: b fuel)
  case Nil
  then obtain n where "fuel = Suc n" by (cases fuel) auto
  moreover have "\<exists>v b'. monitor_round D N callback handler (b, ws) = (Inr v, (b', ws)) \<and> v = False \<and>
      frames (b_world b') = post"
    by (rule round_next [OF _ assms(2,4,5,6)]) (use Nil.prems(1) assms(8) in auto)
  then obtain b' where "monitor_round D N callback handler (b, ws) = (Inr False, (b', ws))"
    "frames (b_world b') = post" by blast
  ultimately show ?case by (simp add: bindS_def)
next
  case (Cons p pre)
  then obtain n where n: "fuel = Suc n" by (cases fuel) auto
  have "\<exists>v b'. monitor_round D N callback handler (b, ws) = (Inr v, (b', ws)) \<and> v = True \<and>
      frames (b_world b') = pre @ t # post"
  proof (rule round_next [OF _ assms(2,4,5,6)])
    show "frames (b_world b) = p # pre @ t # post" using Cons.prems(1) by simp
    show "\<forall>b. (\<exists>v. fst (handle_frame D callback p b) = Inr v \<and> v = True) \<or>
        (\<exists>e. fst (handle_frame D callback p b) = throw e \<and> True = True)"
      using Cons.prems(3) by auto
  qed
  then obtain b1 where b1: "monitor_round D N callback handler (b, ws) = (Inr True, (b1, ws))"
    "frames (b_world b1) = pre @ t # post" by blast
  have "\<exists>b'. monitor_loop n D N callback handler (b1, ws) = (Inr (), (b', ws)) \<and> frames (b_world b') = post"
    using Cons.IH [OF b1(2)] Cons.prems(2,3) n by simp
  with b1 n show ?case by (auto simp: bindS_def)
qed

end

text \<open>
  C15: the event loop makes progress.  When the peer delivers frames
  and the callback answers false on one of them, and every earlier frame is either rejected
  (the handler is called and the loop goes on) or answered with true, the loop returns
  after exactly these frames, with as much fuel as there are frames; the later frames are
  not read.\<close>

theorem monitor_ends_on_false:
  assumes "frame_source N frames"
    and "frames (b_world b) = pre @ t # post" and "wss_buffer ws = []" and "length pre < fuel"
    and "\<forall>ev. preserves (\<lambda>b. frames (b_world b)) (callback ev)"
    and "\<forall>e. preserves (\<lambda>b. frames (b_world b)) (handler e)"
    and "\<forall>e b. fst (handler e b) = Inr ()"
    and "\<forall>p \<in> set pre. \<forall>b.
      fst (handle_frame D callback p b) = Inr True \<or> (\<exists>e. fst (handle_frame D callback p b) = throw e)"
    and "\<forall>b. fst (handle_frame D callback t b) = Inr False"
  shows "\<exists>b'. monitor_loop fuel D N callback handler (b, ws) = (Inr (), (b', ws)) \<and> frames (b_world b') = post"
  using frame_source.loop_ends [OF assms] .

section \<open>A connection that is gone\<close>

lemma round_broken:
  assumes "\<forall>s w. P w \<longrightarrow> (\<exists>ec bytes w'. ws_read N s w = ((ec, bytes), w') \<and> ec \<noteq> 0 \<and> P w')"
    and "\<forall>e b. P (b_world b) \<longrightarrow> (\<exists>b'. handler e b = (Inr (), b') \<and> P (b_world b'))"
    and "P (b_world b)"
  shows "\<exists>b' ws'. monitor_round D N callback handler (b, ws) = (Inr True, (b', ws')) \<and> P (b_world b')"
proof -
  obtain ec bytes w where w: "ws_read N (wss_stream ws) (b_world b) = ((ec, bytes), w)" "ec \<noteq> 0" "P w"
    using assms(1,3) by blast
  have "P (b_world (b\<lparr>b_world := w\<rparr>))" using w(3) by simp
  then obtain b' where "handler (System_error ec) (b\<lparr>b_world := w\<rparr>) = (Inr (), b')" "P (b_world b')"
    using assms(2) by blast
  with w show ?thesis
    by (simp add: monitor_round_def catchS_def bindS_def read_frame_def WebsocketSession_read_def
        on_bot_def throw_def)
qed

lemma loop_broken:
  assumes "\<forall>s w. P w \<longrightarrow> (\<exists>ec bytes w'. ws_read N s w = ((ec, bytes), w') \<and> ec \<noteq> 0 \<and> P w')"
    and "\<forall>e b. P (b_world b) \<longrightarrow> (\<exists>b'. handler e b = (Inr (), b') \<and> P (b_world b'))"
    and "P (b_world b)"
  shows "fst (monitor_loop fuel D N callback handler (b, ws)) = Inl Out_of_fuel"
  using assms(3)
proof (induction fuel arbitrary: b ws)
  case 0
  then show ?case by simp
next
  case (Suc fuel)
  obtain b' ws' where r: "monitor_round D N callback handler (b, ws) = (Inr True, (b', ws'))" "P (b_world b')"
    using round_broken [OF assms(1,2) Suc.prems] by blast
  have "monitor_loop (Suc fuel) D N callback handler (b, ws) = monitor_loop fuel D N callback handler (b', ws')"
    using r(1) by (simp add: bindS_def)
  with Suc.IH [OF r(2)] show ?case by simp
qed

text \<open>
  C16: once the connection is gone, so that every read fails,
  and the handler returns, as the default one does, \<open>monitor_events\<close> never returns: it
  calls the handler over and over, whatever the number of rounds allowed.  A failed read is
  treated like a failed callback.\<close>

theorem monitor_spins_when_closed:
  assumes "\<forall>s w. gone w \<longrightarrow> (\<exists>ec bytes w'. ws_read N s w = ((ec, bytes), w') \<and> ec \<noteq> 0 \<and> gone w')"
    and "\<forall>e b. gone (b_world b) \<longrightarrow> (\<exists>b'. handler e b = (Inr (), b') \<and> gone (b_world b'))"
    and "Client_new_websocket_session N (b_world b) = (ws, w)"
    and "Client_connect_websocket N (b_client b) ws (''/all?sessionKey='' @ b_sess_key b) w = (Inr (), w')"
    and "gone w'"
  shows "fst (Bot_monitor_events fuel D N callback handler b) = Inl Out_of_fuel"
proof -
  obtain s where s: "monitor_loop fuel D N callback handler (b\<lparr>b_world := w'\<rparr>, ws) = (Inl Out_of_fuel, s)"
    using loop_broken [OF assms(1,2), of "b\<lparr>b_world := w'\<rparr>" fuel D callback ws] assms(5)
    by (cases "monitor_loop fuel D N callback handler (b\<lparr>b_world := w'\<rparr>, ws)") auto
  show ?thesis
    using assms(3,4) s
    by (simp add: Bot_monitor_events_def scopeS_def bindS_def on_bot_def on_world_def unwinds_def
        split: prod.split)
qed

section \<open>The properties on examples\<close>

definition peer_frames :: "peer \<Rightarrow> string list" where
  "peer_frames w = map snd (takeWhile (\<lambda>f. fst f = 0) (pr_frames w))"

interpretation peer_source: frame_source peer_net peer_frames
proof
  fix w t ts s
  assume "peer_frames w = t # ts"
  then obtain fs where "pr_frames w = (0, t) # fs" "ts = map snd (takeWhile (\<lambda>f. fst f = 0) fs)"
    by (cases "pr_frames w") (auto simp: peer_frames_def split: if_splits)
  then show "\<exists>w'. ws_read peer_net s w = ((0, t), w') \<and> peer_frames w' = ts"
    by (auto simp: peer_net_def peer_ws_read_def peer_frames_def)
qed

definition monitored_bot :: "(nat \<times> string) list \<Rightarrow> peer Bot" where
  "monitored_bot fs = (session_bot [])\<lparr>b_world := (peer_world [])\<lparr>pr_frames := fs\<rparr>\<rparr>"

definition frame_deps :: "json deps" where
  "frame_deps = table_deps [(event_text, example_event)]"

lemma frame_deps_event: "Event_from_json n frame_deps example_event = Inr example_read"
  by (simp add: frame_deps_def table_deps_def example_event_read)

lemma frame_results:
  "fst (handle_frame frame_deps callback ''?'' b) = throw (Simdjson_error (OTHER_ERROR 3))"
  "fst (handle_frame frame_deps (\<lambda>ev. returnS False) event_text b) = Inr False"
proof -
  show "fst (handle_frame frame_deps callback ''?'' b) = throw (Simdjson_error (OTHER_ERROR 3))"
    by (simp add: handle_frame_def frame_deps_def table_deps_def ref_parse_def event_text_def
        check_json_def res_at_def bindS_def throw_def)
  have "sj_parse frame_deps event_text = Inr example_event"
    by (simp add: frame_deps_def table_deps_def ref_parse_def event_text_def example_event_def)
  moreover have "check_json frame_deps (Inr example_event) = Inr ()"
    by (simp add: check_json_def frame_deps_def table_deps_def example_event_def)
  ultimately show "fst (handle_frame frame_deps (\<lambda>ev. returnS False) event_text b) = Inr False"
    by (simp add: handle_frame_def Bot_parse_event_def frame_deps_event bindS_def)
qed

theorem monitor_ends_on_false_witness:
  "\<exists>b'. monitor_loop 2 frame_deps peer_net (\<lambda>ev. returnS False) (\<lambda>e. returnS ())
      (monitored_bot [(0, ''?''), (0, event_text), (0, ''next'')], \<lparr>wss_stream = 1, wss_buffer = []\<rparr>) =
      (Inr (), (b', \<lparr>wss_stream = 1, wss_buffer = []\<rparr>)) \<and> peer_frames (b_world b') = [''next'']"
  by (rule monitor_ends_on_false [OF peer_source.frame_source_axioms, where pre = "[''?'']" and t = event_text])
    (simp_all add: monitored_bot_def peer_frames_def preserves_returnS frame_results throw_def)

theorem monitor_spins_when_closed_witness:
  "\<forall>fuel. fst (Bot_monitor_events fuel frame_deps peer_net (\<lambda>ev. returnS True) (\<lambda>e. returnS ())
     (monitored_bot [])) = Inl Out_of_fuel"
proof
  fix fuel
  show "fst (Bot_monitor_events fuel frame_deps peer_net (\<lambda>ev. returnS True) (\<lambda>e. returnS ())
     (monitored_bot [])) = Inl Out_of_fuel"
    by (rule monitor_spins_when_closed [where gone = "\<lambda>w. pr_frames w = []"])
      (auto simp: peer_net_def peer_ws_read_def monitored_bot_def Client_new_websocket_session_def
        Client_connect_websocket_def connect_websocket_def Let_def bindS_def peer_world_def)
qed

end
