(* ===== verification/Bot_Concurrency.thy ===== *)
theory Bot_Concurrency
  imports Bot_Session
begin

text \<open>
  Several asynchronous operations of one bot at a time: tasks that are suspended on a
  request while the others run.
\<close>

section \<open>A service that grants sessions\<close>

text \<open>
  \<open>opened\<close> lists the sessions the service has opened so far.  It opens a new one for
  each \<open>/auth\<close> and accepts every \<open>/verify\<close>.
\<close>

definition grants_sessions :: "'j deps \<Rightarrow> 'w net \<Rightarrow> ('w \<Rightarrow> string list) \<Rightarrow> bool" where
  "grants_sessions D N opened \<longleftrightarrow>
     (\<forall>c body w. \<exists>text j key w'.
        http_request_impl N c (generate_http_post_request N c ''/auth'' json_content_type body) w = (Inr text, w') \<and>
        get_checked_response_json D text = Inr j \<and> from_json_string D (res_at D j ''session'') = Inr key \<and>
        key \<notin> set (opened w) \<and> opened w' = opened w @ [key]) \<and>
     (\<forall>c body w. \<exists>text j w'.
        http_request_impl N c (generate_http_post_request N c ''/verify'' json_content_type body) w = (Inr text, w') \<and>
        get_checked_response_json D text = Inr j \<and> opened w' = opened w)"

section \<open>The two suspensions of an authorization\<close>

definition verifying :: "'j deps \<Rightarrow> 'w net \<Rightarrow> UserId \<Rightarrow> ('w Bot, unit) co \<Rightarrow> bool" where
  "verifying D N i t \<longleftrightarrow>
     (\<exists>c body k. t = Await (Spawn_http c (generate_http_post_request N c ''/verify'' json_content_type body)) k \<and>
        (\<forall>cp text j b. AsioAwaiter_await_resume cp = Inr text \<longrightarrow> get_checked_response_json D text = Inr j \<longrightarrow>
           advance (k cp) b = (Finished (Inr ()), b\<lparr>b_id := i\<rparr>)))"

definition authorizing :: "'j deps \<Rightarrow> 'w net \<Rightarrow> UserId \<Rightarrow> ('w Bot, unit) co \<Rightarrow> bool" where
  "authorizing D N i t \<longleftrightarrow>
     (\<exists>c body k. t = Await (Spawn_http c (generate_http_post_request N c ''/auth'' json_content_type body)) k \<and>
        (\<forall>cp text j key b. AsioAwaiter_await_resume cp = Inr text \<longrightarrow> get_checked_response_json D text = Inr j \<longrightarrow>
           from_json_string D (res_at D j ''session'') = Inr key \<longrightarrow>
           (\<exists>t'. advance (k cp) b = (t', b\<lparr>b_sess_key := key\<rparr>) \<and> verifying D N i t')))"

lemmas async_steps =
  Bot_authorize_async_def checked_post_json_async_def Client_http_post_json_async_def
  http_request_async_def act_task_def updS_def

lemma authorize_starts:
  assumes "\<not> Bot_authorized b"
  shows "\<exists>t. advance (Bot_authorize_async D N auth_key i) b = (t, b) \<and> authorizing D N i t"
  using assms by (auto simp: async_steps check_auth_gen_body_def authorizing_def verifying_def)

lemma authorizes_all:
  assumes "\<not> Bot_authorized b"
  shows "\<exists>ts. start_all (map (\<lambda>(auth_key, i). Bot_authorize_async D N auth_key i) calls) b = (ts, b) \<and>
    list_all2 (\<lambda>(auth_key, i) t. authorizing D N i t) calls ts"
proof (induction calls)
  case (Cons call calls)
  with authorize_starts [OF assms, of D N "fst call" "snd call"] show ?case by (auto split: prod.splits)
qed simp

lemma answered:
  "http_request_impl N c req (b_world b) = (Inr text, w) \<Longrightarrow>
   \<exists>cp. bot_answer N (Spawn_http c req) b = (cp, b\<lparr>b_world := w\<rparr>) \<and> AsioAwaiter_await_resume cp = Inr text"
  by (simp add: bot_answer_def spawned_def AsioAwaiter_await_resume_def)

lemma complete_authorizing:
  assumes "grants_sessions D N opened" and "authorizing D N i t"
  shows "\<exists>t' key w. complete (bot_answer N) t b = (t', b\<lparr>b_world := w, b_sess_key := key\<rparr>) \<and> verifying D N i t' \<and>
    key \<notin> set (opened (b_world b)) \<and> opened w = opened (b_world b) @ [key]"
proof -
  from assms(2) obtain c body k where
    t: "t = Await (Spawn_http c (generate_http_post_request N c ''/auth'' json_content_type body)) k"
    and k: "\<And>cp text j key b. AsioAwaiter_await_resume cp = Inr text \<Longrightarrow> get_checked_response_json D text = Inr j \<Longrightarrow>
       from_json_string D (res_at D j ''session'') = Inr key \<Longrightarrow>
       \<exists>t'. advance (k cp) b = (t', b\<lparr>b_sess_key := key\<rparr>) \<and> verifying D N i t'"
    unfolding authorizing_def by blast
  obtain response j key w where
    "http_request_impl N c (generate_http_post_request N c ''/auth'' json_content_type body) (b_world b) = (Inr response, w)"
    and granted: "get_checked_response_json D response = Inr j" "from_json_string D (res_at D j ''session'') = Inr key"
      "key \<notin> set (opened (b_world b))" "opened w = opened (b_world b) @ [key]"
    using assms(1) unfolding grants_sessions_def by metis
  from answered [OF this(1)] obtain cp where cp:
    "bot_answer N (Spawn_http c (generate_http_post_request N c ''/auth'' json_content_type body)) b = (cp, b\<lparr>b_world := w\<rparr>)"
    "AsioAwaiter_await_resume cp = Inr response" by blast
  from k [OF cp(2) granted(1,2), of "b\<lparr>b_world := w\<rparr>"] obtain t' where
    "advance (k cp) (b\<lparr>b_world := w\<rparr>) = (t', b\<lparr>b_world := w, b_sess_key := key\<rparr>)" "verifying D N i t'" by auto
  with t cp(1) granted(3,4) show ?thesis by (auto simp: complete_def)
qed

lemma complete_verifying:
  assumes "grants_sessions D N opened" and "verifying D N i t"
  shows "\<exists>w. complete (bot_answer N) t b = (Finished (Inr ()), b\<lparr>b_world := w, b_id := i\<rparr>) \<and>
    opened w = opened (b_world b)"
proof -
  from assms(2) obtain c body k where
    t: "t = Await (Spawn_http c (generate_http_post_request N c ''/verify'' json_content_type body)) k"
    and k: "\<And>cp text j b. AsioAwaiter_await_resume cp = Inr text \<Longrightarrow> get_checked_response_json D text = Inr j \<Longrightarrow>
       advance (k cp) b = (Finished (Inr ()), b\<lparr>b_id := i\<rparr>)"
    unfolding verifying_def by blast
  obtain response j w where
    "http_request_impl N c (generate_http_post_request N c ''/verify'' json_content_type body) (b_world b) = (Inr response, w)"
    and granted: "get_checked_response_json D response = Inr j" "opened w = opened (b_world b)"
    using assms(1) unfolding grants_sessions_def by metis
  from answered [OF this(1)] obtain cp where
    "bot_answer N (Spawn_http c (generate_http_post_request N c ''/verify'' json_content_type body)) b = (cp, b\<lparr>b_world := w\<rparr>)"
    "AsioAwaiter_await_resume cp = Inr response" by blast
  with t k granted show ?thesis by (auto simp: complete_def)
qed

section \<open>Every schedule\<close>

text \<open>
  After \<open>n\<close> completions of a task: where it is.  The bot holds the key opened last and,
  once a task has finished, the account of one of them.
\<close>

definition stage :: "'j deps \<Rightarrow> 'w net \<Rightarrow> UserId \<Rightarrow> nat \<Rightarrow> ('w Bot, unit) co \<Rightarrow> bool" where
  "stage D N i n t \<longleftrightarrow>
     (if n = 0 then authorizing D N i t else if n = 1 then verifying D N i t else t = Finished (Inr ()))"

definition authorizations ::
  "'j deps \<Rightarrow> 'w net \<Rightarrow> ('w \<Rightarrow> string list) \<Rightarrow> string list \<Rightarrow> UserId list \<Rightarrow> nat list \<Rightarrow> ('w Bot, unit) co list \<Rightarrow>
   'w Bot \<Rightarrow> bool" where
  "authorizations D N opened old accounts dones ts b \<longleftrightarrow>
     length ts = length accounts \<and> length dones = length accounts \<and>
     (\<forall>i < length accounts. stage D N (accounts ! i) (dones ! i) (ts ! i)) \<and>
     (\<exists>keys. opened (b_world b) = old @ keys \<and> distinct keys \<and> set keys \<inter> set old = {} \<and>
        length keys = length (filter (\<lambda>n. 0 < n) dones) \<and> (keys \<noteq> [] \<longrightarrow> b_sess_key b = last keys)) \<and>
     ((\<exists>n \<in> set dones. 2 \<le> n) \<longrightarrow> b_id b \<in> set accounts)"

lemma count_started:
  "i < length ns \<Longrightarrow> length (filter (\<lambda>n. 0 < n) (ns[i := Suc m])) =
     length (filter (\<lambda>n. 0 < n) ns) + (if ns ! i = 0 then 1 else 0)"
proof (induction ns arbitrary: i)
  case (Cons n ns)
  then show ?case by (cases i) auto
qed simp

lemma authorizations_step:
  assumes grants: "grants_sessions D N opened" and inv: "authorizations D N opened old accounts dones ts b"
    and i: "i < length ts" and step: "complete (bot_answer N) (ts ! i) b = (t, b')"
  shows "authorizations D N opened old accounts (dones[i := Suc (dones ! i)]) (ts[i := t]) b'"
proof -
  have len: "length ts = length accounts" "length dones = length accounts" using inv by (auto simp: authorizations_def)
  then have stage: "stage D N (accounts ! i) (dones ! i) (ts ! i)" using inv i by (auto simp: authorizations_def)
  obtain keys where keys: "opened (b_world b) = old @ keys" "distinct keys" "set keys \<inter> set old = {}"
    "length keys = length (filter (\<lambda>n. 0 < n) dones)" "keys \<noteq> [] \<longrightarrow> b_sess_key b = last keys"
    using inv by (auto simp: authorizations_def)
  have others: "stage D N (accounts ! j) (dones[i := Suc (dones ! i)] ! j) (ts[i := t] ! j)"
    if "stage D N (accounts ! i) (Suc (dones ! i)) t" "j < length accounts" for j
    using that inv len i by (cases "j = i") (auto simp: authorizations_def)
  have started: "(\<exists>n \<in> set (dones[i := Suc (dones ! i)]). 2 \<le> n) \<Longrightarrow> dones ! i = 0 \<Longrightarrow> \<exists>n \<in> set dones. 2 \<le> n"
    using set_update_subset_insert by fastforce
  consider "dones ! i = 0" | "dones ! i = 1" | "2 \<le> dones ! i" by linarith
  then show ?thesis
  proof cases
    case 1
    with complete_authorizing [OF grants, of "accounts ! i" "ts ! i" b] stage step obtain key w where
      b': "b' = b\<lparr>b_world := w, b_sess_key := key\<rparr>" "verifying D N (accounts ! i) t"
      "key \<notin> set (opened (b_world b))" "opened w = opened (b_world b) @ [key]"
      by (auto simp: stage_def)
    have "stage D N (accounts ! i) (Suc (dones ! i)) t" using b'(2) 1 by (simp add: stage_def)
    from others [OF this] have "\<forall>j < length accounts. stage D N (accounts ! j) (dones[i := Suc (dones ! i)] ! j) (ts[i := t] ! j)"
      by blast
    moreover have "\<exists>keys. opened (b_world b') = old @ keys \<and> distinct keys \<and> set keys \<inter> set old = {} \<and>
        length keys = length (filter (\<lambda>n. 0 < n) (dones[i := Suc (dones ! i)])) \<and> (keys \<noteq> [] \<longrightarrow> b_sess_key b' = last keys)"
      using keys b' 1 i len by (intro exI [of _ "keys @ [key]"]) (simp add: count_started)
    moreover have "(\<exists>n \<in> set (dones[i := Suc (dones ! i)]). 2 \<le> n) \<longrightarrow> b_id b' \<in> set accounts"
      using started 1 inv b'(1) by (auto simp: authorizations_def)
    ultimately show ?thesis using len by (simp add: authorizations_def)
  next
    case 2
    with complete_verifying [OF grants, of "accounts ! i" "ts ! i" b] stage step obtain w where
      b': "b' = b\<lparr>b_world := w, b_id := accounts ! i\<rparr>" "t = Finished (Inr ())" "opened w = opened (b_world b)"
      by (auto simp: stage_def)
    have "stage D N (accounts ! i) (Suc (dones ! i)) t" using b'(2) 2 by (simp add: stage_def)
    from others [OF this] have "\<forall>j < length accounts. stage D N (accounts ! j) (dones[i := Suc (dones ! i)] ! j) (ts[i := t] ! j)"
      by blast
    with keys b' 2 i len show ?thesis by (auto simp: authorizations_def count_started)
  next
    case 3
    then have t: "ts ! i = Finished (Inr ())" using stage by (simp add: stage_def)
    with step have b': "b' = b" "t = Finished (Inr ())" by (auto simp: complete_def)
    have "stage D N (accounts ! i) (Suc (dones ! i)) t" using b'(2) 3 by (simp add: stage_def)
    from others [OF this] have "\<forall>j < length accounts. stage D N (accounts ! j) (dones[i := Suc (dones ! i)] ! j) (ts[i := t] ! j)"
      by blast
    moreover have "b_id b' \<in> set accounts"
      using 3 inv b'(1) i len nth_mem [of i dones] by (auto simp: authorizations_def)
    ultimately show ?thesis using keys b'(1) 3 i len by (auto simp: authorizations_def count_started)
  qed
qed

lemma authorizations_schedule:
  assumes grants: "grants_sessions D N opened"
  shows "authorizations D N opened old accounts dones ts b \<Longrightarrow>
    run_schedule (bot_answer N) js ts b = (ts', b') \<Longrightarrow>
    \<exists>dones'. authorizations D N opened old accounts dones' ts' b' \<and>
      (\<forall>i < length accounts. dones' ! i = dones ! i + count_list js i)"
proof (induction js arbitrary: dones ts b)
  case Nil
  then show ?case by auto
next
  case (Cons j js)
  have len: "length ts = length accounts" "length dones = length accounts" using Cons.prems(1) by (auto simp: authorizations_def)
  show ?case
  proof (cases "j < length ts")
    case True
    obtain t b1 where step: "complete (bot_answer N) (ts ! j) b = (t, b1)" by fastforce
    with Cons.prems(2) True have run: "run_schedule (bot_answer N) js (ts[j := t]) b1 = (ts', b')" by simp
    from Cons.IH [OF authorizations_step [OF grants Cons.prems(1) True step] run] obtain dones' where
      "authorizations D N opened old accounts dones' ts' b'"
      "\<forall>i < length accounts. dones' ! i = dones[j := Suc (dones ! j)] ! i + count_list js i" by blast
    then show ?thesis using True len by (intro exI [of _ dones']) (auto simp: nth_list_update)
  next
    case False
    with Cons.prems(2) have "run_schedule (bot_answer N) js ts b = (ts', b')" by simp
    from Cons.IH [OF Cons.prems(1) this] False len show ?thesis by auto
  qed
qed


text \<open>A service whose n-th session has a key of n letters, which it answers with.\<close>

definition auths :: "peer \<Rightarrow> nat" where
  "auths w = length (filter (\<lambda>req. rq_target req = ''/auth'') (pr_requests w))"

definition session_key :: "nat \<Rightarrow> string" where
  "session_key n = replicate n (CHR ''k'')"

definition sessions :: "peer \<Rightarrow> string list" where
  "sessions w = map session_key [1..<Suc (auths w)]"

definition service_net :: "peer net" where
  "service_net = peer_net\<lparr>net_http_read := (\<lambda>s w. (Inr (peer_ok (session_key (auths w))), w))\<rparr>"

definition service_deps :: "json deps" where
  "service_deps = ref_deps (\<lambda>key. Some (JObj [(''code'', JNum 0), (''session'', JStr key)]))"

lemma service_request:
  "\<exists>w'. http_request_impl service_net c (generate_http_post_request service_net c target ty body) w =
      (Inr (session_key (auths w')), w') \<and> auths w' = auths w + (if target = ''/auth'' then 1 else 0)"
  by (simp add: http_request_impl_def with_tcp_stream_def service_net_def peer_net_def Let_def bindS_def returnS_def
      updS_def liftS_def shutdown_socket_def check_response_status_def peer_ok_def peer_status_class_def auths_def
      generate_http_post_request_def request_set_def)

lemma service_answer:
  "get_checked_response_json service_deps key = Inr (Inr (JObj [(''code'', JNum 0), (''session'', JStr key)]))"
  "from_json_string service_deps (res_at service_deps (Inr (JObj [(''code'', JNum 0), (''session'', JStr key)])) ''session'') =
     Inr key"
  by (simp_all add: get_checked_response_json_def check_json_def service_deps_def ref_parse_def check_status_code_def
      MiraiStatus_success_def i64_to_i32_def from_json_string_def res_at_def)

lemma service_grants: "grants_sessions service_deps service_net sessions"
proof -
  have fresh: "session_key (Suc n) \<notin> set (map session_key [1..<Suc n])" for n
    by (auto simp: session_key_def dest: arg_cong [where f = length])
  have opened: "sessions w' = sessions w @ [session_key (Suc (auths w))]" if "auths w' = Suc (auths w)" for w w'
    using that by (simp add: sessions_def)
  have same: "sessions w' = sessions w" if "auths w' = auths w" for w w'
    using that by (simp add: sessions_def)
  have auth: "\<exists>t j key w'.
      http_request_impl service_net c (generate_http_post_request service_net c ''/auth'' json_content_type body) w = (Inr t, w') \<and>
      get_checked_response_json service_deps t = Inr j \<and> from_json_string service_deps (res_at service_deps j ''session'') = Inr key \<and>
      key \<notin> set (sessions w) \<and> sessions w' = sessions w @ [key]" for c body w
  proof -
    obtain w' where w': "http_request_impl service_net c (generate_http_post_request service_net c ''/auth'' json_content_type body) w =
        (Inr (session_key (auths w')), w')" "auths w' = Suc (auths w)"
      using service_request [of c "''/auth''" json_content_type body w] by auto
    have "session_key (auths w') \<notin> set (sessions w)" unfolding sessions_def w'(2) by (rule fresh)
    moreover have "sessions w' = sessions w @ [session_key (auths w')]" unfolding w'(2) by (rule opened [OF w'(2)])
    ultimately show ?thesis
      by (intro exI conjI) (rule w'(1) service_answer | assumption)+
  qed
  have verify: "\<exists>t j w'.
      http_request_impl service_net c (generate_http_post_request service_net c ''/verify'' json_content_type body) w = (Inr t, w') \<and>
      get_checked_response_json service_deps t = Inr j \<and> sessions w' = sessions w" for c body w
  proof -
    obtain w' where w': "http_request_impl service_net c (generate_http_post_request service_net c ''/verify'' json_content_type body) w =
        (Inr (session_key (auths w')), w')" "auths w' = auths w"
      using service_request [of c "''/verify''" json_content_type body w] by auto
    have "sessions w' = sessions w" by (rule same [OF w'(2)])
    then show ?thesis
      by (intro exI conjI) (rule w'(1) service_answer | assumption)+
  qed
  show ?thesis unfolding grants_sessions_def by (intro conjI allI auth verify)
qed


end
