(* ===== verification/Event_Monitor_Async.thy ===== *)
theory Event_Monitor_Async
  imports Event_Monitor Filter_Queue_Ops
begin

text \<open>
  \<open>Bot::monitor_events_async\<close> (\<open>lib/src/core/bot.cpp\<close>): a loop that reads
  events from a WebSocket and spawns a task for each, which offers the event to the waiters
  of \<open>next_event_async\<close> and else to a callback; and \<open>timeout_as_optional\<close>
  (\<open>core/bot.h\<close>).
\<close>

section \<open>Algorithms on tasks\<close>

text \<open>\<open>thenT t h\<close> goes on after \<open>t\<close> as \<open>h\<close> says of its outcome.\<close>

primrec thenT ::
  "('s, 'q, 'r, 'a) task \<Rightarrow> ('a res \<Rightarrow> ('s, 'q, 'r, 'b) task) \<Rightarrow> ('s, 'q, 'r, 'b) task" where
  "thenT (Finished r) h = h r"
| "thenT (Local u k) h = Local u (\<lambda>s. thenT (k s) h)"
| "thenT (Await q k) h = Await q (\<lambda>r. thenT (k r) h)"

lemma run_thenT: "run_task d (thenT t h) s = (case run_task d t s of (r, s') \<Rightarrow> run_task d (h r) s')"
  by (induction t arbitrary: s) (auto split: prod.splits)

text \<open>
  \<open>catch (...)\<close>, \<open>ex::transform_done\<close> (the done signal is replaced by another
  task) and \<open>ex::finally\<close> (the second task runs however the first completes).
\<close>

definition catchT :: "('s, 'q, 'r, 'a) task \<Rightarrow> (exn \<Rightarrow> ('s, 'q, 'r, 'a) task) \<Rightarrow> ('s, 'q, 'r, 'a) task" where
  "catchT t h = thenT t (\<lambda>r. case r of Inl (Throw e) \<Rightarrow> h e | _ \<Rightarrow> Finished r)"

definition transform_done ::
  "('s, 'q, 'r, 'a) task \<Rightarrow> ('s, 'q, 'r, 'a) task \<Rightarrow> ('s, 'q, 'r, 'a) task" where
  "transform_done t other = thenT t (\<lambda>r. if r = Inl Stopped then other else Finished r)"

definition finallyT :: "('s, 'q, 'r, 'a) task \<Rightarrow> ('s, 'q, 'r, unit) task \<Rightarrow> ('s, 'q, 'r, 'a) task" where
  "finallyT t completion =
     thenT t (\<lambda>r. case r of
        Inl f \<Rightarrow> if unwinds f then bindT completion (\<lambda>_. Finished (Inl f)) else Finished (Inl f)
      | Inr x \<Rightarrow> bindT completion (\<lambda>_. returnT x))"

lemma finallyT_simps:
  "finallyT (Finished (Inr x)) c = bindT c (\<lambda>_. returnT x)"
  "finallyT (Finished (Inl f)) c =
     (if unwinds f then bindT c (\<lambda>_. Finished (Inl f)) else Finished (Inl f))"
  "finallyT (Local u k) c = Local u (\<lambda>s. finallyT (k s) c)"
  "finallyT (Await q g) c = Await q (\<lambda>r. finallyT (g r) c)"
  by (simp_all add: finallyT_def)

text \<open>A task on a part of the state.\<close>

primrec focusT ::
  "('s \<Rightarrow> 't) \<Rightarrow> ('t \<Rightarrow> 's \<Rightarrow> 's) \<Rightarrow> ('t, 'q, 'r, 'a) task \<Rightarrow> ('s, 'q, 'r, 'a) task" where
  "focusT get put (Finished r) = Finished r"
| "focusT get put (Local u k) = Local (\<lambda>s. put (u (get s)) s) (\<lambda>s. focusT get put (k (get s)))"
| "focusT get put (Await q k) = Await q (\<lambda>r. focusT get put (k r))"

text \<open>A task that awaits some of the operations of another kind.\<close>

primrec map_jobs :: "('q \<Rightarrow> 'p) \<Rightarrow> ('s, 'q, 'r, 'a) task \<Rightarrow> ('s, 'p, 'r, 'a) task" where
  "map_jobs f (Finished r) = Finished r"
| "map_jobs f (Local u k) = Local u (\<lambda>s. map_jobs f (k s))"
| "map_jobs f (Await q k) = Await (f q) (\<lambda>r. map_jobs f (k r))"

lemma run_map_jobs [task_simps]: "run_task d (map_jobs f t) = run_task (\<lambda>q. d (f q)) t"
  by (induction t) (auto simp: fun_eq_iff split: prod.splits)

section \<open>The state\<close>

text \<open>
  The bot with its filter queue, the WebSocket session, whether the caller has requested to
  stop and whether the callback for that is registered.  \<open>ml_spawned\<close> says what has been
  spawned on the local \<open>async_scope\<close> so far and \<open>ml_ended\<close> whether its cleanup
  has begun; what is spawned later is dropped.  \<open>ml_handled\<close> records the exceptions
  the loop has called the handler for.  The coroutines of events are calls of a lambda
  expression that captures by reference; \<open>ml_closure\<close> says whether the closure object
  the latest of them was called on still exists.
\<close>

datatype scope_task = Handle_event Event | Close_session

record 'w listener =
  ml_bot :: "'w Bot"
  ml_queue :: FilterQueue
  ml_ws :: WebsocketSession
  ml_stop :: bool
  ml_callback :: bool
  ml_spawned :: "scope_task list"
  ml_ended :: bool
  ml_handled :: "exn list"
  ml_closure :: bool

definition scope_spawn :: "scope_task \<Rightarrow> 'w listener \<Rightarrow> 'w listener" where
  "scope_spawn x l = (if ml_ended l then l else l\<lparr>ml_spawned := ml_spawned l @ [x]\<rparr>)"

definition on_ml_bot :: "('w Bot, 'a) act \<Rightarrow> ('w listener, 'a) act" where
  "on_ml_bot m = (\<lambda>l. case m (ml_bot l) of (r, b) \<Rightarrow> (r, l\<lparr>ml_bot := b\<rparr>))"

definition on_ml_queue :: "(FilterQueue, 'a) act \<Rightarrow> ('w listener, 'a) act" where
  "on_ml_queue m = (\<lambda>l. case m (ml_queue l) of (r, q) \<Rightarrow> (r, l\<lparr>ml_queue := q\<rparr>))"

section \<open>The task of an event\<close>

text \<open>A name captured by reference is reached through the closure object.\<close>

definition captured :: "('w listener, 'a) co \<Rightarrow> ('w listener, 'a) co" where
  "captured t = Local id (\<lambda>l. if ml_closure l then t else Finished (Inl Undefined_behaviour))"

definition event_task ::
  "nat \<Rightarrow> (Event \<Rightarrow> ('w listener, unit) co) \<Rightarrow> (exn \<Rightarrow> ('w listener, unit) act) \<Rightarrow> Event \<Rightarrow>
   ('w listener, unit) co" where
  "event_task fuel callback exception_handler ev =
     catchT
       (bindT (captured (act_task (on_ml_queue (filter_event fuel ev)))) (\<lambda>filtered.
        if filtered then returnT ()
        else transform_done (captured (callback ev))
               (captured (Local id (\<lambda>l. WebsocketSession_close_async (ml_ws l))))))
       (\<lambda>e. captured (act_task (exception_handler e)))"

text \<open>Spawned on the bot's scheduler, it starts by being scheduled.\<close>

definition spawned_event ::
  "nat \<Rightarrow> (Event \<Rightarrow> ('w listener, unit) co) \<Rightarrow> (exn \<Rightarrow> ('w listener, unit) act) \<Rightarrow> Event \<Rightarrow>
   ('w listener, unit) co" where
  "spawned_event fuel callback exception_handler ev =
     bindT Client_schedule (\<lambda>_. event_task fuel callback exception_handler ev)"

section \<open>The loop\<close>

text \<open>
  The closure is a temporary of the statement that spawns the task: it exists while the
  event is parsed and the task is created, and is destroyed at the end of the statement.
\<close>

definition with_closure :: "('w listener, 'a) act \<Rightarrow> ('w listener, 'a) act" where
  "with_closure m = (\<lambda>l. case m (l\<lparr>ml_closure := True\<rparr>) of (r, l') \<Rightarrow> (r, l'\<lparr>ml_closure := False\<rparr>))"

definition accept_frame :: "'j deps \<Rightarrow> string \<Rightarrow> ('w listener, unit) act" where
  "accept_frame D text =
     (let json = sj_parse D text
      in bindS (liftS (check_json D json)) (\<lambda>_.
         with_closure
           (bindS (liftS (json_value json)) (\<lambda>j.
            bindS (on_ml_bot (Bot_parse_event D j)) (\<lambda>ev.
            updS (scope_spawn (Handle_event ev)))))))"

definition handle_exception :: "(exn \<Rightarrow> ('w listener, unit) act) \<Rightarrow> exn \<Rightarrow> ('w listener, unit) act" where
  "handle_exception exception_handler e =
     bindS (updS (\<lambda>l. l\<lparr>ml_handled := ml_handled l @ [e]\<rparr>)) (\<lambda>_. exception_handler e)"

definition work_round ::
  "'j deps \<Rightarrow> 'w net \<Rightarrow> (exn \<Rightarrow> ('w listener, unit) act) \<Rightarrow> ('w listener, unit) co" where
  "work_round D N exception_handler =
     catchT
       (bindT (Local id (\<lambda>l. focusT ml_ws (\<lambda>ws l. l\<lparr>ml_ws := ws\<rparr>) (WebsocketSession_read_async N (ml_ws l))))
         (\<lambda>text. act_task (accept_frame D text)))
       (\<lambda>e. act_task (handle_exception exception_handler e))"

text \<open>The loop may run forever; \<open>fuel\<close> bounds the number of rounds.\<close>

fun monitor_work ::
  "nat \<Rightarrow> 'j deps \<Rightarrow> 'w net \<Rightarrow> (exn \<Rightarrow> ('w listener, unit) act) \<Rightarrow> ('w listener, unit) co" where
  "monitor_work 0 D N exception_handler = Finished (Inl Out_of_fuel)"
| "monitor_work (Suc fuel) D N exception_handler =
     bindT (work_round D N exception_handler) (\<lambda>_. monitor_work fuel D N exception_handler)"

text \<open>
  Stopping: the callback spawns a task that closes the session.  A callback that is
  registered after the request is called at once.
\<close>

definition close_session :: "('w listener, unit) co" where
  "close_session = bindT Client_schedule (\<lambda>_. Local id (\<lambda>l. WebsocketSession_close_async (ml_ws l)))"

definition register_stop :: "'w listener \<Rightarrow> 'w listener" where
  "register_stop l =
     (let l1 = l\<lparr>ml_callback := True\<rparr> in if ml_stop l1 then scope_spawn Close_session l1 else l1)"

definition request_stop :: "'w listener \<Rightarrow> 'w listener" where
  "request_stop l =
     (let l1 = l\<lparr>ml_stop := True\<rparr> in if ml_callback l1 then scope_spawn Close_session l1 else l1)"

text \<open>
  Besides the network the coroutine awaits the cleanup of its scope, which completes when
  everything that was spawned on it has ended, and that of the filter queue's scope.
\<close>

datatype monitor_job = Net_job job | Scope_cleanup | Queue_cleanup

type_synonym ('w, 'a) monitor_task = "('w listener, monitor_job, completion, 'a) task"

definition monitor_cleanup :: "('w, unit) monitor_task" where
  "monitor_cleanup =
     Local (\<lambda>l. l\<lparr>ml_ended := True\<rparr>) (\<lambda>_. Await Scope_cleanup (\<lambda>cp. Await Queue_cleanup (\<lambda>cp. returnT ())))"

text \<open>
  The callback runs in the spawned coroutines only.  At the end the stop callback, the scope
  and the session are destroyed.
\<close>

definition Bot_monitor_events_async ::
  "nat \<Rightarrow> 'j deps \<Rightarrow> 'w net \<Rightarrow> (exn \<Rightarrow> ('w listener, unit) act) \<Rightarrow> ('w, unit) monitor_task" where
  "Bot_monitor_events_async fuel D N exception_handler =
     Local (\<lambda>l. case Client_new_websocket_session N (b_world (ml_bot l)) of (ws, w) \<Rightarrow>
              l\<lparr>ml_ws := ws, ml_bot := (ml_bot l)\<lparr>b_world := w\<rparr>\<rparr>)
       (\<lambda>l. case Client_new_websocket_session N (b_world (ml_bot l)) of (ws, w) \<Rightarrow>
        finallyT
          (bindT (map_jobs Net_job (Client_connect_websocket_async (b_client (ml_bot l)) ws
                    (''/all?sessionKey='' @ b_sess_key (ml_bot l)))) (\<lambda>_.
           bindT (act_task (updS register_stop)) (\<lambda>_.
           bindT (transform_done
                    (finallyT (map_jobs Net_job (monitor_work fuel D N exception_handler))
                      (bindT (map_jobs Net_job Client_schedule) (\<lambda>_. monitor_cleanup)))
                    (returnT ())) (\<lambda>_.
           Local id (\<lambda>l. if ml_stop l then Finished (Inl Stopped) else returnT ())))))
          (act_task (updS (\<lambda>l. l\<lparr>ml_callback := False, ml_bot := (ml_bot l)
             \<lparr>b_world := ws_stream_drop N (wss_stream (ml_ws l)) (b_world (ml_bot l))\<rparr>\<rparr>))))"

text \<open>What runs for a task on the scope.\<close>

definition scope_coroutine ::
  "nat \<Rightarrow> (Event \<Rightarrow> ('w listener, unit) co) \<Rightarrow> (exn \<Rightarrow> ('w listener, unit) act) \<Rightarrow> scope_task \<Rightarrow>
   ('w listener, unit) co" where
  "scope_coroutine fuel callback exception_handler x =
     (case x of
        Handle_event ev \<Rightarrow> spawned_event fuel callback exception_handler ev
      | Close_session \<Rightarrow> close_session)"

section \<open>Waiting with a deadline\<close>

text \<open>
  \<open>stop_when\<close> stands for \<open>ex::stop_when\<close>, which runs two tasks at once and
  stops the first when the second ends.
\<close>

definition Bot_wait_async :: "'w net \<Rightarrow> nat \<Rightarrow> ('s, unit) co" where
  "Bot_wait_async N tp = Client_wait_async N tp"

definition Bot_wait_async_for :: "'w net \<Rightarrow> nat \<Rightarrow> nat \<Rightarrow> ('s, unit) co" where
  "Bot_wait_async_for N now dur = Client_wait_async N (now + dur)"

definition timeout_as_optional ::
  "'w net \<Rightarrow> (('s, 'q, 'r, 'a) task \<Rightarrow> ('t, unit) co \<Rightarrow> ('u, 'p, 'v, 'a) task) \<Rightarrow>
   ('s, 'q, 'r, 'a) task \<Rightarrow> nat \<Rightarrow> ('u, 'p, 'v, 'a option) task" where
  "timeout_as_optional N stop_when t deadline =
     transform_done (mapT Some (stop_when t (Bot_wait_async N deadline))) (returnT None)"

section \<open>Running them alone\<close>

text \<open>The network completes what a task of the listener awaits.\<close>

definition listener_answer :: "'w net \<Rightarrow> job \<Rightarrow> 'w listener \<Rightarrow> completion \<times> 'w listener" where
  "listener_answer N q l =
     (case perform_job N q (b_world (ml_bot l)) of
        (cp, w) \<Rightarrow> (cp, l\<lparr>ml_bot := (ml_bot l)\<lparr>b_world := w\<rparr>\<rparr>))"

text \<open>The cleanup of a scope has no result and cannot fail.\<close>

definition monitor_answer :: "'w net \<Rightarrow> monitor_job \<Rightarrow> 'w listener \<Rightarrow> completion \<times> 'w listener" where
  "monitor_answer N q l =
     (case q of
        Net_job j \<Rightarrow> listener_answer N j l
      | _ \<Rightarrow> (\<lparr>cp_exception = None, cp_value = [], cp_error = 0, cp_stop = False\<rparr>, l))"

lemma run_catchT [task_simps]:
  "run_task d (catchT t h) = catchS (run_task d t) (\<lambda>e. run_task d (h e))"
  by (rule ext) (auto simp: catchT_def run_thenT catchS_def split: prod.splits sum.splits failure.splits)

lemma run_transform_done:
  "run_task d (transform_done t other) l =
     (case run_task d t l of (r, l') \<Rightarrow> if r = Inl Stopped then run_task d other l' else (r, l'))"
  by (simp add: transform_done_def run_thenT split: prod.split)

lemma run_captured:
  "run_task d (captured t) l = (if ml_closure l then run_task d t l else (Inl Undefined_behaviour, l))"
  by (simp add: captured_def)

text \<open>
  A timed wait completes with a value, nothing when it was stopped or its time ran out: it is
  never stopped itself.
\<close>

lemma timeout_never_stopped:
  "fst (run_task d (timeout_as_optional N stop_when t deadline) s) \<noteq> Inl Stopped"
  by (auto simp: timeout_as_optional_def run_transform_done returnT_def split: prod.split)

section \<open>Dispatch\<close>

lemma event_task_alone:
  assumes "ml_closure l" and "filter_event fuel ev (ml_queue l) = (Inr False, q)"
    and "run_task d (callback ev) (l\<lparr>ml_queue := q\<rparr>) = (r, l')" and "ml_closure l'"
  shows "run_task d (event_task fuel callback handler ev) l =
    (case r of
       Inl Stopped \<Rightarrow> run_task d (catchT (captured (WebsocketSession_close_async (ml_ws l')))
                        (\<lambda>e. captured (act_task (handler e)))) l'
     | Inl (Throw e) \<Rightarrow> handler e l'
     | _ \<Rightarrow> (r, l'))"
  using assms
  by (simp add: event_task_def run_catchT run_bindT run_captured run_transform_done run_act_task
      catchS_def bindS_def on_ml_queue_def captured_def split: sum.split failure.split)

text \<open>
  C12: while the closure it runs on exists, the task of an event hands
  it to one receiver.  The oldest waiter that accepts the event gets it, and neither the
  callback nor the handler is called; if no waiter accepts it the callback gets it, and the
  handler is called if the callback throws; if a waiter's filter throws, the handler gets the
  exception and the event goes nowhere.\<close>

theorem event_dispatched_once:
  assumes "queue_rep (ml_queue l) xs" and "length xs < fuel" and "ml_closure l"
    and "\<forall>l. ml_closure l \<longrightarrow> ml_closure (snd (run_task d (callback ev) l))"
  shows "case first_match (\<lambda>p. node_matches ev p (ml_queue l)) xs of
      Inr (Some n) \<Rightarrow> (\<exists>q. run_task d (event_task fuel callback handler ev) l = (Inr (), l\<lparr>ml_queue := q\<rparr>) \<and>
        queue_rep q (remove1 n xs) \<and> fq_posts q = fq_posts (ml_queue l) @ [(n, Some ev)])
    | Inr None \<Rightarrow> (\<exists>q r l'. queue_rep q xs \<and> fq_posts q = fq_posts (ml_queue l) \<and>
        run_task d (callback ev) (l\<lparr>ml_queue := q\<rparr>) = (r, l') \<and>
        (r \<noteq> Inl Stopped \<longrightarrow> run_task d (event_task fuel callback handler ev) l =
           (case r of Inl (Throw e) \<Rightarrow> handler e l' | _ \<Rightarrow> (r, l'))))
    | Inl (Throw e) \<Rightarrow> (\<exists>q. queue_rep q xs \<and> fq_posts q = fq_posts (ml_queue l) \<and>
        run_task d (event_task fuel callback handler ev) l = handler e (l\<lparr>ml_queue := q\<rparr>))
    | Inl f \<Rightarrow> fst (run_task d (event_task fuel callback handler ev) l) = Inl f"
proof -
  let ?q = "(ml_queue l)\<lparr>fq_locked := False\<rparr>"
  note run = event_task_def run_catchT run_bindT run_captured run_act_task catchS_def bindS_def on_ml_queue_def
  show ?thesis
  proof (cases "first_match (\<lambda>p. node_matches ev p (ml_queue l)) xs")
    case (Inl f)
    from filter_event_throws [OF assms(1,2) Inl]
    have "filter_event fuel ev (ml_queue l) = (Inl f, ?q)" .
    with assms(1,3) Inl show ?thesis by (cases f) (auto simp: run intro!: exI [of _ ?q])
  next
    case (Inr found)
    show ?thesis
    proof (cases found)
      case None
      with filter_event_none [OF assms(1,2)] Inr
      have none: "filter_event fuel ev (ml_queue l) = (Inr False, ?q)" by simp
      obtain r l' where cb: "run_task d (callback ev) (l\<lparr>ml_queue := ?q\<rparr>) = (r, l')" by fastforce
      have "ml_closure l'" using spec [OF assms(4), of "l\<lparr>ml_queue := ?q\<rparr>"] assms(3) cb by simp
      note alone = event_task_alone [of l fuel ev ?q d callback r l' handler, OF assms(3) none cb this]
      have "r \<noteq> Inl Stopped \<Longrightarrow> run_task d (event_task fuel callback handler ev) l =
          (case r of Inl (Throw e) \<Rightarrow> handler e l' | _ \<Rightarrow> (r, l'))"
        unfolding alone by (auto split: sum.split failure.split)
      with assms(1) cb None Inr show ?thesis by (auto intro!: exI [of _ ?q])
    next
      case (Some n)
      with filter_event_found [OF assms(1,2)] Inr obtain q where
        "filter_event fuel ev (ml_queue l) = (Inr True, q)" "queue_rep q (remove1 n xs)"
        "fq_posts q = fq_posts (ml_queue l) @ [(n, Some ev)]" by metis
      with assms(3) Some Inr show ?thesis by (auto simp: run returnT_def)
    qed
  qed
qed

definition example_listener :: "peer Bot \<Rightarrow> FilterQueue \<Rightarrow> peer listener" where
  "example_listener b q =
     \<lparr>ml_bot = b, ml_queue = q, ml_ws = \<lparr>wss_stream = 1, wss_buffer = []\<rparr>, ml_stop = False,
      ml_callback = False, ml_spawned = [], ml_ended = False, ml_handled = [], ml_closure = True\<rparr>"

lemma example_listener_queue: "ml_queue (example_listener b q) = q"
  by (simp add: example_listener_def)

lemma example_first_match:
  "first_match (\<lambda>p. node_matches ev p example_queue) [10, 20] = Inr (Some 20)"
  by (simp add: example_queue_def example_waiter_def node_matches_def load_def)

theorem event_dispatched_once_witness:
  "\<exists>q. run_task (listener_answer peer_net)
       (event_task 3 (\<lambda>ev. Finished (throw (User_exception 1))) (\<lambda>e. returnS ()) example_read)
       (example_listener (session_bot []) example_queue) =
       (Inr (), (example_listener (session_bot []) example_queue)\<lparr>ml_queue := q\<rparr>) \<and>
     queue_rep q (remove1 20 [10, 20]) \<and> fq_posts q = fq_posts example_queue @ [(20, Some example_read)]"
proof -
  let ?l = "example_listener (session_bot []) example_queue"
  have "queue_rep (ml_queue ?l) [10, 20]" "length [10, 20 :: nat] < 3" "ml_closure ?l"
    "\<forall>l. ml_closure l \<longrightarrow> ml_closure (snd (run_task (listener_answer peer_net)
       ((\<lambda>ev. Finished (throw (User_exception 1))) example_read) l))"
    by (simp_all add: example_listener_def example_queue_rep)
  from event_dispatched_once [where callback = "\<lambda>ev. Finished (throw (User_exception 1))"
      and ev = example_read and handler = "\<lambda>e. returnS ()", OF this]
  show ?thesis by (simp only: example_listener_queue example_first_match sum.case option.case)
qed

section \<open>The end of the loop\<close>

text \<open>What a frame gives: an event of the bot at the address \<open>a\<close>, or a failure.\<close>

definition frame_event :: "'j deps \<Rightarrow> nat \<Rightarrow> string \<Rightarrow> Event res" where
  "frame_event D a text =
     (let json = sj_parse D text
      in bindE (check_json D json) (\<lambda>_.
         bindE (json_value json) (\<lambda>j.
         bindE (Event_from_json (segment_fuel (sj_max_depth D)) D j) (\<lambda>ev.
         Inr (Event_set_bot a ev)))))"

definition accepted :: "'j deps \<Rightarrow> nat \<Rightarrow> string list \<Rightarrow> Event list" where
  "accepted D a ts = concat (map (\<lambda>t. case frame_event D a t of Inr ev \<Rightarrow> [ev] | Inl _ \<Rightarrow> []) ts)"

definition rejected :: "'j deps \<Rightarrow> nat \<Rightarrow> string list \<Rightarrow> exn list" where
  "rejected D a ts = concat (map (\<lambda>t. case frame_event D a t of Inl (Throw e) \<Rightarrow> [e] | _ \<Rightarrow> []) ts)"

lemma accepted_rejected_Cons:
  "accepted D a (t # ts) = accepted D a [t] @ accepted D a ts"
  "rejected D a (t # ts) = rejected D a [t] @ rejected D a ts"
  "accepted D a [] = []" "rejected D a [] = []"
  by (simp_all add: accepted_def rejected_def)

text \<open>
  What the loop depends on: the frames to come, the bot's address, the session, the stop
  request and the records of what it has done.
\<close>

abbreviation loop_view ::
  "('w \<Rightarrow> string list) \<Rightarrow> 'w listener \<Rightarrow>
   string list \<times> nat \<times> WebsocketSession \<times> bool \<times> scope_task list \<times> bool \<times> exn list" where
  "loop_view frames \<equiv> \<lambda>l. (frames (b_world (ml_bot l)), b_addr (ml_bot l), ml_ws l, ml_stop l,
     ml_spawned l, ml_ended l, ml_handled l)"

lemma accept_frame_effect:
  assumes "accept_frame D t l = (r, l')"
  shows "case frame_event D (b_addr (ml_bot l)) t of
      Inr ev \<Rightarrow> r = Inr () \<and> loop_view frames l' = loop_view frames (scope_spawn (Handle_event ev) l)
    | Inl f \<Rightarrow> r = Inl f \<and> loop_view frames l' = loop_view frames l"
  using assms
  by (auto simp: accept_frame_def frame_event_def scope_spawn_def Let_def with_closure_def bindS_def on_ml_bot_def
      updS_def liftS_def Bot_parse_event_def askS_def bindE_def split: prod.splits sum.splits if_splits)

lemma settles_on_ml_bot: "settles m Q \<Longrightarrow> settles (on_ml_bot m) Q"
  by (auto simp: settles_def on_ml_bot_def split: prod.split) (metis fst_conv)+

lemma settles_with_closure: "settles m Q \<Longrightarrow> settles (with_closure m) Q"
  by (auto simp: settles_def with_closure_def split: prod.split) (metis fst_conv)+

context json_dom
begin

lemma settles_accept_frame: "settles (accept_frame D text) (\<lambda>_. True)"
proof -
  have event: "settles (Bot_parse_event D j) (\<lambda>_. True)" if "depth j \<le> sj_max_depth D" for j
    unfolding Bot_parse_event_def
    using Event_from_json_settled [OF that]
    by (intro settles_intros graceful_bindE fuelled_bindE) simp_all
  have body: "settles (bindS (liftS (json_value (sj_parse D text))) (\<lambda>j.
      bindS (on_ml_bot (Bot_parse_event D j)) (\<lambda>ev.
      updS (scope_spawn (Handle_event ev))))) (\<lambda>_. True)"
    by (rule settles_bindS [where P = "\<lambda>j. depth j \<le> sj_max_depth D"],
        (rule settles_liftS; auto simp: json_value_def depth_parse intro!: graceful_intros fuel_intros),
        rule settles_bindS [OF settles_on_ml_bot [OF event]])
      (simp_all add: settles_updS)
  show ?thesis
    unfolding accept_frame_def Let_def
    by (rule settles_bindS [where P = "\<lambda>_. True"])
      (simp_all add: settles_liftS settled_check_json settles_with_closure [OF body])
qed

end

lemma run_read_async:
  "run_task (listener_answer N) (focusT ml_ws (\<lambda>ws l. l\<lparr>ml_ws := ws\<rparr>) (WebsocketSession_read_async N ws)) l =
     (case ws_read N (wss_stream ws) (b_world (ml_bot l)) of ((ec, bytes), w) \<Rightarrow>
        let buffer = wss_buffer (ml_ws l) @ bytes; l' = l\<lparr>ml_bot := (ml_bot l)\<lparr>b_world := w\<rparr>\<rparr>
        in if ec = ws_closed N \<or> ec = sys_operation_canceled N
           then (Inl Stopped, l'\<lparr>ml_ws := (ml_ws l)\<lparr>wss_buffer := buffer\<rparr>\<rparr>)
           else if ec \<noteq> 0 then (throw (System_error ec), l'\<lparr>ml_ws := (ml_ws l)\<lparr>wss_buffer := buffer\<rparr>\<rparr>)
           else (Inr buffer, l'\<lparr>ml_ws := (ml_ws l)\<lparr>wss_buffer := []\<rparr>\<rparr>))"
  by (auto simp: WebsocketSession_read_async_def listener_answer_def WebsocketReadAwaiter_await_resume_def
      act_task_def Let_def returnT_def throw_def split: prod.split)

text \<open>An exception handler that returns, and leaves alone what the loop depends on.\<close>

definition plain_handler :: "('w \<Rightarrow> string list) \<Rightarrow> (exn \<Rightarrow> ('w listener, unit) act) \<Rightarrow> bool" where
  "plain_handler frames handler \<longleftrightarrow>
     (\<forall>e. preserves (loop_view frames) (handler e) \<and> (\<forall>l. fst (handler e l) = Inr ()))"

lemma plain_handlerD:
  assumes "plain_handler frames handler"
  obtains l' where "handler e l = (Inr (), l')" "loop_view frames l' = loop_view frames l"
proof (cases "handler e l")
  case (Pair r l')
  with assms have "r = Inr ()" by (metis plain_handler_def fst_conv)
  moreover have "loop_view frames l' = loop_view frames l"
    using assms preservesD [where view = "loop_view frames" and m = "handler e", OF _ Pair]
    by (simp add: plain_handler_def)
  ultimately show thesis using that Pair by simp
qed

context frame_source
begin

lemma work_round_next:
  assumes "json_dom D depth" and "plain_handler frames handler"
    and "frames (b_world (ml_bot l)) = t # ts" and "wss_buffer (ml_ws l) = []"
    and "ws_closed N \<noteq> 0" and "sys_operation_canceled N \<noteq> 0" and "\<not> ml_ended l"
  shows "\<exists>l'. run_task (listener_answer N) (work_round D N handler) l = (Inr (), l') \<and>
    loop_view frames l' = (ts, b_addr (ml_bot l), ml_ws l, ml_stop l,
      ml_spawned l @ map Handle_event (accepted D (b_addr (ml_bot l)) [t]), False,
      ml_handled l @ rejected D (b_addr (ml_bot l)) [t])"
proof -
  obtain w where w: "ws_read N (wss_stream (ml_ws l)) (b_world (ml_bot l)) = ((0, t), w)" "frames w = ts"
    using next_frame [OF assms(3)] by blast
  let ?l1 = "l\<lparr>ml_bot := (ml_bot l)\<lparr>b_world := w\<rparr>, ml_ws := (ml_ws l)\<lparr>wss_buffer := []\<rparr>\<rparr>"
  have ws: "(ml_ws l)\<lparr>wss_buffer := []\<rparr> = ml_ws l" using assms(4) by (cases "ml_ws l") simp
  obtain r l2 where acc: "accept_frame D t ?l1 = (r, l2)" by fastforce
  note effect = accept_frame_effect [OF acc, of frames]
  have run: "run_task (listener_answer N) (work_round D N handler) l =
      catchS (\<lambda>_. (r, l2)) (handle_exception handler) l"
    using w assms(4-6) acc
    by (simp add: work_round_def run_catchT run_bindT run_read_async run_act_task Let_def bindS_def catchS_def)
  have "graceful r" "fuelled r"
    using settlesD [OF json_dom.settles_accept_frame [OF assms(1)] acc] by simp_all
  then consider "r = Inr ()" | e where "r = throw e" using graceful_fuelled by (metis old.unit.exhaust)
  then show ?thesis
  proof cases
    case 1
    with effect obtain ev where "frame_event D (b_addr (ml_bot l)) t = Inr ev"
      "loop_view frames l2 = loop_view frames (scope_spawn (Handle_event ev) ?l1)"
      by (auto split: sum.splits)
    with run 1 w(2) ws assms(7) show ?thesis
      by (simp add: catchS_def accepted_def rejected_def scope_spawn_def)
  next
    case 2
    with effect have fails: "frame_event D (b_addr (ml_bot l)) t = Inl (Throw e)"
      "loop_view frames l2 = loop_view frames ?l1" by (auto simp: throw_def split: sum.splits)
    let ?l3 = "l2\<lparr>ml_handled := ml_handled l2 @ [e]\<rparr>"
    obtain l4 where "handler e ?l3 = (Inr (), l4)" "loop_view frames l4 = loop_view frames ?l3"
      by (rule plain_handlerD [OF assms(2)])
    with run 2 fails w(2) ws assms(7) show ?thesis
      by (simp add: catchS_def throw_def handle_exception_def bindS_def accepted_def rejected_def)
  qed
qed

lemma work_round_closed:
  assumes "ws_read N (wss_stream (ml_ws l)) (b_world (ml_bot l)) = ((ws_closed N, bytes), w)"
  shows "\<exists>l'. run_task (listener_answer N) (work_round D N handler) l = (Inl Stopped, l') \<and>
    ml_stop l' = ml_stop l \<and> ml_spawned l' = ml_spawned l \<and> ml_handled l' = ml_handled l"
  using assms
  by (simp add: work_round_def run_catchT run_bindT run_read_async Let_def bindS_def catchS_def)

lemma work_ends:
  assumes "json_dom D depth" and "plain_handler frames handler"
    and "\<forall>s w. frames w = [] \<longrightarrow> (\<exists>bytes w'. ws_read N s w = ((ws_closed N, bytes), w'))"
    and "ws_closed N \<noteq> 0" and "sys_operation_canceled N \<noteq> 0"
    and "wss_buffer (ml_ws l) = []" and "\<not> ml_ended l" and "length (frames (b_world (ml_bot l))) < fuel"
  shows "\<exists>l'. run_task (listener_answer N) (monitor_work fuel D N handler) l = (Inl Stopped, l') \<and>
    ml_stop l' = ml_stop l \<and>
    ml_spawned l' = ml_spawned l @ map Handle_event (accepted D (b_addr (ml_bot l)) (frames (b_world (ml_bot l)))) \<and>
    ml_handled l' = ml_handled l @ rejected D (b_addr (ml_bot l)) (frames (b_world (ml_bot l)))"
  using assms(6-8)
proof (induction "frames (b_world (ml_bot l))" arbitrary: l fuel)
  case Nil
  then obtain n where "fuel = Suc n" by (cases fuel) auto
  moreover obtain bytes w where
    "ws_read N (wss_stream (ml_ws l)) (b_world (ml_bot l)) = ((ws_closed N, bytes), w)"
    using assms(3) Nil(1) by metis
  from work_round_closed [OF this, of D handler] obtain l' where
    "run_task (listener_answer N) (work_round D N handler) l = (Inl Stopped, l')" "ml_stop l' = ml_stop l"
    "ml_spawned l' = ml_spawned l" "ml_handled l' = ml_handled l"
    by blast
  ultimately show ?case using Nil(1) [symmetric] by (simp add: run_bindT bindS_def accepted_rejected_Cons)
next
  case (Cons t ts)
  then obtain n where n: "fuel = Suc n" by (cases fuel) auto
  obtain l1 where l1: "run_task (listener_answer N) (work_round D N handler) l = (Inr (), l1)"
    "loop_view frames l1 = (ts, b_addr (ml_bot l), ml_ws l, ml_stop l,
      ml_spawned l @ map Handle_event (accepted D (b_addr (ml_bot l)) [t]), False,
      ml_handled l @ rejected D (b_addr (ml_bot l)) [t])"
    using work_round_next [OF assms(1,2) Cons(2) [symmetric] Cons.prems(1) assms(4,5) Cons.prems(2)] by blast
  have len: "length (frames (b_world (ml_bot l1))) < n"
    using l1(2) Cons.prems(3) n by (simp flip: Cons.hyps(2))
  obtain l' where "run_task (listener_answer N) (monitor_work n D N handler) l1 = (Inl Stopped, l')"
    "ml_stop l' = ml_stop l1"
    "ml_spawned l' = ml_spawned l1 @ map Handle_event (accepted D (b_addr (ml_bot l1)) ts)"
    "ml_handled l' = ml_handled l1 @ rejected D (b_addr (ml_bot l1)) ts"
    using Cons.hyps(1) [of l1 n] l1(2) Cons.prems(1) len by auto
  with l1 n show ?case
    unfolding Cons.hyps(2) [symmetric] accepted_rejected_Cons(1,2) [of D _ t ts]
    by (simp add: run_bindT bindS_def)
qed

end

lemma run_finallyT:
  "run_task d (finallyT t completion) l =
     (case run_task d t l of (r, l') \<Rightarrow>
        (case r of
           Inl f \<Rightarrow> if unwinds f then bindS (run_task d completion) (\<lambda>_. liftS (Inl f)) l' else (Inl f, l')
         | Inr x \<Rightarrow> bindS (run_task d completion) (\<lambda>_. returnS x) l'))"
  by (auto simp: finallyT_def run_thenT run_bindT run_returnT bindS_def split: prod.split sum.split)


text \<open>A peer that closes the connection after its frames.\<close>

definition closing_net :: "peer net" where
  "closing_net = peer_net\<lparr>ws_read := (\<lambda>s w. case peer_frames w of
     [] \<Rightarrow> ((1, []), w)
   | t # ts \<Rightarrow> ((0, t), w\<lparr>pr_frames := map (Pair 0) ts\<rparr>))\<rparr>"

lemma peer_frames_zero [simp]: "peer_frames (w\<lparr>pr_frames := map (Pair 0) ts\<rparr>) = ts"
  by (induction ts) (simp_all add: peer_frames_def)

interpretation closing_source: frame_source closing_net peer_frames
  by unfold_locales (auto simp: closing_net_def)

text \<open>The second frame is an event, the first is no JSON.\<close>

lemma frame_deps_frames:
  "frame_event frame_deps 1 event_text = Inr (Event_set_bot 1 example_read)"
  "frame_event frame_deps 1 ''?'' = throw (Simdjson_error (OTHER_ERROR 3))"
proof -
  have "sj_parse frame_deps event_text = Inr example_event"
    by (simp add: frame_deps_def table_deps_def ref_parse_def event_text_def example_event_def)
  moreover have "check_json frame_deps (Inr example_event) = Inr ()"
    by (simp add: check_json_def frame_deps_def table_deps_def example_event_def)
  ultimately show "frame_event frame_deps 1 event_text = Inr (Event_set_bot 1 example_read)"
    by (simp add: frame_event_def frame_deps_event)
  show "frame_event frame_deps 1 ''?'' = throw (Simdjson_error (OTHER_ERROR 3))"
    by (simp add: frame_event_def frame_deps_def table_deps_def ref_parse_def event_text_def check_json_def
        res_at_def throw_def)
qed


end
