(* ===== verification/Monitor_System.thy ===== *)
theory Monitor_System
  imports Event_Monitor_Async "HOL-Library.Sublist"
begin

text \<open>
  \<open>Bot::monitor_events_async\<close> (\<open>lib/src/core/bot.cpp\<close>) at work: its own
  coroutine, the coroutines it has spawned on its scope and the caller's stop request, in any
  order of completions.
\<close>

section \<open>The system\<close>

record 'w monitor =
  mon_main :: "('w, unit) monitor_task"
  mon_tasks :: "('w listener, unit) co list"
  mon_state :: "'w listener"

text \<open>
  Starting what has been spawned since the last step; each of these coroutines starts by
  waiting to be scheduled.
\<close>

definition start_spawned ::
  "nat \<Rightarrow> (Event \<Rightarrow> ('w listener, unit) co) \<Rightarrow> (exn \<Rightarrow> ('w listener, unit) act) \<Rightarrow> 'w monitor \<Rightarrow> 'w monitor" where
  "start_spawned fuel callback handler m =
     m\<lparr>mon_tasks := mon_tasks m @
         map (scope_coroutine fuel callback handler) (drop (length (mon_tasks m)) (ml_spawned (mon_state m)))\<rparr>"

definition monitor_begin ::
  "nat \<Rightarrow> nat \<Rightarrow> 'j deps \<Rightarrow> 'w net \<Rightarrow> (Event \<Rightarrow> ('w listener, unit) co) \<Rightarrow> (exn \<Rightarrow> ('w listener, unit) act) \<Rightarrow>
   'w listener \<Rightarrow> 'w monitor" where
  "monitor_begin rounds fuel D N callback handler l =
     (case advance (Bot_monitor_events_async rounds D N handler) l of (t, l') \<Rightarrow>
        start_spawned fuel callback handler \<lparr>mon_main = t, mon_tasks = [], mon_state = l'\<rparr>)"

text \<open>
  \<open>Complete_main\<close> and \<open>Complete_spawned\<close>: what the loop's coroutine, or a spawned
  one, awaits is completed and it goes on to its next suspension; \<open>Request_stop\<close>: the
  caller requests to stop.  The cleanup of the scope completes when all that was spawned has
  ended.
\<close>

datatype monitor_action = Complete_main | Complete_spawned nat | Request_stop

definition ended :: "('s, 'q, 'r, 'a) task \<Rightarrow> bool" where
  "ended t \<longleftrightarrow> (case t of Finished r \<Rightarrow> True | _ \<Rightarrow> False)"

fun monitor_enabled :: "monitor_action \<Rightarrow> 'w monitor \<Rightarrow> bool" where
  "monitor_enabled Complete_main m =
     (case mon_main m of Await q k \<Rightarrow> (q = Scope_cleanup \<longrightarrow> list_all ended (mon_tasks m)) | _ \<Rightarrow> False)"
| "monitor_enabled (Complete_spawned i) m = (i < length (mon_tasks m) \<and> \<not> ended (mon_tasks m ! i))"
| "monitor_enabled Request_stop m = (\<not> ml_stop (mon_state m))"

text \<open>
  A spawned coroutine may end by being stopped; an exception that leaves it ends the
  program.
\<close>

definition program_fails :: "bool \<Rightarrow> ('s, 'q, 'r, unit) task \<Rightarrow> failure option" where
  "program_fails detached t =
     (case t of
        Finished (Inl (Throw e)) \<Rightarrow> if detached then Some Terminate else None
      | Finished (Inl f) \<Rightarrow> if unwinds f then None else Some f
      | _ \<Rightarrow> None)"

fun monitor_step ::
  "nat \<Rightarrow> 'w net \<Rightarrow> (Event \<Rightarrow> ('w listener, unit) co) \<Rightarrow> (exn \<Rightarrow> ('w listener, unit) act) \<Rightarrow> monitor_action \<Rightarrow>
   'w monitor \<Rightarrow> 'w monitor res" where
  "monitor_step fuel N callback handler Complete_main m =
     (case complete (monitor_answer N) (mon_main m) (mon_state m) of (t, l) \<Rightarrow>
        (case program_fails False t of
           Some f \<Rightarrow> Inl f
         | None \<Rightarrow> Inr (start_spawned fuel callback handler (m\<lparr>mon_main := t, mon_state := l\<rparr>))))"
| "monitor_step fuel N callback handler (Complete_spawned i) m =
     (case complete (listener_answer N) (mon_tasks m ! i) (mon_state m) of (t, l) \<Rightarrow>
        (case program_fails True t of
           Some f \<Rightarrow> Inl f
         | None \<Rightarrow> Inr (start_spawned fuel callback handler (m\<lparr>mon_tasks := (mon_tasks m)[i := t], mon_state := l\<rparr>))))"
| "monitor_step fuel N callback handler Request_stop m =
     Inr (start_spawned fuel callback handler (m\<lparr>mon_state := request_stop (mon_state m)\<rparr>))"

text \<open>The runs that have not failed so far.\<close>

inductive monitor_run ::
  "nat \<Rightarrow> nat \<Rightarrow> 'j deps \<Rightarrow> 'w net \<Rightarrow> (Event \<Rightarrow> ('w listener, unit) co) \<Rightarrow> (exn \<Rightarrow> ('w listener, unit) act) \<Rightarrow>
   'w listener \<Rightarrow> 'w monitor \<Rightarrow> bool"
  for rounds fuel D N callback handler l where
  monitor_begins:
    "monitor_run rounds fuel D N callback handler l (monitor_begin rounds fuel D N callback handler l)"
| monitor_goes_on:
    "monitor_run rounds fuel D N callback handler l m \<Longrightarrow> monitor_enabled a m \<Longrightarrow>
     monitor_step fuel N callback handler a m = Inr m' \<Longrightarrow>
     monitor_run rounds fuel D N callback handler l m'"

section \<open>Steps of a task\<close>

text \<open>Every local step of the task relates the states before and after it by \<open>R\<close>.\<close>

primrec moves :: "('s \<Rightarrow> 's \<Rightarrow> bool) \<Rightarrow> ('s, 'q, 'r, 'a) task \<Rightarrow> bool" where
  "moves R (Finished r) = True"
| "moves R (Local u k) = (\<forall>s. R s (u s) \<and> moves R (k s))"
| "moves R (Await q k) = (\<forall>r. moves R (k r))"

named_theorems moves_intros \<open>rules for the local steps of tasks\<close>

lemma moves_bindT [moves_intros]: "moves R t \<Longrightarrow> (\<And>x. moves R (f x)) \<Longrightarrow> moves R (bindT t f)"
  by (induction t) (auto split: sum.split)

lemma moves_thenT: "moves R t \<Longrightarrow> (\<And>r. moves R (h r)) \<Longrightarrow> moves R (thenT t h)"
  by (induction t) auto

lemma moves_map_jobs [moves_intros]: "moves R t \<Longrightarrow> moves R (map_jobs f t)"
  by (induction t) auto

lemma moves_Finished [moves_intros]: "moves R (Finished r)" "moves R (returnT x)"
  by (simp_all add: returnT_def)

lemma moves_act_task [moves_intros]: "(\<And>s. R s (snd (m s))) \<Longrightarrow> moves R (act_task m)"
  by (simp add: act_task_def)

lemma moves_catchT [moves_intros]: "moves R t \<Longrightarrow> (\<And>e. moves R (h e)) \<Longrightarrow> moves R (catchT t h)"
  unfolding catchT_def by (rule moves_thenT) (auto split: sum.split failure.split)

lemma moves_transform_done [moves_intros]: "moves R t \<Longrightarrow> moves R other \<Longrightarrow> moves R (transform_done t other)"
  unfolding transform_done_def by (rule moves_thenT) auto

lemma moves_finallyT [moves_intros]: "moves R t \<Longrightarrow> moves R c \<Longrightarrow> moves R (finallyT t c)"
  unfolding finallyT_def
  by (rule moves_thenT) (auto split: sum.split intro!: moves_bindT moves_Finished)

lemma moves_focusT [moves_intros]: "(\<And>s x. R s (put x s)) \<Longrightarrow> moves R (focusT get put t)"
  by (induction t) auto

lemma moves_advance:
  assumes "reflp R" and "transp R"
  shows "moves R t \<Longrightarrow> advance t s = (t', s') \<Longrightarrow> R s s' \<and> moves R t'"
proof (induction t arbitrary: s)
  case (Local u k)
  then have "R s (u s)" "R (u s) s' \<and> moves R t'" by auto
  with assms(2) show ?case by (blast dest: transpD)
qed (use assms(1) in \<open>auto dest: reflpD\<close>)

lemma advance_settled: "advance t s = (t', s') \<Longrightarrow> t' \<noteq> Local u k"
  by (induction t arbitrary: s) auto

section \<open>What the loop's coroutine does\<close>

text \<open>
  It only adds to the spawned tasks, leaves the filter queue alone, and no closure exists
  when it is suspended.
\<close>

definition grows :: "'w listener \<Rightarrow> 'w listener \<Rightarrow> bool" where
  "grows l l' \<longleftrightarrow>
     prefix (ml_spawned l) (ml_spawned l') \<and> ml_queue l' = ml_queue l \<and> (ml_closure l' \<longrightarrow> ml_closure l)"

lemma grows_refl: "grows l l"
  by (simp add: grows_def)

lemma grows_preorder: "reflp grows" "transp grows"
  by (auto simp: grows_def reflp_def transp_def)

text \<open>A handler that does not reach into the monitor.\<close>

definition scope_view :: "'w listener \<Rightarrow> FilterQueue \<times> scope_task list \<times> bool" where
  "scope_view l = (ml_queue l, ml_spawned l, ml_closure l)"

lemma grows_view: "scope_view l' = scope_view l \<Longrightarrow> grows l l'"
  by (simp add: scope_view_def grows_def)

lemma grows_accept_frame: "grows l (snd (accept_frame D text l))"
  by (auto simp: grows_def accept_frame_def Let_def with_closure_def bindS_def on_ml_bot_def updS_def liftS_def
      scope_spawn_def Bot_parse_event_def askS_def split: prod.splits sum.splits)

lemma grows_handle_exception:
  assumes "\<forall>e. preserves scope_view (handler e)"
  shows "grows l (snd (handle_exception handler e l))"
proof -
  have "scope_view (snd (handler e (l\<lparr>ml_handled := ml_handled l @ [e]\<rparr>))) = scope_view (l\<lparr>ml_handled := ml_handled l @ [e]\<rparr>)"
    using assms by (simp add: preserves_snd)
  then show ?thesis by (simp add: handle_exception_def bindS_def scope_view_def grows_def)
qed

lemma moves_work:
  assumes "\<forall>e. preserves scope_view (handler e)"
  shows "moves grows (monitor_work rounds D N handler)"
proof (induction rounds)
  case (Suc n)
  have read: "moves grows (Local id (\<lambda>l. focusT ml_ws (\<lambda>ws l. l\<lparr>ml_ws := ws\<rparr>) (WebsocketSession_read_async N (ml_ws l))))"
    by (auto simp: grows_refl intro!: moves_focusT) (simp add: grows_def)
  have "moves grows (work_round D N handler)"
    unfolding work_round_def
    by (intro moves_intros read grows_accept_frame grows_handle_exception [OF assms])
  with Suc show ?case by (auto intro: moves_intros)
qed (simp add: grows_refl)

lemma moves_network:
  "moves grows (Client_connect_websocket_async c ws target)" "moves grows Client_schedule"
  by (simp_all add: Client_connect_websocket_async_def Client_schedule_def moves_intros)

lemma moves_cleanup: "moves grows monitor_cleanup"
  by (simp add: monitor_cleanup_def grows_def moves_intros)

lemma grows_register: "grows l (register_stop l)" "grows l (request_stop l)"
  by (simp_all add: register_stop_def request_stop_def scope_spawn_def grows_def Let_def)

lemma moves_monitor:
  assumes "\<forall>e. preserves scope_view (handler e)"
  shows "moves grows (Bot_monitor_events_async rounds D N handler)"
proof -
  have loop: "moves grows (bindT (transform_done
        (finallyT (map_jobs Net_job (monitor_work rounds D N handler))
          (bindT (map_jobs Net_job Client_schedule) (\<lambda>_. monitor_cleanup))) (returnT ()))
      (\<lambda>_. Local id (\<lambda>l. if ml_stop l then Finished (Inl Stopped) else returnT ())))"
    by (intro moves_intros moves_work [OF assms] moves_network moves_cleanup)
      (simp add: grows_refl moves_intros)
  have register: "moves grows (act_task (updS register_stop))"
    by (rule moves_act_task) (simp add: grows_register)
  have drop: "moves grows (act_task (updS (\<lambda>l. l\<lparr>ml_callback := False, ml_bot := (ml_bot l)
      \<lparr>b_world := ws_stream_drop N (wss_stream (ml_ws l)) (b_world (ml_bot l))\<rparr>\<rparr>)))"
    by (rule moves_act_task) (simp add: grows_def)
  have body: "moves grows (finallyT
      (bindT (map_jobs Net_job (Client_connect_websocket_async c ws target)) (\<lambda>_.
       bindT (act_task (updS register_stop)) (\<lambda>_.
       bindT (transform_done
          (finallyT (map_jobs Net_job (monitor_work rounds D N handler))
            (bindT (map_jobs Net_job Client_schedule) (\<lambda>_. monitor_cleanup))) (returnT ()))
        (\<lambda>_. Local id (\<lambda>l. if ml_stop l then Finished (Inl Stopped) else returnT ())))))
      (act_task (updS (\<lambda>l. l\<lparr>ml_callback := False, ml_bot := (ml_bot l)
        \<lparr>b_world := ws_stream_drop N (wss_stream (ml_ws l)) (b_world (ml_bot l))\<rparr>\<rparr>))))" for c ws target
    by (rule moves_finallyT [OF moves_bindT [OF moves_map_jobs [OF moves_network(1)] moves_bindT [OF register loop]] drop])
  show ?thesis
    unfolding Bot_monitor_events_async_def using body
    by (simp add: grows_def split: prod.split)
qed

text \<open>
  \<open>outcome Q t l\<close>: however \<open>t\<close> comes to its end from the state \<open>l\<close>, its
  outcome satisfies \<open>Q\<close>, provided that the others spawn no events while it is
  suspended and that the cleanup of the scope completes only if no events have been spawned.
\<close>

definition spawned_events :: "'w listener \<Rightarrow> scope_task list" where
  "spawned_events l = filter (\<lambda>x. x \<noteq> Close_session) (ml_spawned l)"

primrec outcome ::
  "('a res \<Rightarrow> 'w listener \<Rightarrow> bool) \<Rightarrow> ('w listener, monitor_job, 'r, 'a) task \<Rightarrow> 'w listener \<Rightarrow> bool" where
  "outcome Q (Finished r) = (\<lambda>l. Q r l)"
| "outcome Q (Local u k) = (\<lambda>l. outcome Q (k l) (u l))"
| "outcome Q (Await q k) = (\<lambda>l. \<forall>r l'. spawned_events l' = spawned_events l \<longrightarrow>
     (q = Scope_cleanup \<longrightarrow> spawned_events l = []) \<longrightarrow> outcome Q (k r) l')"

lemma outcome_any: "(\<And>r l. Q r l) \<Longrightarrow> outcome Q t l"
  by (induction t arbitrary: l) auto

lemma outcome_thenT: "outcome (\<lambda>r. outcome Q (h r)) t l \<Longrightarrow> outcome Q (thenT t h) l"
  by (induction t arbitrary: l) auto

lemma outcome_bindT:
  "outcome (\<lambda>r l. case r of Inl f \<Rightarrow> Q (Inl f) l | Inr x \<Rightarrow> outcome Q (f x) l) t l \<Longrightarrow> outcome Q (bindT t f) l"
  by (induction t arbitrary: l) (auto split: sum.splits)

lemma outcome_advance: "outcome Q t l \<Longrightarrow> advance t l = (t', l') \<Longrightarrow> outcome Q t' l'"
  by (induction t arbitrary: l) auto

text \<open>The coroutine ends, other than by failing the program, only without events.\<close>

definition no_events :: "'a res \<Rightarrow> 'w listener \<Rightarrow> bool" where
  "no_events r l \<longleftrightarrow> spawned_events l = [] \<or> (\<exists>f. r = Inl f \<and> \<not> unwinds f)"

lemma outcome_mono: "outcome Q t l \<Longrightarrow> (\<And>r l. Q r l \<Longrightarrow> Q' r l) \<Longrightarrow> outcome Q' t l"
  by (induction t arbitrary: l) auto

lemma outcome_finallyT:
  assumes "outcome P t l"
    and "\<And>r l. P r l \<Longrightarrow> outcome Q (case r of
        Inl f \<Rightarrow> if unwinds f then bindT c (\<lambda>_. Finished (Inl f)) else Finished (Inl f)
      | Inr x \<Rightarrow> bindT c (\<lambda>_. returnT x)) l"
  shows "outcome Q (finallyT t c) l"
  unfolding finallyT_def by (rule outcome_thenT, rule outcome_mono [OF assms(1)], rule assms(2))

lemma outcome_cleanup:
  assumes "\<And>l. spawned_events l = [] \<Longrightarrow> Q r l"
  shows "outcome Q (bindT (bindT (map_jobs Net_job Client_schedule) (\<lambda>_. monitor_cleanup)) (\<lambda>_. Finished r)) l"
  using assms by (simp add: Client_schedule_def returnT_def monitor_cleanup_def spawned_events_def)

lemma loop_outcome:
  "outcome no_events (transform_done
    (finallyT (map_jobs Net_job (monitor_work rounds D N handler))
      (bindT (map_jobs Net_job Client_schedule) (\<lambda>_. monitor_cleanup))) (returnT ())) l"
  unfolding transform_done_def finallyT_def
proof (rule outcome_thenT, rule outcome_thenT, rule outcome_any)
  fix r :: "unit res" and l :: "'a listener"
  show "outcome (\<lambda>r. outcome no_events (if r = Inl Stopped then returnT () else Finished r))
      (case r of
         Inl f \<Rightarrow> if unwinds f
           then bindT (bindT (map_jobs Net_job Client_schedule) (\<lambda>_. monitor_cleanup)) (\<lambda>_. Finished (Inl f))
           else Finished (Inl f)
       | Inr x \<Rightarrow> bindT (bindT (map_jobs Net_job Client_schedule) (\<lambda>_. monitor_cleanup)) (\<lambda>_. returnT x)) l"
    by (cases r) (auto simp: returnT_def no_events_def unwinds_def intro!: outcome_cleanup)
qed

lemma monitor_outcome:
  assumes "spawned_events l = []"
  shows "outcome no_events (Bot_monitor_events_async rounds D N handler) l"
proof -
  let ?loop = "transform_done
    (finallyT (map_jobs Net_job (monitor_work rounds D N handler))
      (bindT (map_jobs Net_job Client_schedule) (\<lambda>_. monitor_cleanup))) (returnT ())"
  let ?last = "Local id (\<lambda>l. if ml_stop l then Finished (Inl Stopped) else returnT ())"
  let ?drop = "act_task (updS (\<lambda>l :: 'a listener. l\<lparr>ml_callback := False, ml_bot := (ml_bot l)
      \<lparr>b_world := ws_stream_drop N (wss_stream (ml_ws l)) (b_world (ml_bot l))\<rparr>\<rparr>))"
  have after_loop: "outcome no_events (bindT ?loop (\<lambda>_. ?last)) l'" for l'
    by (rule outcome_bindT, rule outcome_mono [OF loop_outcome])
      (auto simp: no_events_def returnT_def split: sum.split)
  have events: "spawned_events (register_stop l') = spawned_events l'" for l' :: "'a listener"
    by (simp add: register_stop_def scope_spawn_def spawned_events_def Let_def)
  have body: "outcome no_events (bindT (map_jobs Net_job (Client_connect_websocket_async c ws target)) (\<lambda>_.
      bindT (act_task (updS register_stop)) (\<lambda>_. bindT ?loop (\<lambda>_. ?last)))) l'"
    if "spawned_events l' = []" for c ws target l'
    using that after_loop
    by (auto simp: Client_connect_websocket_async_def act_task_def no_events_def split: sum.split)
  have drop: "outcome no_events (case r of
        Inl f \<Rightarrow> if unwinds f then bindT ?drop (\<lambda>_. Finished (Inl f)) else Finished (Inl f)
      | Inr x \<Rightarrow> bindT ?drop (\<lambda>_. returnT x)) l'" if "no_events r l'" for r :: "unit res" and l'
    using that by (auto simp: no_events_def act_task_def returnT_def spawned_events_def split: sum.split)
  have "outcome no_events (finallyT (bindT (map_jobs Net_job (Client_connect_websocket_async c ws target)) (\<lambda>_.
      bindT (act_task (updS register_stop)) (\<lambda>_. bindT ?loop (\<lambda>_. ?last)))) ?drop) l'"
    if "spawned_events l' = []" for c ws target l'
    by (rule outcome_finallyT [OF body [OF that]], rule drop)
  with assms show ?thesis
    by (simp add: Bot_monitor_events_async_def spawned_events_def split: prod.split)
qed

section \<open>The invariant of the system\<close>

text \<open>
  The task of an event has not been scheduled yet, a task that closes the session changes
  nothing but the network.
\<close>

definition fits ::
  "nat \<Rightarrow> (Event \<Rightarrow> ('w listener, unit) co) \<Rightarrow> (exn \<Rightarrow> ('w listener, unit) act) \<Rightarrow> scope_task \<Rightarrow>
   ('w listener, unit) co \<Rightarrow> bool" where
  "fits fuel callback handler x t \<longleftrightarrow>
     (case x of
        Handle_event ev \<Rightarrow> t = spawned_event fuel callback handler ev
      | Close_session \<Rightarrow> moves (=) t)"

definition monitor_inv ::
  "nat \<Rightarrow> (Event \<Rightarrow> ('w listener, unit) co) \<Rightarrow> (exn \<Rightarrow> ('w listener, unit) act) \<Rightarrow> FilterQueue \<Rightarrow>
   'w monitor \<Rightarrow> bool" where
  "monitor_inv fuel callback handler queue m \<longleftrightarrow>
     ml_queue (mon_state m) = queue \<and> \<not> ml_closure (mon_state m) \<and>
     length (mon_tasks m) \<le> length (ml_spawned (mon_state m)) \<and>
     (\<forall>i < length (mon_tasks m). fits fuel callback handler (ml_spawned (mon_state m) ! i) (mon_tasks m ! i)) \<and>
     moves grows (mon_main m) \<and> outcome no_events (mon_main m) (mon_state m) \<and>
     (\<forall>u k. mon_main m \<noteq> Local u k) \<and> program_fails False (mon_main m) = None"

lemma fits_scope_coroutine: "fits fuel callback handler x (scope_coroutine fuel callback handler x)"
  by (cases x) (simp_all add: fits_def scope_coroutine_def close_session_def Client_schedule_def returnT_def
      WebsocketSession_close_async_def)

lemma start_spawned_inv:
  assumes inv: "monitor_inv fuel callback handler queue m"
  shows "monitor_inv fuel callback handler queue (start_spawned fuel callback handler m) \<and>
    length (mon_tasks (start_spawned fuel callback handler m)) = length (ml_spawned (mon_state m))"
proof -
  let ?n = "length (mon_tasks m)" and ?xs = "ml_spawned (mon_state m)"
  let ?ts = "mon_tasks m @ map (scope_coroutine fuel callback handler) (drop ?n ?xs)"
  have n: "?n \<le> length ?xs" using inv by (simp add: monitor_inv_def)
  have "fits fuel callback handler (?xs ! i) (?ts ! i)" if "i < length ?xs" for i
  proof (cases "i < ?n")
    case True
    with inv show ?thesis by (simp add: monitor_inv_def nth_append)
  next
    case False
    with that n have "?ts ! i = scope_coroutine fuel callback handler (?xs ! i)" by (simp add: nth_append)
    with fits_scope_coroutine show ?thesis by simp
  qed
  with inv n show ?thesis by (auto simp: monitor_inv_def start_spawned_def)
qed

lemma spawned_event_dead:
  assumes "\<not> ml_closure l"
  shows "\<exists>l'. complete (listener_answer N) (spawned_event fuel callback handler ev) l =
    (Finished (Inl Undefined_behaviour), l')"
  using assms
  by (simp add: spawned_event_def Client_schedule_def returnT_def complete_def listener_answer_def event_task_def
      catchT_def captured_def split: prod.split)

lemma answers_leave_scope:
  "listener_answer N j l = (r, l') \<Longrightarrow> scope_view l' = scope_view l"
  "monitor_answer N q l = (r, l') \<Longrightarrow> scope_view l' = scope_view l"
  by (auto simp: listener_answer_def monitor_answer_def scope_view_def split: prod.splits monitor_job.splits)

lemma event_not_ended: "\<not> ended (spawned_event fuel callback handler ev)"
  by (simp add: ended_def spawned_event_def Client_schedule_def)

lemma all_ended_no_events:
  assumes inv: "monitor_inv fuel callback handler queue m" and len: "length (mon_tasks m) = length (ml_spawned (mon_state m))"
    and all: "list_all ended (mon_tasks m)"
  shows "spawned_events (mon_state m) = []"
proof (rule ccontr)
  assume "spawned_events (mon_state m) \<noteq> []"
  then obtain x where "x \<in> set (ml_spawned (mon_state m))" "x \<noteq> Close_session"
    by (auto simp: spawned_events_def filter_empty_conv)
  then obtain i ev where i: "i < length (mon_tasks m)" "ml_spawned (mon_state m) ! i = Handle_event ev"
    using len by (metis in_set_conv_nth scope_task.exhaust)
  with inv have "fits fuel callback handler (Handle_event ev) (mon_tasks m ! i)" by (auto simp: monitor_inv_def)
  then have "mon_tasks m ! i = spawned_event fuel callback handler ev" by (simp add: fits_def)
  with all i(1) event_not_ended show False by (metis list_all_length)
qed

lemma same_spawned:
  assumes inv: "monitor_inv fuel callback handler queue m" and grows: "grows (mon_state m) l"
    and events: "spawned_events l = spawned_events (mon_state m)"
  shows "monitor_inv fuel callback handler queue (m\<lparr>mon_state := l\<rparr>)"
proof -
  have out: "outcome no_events (mon_main m) l"
    using inv events by (cases "mon_main m") (auto simp: monitor_inv_def no_events_def)
  from grows obtain ys where "ml_spawned l = ml_spawned (mon_state m) @ ys" by (auto simp: grows_def elim: prefixE)
  with inv grows out show ?thesis by (auto simp: monitor_inv_def grows_def nth_append)
qed

lemma complete_main_inv:
  assumes inv: "monitor_inv fuel callback handler queue m" and len: "length (mon_tasks m) = length (ml_spawned (mon_state m))"
    and en: "monitor_enabled Complete_main m"
    and step: "complete (monitor_answer N) (mon_main m) (mon_state m) = (t, l)" "program_fails False t = None"
  shows "monitor_inv fuel callback handler queue (m\<lparr>mon_main := t, mon_state := l\<rparr>)"
proof -
  from en obtain q k where main: "mon_main m = Await q k" "q = Scope_cleanup \<Longrightarrow> list_all ended (mon_tasks m)"
    by (auto split: task.splits)
  obtain r l1 where ans: "monitor_answer N q (mon_state m) = (r, l1)" by fastforce
  with step(1) main(1) have adv: "advance (k r) l1 = (t, l)" by (simp add: complete_def)
  have same: "scope_view l1 = scope_view (mon_state m)" using ans by (rule answers_leave_scope)
  have "moves grows (k r)" using inv main(1) by (simp add: monitor_inv_def)
  from moves_advance [OF grows_preorder this adv] have g: "grows l1 l" "moves grows t" by auto
  have "outcome no_events (k r) l1"
    using inv main same all_ended_no_events [OF inv len]
    by (auto simp: monitor_inv_def scope_view_def spawned_events_def)
  then have out: "outcome no_events t l" using adv by (rule outcome_advance)
  have "grows (mon_state m) l"
    using g(1) same by (simp add: grows_def scope_view_def)
  then obtain ys where "ml_spawned l = ml_spawned (mon_state m) @ ys" "ml_queue l = ml_queue (mon_state m)"
    "ml_closure l \<longrightarrow> ml_closure (mon_state m)" by (auto simp: grows_def elim: prefixE)
  with inv g(2) out step(2) advance_settled [OF adv] show ?thesis
    by (auto simp: monitor_inv_def nth_append)
qed

lemma complete_spawned_inv:
  assumes inv: "monitor_inv fuel callback handler queue m"
    and en: "monitor_enabled (Complete_spawned i) m" and len: "length (mon_tasks m) = length (ml_spawned (mon_state m))"
    and step: "complete (listener_answer N) (mon_tasks m ! i) (mon_state m) = (t, l)" "program_fails True t = None"
  shows "monitor_inv fuel callback handler queue (m\<lparr>mon_tasks := (mon_tasks m)[i := t], mon_state := l\<rparr>)"
proof (cases "ml_spawned (mon_state m) ! i")
  case (Handle_event ev)
  with inv en have "fits fuel callback handler (Handle_event ev) (mon_tasks m ! i)" "\<not> ml_closure (mon_state m)"
    by (auto simp: monitor_inv_def)
  with step spawned_event_dead [of "mon_state m" N fuel callback handler ev] have False
    by (auto simp: program_fails_def unwinds_def fits_def)
  then show ?thesis ..
next
  case Close_session
  with inv en have "fits fuel callback handler Close_session (mon_tasks m ! i)" by (auto simp: monitor_inv_def)
  then have quiet: "moves (=) (mon_tasks m ! i)" by (simp add: fits_def)
  have res: "moves (=) t \<and> scope_view l = scope_view (mon_state m)"
  proof (cases "mon_tasks m ! i")
    case (Await q k)
    obtain r l1 where ans: "listener_answer N q (mon_state m) = (r, l1)" by fastforce
    with step(1) Await have adv: "advance (k r) l1 = (t, l)" by (simp add: complete_def)
    have "moves (=) (k r)" using quiet Await by simp
    from moves_advance [OF _ _ this adv] have "l1 = l" "moves (=) t" by (simp_all add: reflp_def transp_def)
    with answers_leave_scope(1) [OF ans] show ?thesis by simp
  qed (use step(1) quiet in \<open>simp_all add: complete_def\<close>)
  then have "monitor_inv fuel callback handler queue (m\<lparr>mon_state := l\<rparr>)"
    by (intro same_spawned [OF inv grows_view]) (simp_all add: spawned_events_def scope_view_def)
  moreover have "fits fuel callback handler (ml_spawned l ! i) t"
    using res Close_session by (simp add: fits_def scope_view_def)
  ultimately show ?thesis
    using en by (simp add: monitor_inv_def nth_list_update)
qed

lemma request_stop_events: "spawned_events (request_stop l) = spawned_events l"
  by (simp add: request_stop_def scope_spawn_def spawned_events_def Let_def)

lemma monitor_run_inv:
  assumes "monitor_run rounds fuel D N callback handler l m"
    and "ml_spawned l = []" "\<not> ml_closure l" and handler: "\<forall>e. preserves scope_view (handler e)"
  shows "monitor_inv fuel callback handler (ml_queue l) m \<and> length (mon_tasks m) = length (ml_spawned (mon_state m))"
  using assms(1)
proof (induction rule: monitor_run.induct)
  case monitor_begins
  obtain t l' where adv: "advance (Bot_monitor_events_async rounds D N handler) l = (t, l')" by fastforce
  from moves_advance [OF grows_preorder moves_monitor [OF handler] adv] have g: "grows l l'" "moves grows t" by auto
  have "outcome no_events (Bot_monitor_events_async rounds D N handler) l"
    using assms(2) by (intro monitor_outcome) (simp add: spawned_events_def)
  then have out: "outcome no_events t l'" using adv by (rule outcome_advance)
  have main: "program_fails False t = None"
    using adv by (auto simp: Bot_monitor_events_async_def Client_connect_websocket_async_def program_fails_def
        finallyT_def split: prod.splits)
  have "monitor_inv fuel callback handler (ml_queue l) \<lparr>mon_main = t, mon_tasks = [], mon_state = l'\<rparr>"
    using g out main assms(3) advance_settled [OF adv] by (auto simp: monitor_inv_def grows_def)
  from start_spawned_inv [OF this] adv show ?case by (simp add: monitor_begin_def start_spawned_def)
next
  case (monitor_goes_on m a m')
  then have inv: "monitor_inv fuel callback handler (ml_queue l) m"
    and len: "length (mon_tasks m) = length (ml_spawned (mon_state m))" by auto
  have "\<exists>m1. m' = start_spawned fuel callback handler m1 \<and> monitor_inv fuel callback handler (ml_queue l) m1"
  proof (cases a)
    case Complete_main
    with monitor_goes_on.hyps(2,3) complete_main_inv [OF inv len, of N] show ?thesis
      by (auto split: prod.splits option.splits)
  next
    case (Complete_spawned i)
    with monitor_goes_on.hyps(2,3) complete_spawned_inv [OF inv _ len, of i N] show ?thesis
      by (auto split: prod.splits option.splits)
  next
    case Request_stop
    with monitor_goes_on.hyps(3) same_spawned [OF inv grows_register(2) request_stop_events] show ?thesis by auto
  qed
  then obtain m1 where m1: "m' = start_spawned fuel callback handler m1"
    "monitor_inv fuel callback handler (ml_queue l) m1" by blast
  moreover have "mon_state m' = mon_state m1" using m1(1) by (simp add: start_spawned_def)
  ultimately show ?case using start_spawned_inv [OF m1(2)] by simp
qed

text \<open>
  C18: \<open>monitor_events_async\<close> never delivers an event.  The coroutine
  of an event is a call of a closure that no longer exists when it is scheduled.  So in
  every run of the monitor, with any order of completions, any callback and stop requests at
  any time, as long as the program has not failed: the filter queue is as it was; each
  event that was accepted waits in a coroutine that can be resumed, and resuming it is
  undefined behaviour; and the monitor's own coroutine, which waits for the others, has not
  ended if there is one.\<close>

theorem dispatch_uses_dead_closure:
  assumes "monitor_run rounds fuel D N callback handler l m"
    and "ml_spawned l = []" "\<not> ml_closure l" and "\<forall>e. preserves scope_view (handler e)"
  shows "ml_queue (mon_state m) = ml_queue l \<and> length (mon_tasks m) = length (ml_spawned (mon_state m)) \<and>
    (\<forall>i ev. i < length (mon_tasks m) \<longrightarrow> ml_spawned (mon_state m) ! i = Handle_event ev \<longrightarrow>
       monitor_enabled (Complete_spawned i) m \<and>
       monitor_step fuel N callback handler (Complete_spawned i) m = Inl Undefined_behaviour) \<and>
    (ended (mon_main m) \<longrightarrow> (\<forall>ev. Handle_event ev \<notin> set (ml_spawned (mon_state m))))"
proof -
  from monitor_run_inv [OF assms] have inv: "monitor_inv fuel callback handler (ml_queue l) m"
    and len: "length (mon_tasks m) = length (ml_spawned (mon_state m))" by auto
  have "monitor_enabled (Complete_spawned i) m \<and>
      monitor_step fuel N callback handler (Complete_spawned i) m = Inl Undefined_behaviour"
    if i: "i < length (mon_tasks m)" "ml_spawned (mon_state m) ! i = Handle_event ev" for i ev
  proof -
    from inv i have "fits fuel callback handler (Handle_event ev) (mon_tasks m ! i)" "\<not> ml_closure (mon_state m)"
      by (auto simp: monitor_inv_def)
    then have "mon_tasks m ! i = spawned_event fuel callback handler ev" "\<not> ml_closure (mon_state m)"
      by (simp_all add: fits_def)
    with spawned_event_dead [of "mon_state m" N fuel callback handler ev] i(1) event_not_ended show ?thesis
      by (auto simp: program_fails_def unwinds_def)
  qed
  moreover have "Handle_event ev \<notin> set (ml_spawned (mon_state m))" if "ended (mon_main m)" for ev
  proof -
    from that obtain r where r: "mon_main m = Finished r" by (auto simp: ended_def split: task.splits)
    have "\<not> (\<exists>f. r = Inl f \<and> \<not> unwinds f)"
      using inv r by (auto simp: monitor_inv_def program_fails_def unwinds_def split: failure.splits)
    with inv r have "spawned_events (mon_state m) = []" by (auto simp: monitor_inv_def no_events_def)
    then show ?thesis by (auto simp: spawned_events_def filter_empty_conv)
  qed
  ultimately show ?thesis using inv len by (auto simp: monitor_inv_def)
qed

section \<open>Example\<close>

text \<open>A monitor that has connected and read one frame, an event.\<close>

definition monitor_example :: "peer listener" where
  "monitor_example = (example_listener (monitored_bot [(0, event_text)]) example_queue)\<lparr>ml_closure := False\<rparr>"

lemma accept_example:
  assumes "b_addr (ml_bot l) = 1" "\<not> ml_ended l"
  shows "accept_frame frame_deps event_text l =
    (Inr (), l\<lparr>ml_closure := False, ml_spawned := ml_spawned l @ [Handle_event (Event_set_bot 1 example_read)]\<rparr>)"
proof -
  have "sj_parse frame_deps event_text = Inr example_event"
    by (simp add: frame_deps_def table_deps_def ref_parse_def event_text_def example_event_def)
  moreover have "check_json frame_deps (Inr example_event) = Inr ()"
    by (simp add: check_json_def frame_deps_def table_deps_def example_event_def)
  ultimately show ?thesis
    using assms by (simp add: accept_frame_def Let_def with_closure_def bindS_def on_ml_bot_def Bot_parse_event_def
        frame_deps_event updS_def askS_def scope_spawn_def)
qed

text \<open>What surrounds the loop leaves its steps as they are.\<close>

definition surrounds :: "(('w listener, unit) co \<Rightarrow> ('w, unit) monitor_task) \<Rightarrow> bool" where
  "surrounds T \<longleftrightarrow> (\<forall>q k. T (Await q k) = Await (Net_job q) (\<lambda>r. T (k r))) \<and> (\<forall>u k. T (Local u k) = Local u (\<lambda>s. T (k s)))"

lemma monitor_connects:
  assumes "Client_new_websocket_session N (b_world (ml_bot l)) = (ws, w)"
  shows "\<exists>T k. surrounds T \<and> advance (Bot_monitor_events_async rounds D N handler) l =
      (Await (Net_job (Spawn_ws_connect (b_client (ml_bot l)) (wss_stream ws) (''/all?sessionKey='' @ b_sess_key (ml_bot l)))) k,
       l\<lparr>ml_ws := ws, ml_bot := (ml_bot l)\<lparr>b_world := w\<rparr>\<rparr>) \<and>
    (\<forall>cp l. AsioAwaiter_void_await_resume cp = Inr () \<longrightarrow>
       advance (k cp) l = advance (T (monitor_work rounds D N handler)) (register_stop l))"
proof -
  let ?last = "\<lambda>_ :: unit. Local id (\<lambda>l. if ml_stop l then Finished (Inl Stopped) else returnT ()) :: ('w, unit) monitor_task"
  let ?drop = "act_task (updS (\<lambda>l. l\<lparr>ml_callback := False, ml_bot := (ml_bot l)
        \<lparr>b_world := ws_stream_drop N (wss_stream (ml_ws l)) (b_world (ml_bot l))\<rparr>\<rparr>))"
  let ?T = "\<lambda>t. finallyT (bindT (transform_done (finallyT (map_jobs Net_job t)
      (bindT (map_jobs Net_job Client_schedule) (\<lambda>_. monitor_cleanup))) (returnT ())) ?last) ?drop"
  have "surrounds ?T" by (simp add: surrounds_def finallyT_simps transform_done_def)
  then show ?thesis
    using assms
    by (intro exI [of _ ?T])
      (auto simp: Bot_monitor_events_async_def Client_connect_websocket_async_def finallyT_simps act_task_def updS_def)
qed

lemma monitor_reads:
  assumes "surrounds T"
  shows "\<exists>k. advance (T (monitor_work (Suc n) D N handler)) l = (Await (Net_job (Read_websocket (wss_stream (ml_ws l)))) k, l) \<and>
    (\<forall>cp l l'. cp_error cp = 0 \<longrightarrow> sys_operation_canceled N \<noteq> 0 \<longrightarrow> ws_closed N \<noteq> 0 \<longrightarrow> 
       accept_frame D (wss_buffer (ml_ws l) @ cp_value cp) (l\<lparr>ml_ws := (ml_ws l)\<lparr>wss_buffer := []\<rparr>\<rparr>) = (Inr (), l') \<longrightarrow>
       advance (k cp) l = advance (T (monitor_work n D N handler)) l')"
  using assms
  by (simp add: surrounds_def work_round_def catchT_def WebsocketSession_read_async_def act_task_def WebsocketReadAwaiter_await_resume_def
      returnT_def)

lemma monitor_example_steps:
  "\<exists>m1 m2. monitor_enabled Complete_main (monitor_begin 2 3 frame_deps closing_net callback handler monitor_example) \<and>
     monitor_step 3 closing_net callback handler Complete_main
       (monitor_begin 2 3 frame_deps closing_net callback handler monitor_example) = Inr m1 \<and>
     monitor_enabled Complete_main m1 \<and>
     monitor_step 3 closing_net callback handler Complete_main m1 = Inr m2 \<and>
     ml_spawned (mon_state m2) = [Handle_event (Event_set_bot 1 example_read)]"
proof -
  let ?l = "monitor_example" and ?ws = "\<lparr>wss_stream = 1, wss_buffer = []\<rparr>"
  let ?w = "(b_world (ml_bot ?l))\<lparr>pr_open := [1]\<rparr>"
  let ?la = "?l\<lparr>ml_ws := ?ws, ml_bot := (ml_bot ?l)\<lparr>b_world := ?w\<rparr>\<rparr>"
  let ?l1 = "?la\<lparr>ml_callback := True\<rparr>"
  let ?l2 = "?l1\<lparr>ml_bot := (ml_bot ?l1)\<lparr>b_world := ?w\<lparr>pr_frames := []\<rparr>\<rparr>\<rparr>"
  let ?l3 = "?l2\<lparr>ml_spawned := [Handle_event (Event_set_bot 1 example_read)]\<rparr>"
  note example = monitor_example_def example_listener_def monitored_bot_def session_bot_def idle_bot_def
  have new: "Client_new_websocket_session closing_net (b_world (ml_bot ?l)) = (?ws, ?w)"
    by (simp add: Client_new_websocket_session_def closing_net_def peer_net_def Let_def monitor_example_def
      example_listener_def monitored_bot_def peer_world_def fresh_handle_def)
  have codes: "ws_closed closing_net \<noteq> 0" "sys_operation_canceled closing_net \<noteq> 0"
    by (simp_all add: closing_net_def peer_net_def)
  obtain T k where T: "surrounds T" and begins:
    "advance (Bot_monitor_events_async 2 frame_deps closing_net handler) ?l =
      (Await (Net_job (Spawn_ws_connect (b_client (ml_bot ?l)) 1 (''/all?sessionKey='' @ b_sess_key (ml_bot ?l)))) k, ?la)"
    and k: "\<And>cp l. AsioAwaiter_void_await_resume cp = Inr () \<Longrightarrow>
       advance (k cp) l = advance (T (monitor_work 2 frame_deps closing_net handler)) (register_stop l)"
    using monitor_connects [OF new, of 2 frame_deps handler] by auto
  obtain k1 where reads: "advance (T (monitor_work 2 frame_deps closing_net handler)) ?l1 = (Await (Net_job (Read_websocket 1)) k1, ?l1)"
    and k1: "\<And>cp l l'. cp_error cp = 0 \<Longrightarrow>
       accept_frame frame_deps (wss_buffer (ml_ws l) @ cp_value cp) (l\<lparr>ml_ws := (ml_ws l)\<lparr>wss_buffer := []\<rparr>\<rparr>) = (Inr (), l') \<Longrightarrow>
       advance (k1 cp) l = advance (T (monitor_work 1 frame_deps closing_net handler)) l'"
  proof -
    have "wss_stream (ml_ws ?l1) = 1" "monitor_work 2 frame_deps closing_net handler = monitor_work (Suc 1) frame_deps closing_net handler"
      by (simp_all add: numeral_2_eq_2)
    with monitor_reads [OF T, of 1 frame_deps closing_net handler ?l1] codes that show thesis by metis
  qed
  obtain k2 where again: "advance (T (monitor_work 1 frame_deps closing_net handler)) ?l3 = (Await (Net_job (Read_websocket 1)) k2, ?l3)"
    using monitor_reads [OF T, of 0 frame_deps closing_net handler ?l3] by auto
  let ?ma = "\<lparr>mon_main = Await (Net_job (Spawn_ws_connect (b_client (ml_bot ?l)) 1 (''/all?sessionKey='' @ b_sess_key (ml_bot ?l)))) k,
      mon_tasks = [], mon_state = ?la\<rparr>"
  let ?m1 = "\<lparr>mon_main = Await (Net_job (Read_websocket 1)) k1, mon_tasks = [], mon_state = ?l1\<rparr>"
  have m0: "monitor_begin 2 3 frame_deps closing_net callback handler ?l = ?ma"
    using begins by (simp add: monitor_begin_def start_spawned_def example)
  have "monitor_step 3 closing_net callback handler Complete_main ?ma = Inr ?m1"
  proof -
    let ?job = "Spawn_ws_connect (b_client (ml_bot ?l)) 1 (''/all?sessionKey='' @ b_sess_key (ml_bot ?l))"
    obtain cp where cp: "monitor_answer closing_net (Net_job ?job) ?la = (cp, ?la)" "AsioAwaiter_void_await_resume cp = Inr ()"
      by (simp add: monitor_answer_def listener_answer_def connect_websocket_impl_def closing_net_def peer_net_def bindS_def
          spawned_def AsioAwaiter_void_await_resume_def)
    have "register_stop ?la = ?l1" by (simp add: register_stop_def example)
    with k [OF cp(2), of ?la] reads have "advance (k cp) ?la = (Await (Net_job (Read_websocket 1)) k1, ?l1)" by simp
    with cp(1) show ?thesis by (simp add: complete_def program_fails_def start_spawned_def example)
  qed
  moreover have "\<exists>m2. monitor_step 3 closing_net callback handler Complete_main ?m1 = Inr m2 \<and>
     ml_spawned (mon_state m2) = [Handle_event (Event_set_bot 1 example_read)]"
  proof -
    let ?cp = "\<lparr>cp_exception = None, cp_value = event_text, cp_error = 0, cp_stop = False\<rparr>"
    have cp: "monitor_answer closing_net (Net_job (Read_websocket 1)) ?l1 = (?cp, ?l2)"
      by (simp add: monitor_answer_def listener_answer_def closing_net_def example peer_frames_def)
    have "accept_frame frame_deps event_text ?l2 = (Inr (), ?l3)"
      using accept_example [of ?l2] by (simp add: example)
    moreover have "?l2\<lparr>ml_ws := (ml_ws ?l2)\<lparr>wss_buffer := []\<rparr>\<rparr> = ?l2" "wss_buffer (ml_ws ?l2) @ cp_value ?cp = event_text"
      by simp_all
    ultimately have "advance (k1 ?cp) ?l2 = advance (T (monitor_work 1 frame_deps closing_net handler)) ?l3"
      by (intro k1) (simp_all only: completion.simps)
    with again have "advance (k1 ?cp) ?l2 = (Await (Net_job (Read_websocket 1)) k2, ?l3)" by (simp only:)
    with cp show ?thesis by (simp add: complete_def program_fails_def start_spawned_def)
  qed
  moreover have "monitor_enabled Complete_main ?ma" "monitor_enabled Complete_main ?m1" by simp_all
  ultimately show ?thesis unfolding m0 by blast
qed

theorem dispatch_uses_dead_closure_witness:
  "\<exists>m. ml_spawned (mon_state m) = [Handle_event (Event_set_bot 1 example_read)] \<and>
     monitor_step 3 closing_net (\<lambda>ev. returnT ()) (\<lambda>e. returnS ()) (Complete_spawned 0) m = Inl Undefined_behaviour"
proof -
  let ?run = "monitor_run 2 3 frame_deps closing_net (\<lambda>ev. returnT ()) (\<lambda>e. returnS ()) monitor_example"
  obtain m1 m where "?run m1" "monitor_enabled Complete_main m1"
    "monitor_step 3 closing_net (\<lambda>ev. returnT ()) (\<lambda>e. returnS ()) Complete_main m1 = Inr m"
    and spawned: "ml_spawned (mon_state m) = [Handle_event (Event_set_bot 1 example_read)]"
    using monitor_example_steps monitor_goes_on [OF monitor_begins] by metis
  then have "?run m" by (blast intro: monitor_goes_on)
  moreover have "ml_spawned monitor_example = []" "\<not> ml_closure monitor_example"
    by (simp_all add: monitor_example_def example_listener_def)
  moreover have "\<forall>e :: exn. preserves scope_view (returnS ())" by (simp add: preserves_returnS)
  ultimately have
    "length (mon_tasks m) = length (ml_spawned (mon_state m)) \<and>
     (\<forall>i ev. i < length (mon_tasks m) \<longrightarrow> ml_spawned (mon_state m) ! i = Handle_event ev \<longrightarrow>
       monitor_step 3 closing_net (\<lambda>ev. returnT ()) (\<lambda>e. returnS ()) (Complete_spawned i) m = Inl Undefined_behaviour)"
    using dispatch_uses_dead_closure by blast
  with spawned have
    "monitor_step 3 closing_net (\<lambda>ev. returnT ()) (\<lambda>e. returnS ()) (Complete_spawned 0) m = Inl Undefined_behaviour"
    by simp
  with spawned show ?thesis by blast
qed

end
