(* ===== verification/Timer_Wait.thy ===== *)
theory Timer_Wait
  imports Net_Script
begin

text \<open>
  \<open>Client::wait_async\<close> and its awaiter (\<open>lib/src/core/net_client.cpp\<close>) in
  detail: a timer, the strand its completion handler is bound to, and a stop callback that
  posts a cancellation of the timer to the strand.  Several threads may run the
  \<open>io_context\<close>, so a stop request can come at any point; the handlers of a strand
  run one at a time, in the order they were queued.
\<close>

section \<open>The wait\<close>

text \<open>
  A handler in the strand's queue: the completion of the wait with an error code, or the
  lambda expression of \<open>cancel\<close>.
\<close>

datatype strand_handler = Handle_wait nat | Cancel_timer

text \<open>
  \<open>wt_awaiter\<close>: the awaiter, which owns the timer, exists; \<open>wt_armed\<close>: the
  wait is pending in the timer; \<open>wt_callback\<close>: the stop callback is registered;
  \<open>wt_resumed\<close>: what the coroutine completed with.
\<close>

record timed_wait =
  wt_started :: bool
  wt_awaiter :: bool
  wt_armed :: bool
  wt_callback :: bool
  wt_stop :: bool
  wt_strand :: "strand_handler list"
  wt_resumed :: "unit res list"

definition timed_wait_init :: timed_wait where
  "timed_wait_init =
     \<lparr>wt_started = False, wt_awaiter = False, wt_armed = False, wt_callback = False, wt_stop = False,
      wt_strand = [], wt_resumed = []\<rparr>"

definition WaitUntilAwaiter_cancel :: "timed_wait \<Rightarrow> timed_wait" where
  "WaitUntilAwaiter_cancel s = s\<lparr>wt_strand := wt_strand s @ [Cancel_timer]\<rparr>"

definition WaitUntilAwaiter_await_suspend :: "timed_wait \<Rightarrow> timed_wait" where
  "WaitUntilAwaiter_await_suspend s = s\<lparr>wt_armed := True\<rparr>"

text \<open>
  The coroutine up to its suspension; a stop callback that is registered after the request
  is called at once.
\<close>

definition wait_start :: "timed_wait \<Rightarrow> timed_wait" where
  "wait_start s =
     (let s1 = s\<lparr>wt_started := True, wt_awaiter := True, wt_callback := True\<rparr>
      in WaitUntilAwaiter_await_suspend (if wt_stop s1 then WaitUntilAwaiter_cancel s1 else s1))"

text \<open>
  The rest of it.  When it ends the callback is unregistered and the awaiter destroyed.
\<close>

definition wait_result :: "'w net \<Rightarrow> completion \<Rightarrow> unit res" where
  "wait_result N cp =
     bindE (WaitUntilAwaiter_await_resume N cp) (\<lambda>_. if cp_stop cp then Inl Stopped else Inr ())"

definition wait_completion :: "nat \<Rightarrow> timed_wait \<Rightarrow> completion" where
  "wait_completion ec s = \<lparr>cp_exception = None, cp_value = [], cp_error = ec, cp_stop = wt_stop s\<rparr>"

definition wait_resume :: "'w net \<Rightarrow> nat \<Rightarrow> timed_wait \<Rightarrow> timed_wait" where
  "wait_resume N ec s =
     s\<lparr>wt_resumed := wt_resumed s @ [wait_result N (wait_completion ec s)],
       wt_callback := False, wt_awaiter := False\<rparr>"

text \<open>
  A timer that is cancelled completes its pending wait with \<open>operation_aborted\<close>; a
  wait that has already expired is not affected.
\<close>

definition timer_cancel :: "'w net \<Rightarrow> timed_wait \<Rightarrow> timed_wait res" where
  "timer_cancel N s =
     (if \<not> wt_awaiter s then Inl Undefined_behaviour
      else Inr (if wt_armed s
                then s\<lparr>wt_armed := False, wt_strand := wt_strand s @ [Handle_wait (asio_operation_aborted N)]\<rparr>
                else s))"

section \<open>Steps\<close>

text \<open>
  \<open>Wait_start\<close>: the coroutine starts; \<open>Wait_expire\<close>: the timer expires, or
  fails, with an error code; \<open>Wait_stop\<close>: the caller requests to stop;
  \<open>Wait_run\<close>: the strand runs its next handler.
\<close>

datatype wait_action = Wait_start | Wait_expire nat | Wait_stop | Wait_run

fun wait_enabled :: "wait_action \<Rightarrow> timed_wait \<Rightarrow> bool" where
  "wait_enabled Wait_start s = (\<not> wt_started s)"
| "wait_enabled (Wait_expire ec) s = wt_armed s"
| "wait_enabled Wait_stop s = (\<not> wt_stop s)"
| "wait_enabled Wait_run s = (wt_strand s \<noteq> [])"

fun wait_step :: "'w net \<Rightarrow> wait_action \<Rightarrow> timed_wait \<Rightarrow> timed_wait res" where
  "wait_step N Wait_start s = Inr (wait_start s)"
| "wait_step N (Wait_expire ec) s = Inr (s\<lparr>wt_armed := False, wt_strand := wt_strand s @ [Handle_wait ec]\<rparr>)"
| "wait_step N Wait_stop s =
     (let s1 = s\<lparr>wt_stop := True\<rparr> in Inr (if wt_callback s1 then WaitUntilAwaiter_cancel s1 else s1))"
| "wait_step N Wait_run s =
     (let s1 = s\<lparr>wt_strand := tl (wt_strand s)\<rparr>
      in case hd (wt_strand s) of
           Handle_wait ec \<Rightarrow> Inr (wait_resume N ec s1)
         | Cancel_timer \<Rightarrow> timer_cancel N s1)"

inductive wait_reachable :: "'w net \<Rightarrow> timed_wait \<Rightarrow> bool" for N :: "'w net" where
  wait_init: "wait_reachable N timed_wait_init"
| wait_next: "wait_reachable N s \<Longrightarrow> wait_enabled a s \<Longrightarrow> wait_step N a s = Inr s' \<Longrightarrow> wait_reachable N s'"

text \<open>The wait has expired, and its handler has not run yet.\<close>

definition expired :: "timed_wait \<Rightarrow> bool" where
  "expired s \<longleftrightarrow> (\<exists>ec. Handle_wait ec \<in> set (wt_strand s))"

fun unhurried :: "wait_action \<Rightarrow> timed_wait \<Rightarrow> bool" where
  "unhurried Wait_stop s = (\<not> expired s)"
| "unhurried _ s = True"

inductive unhurried_run :: "'w net \<Rightarrow> timed_wait \<Rightarrow> bool" for N :: "'w net" where
  unhurried_init: "unhurried_run N timed_wait_init"
| unhurried_next: "unhurried_run N s \<Longrightarrow> wait_enabled a s \<Longrightarrow> unhurried a s \<Longrightarrow> wait_step N a s = Inr s' \<Longrightarrow>
    unhurried_run N s'"

section \<open>Phases of a wait\<close>

text \<open>
  A completed wait was resumed once, with the outcome of an error code of the timer; it is
  stopped only if that was requested.  The phases: not started; pending, with the cancellation queued when a stop was requested; expired, with
  the cancellation before its handler or not at all; completed.
\<close>

definition wait_outcome :: "'w net \<Rightarrow> timed_wait \<Rightarrow> bool" where
  "wait_outcome N s \<longleftrightarrow>
     (\<exists>ec stop. wt_resumed s = [wait_result N (wait_completion ec (s\<lparr>wt_stop := stop\<rparr>))] \<and> (stop \<longrightarrow> wt_stop s))"

definition wait_phase :: "'w net \<Rightarrow> timed_wait \<Rightarrow> bool" where
  "wait_phase N s \<longleftrightarrow>
     (if \<not> wt_started s then
        \<not> wt_awaiter s \<and> \<not> wt_armed s \<and> \<not> wt_callback s \<and> wt_strand s = [] \<and> wt_resumed s = []
      else if wt_armed s then
        wt_awaiter s \<and> wt_callback s \<and> wt_resumed s = [] \<and> wt_strand s = (if wt_stop s then [Cancel_timer] else [])
      else if wt_awaiter s then
        wt_callback s \<and> wt_resumed s = [] \<and>
        (\<exists>ec. wt_strand s = [Handle_wait ec] \<or> wt_strand s = [Cancel_timer, Handle_wait ec] \<and> wt_stop s)
      else \<not> wt_callback s \<and> wt_strand s = [] \<and> wait_outcome N s)"

lemma wait_phase_init: "wait_phase N timed_wait_init"
  by (simp add: wait_phase_def timed_wait_init_def)

lemmas wait_step_defs = wait_start_def WaitUntilAwaiter_cancel_def WaitUntilAwaiter_await_suspend_def
  wait_resume_def timer_cancel_def Let_def

lemma wait_phaseE:
  assumes "wait_phase N s"
  obtains "\<not> wt_started s" "\<not> wt_awaiter s" "\<not> wt_armed s" "\<not> wt_callback s" "wt_strand s = []" "wt_resumed s = []"
    | "wt_started s" "wt_awaiter s" "wt_armed s" "wt_callback s" "wt_resumed s = []"
      "wt_strand s = (if wt_stop s then [Cancel_timer] else [])"
    | ec where "wt_started s" "wt_awaiter s" "\<not> wt_armed s" "wt_callback s" "wt_resumed s = []"
      "wt_strand s = [Handle_wait ec]"
    | ec where "wt_started s" "wt_awaiter s" "\<not> wt_armed s" "wt_callback s" "wt_resumed s = []"
      "wt_strand s = [Cancel_timer, Handle_wait ec]" "wt_stop s"
    | "wt_started s" "\<not> wt_awaiter s" "\<not> wt_armed s" "\<not> wt_callback s" "wt_strand s = []" "wait_outcome N s"
  using assms unfolding wait_phase_def by (metis (full_types))

lemma wait_phase_step:
  assumes "wait_phase N s" and "wait_enabled a s" and "unhurried a s"
  shows "case wait_step N a s of Inr s' \<Rightarrow> wait_phase N s' | Inl _ \<Rightarrow> False"
  using assms(1)
  by (cases rule: wait_phaseE; cases a; cases "wt_stop s"; use assms(2,3) in
      \<open>force simp: wait_phase_def wait_step_defs expired_def wait_outcome_def wait_completion_def\<close>)

lemma unhurried_phase: "unhurried_run N s \<Longrightarrow> wait_phase N s"
proof (induction rule: unhurried_run.induct)
  case unhurried_init
  show ?case by (rule wait_phase_init)
next
  case (unhurried_next s a s')
  from wait_phase_step [OF unhurried_next.IH unhurried_next.hyps(2,3)] unhurried_next.hyps(4)
  show ?case by simp
qed

lemma unhurried_reachable: "unhurried_run N s \<Longrightarrow> wait_reachable N s"
  by (induction rule: unhurried_run.induct) (auto intro: wait_reachable.intros)

text \<open>The wait of the client awaits the timer and goes on with the outcome described here.\<close>

lemma wait_async_outcome:
  "Client_wait_async N tp = Await (Wait_until tp) (\<lambda>cp. Finished (wait_result N cp))"
  by (auto simp: Client_wait_async_def wait_result_def fun_eq_iff split: sum.split)

text \<open>
  C19: as long as no stop request comes between the expiry of the timer
  and its handler, no step of a timed wait has undefined behaviour, and when the timer and
  the strand have nothing left to do the coroutine has been resumed exactly once, with the
  outcome that \<open>wait_async\<close> gives for the timer's error code; it is stopped only if
  that was requested.\<close>

theorem timed_wait_completes:
  assumes "unhurried_run N s"
  shows "(\<forall>a. wait_enabled a s \<longrightarrow> unhurried a s \<longrightarrow> (\<exists>s'. wait_step N a s = Inr s')) \<and>
    (wt_started s \<longrightarrow> (\<forall>a. wait_enabled a s \<longrightarrow> a = Wait_stop) \<longrightarrow>
      (\<exists>ec stop. wt_resumed s = [wait_result N (wait_completion ec (s\<lparr>wt_stop := stop\<rparr>))] \<and>
         (stop \<longrightarrow> wt_stop s)))"
proof -
  have phase: "wait_phase N s" using assms by (rule unhurried_phase)
  have "\<exists>s'. wait_step N a s = Inr s'" if "wait_enabled a s" "unhurried a s" for a
    using wait_phase_step [OF phase that] by (cases "wait_step N a s") simp_all
  moreover have "wait_outcome N s" if "wt_started s" "\<forall>a. wait_enabled a s \<longrightarrow> a = Wait_stop"
  proof -
    have "\<not> wait_enabled Wait_run s" "\<not> wait_enabled (Wait_expire 0) s" using that(2) by blast+
    with phase that(1) show ?thesis by (auto simp: wait_phase_def split: if_splits)
  qed
  ultimately show ?thesis by (simp only: wait_outcome_def) blast
qed

definition expired_wait :: timed_wait where
  "expired_wait = (wait_start timed_wait_init)\<lparr>wt_armed := False, wt_strand := [Handle_wait 0]\<rparr>"

lemma expired_wait_unhurried: "unhurried_run N expired_wait"
proof -
  have "unhurried_run N (wait_start timed_wait_init)"
    by (rule unhurried_next [OF unhurried_init, of Wait_start]) (simp_all add: timed_wait_init_def)
  then show ?thesis
    by (rule unhurried_next [of _ _ "Wait_expire 0"])
      (simp_all add: expired_wait_def wait_step_defs timed_wait_init_def)
qed

theorem timed_wait_completes_witness:
  "\<exists>ec stop. wt_resumed (wait_resume peer_net 0 (expired_wait\<lparr>wt_strand := []\<rparr>)) =
     [wait_result peer_net (wait_completion ec ((wait_resume peer_net 0 (expired_wait\<lparr>wt_strand := []\<rparr>))\<lparr>wt_stop := stop\<rparr>))]"
proof -
  let ?s = "wait_resume peer_net 0 (expired_wait\<lparr>wt_strand := []\<rparr>)"
  have "unhurried_run peer_net ?s"
    by (rule unhurried_next [OF expired_wait_unhurried, of Wait_run])
      (simp_all add: expired_wait_def wait_step_defs timed_wait_init_def)
  moreover have "wt_started ?s" "\<not> wait_enabled a ?s \<or> a = Wait_stop" for a
    by (simp_all add: expired_wait_def wait_step_defs timed_wait_init_def, cases a) simp_all
  ultimately show ?thesis using timed_wait_completes [of peer_net ?s] by blast
qed

text \<open>
  C35: a stop request that comes after the timer has expired and
  before its handler has run makes the strand run the cancellation after the coroutine has
  ended, on an awaiter that no longer exists.\<close>

theorem timed_wait_use_after_free:
  assumes "unhurried_run N s" and "wt_strand s = [Handle_wait ec]" and "\<not> wt_stop s"
  shows "\<exists>s1 s2. wait_step N Wait_stop s = Inr s1 \<and> wait_step N Wait_run s1 = Inr s2 \<and>
    wait_reachable N s2 \<and> wait_enabled Wait_run s2 \<and> length (wt_resumed s2) = 1 \<and>
    wait_step N Wait_run s2 = Inl Undefined_behaviour"
proof -
  have "wt_callback s" "wt_resumed s = []"
    using unhurried_phase [OF assms(1)] assms(2) by (auto simp: wait_phase_def split: if_splits)
  then obtain s1 s2 where s: "wait_step N Wait_stop s = Inr s1" "wait_step N Wait_run s1 = Inr s2"
    "wait_enabled Wait_run s1" "wait_enabled Wait_run s2" "length (wt_resumed s2) = 1"
    "wait_step N Wait_run s2 = Inl Undefined_behaviour"
    using assms(2,3) by (simp add: wait_step_defs)
  have "wait_enabled Wait_stop s" using assms(3) by simp
  from wait_next [OF wait_next [OF unhurried_reachable [OF assms(1)] this s(1)] s(3,2)]
  have "wait_reachable N s2" .
  with s show ?thesis by blast
qed

theorem timed_wait_use_after_free_witness:
  "\<exists>s1 s2. wait_step peer_net Wait_stop expired_wait = Inr s1 \<and> wait_step peer_net Wait_run s1 = Inr s2 \<and>
     wait_reachable peer_net s2 \<and> wait_enabled Wait_run s2 \<and> length (wt_resumed s2) = 1 \<and> wait_step peer_net Wait_run s2 = Inl Undefined_behaviour"
  by (rule timed_wait_use_after_free [OF expired_wait_unhurried, of 0])
    (simp_all add: expired_wait_def wait_step_defs timed_wait_init_def)

end
