(* ===== verification/Programs.thy ===== *)
theory Programs
  imports Event_Actions Event_Monitor
begin

text \<open>
  Whole programs over the library: the event repeater \<open>examples/sync_repeater.cpp\<close> and
  \<open>launch_async_bot\<close> (\<open>lib/src/core/bot.cpp\<close>), which runs a bot's task on a
  number of threads.
\<close>

section \<open>The repeater\<close>

definition repeater_callback :: "'j deps \<Rightarrow> 'w net \<Rightarrow> Event \<Rightarrow> ('w Bot, bool) act" where
  "repeater_callback D N ev =
     (case Event_get_if GroupMessageEvent_class ev of
        Some ptr \<Rightarrow>
          if Message_eq_text (MessageEventBase_content ptr) ''stop'' then returnS False
          else bindS (GroupMessageEvent_send_message D N ptr (MessageEventBase_content ptr) None)
                 (\<lambda>_. returnS True)
      | None \<Rightarrow> returnS True)"

text \<open>
  \<open>main\<close>: a bot at the address \<open>this\<close> on the default host and port; an
  exception that nothing catches ends the program.  \<open>log_exception\<close>, the default
  handler, only writes to \<open>stderr\<close>.
\<close>

definition repeater_main :: "nat \<Rightarrow> 'j deps \<Rightarrow> 'w net \<Rightarrow> nat \<Rightarrow> 'w \<Rightarrow> unit res \<times> 'w" where
  "repeater_main fuel D N this w =
     (case Bot_new N this ''127.0.0.1'' ''8080'' w of
        (Inl e, w') \<Rightarrow> (Inl Terminate, w')
      | (Inr b, w') \<Rightarrow>
          (case bindS (noexceptS
                  (bindS (Bot_authorize D N ''authkey'' (UserId 123456789)) (\<lambda>_.
                   bindS (Bot_config D N \<lparr>sc_cache_size = None, sc_enable_websocket = Some True\<rparr>) (\<lambda>_.
                   Bot_monitor_events fuel D N (repeater_callback D N) (\<lambda>e. returnS ())))))
                (\<lambda>_. Bot_destroy D N) b of
             (r, b') \<Rightarrow> (r, b_world b')))"

section \<open>Launching\<close>

text \<open>
  The task is spawned on a scope and the threads run the \<open>io_context\<close> until it has
  nothing left to do.  There is one task, which one thread at a time resumes: it runs as it
  would alone.  A task that was spawned may be stopped; an exception that leaves it ends the
  program.
\<close>

definition spawn_and_run :: "'w net \<Rightarrow> ('w Bot, unit) co \<Rightarrow> ('w Bot, unit) act" where
  "spawn_and_run N t =
     (\<lambda>b. case noexceptS (run_task (bot_answer N) t) b of
        (r, b') \<Rightarrow> (if r = Inl Stopped then Inr () else r, b'))"

definition launch_async_bot ::
  "'j deps \<Rightarrow> 'w net \<Rightarrow> nat \<Rightarrow> ('w Bot, unit) co \<Rightarrow> nat \<Rightarrow> string \<Rightarrow> string \<Rightarrow> 'w \<Rightarrow> unit res \<times> 'w" where
  "launch_async_bot D N this t thread_count host port w =
     (if thread_count = 0 then (throw (Runtime_error ''At least one thread''), w)
      else (case Bot_new N this host port w of
        (Inl e, w') \<Rightarrow> (throw e, w')
      | (Inr b, w') \<Rightarrow>
          (case bindS (spawn_and_run N t) (\<lambda>_. Bot_destroy D N) b of (r, b') \<Rightarrow> (r, b_world b'))))"

section \<open>What the repeater does with an event\<close>

lemma repeater_group_message:
  "repeater_callback D N (Ev_group_message e) =
     (if Message_eq_text (MessageEventBase_content e) ''stop'' then returnS False
      else mapS (\<lambda>_. True) (GroupMessageEvent_send_message D N e (MessageEventBase_content e) None))"
  by (simp add: repeater_callback_def Event_get_if_def GroupMessageEvent_class_def mapS_def)

lemma repeater_other:
  assumes "\<nexists>e. ev = Ev_group_message e"
  shows "repeater_callback D N ev = returnS True"
  using assms by (cases ev) (simp_all add: repeater_callback_def Event_get_if_def GroupMessageEvent_class_def)

text \<open>
  the repeater answers a message in a group that is not the text
  \<open>stop\<close> with one request, which sends the content of the message to the group of its
  sender, in the bot's session and without a quote.\<close>

theorem repeater_echoes:
  assumes "ev_bot e = Some (b_addr b)" and "\<not> Message_eq_text (MessageEventBase_content e) ''stop''"
    and "json_plain (Message_json (MessageEventBase_content e))" and "plain_text (b_sess_key b)"
  shows "sends N b (repeater_callback D N (Ev_group_message e))
    (Post ''/sendGroupMessage'' (JObj [(''sessionKey'', JStr (b_sess_key b)),
       (''target'', JNum (sint (gid_id (gr_id (mb_group (gme_sender e)))))),
       (''messageChain'', Message_json (MessageEventBase_content e))]))"
proof -
  have "sends N b (Bot_send_message_group D N (gr_id (mb_group (gme_sender e))) (MessageEventBase_content e) None)
    (Post ''/sendGroupMessage'' (JObj [(''sessionKey'', JStr (b_sess_key b)),
       (''target'', JNum (sint (gid_id (gr_id (mb_group (gme_sender e)))))),
       (''messageChain'', Message_json (MessageEventBase_content e))]))"
    using send_message_sends [OF assms(3,4), where q = None] by (simp add: quote_json_def field_json_def)
  then have "sends N b (GroupMessageEvent_send_message D N e (MessageEventBase_content e) None)
    (Post ''/sendGroupMessage'' (JObj [(''sessionKey'', JStr (b_sess_key b)),
       (''target'', JNum (sint (gid_id (gr_id (mb_group (gme_sender e)))))),
       (''messageChain'', Message_json (MessageEventBase_content e))]))"
    using assms(1) by (auto simp: event_action_defs via_own_bot elim: sends_cong [rotated])
  then show ?thesis using assms(2) by (simp add: repeater_group_message sends_mapS)
qed

section \<open>The repeater and the event loop\<close>

text \<open>A frame that makes the repeater stop.\<close>

definition stop_frame :: "'j deps \<Rightarrow> string \<Rightarrow> bool" where
  "stop_frame D text \<longleftrightarrow>
     (\<exists>j e. sj_parse D text = Inr j \<and> check_json D (Inr j) = Inr () \<and>
        Event_from_json (segment_fuel (sj_max_depth D)) D j = Inr (Ev_group_message e) \<and>
        Message_eq_text (MessageEventBase_content e) ''stop'')"

lemma preserves_via_bot: "preserves view m \<Longrightarrow> preserves view (via_bot e m)"
  by (auto simp: preserves_def via_bot_def split: sum.splits if_splits)

lemma settles_mapS_iff: "settles (mapS f m) (\<lambda>_. True) \<longleftrightarrow> settles m (\<lambda>_. True)"
proof -
  have "fst (mapS f m s) = (case fst (m s) of Inl e \<Rightarrow> Inl e | Inr x \<Rightarrow> Inr (f x))" for s
    by (simp add: mapS_def bindS_def split: prod.split sum.split)
  then show ?thesis by (auto simp: settles_def graceful_def fuelled_def split: sum.splits)
qed

context bot_view
begin

lemma preserves_repeater: "preserves view (repeater_callback D N ev)"
proof (cases "\<exists>e. ev = Ev_group_message e")
  case True
  have "preserves view (Bot_send_message_group D N i m q)" for i m q
    unfolding Bot_send_message_group_def by (intro preserves_intros preserves_checked)
  with True show ?thesis
    by (auto simp: repeater_group_message GroupMessageEvent_send_message_def preserves_returnS
        intro!: preserves_mapS preserves_via_bot)
next
  case False
  then show ?thesis by (simp add: repeater_other preserves_returnS)
qed

end

context json_dom
begin

lemma repeater_settled:
  assumes "Event_bot ev = Inr (b_addr b)" and "repeater_callback D N ev b = (r, b')"
  shows "graceful r \<and> fuelled r"
proof (cases "\<exists>e. ev = Ev_group_message e")
  case True
  then obtain e where e: "ev = Ev_group_message e" by blast
  have "settles (Bot_send_message_group D N i m None) (\<lambda>_. True)" for i m
    using settles_call [of N "Call_send_message_group i m None"] by (simp add: settles_mapS_iff)
  then have "settles (mapS (\<lambda>_. True) (Bot_send_message_group D N (gr_id (mb_group (gme_sender e)))
      (MessageEventBase_content e) None)) (\<lambda>_. True)" by (simp add: settles_mapS_iff)
  note sent = settlesD [OF this]
  have bot: "ev_bot e = Some (b_addr b)"
    using assms(1) e by (simp add: EventBase_bot_def split: option.splits)
  show ?thesis
  proof (cases "Message_eq_text (MessageEventBase_content e) ''stop''")
    case True
    with assms(2) e show ?thesis by (auto simp: repeater_group_message)
  next
    case False
    have "mapS (\<lambda>_. True) (Bot_send_message_group D N (gr_id (mb_group (gme_sender e)))
        (MessageEventBase_content e) None) b = (r, b')"
      using assms(2) e False bot
      by (simp add: repeater_group_message GroupMessageEvent_send_message_def mapS_def bindS_def via_own_bot)
    from sent [OF this] show ?thesis by blast
  qed
next
  case False
  with assms(2) show ?thesis by (auto simp: repeater_other)
qed

end

text \<open>Handling a frame as the repeater does, by whether it makes the repeater stop.\<close>

lemma stop_frame_stops:
  assumes "stop_frame D t"
  shows "fst (handle_frame D (repeater_callback D N) t b) = Inr False"
  using assms
  by (auto simp: stop_frame_def handle_frame_def Let_def bindS_def Bot_parse_event_def askS_def
      repeater_group_message MessageEventBase_content_def)

lemma repeater_parse_event:
  "Bot_parse_event D j b = (case Event_from_json (segment_fuel (sj_max_depth D)) D j of
     Inl f \<Rightarrow> (Inl f, b) | Inr ev \<Rightarrow> (Inr (Event_set_bot (b_addr b) ev), b))"
  by (simp add: Bot_parse_event_def askS_def split: sum.split)

lemma repeater_False:
  assumes "repeater_callback D N ev b = (Inr False, b')"
  obtains e where "ev = Ev_group_message e" and "Message_eq_text (MessageEventBase_content e) ''stop''"
proof (cases "\<exists>e. ev = Ev_group_message e")
  case True
  with assms that show thesis
    by (auto simp: repeater_group_message mapS_def bindS_eq_Inr split: if_splits)
next
  case False
  with assms show thesis by (simp add: repeater_other)
qed

lemma Event_set_bot_group_message:
  assumes "Event_set_bot a ev = Ev_group_message e"
  obtains e' where "ev = Ev_group_message e'" and "MessageEventBase_content e' = MessageEventBase_content e"
  using assms by (cases ev) (auto simp: MessageEventBase_content_def)

context json_dom
begin

lemma other_frame_goes_on:
  assumes "\<not> stop_frame D t"
  shows "fst (handle_frame D (repeater_callback D N) t b) = Inr True \<or>
    (\<exists>e. fst (handle_frame D (repeater_callback D N) t b) = throw e)"
proof -
  have "graceful (check_json D (sj_parse D t))" "fuelled (check_json D (sj_parse D t))"
    by (rule settled_check_json)+
  then consider (rejected) e where "check_json D (sj_parse D t) = throw e" | (checked) "check_json D (sj_parse D t) = Inr ()"
    using graceful_fuelled by (metis old.unit.exhaust)
  then show ?thesis
  proof cases
    case rejected
    then show ?thesis by (simp add: handle_frame_def Let_def bindS_def throw_def)
  next
    case checked
    show ?thesis
    proof (cases "sj_parse D t")
      case (Inl e)
      then show ?thesis using checked by (simp add: handle_frame_def Let_def bindS_def throw_def json_value_def)
    next
      case (Inr j)
      let ?r = "Event_from_json (segment_fuel (sj_max_depth D)) D j"
      have "graceful ?r" "fuelled ?r" using Event_from_json_settled [OF depth_parse [OF Inr]] by simp_all
      then consider (unread) e where "?r = throw e" | (read) ev where "?r = Inr ev"
        using graceful_fuelled by metis
      then show ?thesis
      proof cases
        case unread
        then show ?thesis using checked Inr
          by (simp add: handle_frame_def Let_def bindS_def repeater_parse_event json_value_def throw_def)
      next
        case read
        let ?ev = "Event_set_bot (b_addr b) ev"
        obtain r b' where cb: "repeater_callback D N ?ev b = (r, b')" by fastforce
        have frame: "fst (handle_frame D (repeater_callback D N) t b) = r"
          using checked Inr read cb
          by (simp add: handle_frame_def Let_def bindS_def repeater_parse_event json_value_def)
        have "graceful r" "fuelled r" using repeater_settled [OF _ cb] by simp_all
        then consider e where "r = throw e" | v where "r = Inr v" using graceful_fuelled by metis
        moreover have "r \<noteq> Inr False"
        proof
          assume "r = Inr False"
          with cb obtain e where e: "?ev = Ev_group_message e" "Message_eq_text (MessageEventBase_content e) ''stop''"
            by (auto elim: repeater_False)
          then obtain e' where "ev = Ev_group_message e'" "MessageEventBase_content e' = MessageEventBase_content e"
            by (auto elim: Event_set_bot_group_message)
          with e(2) assms checked Inr read show False by (auto simp: stop_frame_def)
        qed
        ultimately show ?thesis using frame by (metis (full_types))
      qed
    qed
  qed
qed

end

text \<open>
  C20: with the event loop, the repeater ends at the first message
  \<open>stop\<close>, whatever was received before: frames that are no JSON or no event are
  rejected, a failed answer is handled, other events are passed over, and no frame after it
  is read.  It needs as many rounds as there are frames up to that message.\<close>

theorem repeater_stops:
  assumes "json_dom D depth" and "frame_source N frames"
    and "\<forall>c req w. frames (snd (http_request N c req w)) = frames w"
    and "frames (b_world b) = pre @ t # post" and "wss_buffer ws = []" and "length pre < fuel"
    and "stop_frame D t" and "\<forall>p\<in>set pre. \<not> stop_frame D p"
  shows "\<exists>b'. monitor_loop fuel D N (repeater_callback D N) (\<lambda>e. returnS ()) (b, ws) = (Inr (), (b', ws)) \<and>
    frames (b_world b') = post"
proof (rule frame_source.loop_ends [OF assms(2,4-6)])
  have "bot_view N (\<lambda>b. frames (b_world b))" using assms(3) by unfold_locales simp
  then show "\<forall>ev. preserves (\<lambda>b. frames (b_world b)) (repeater_callback D N ev)"
    using bot_view.preserves_repeater by blast
  show "\<forall>p\<in>set pre. \<forall>b. fst (handle_frame D (repeater_callback D N) p b) = Inr True \<or>
      (\<exists>e. fst (handle_frame D (repeater_callback D N) p b) = throw e)"
    using json_dom.other_frame_goes_on [OF assms(1)] assms(8) by blast
  show "\<forall>b. fst (handle_frame D (repeater_callback D N) t b) = Inr False"
    using stop_frame_stops [OF assms(7)] by blast
qed (simp_all add: preserves_returnS)

section \<open>The properties on examples\<close>

definition stop_json :: json where
  "stop_json =
     JObj [(''type'', JStr ''GroupMessage''),
       (''messageChain'', JArr [JObj [(''type'', JStr ''Plain''), (''text'', JStr ''stop'')]]),
       (''sender'', JObj [(''id'', JNum 9), (''memberName'', JStr ''m''), (''permission'', JStr ''MEMBER''),
          (''group'', JObj [(''id'', JNum 7), (''name'', JStr ''g''), (''permission'', JStr ''OWNER'')])])]"

definition stop_deps :: "json deps" where
  "stop_deps = table_deps [(event_text, stop_json)]"

definition stop_content :: SentMessage where
  "stop_content = SentMessage_default\<lparr>sm_content := [SegPlain \<lparr>pl_text = ''stop''\<rparr>]\<rparr>"

lemma ref_fnv1a_text_labels:
  "ref_fnv1a ''Plain'' = 1410190387630922087"
  "ref_fnv1a ''Face'' = 1851360449506262364"
  "ref_fnv1a ''AtAll'' = 7157921372945345195"
  "ref_fnv1a ''At'' = 650855941173987400"
  "ref_fnv1a ''Quote'' = 8117131903737691735"
  "ref_fnv1a ''Source'' = 6864522905279127704"
  by code_simp+

lemma stop_content_read:
  "SentMessage_from_json (Suc (Suc n)) (ref_deps p) (JArr [JObj [(''type'', JStr ''Plain''), (''text'', JStr ''stop'')]]) =
   Inr stop_content"
  by (simp add: stop_content_def sent_step_def SentMessage_default_def Message_push_def from_json_defs
      Plain_from_json_def ref_fnv1a_text_labels)

lemma stop_read:
  "\<exists>e. Event_from_json (segment_fuel d) stop_deps stop_json = Inr (Ev_group_message e) \<and>
     Message_eq_text (MessageEventBase_content e) ''stop''"
  by (simp add: stop_deps_def table_deps_def stop_json_def Event_from_json_def from_json_defs
      event_readers event_base_readers event_record_defs EventBase_default_def Group_from_json_def
      Member_from_json_def permission_from_string_def segment_fuel_def stop_content_read
      MessageEventBase_content_def stop_content_def Message_eq_text_def Segment_get_if_def Plain_class_def
    del: SentMessage_from_json.simps)

lemma stop_frames: "stop_frame stop_deps event_text" "\<not> stop_frame stop_deps ''?''"
proof -
  show "\<not> stop_frame stop_deps ''?''"
    by (simp add: stop_frame_def stop_deps_def table_deps_def ref_parse_def event_text_def)
  have "sj_parse stop_deps event_text = Inr stop_json"
    by (simp add: stop_deps_def table_deps_def ref_parse_def event_text_def stop_json_def)
  moreover have "check_json stop_deps (Inr stop_json) = Inr ()"
    by (simp add: check_json_def stop_deps_def table_deps_def stop_json_def)
  ultimately show "stop_frame stop_deps event_text"
    using stop_read by (auto simp: stop_frame_def)
qed

theorem repeater_stops_witness:
  "\<exists>b'. monitor_loop 2 stop_deps peer_net (repeater_callback stop_deps peer_net) (\<lambda>e. returnS ())
      (monitored_bot [(0, ''?''), (0, event_text), (0, ''next'')], \<lparr>wss_stream = 1, wss_buffer = []\<rparr>) =
      (Inr (), (b', \<lparr>wss_stream = 1, wss_buffer = []\<rparr>)) \<and> peer_frames (b_world b') = [''next'']"
proof (rule repeater_stops [where pre = "[''?'']" and t = event_text, OF _ peer_source.frame_source_axioms])
  show "json_dom stop_deps json_depth"
    unfolding stop_deps_def table_deps_def by (rule ref_dom.json_dom_axioms)
  show "\<forall>c req w. peer_frames (snd (http_request peer_net c req w)) = peer_frames w"
    by (simp add: peer_request peer_frames_def split: list.split)
qed (simp_all add: monitored_bot_def peer_frames_def stop_frames)

theorem repeater_echoes_witness:
  "sends peer_net (session_bot []) (repeater_callback stop_deps peer_net
       (Ev_group_message ((example_group_message (Some 1))\<lparr>me_msg := SentMessage_default\<lparr>sm_content := example_message\<rparr>\<rparr>)))
     (Post ''/sendGroupMessage'' (JObj [(''sessionKey'', JStr ''key''), (''target'', JNum 7),
        (''messageChain'', Message_json example_message)]))"
proof -
  let ?e = "(example_group_message (Some 1))\<lparr>me_msg := SentMessage_default\<lparr>sm_content := example_message\<rparr>\<rparr>"
  have "ev_bot ?e = Some (b_addr (session_bot []))" "plain_text (b_sess_key (session_bot []))"
    "\<not> Message_eq_text (MessageEventBase_content ?e) ''stop''"
    "json_plain (Message_json (MessageEventBase_content ?e))"
    by (simp_all add: session_bot_def idle_bot_def example_group_message_def example_message_def Message_json_def
        MessageEventBase_content_def Message_eq_text_def Segment_get_if_def Plain_class_def
        plain_text_def plain_char_def is_control_def dquote_def bslash_def)
  from repeater_echoes [OF this(1,3,4,2)] show ?thesis
    by (simp add: session_bot_def idle_bot_def example_group_message_def example_sender_def
        example_group_def MessageEventBase_content_def)
qed

end
