(* ===== verification/Erased_Objects.thy ===== *)
theory Erased_Objects
  imports Messages Event_Types
begin

text \<open>
  Objects of the type-erasing classes as they live in memory: construction, copies, moves and
  assignments of \<open>Segment\<close> (\<open>message/segment.h\<close>) and \<open>Event\<close>
  (\<open>event/event.h\<close>); the comparisons of a message with a concrete segment
  (\<open>message/message.h\<close>); and the hashes of the ids (\<open>core/common.h\<close>).
\<close>

section \<open>Memory\<close>

text \<open>
  The object at an address holds its value through a \<open>unique_ptr\<close>, which is null,
  here \<open>None\<close>, in an object that was moved from.  Each object owns its value, so the
  store needs no addresses of values.
\<close>

type_synonym 'v objects = "nat \<Rightarrow> 'v option"

definition object_value :: "nat \<Rightarrow> ('v objects, 'v) act" where
  "object_value p = askS (\<lambda>s. case s p of Some v \<Rightarrow> Inr v | None \<Rightarrow> Inl Undefined_behaviour)"

definition object_write :: "nat \<Rightarrow> 'v \<Rightarrow> ('v objects, unit) act" where
  "object_write p v = updS (\<lambda>s. s(p \<mapsto> v))"

section \<open>Segments\<close>

definition Segment_from_text :: "nat \<Rightarrow> string \<Rightarrow> (Segment objects, unit) act" where
  "Segment_from_text this text = object_write this (SegPlain \<lparr>pl_text = text\<rparr>)"

definition Segment_copy :: "nat \<Rightarrow> nat \<Rightarrow> (Segment objects, unit) act" where
  "Segment_copy this other = bindS (object_value other) (\<lambda>v. object_write this v)"

definition Segment_move :: "nat \<Rightarrow> nat \<Rightarrow> (Segment objects, unit) act" where
  "Segment_move this other = updS (\<lambda>s. s(other := None, this := s other))"

text \<open>Moving a \<open>unique_ptr\<close> to itself leaves it as it is.\<close>

definition Segment_move_assign :: "nat \<Rightarrow> nat \<Rightarrow> (Segment objects, unit) act" where
  "Segment_move_assign this other = updS (\<lambda>s. s(other := None, this := s other))"

definition Segment_assign :: "nat \<Rightarrow> nat \<Rightarrow> (Segment objects, unit) act" where
  "Segment_assign this other =
     (if other = this then returnS ()
      else bindS (object_value other) (\<lambda>v. object_write this v))"

text \<open>Assigning a concrete segment, given as the \<open>Segment\<close> it becomes, or a text.\<close>

definition Segment_assign_concrete :: "nat \<Rightarrow> Segment \<Rightarrow> (Segment objects, unit) act" where
  "Segment_assign_concrete this segment = object_write this segment"

definition Segment_assign_text :: "nat \<Rightarrow> string \<Rightarrow> (Segment objects, unit) act" where
  "Segment_assign_text this text = Segment_assign_concrete this (SegPlain \<lparr>pl_text = text\<rparr>)"

definition Segment_object_type :: "nat \<Rightarrow> (Segment objects, SegmentType) act" where
  "Segment_object_type this = bindS (object_value this) (\<lambda>v. returnS (Segment_type v))"

section \<open>Events\<close>

definition Event_copy :: "nat \<Rightarrow> nat \<Rightarrow> (Event objects, unit) act" where
  "Event_copy this other = bindS (object_value other) (\<lambda>v. object_write this v)"

definition Event_move :: "nat \<Rightarrow> nat \<Rightarrow> (Event objects, unit) act" where
  "Event_move this other = updS (\<lambda>s. s(other := None, this := s other))"

definition Event_assign :: "nat \<Rightarrow> nat \<Rightarrow> (Event objects, unit) act" where
  "Event_assign this other =
     (if other = this then returnS ()
      else bindS (object_value other) (\<lambda>v. object_write this v))"

definition Event_object_type :: "nat \<Rightarrow> (Event objects, EventType) act" where
  "Event_object_type this = bindS (object_value this) (\<lambda>v. returnS (Event_type v))"

section \<open>What a copy promises\<close>

text \<open>
  The contract of a value type: copying makes the target equal to the source, which it leaves
  alone; a later change of either does not reach the other; moving leaves the source empty.
\<close>

locale value_type =
  fixes copy assign move :: "nat \<Rightarrow> nat \<Rightarrow> ('v objects, unit) act"
  assumes copy_live: "s q = Some v \<Longrightarrow> copy p q s = (Inr (), s(p \<mapsto> v))"
    and copy_empty: "s q = None \<Longrightarrow> copy p q s = (Inl Undefined_behaviour, s)"
    and assign_self: "assign p p s = (Inr (), s)"
    and assign_other: "p \<noteq> q \<Longrightarrow> assign p q s = copy p q s"
    and move_away: "p \<noteq> q \<Longrightarrow> move p q s = (Inr (), s(p := s q, q := None))"
begin

lemma copy_equal:
  assumes "copy p q s = (Inr (), s')"
  shows "s' p = s q \<and> s' q = s q \<and> s q \<noteq> None"
proof (cases "s q")
  case None
  then show ?thesis using assms copy_empty by fastforce
next
  case (Some v)
  then show ?thesis using assms copy_live [of s q v p] by auto
qed

lemma assign_equal:
  assumes "s q = Some v"
  shows "assign p q s = (Inr (), s(p \<mapsto> v))"
proof (cases "p = q")
  case True
  then show ?thesis using assms assign_self by (simp add: fun_upd_idem)
next
  case False
  then show ?thesis using assms assign_other copy_live by metis
qed

text \<open>Exchanging two objects by three moves through a third one.\<close>

lemma moves_swap:
  assumes "p \<noteq> q" "p \<noteq> t" "q \<noteq> t"
  shows "bindS (move t p) (\<lambda>_. bindS (move p q) (\<lambda>_. move q t)) s =
    (Inr (), s(p := s q, q := s p, t := None))"
  using assms by (auto simp: bindS_def move_away)

end

lemmas object_defs = object_value_def object_write_def askS_def updS_def bindS_def

interpretation segment_values: value_type Segment_copy Segment_assign Segment_move
  by unfold_locales (auto simp: Segment_copy_def Segment_assign_def Segment_move_def object_defs split: option.split)

interpretation event_values: value_type Event_copy Event_assign Event_move
  by unfold_locales (auto simp: Event_copy_def Event_assign_def Event_move_def object_defs split: option.split)

text \<open>An object that was moved from cannot be used before it is assigned again.\<close>

lemma moved_segment_unusable:
  assumes "p \<noteq> q" and "Segment_move p q s = (Inr (), s')"
  shows "Segment_object_type q s' = (Inl Undefined_behaviour, s') \<and>
    fst (bindS (Segment_assign_text q text) (\<lambda>_. Segment_object_type q) s') = Inr SegmentType_plain"
  using assms segment_values.move_away [of p q s]
  by (auto simp: Segment_object_type_def Segment_assign_text_def Segment_assign_concrete_def object_defs)

lemma Segment_move_assign_self: "Segment_move_assign p p s = (Inr (), s)"
  by (simp add: Segment_move_assign_def updS_def)

section \<open>Messages and concrete segments\<close>

text \<open>The two overloads for \<open>Plain\<close> compare texts.\<close>

definition Message_eq_plain :: "Message \<Rightarrow> Plain \<Rightarrow> bool" where
  "Message_eq_plain m other = Message_eq_text m (pl_text other)"

definition Message_eq_concrete :: "'a segment_class \<Rightarrow> ('a \<Rightarrow> 'a \<Rightarrow> bool) \<Rightarrow> Message \<Rightarrow> 'a \<Rightarrow> bool" where
  "Message_eq_concrete T eq m other \<longleftrightarrow> length m = 1 \<and> Segment_eq_concrete T eq (hd m) other"

definition Message_starts_with_plain :: "Message \<Rightarrow> Plain \<Rightarrow> bool" where
  "Message_starts_with_plain m prefix = Message_starts_with_sv m (pl_text prefix)"

definition Message_starts_with_concrete ::
  "'a segment_class \<Rightarrow> ('a \<Rightarrow> 'a \<Rightarrow> bool) \<Rightarrow> Message \<Rightarrow> 'a \<Rightarrow> bool" where
  "Message_starts_with_concrete T eq m prefix \<longleftrightarrow> m \<noteq> [] \<and> Segment_eq_concrete T eq (hd m) prefix"

lemma Message_eq_plain_iff: "Message_eq_plain m (\<lparr>pl_text = text\<rparr>) \<longleftrightarrow> m = [SegPlain \<lparr>pl_text = text\<rparr>]"
proof (cases m)
  case (Cons s ss)
  then show ?thesis
    by (cases s) (auto simp: Message_eq_plain_def Message_eq_text_def Segment_get_if_def Plain_class_def)
qed (simp add: Message_eq_plain_def Message_eq_text_def)

section \<open>Hashes\<close>

text \<open>
  \<open>std::hash\<close> of an integer and \<open>clu::hash_combine\<close>, which adds the hash of
  an object to a hash, are functions of their libraries.
\<close>

definition UserId_hash :: "(i64 \<Rightarrow> u64) \<Rightarrow> UserId \<Rightarrow> u64" where
  "UserId_hash std_hash i = std_hash (uid_id i)"

definition GroupId_hash :: "(i64 \<Rightarrow> u64) \<Rightarrow> GroupId \<Rightarrow> u64" where
  "GroupId_hash std_hash i = std_hash (gid_id i)"

definition MessageId_hash :: "(i32 \<Rightarrow> u64) \<Rightarrow> MessageId \<Rightarrow> u64" where
  "MessageId_hash std_hash i = std_hash (mid_id i)"

definition TempId_hash :: "(u64 \<Rightarrow> u64 \<Rightarrow> u64) \<Rightarrow> (i64 \<Rightarrow> u64) \<Rightarrow> TempId \<Rightarrow> u64" where
  "TempId_hash hash_combine std_hash i =
     (let hash = 0; hash = hash_combine hash (UserId_hash std_hash (tid_uid i))
      in hash_combine hash (GroupId_hash std_hash (tid_gid i)))"

end
