(* ===== verification/Waiter_Spec.thy ===== *)
theory Waiter_Spec
  imports Waiter_System
begin

text \<open>
  What the waiters of \<open>Bot::next_event_async\<close> amount to, without nodes, links and
  memory: a list of waiting callers, the oldest first, and the outcomes decided so far.  The
  system of \<open>Waiter_System\<close>, which runs the code of \<open>detail/filter\<close>, is
  shown to implement it.
\<close>

section \<open>The abstract system\<close>

record waiting_room =
  wr_known :: "(nat \<times> (Event \<Rightarrow> bool res)) list"
  wr_waiting :: "nat list"
  wr_outcomes :: "(nat \<times> Event option) set"

definition room_init :: waiting_room where
  "room_init = \<lparr>wr_known = [], wr_waiting = [], wr_outcomes = {}\<rparr>"

definition room_filter :: "waiting_room \<Rightarrow> nat \<Rightarrow> Event \<Rightarrow> bool res" where
  "room_filter r n ev =
     (case map_of (wr_known r) n of Some m \<Rightarrow> m ev | None \<Rightarrow> Inl Undefined_behaviour)"

definition room_serve :: "nat \<Rightarrow> Event option \<Rightarrow> waiting_room \<Rightarrow> waiting_room" where
  "room_serve n res r =
     r\<lparr>wr_waiting := remove1 n (wr_waiting r), wr_outcomes := insert (n, res) (wr_outcomes r)\<rparr>"

text \<open>
  An event serves the first caller whose filter accepts it; a filter that throws ends the
  search.  A cancellation serves a caller that still waits with nothing.  Stop requests,
  resumptions and ends of coroutines change nothing here.
\<close>

fun room_step :: "action \<Rightarrow> waiting_room \<Rightarrow> waiting_room" where
  "room_step (Construct n m) r = r\<lparr>wr_known := (n, m) # wr_known r\<rparr>"
| "room_step (Wait n) r = r\<lparr>wr_waiting := wr_waiting r @ [n]\<rparr>"
| "room_step (Arrive ev) r =
     (case first_match (\<lambda>n. room_filter r n ev) (wr_waiting r) of
        Inr (Some n) \<Rightarrow> room_serve n (Some ev) r
      | _ \<Rightarrow> r)"
| "room_step (Cancel_task n) r = (if n \<in> set (wr_waiting r) then room_serve n None r else r)"
| "room_step _ r = r"

definition implements_room :: "system \<Rightarrow> waiting_room \<Rightarrow> bool" where
  "implements_room s r \<longleftrightarrow>
     system_inv s (wr_waiting r) \<and> wr_known r = ws_spawned s \<and> wr_outcomes r = set (delivered s)"

section \<open>The list a queue represents\<close>

lemma lseg_unique:
  "lseg h p xs None \<Longrightarrow> lseg h q ys None \<Longrightarrow> firstd xs None = firstd ys None \<Longrightarrow> xs = ys"
proof (induction xs arbitrary: p q ys)
  case Nil
  then show ?case by (cases ys) simp_all
next
  case (Cons x xs)
  then obtain zs where ys: "ys = x # zs" by (cases ys) simp_all
  from Cons.prems(1,2) ys have "firstd xs None = firstd zs None"
    "lseg h (Some x) xs None" "lseg h (Some x) zs None" by auto
  with Cons.IH ys show ?case by blast
qed

lemma queue_rep_unique: "queue_rep s xs \<Longrightarrow> queue_rep s ys \<Longrightarrow> xs = ys"
  unfolding queue_rep_def using lseg_unique by metis

lemma system_inv_list: "system_inv s xs \<Longrightarrow> queue_rep (ws_queue s) ys \<Longrightarrow> system_inv s ys"
  using queue_rep_unique system_invD(1) by blast

text \<open>The filter of a waiting node is the one it was constructed with.\<close>

lemma waiting_filter:
  assumes "system_inv s xs" and "n \<in> set xs"
  shows "\<exists>m. map_of (ws_spawned s) n = Some m \<and> node_matches ev n (ws_queue s) = m ev"
proof -
  note I = system_invD [OF assms(1)]
  from I(1) assms(2) obtain nd where nd: "fq_heap (ws_queue s) n = Some nd" by (rule queue_rep_alive)
  from I(7) [OF nd] have "(n, nd_match nd) \<in> set (ws_spawned s)" by (simp add: node_inv_def)
  with I(3) nd show ?thesis by (simp add: node_matches_def load_def)
qed

lemma first_match_cong: "(\<And>x. x \<in> set xs \<Longrightarrow> f x = g x) \<Longrightarrow> first_match f xs = first_match g xs"
  by (induction xs) (auto intro!: bindE_cong)

lemma room_filter_matches:
  assumes "implements_room s r"
  shows "first_match (\<lambda>n. room_filter r n ev) (wr_waiting r) =
    first_match (\<lambda>p. node_matches ev p (ws_queue s)) (wr_waiting r)"
proof (rule first_match_cong)
  fix n
  assume "n \<in> set (wr_waiting r)"
  then show "room_filter r n ev = node_matches ev n (ws_queue s)"
    using assms waiting_filter [of s "wr_waiting r" n ev]
    by (auto simp: implements_room_def room_filter_def)
qed

section \<open>Steps\<close>

lemma room_wait:
  assumes "implements_room s r" and "enabled (Wait n) s" and "perform (Wait n) s = Inr s'"
  shows "implements_room s' (room_step (Wait n) r)"
proof -
  have inv: "system_inv s (wr_waiting r)" using assms(1) by (simp add: implements_room_def)
  note I = system_invD [OF inv]
  from assms(2) obtain nd where nd: "fq_heap (ws_queue s) n = Some nd" "\<not> nd_handle nd"
    by (auto split: option.splits)
  with I(7) [OF nd(1)] have new: "n \<notin> set (wr_waiting r)" "nd_prev nd = None" "nd_next nd = None" "nd_active nd"
    by (auto simp: node_inv_def)
  from wait_enqueues [OF I(1) new(1) nd(1) new(2-4)] obtain q where
    "NextEventNode_wait n (ws_queue s) = (Inr (), q)" "fq_posts q = fq_posts (ws_queue s)"
    "fq_resumed q = fq_resumed (ws_queue s)" by blast
  with assms(3) have "delivered s' = delivered s" "ws_spawned s' = ws_spawned s"
    by (auto simp: on_queue_def delivered_def)
  with wait_inv [OF inv assms(2,3)] assms(1) show ?thesis by (simp add: implements_room_def)
qed

lemma room_cancel:
  assumes "implements_room s r" and "enabled (Cancel_task n) s" and "perform (Cancel_task n) s = Inr s'"
  shows "implements_room s' (room_step (Cancel_task n) r)"
proof -
  have inv: "system_inv s (wr_waiting r)" using assms(1) by (simp add: implements_room_def)
  note I = system_invD [OF inv]
  obtain xs' where inv': "system_inv s' xs'" using cancel_inv [OF inv assms(2,3)] by blast
  show ?thesis
  proof (cases "n \<in> set (wr_waiting r)")
    case True
    from cancel_task_active [OF I(1) True] obtain q where
      q: "cancel_task n (ws_queue s) = (Inr (), q)" "queue_rep q (remove1 n (wr_waiting r))"
      "fq_posts q = fq_posts (ws_queue s)" "fq_resumed q = fq_resumed (ws_queue s) @ [(n, None)]" by blast
    with assms(3) have s': "s' = s\<lparr>ws_queue := q, ws_tasks := remove1 n (ws_tasks s)\<rparr>"
      by (simp add: on_queue_def)
    with system_inv_list [OF inv'] q assms(1) True show ?thesis
      by (auto simp: implements_room_def room_serve_def delivered_def)
  next
    case False
    from assms(3) obtain nd where nd: "fq_heap (ws_queue s) n = Some nd" "nd_queue nd \<noteq> None"
      by (auto simp: on_queue_def cancel_task_def bindS_def load_def split: option.splits)
    have "\<not> nd_active nd"
      using I(7) [OF nd(1)] nd(2) False assms(2) by (auto simp: node_inv_def split: if_splits)
    with cancel_task_inactive [OF nd] I(2) assms(3) have s': "s' = s\<lparr>ws_tasks := remove1 n (ws_tasks s)\<rparr>"
      by (simp add: on_queue_def)
    with system_inv_list [OF inv'] I(1) assms(1) False show ?thesis
      by (simp add: implements_room_def delivered_def)
  qed
qed

lemma room_arrive:
  assumes "implements_room s r" and "perform (Arrive ev) s = Inr s'"
  shows "implements_room s' (room_step (Arrive ev) r)"
proof -
  have inv: "system_inv s (wr_waiting r)" using assms(1) by (simp add: implements_room_def)
  note I = system_invD [OF inv]
  note fuel = enough_filter_fuel [OF inv]
  obtain xs' where inv': "system_inv s' xs'" using arrive_inv [OF inv assms(2)] by blast
  let ?found = "first_match (\<lambda>p. node_matches ev p (ws_queue s)) (wr_waiting r)"
  consider (throws) e where "?found = Inl e" | (nobody) "?found = Inr None" | (served) n where "?found = Inr (Some n)"
    by (metis old.sum.exhaust option.exhaust)
  then show ?thesis
  proof cases
    case throws
    with filter_event_throws [OF I(1) fuel throws] assms(2) I(2) have "s' = s"
      by (auto simp: on_queue_def split: failure.splits)
    with throws assms(1) room_filter_matches [OF assms(1)] show ?thesis by simp
  next
    case nobody
    with filter_event_none [OF I(1) fuel nobody] assms(2) I(2) have "s' = s" by (simp add: on_queue_def)
    with nobody assms(1) room_filter_matches [OF assms(1)] show ?thesis by simp
  next
    case served
    from filter_event_found [OF I(1) fuel served] obtain q where
      q: "filter_event (filter_fuel s) ev (ws_queue s) = (Inr True, q)" "queue_rep q (remove1 n (wr_waiting r))"
      "fq_posts q = fq_posts (ws_queue s) @ [(n, Some ev)]" "fq_resumed q = fq_resumed (ws_queue s)" by blast
    with assms(2) have s': "s' = s\<lparr>ws_queue := q\<rparr>" by (simp add: on_queue_def)
    with system_inv_list [OF inv'] q served assms(1) room_filter_matches [OF assms(1)] show ?thesis
      by (auto simp: implements_room_def room_serve_def delivered_def)
  qed
qed

lemma room_other:
  assumes "implements_room s r" and "enabled a s" and "perform a s = Inr s'"
    and "a = Construct n m \<or> a = Stop n \<or> a = Run_post n res \<or> a = Finish n"
  shows "implements_room s' (room_step a r)"
proof -
  have inv: "system_inv s (wr_waiting r)" using assms(1) by (simp add: implements_room_def)
  have same: "wr_known r = ws_spawned s" "wr_outcomes r = set (delivered s)"
    using assms(1) by (simp_all add: implements_room_def)
  from assms(4) consider "a = Construct n m" | "a = Stop n" | "a = Run_post n res" | "a = Finish n" by blast
  then show ?thesis
  proof cases
    case 1
    with construct_inv [OF inv] assms(2,3) same show ?thesis
      by (auto simp: implements_room_def delivered_def)
  next
    case 2
    with stop_inv [OF inv] assms(2,3) same show ?thesis
      by (auto simp: implements_room_def delivered_def on_queue_def request_cancel_def bindS_def load_def
          split: option.splits)
  next
    case 3
    with assms(2) have "enabled (Run_post n res) s" by simp
    from post_inv [OF inv this] 3 assms(3) same show ?thesis
      unfolding implements_room_def by (metis room_step.simps(6) sum.inject(2))
  next
    case 4
    with finish_inv [OF inv] assms(2,3) same show ?thesis
      by (auto simp: implements_room_def delivered_def)
  qed
qed

lemma room_start: "implements_room (system_init this) room_init"
  using init_inv [of this]
  by (simp add: implements_room_def room_init_def system_init_def delivered_def FilterQueue_init_def)

lemma room_simulates:
  "implements_room s r \<Longrightarrow> enabled a s \<Longrightarrow> perform a s = Inr s' \<Longrightarrow> implements_room s' (room_step a r)"
  using room_wait room_cancel room_arrive room_other by (cases a) blast+

text \<open>
  C3: the queue of waiters, with its nodes, links, lock, posted
  resumptions and cancel tasks, implements a list of waiting callers.  Every step of the
  system that goes without undefined behaviour is a step of the list with the same outcomes:
  events go to the first caller that accepts them, and a cancellation serves a caller only
  if it still waits.\<close>

theorem waiters_refine_room:
  "implements_room (system_init this) room_init \<and>
   (\<forall>s r a s'. implements_room s r \<longrightarrow> enabled a s \<longrightarrow> perform a s = Inr s' \<longrightarrow> implements_room s' (room_step a r))"
  using room_start room_simulates by blast

text \<open>A caller that waits or has been served stays one of the two.\<close>

definition room_members :: "waiting_room \<Rightarrow> nat set" where
  "room_members r = set (wr_waiting r) \<union> fst ` wr_outcomes r"

lemma room_members_step: "room_members r \<subseteq> room_members (room_step a r)"
proof -
  have "room_members r \<subseteq> room_members (room_serve n res r)" for n res
    by (auto simp: room_members_def room_serve_def in_set_remove1)
  then show ?thesis
    by (cases a) (auto simp: room_members_def split: sum.splits option.splits)
qed

definition accept_all :: "Event \<Rightarrow> bool res" where
  "accept_all ev = Inr True"

lemma example_room_run:
  "\<exists>s1 s2 s3. perform (Construct 10 accept_all) (system_init 5) = Inr s1 \<and> perform (Wait 10) s1 = Inr s2 \<and>
     perform (Arrive ev) s2 = Inr s3 \<and> enabled (Wait 10) s1"
  by (simp add: system_init_def FilterQueue_init_def FilterNodeBase_new_def on_queue_def NextEventNode_wait_def
      enqueue_with_lock_def filter_event_def with_lock_def filter_fuel_def node_matches_def dequeue_with_lock_def
      resume_on_scheduler_with_def lock_def unlock_def whenS_def bindS_def load_def store_def modify_def gets_def
      accept_all_def)

theorem waiters_refine_room_witness:
  "\<forall>ev. \<exists>s. implements_room s
     \<lparr>wr_known = [(10, accept_all)], wr_waiting = [], wr_outcomes = {(10, Some ev)}\<rparr>"
proof
  fix ev
  obtain s1 s2 s3 where run: "perform (Construct 10 accept_all) (system_init 5) = Inr s1"
    "perform (Wait 10) s1 = Inr s2" "perform (Arrive ev) s2 = Inr s3" "enabled (Wait 10) s1"
    using example_room_run [of ev] by blast
  note step = waiters_refine_room [of 5, THEN conjunct2, rule_format]
  have "implements_room (system_init 5) room_init" by (rule waiters_refine_room [THEN conjunct1])
  moreover have "enabled (Construct 10 accept_all) (system_init 5)" by (simp add: system_init_def)
  ultimately have "implements_room s1 (room_step (Construct 10 accept_all) room_init)" using step run(1) by blast
  then have "implements_room s2 (room_step (Wait 10) (room_step (Construct 10 accept_all) room_init))"
    using step run(2,4) by blast
  moreover have "enabled (Arrive ev) s2" by simp
  ultimately have "implements_room s3 (room_step (Arrive ev)
      (room_step (Wait 10) (room_step (Construct 10 accept_all) room_init)))"
    using step run(3) by blast
  then show "\<exists>s. implements_room s
      \<lparr>wr_known = [(10, accept_all)], wr_waiting = [], wr_outcomes = {(10, Some ev)}\<rparr>"
    by (auto simp: room_init_def room_filter_def accept_all_def room_serve_def)
qed

end
