(* ===== verification/Next_Event.thy ===== *)
theory Next_Event
  imports Waiter_Spec Event_Monitor_Async
begin

text \<open>
  \<open>Bot::next_event_async\<close> (\<open>core/bot.h\<close>) and \<open>NextEventNode::wait\<close>
  (\<open>detail/filter/next_event.h\<close>) as coroutines, with the helpers of
  \<open>detail/ex_utils.h\<close>; what a call completes with while events, stop requests, cancel
  tasks and other callers do as they please.
\<close>

section \<open>The coroutines\<close>

text \<open>
  What they await: the mutex of the queue, and a call of \<open>handle_.resume()\<close> for the
  node at an address.
\<close>

datatype next_job = Async_lock | Suspend_at nat

type_synonym 'a next_task = "(system, next_job, completion, 'a) task"

definition on_ws :: "(FilterQueue, 'a) act \<Rightarrow> (system, 'a) act" where
  "on_ws f = (\<lambda>s. case f (ws_queue s) of (r, q) \<Rightarrow> (r, s\<lparr>ws_queue := q\<rparr>))"

definition call_and_suspend :: "nat \<Rightarrow> (system, unit) act \<Rightarrow> unit next_task" where
  "call_and_suspend node callable =
     bindT (act_task callable) (\<lambda>_. Await (Suspend_at node) (\<lambda>cp. returnT ()))"

text \<open>The lambda expression in \<open>wait\<close>: it stores the handle it is given.\<close>

definition wait_suspended :: "nat \<Rightarrow> (FilterQueue, unit) act" where
  "wait_suspended node =
     bindS (store node (\<lambda>n. n\<lparr>nd_handle := True\<rparr>)) (\<lambda>_.
     bindS (enqueue_with_lock node) (\<lambda>_.
     unlock))"

definition NextEventNode_wait_async :: "'a event_class \<Rightarrow> nat \<Rightarrow> 'a next_task" where
  "NextEventNode_wait_async E node =
     bindT (Await Async_lock (\<lambda>cp. act_task (on_ws lock))) (\<lambda>_.
     bindT (call_and_suspend node (on_ws (wait_suspended node))) (\<lambda>_.
     bindT (act_task (on_ws (bindS (load node) (\<lambda>nd. liftS (NextEventNode_wait_result E nd))))) (\<lambda>res.
     case res of None \<Rightarrow> Finished (Inl Stopped) | Some ev \<Rightarrow> returnT ev)))"

text \<open>
  \<open>request_cancel\<close> with the task it spawns.  A stop callback that is made after the
  request is called at once: \<open>stop\<close> says whether the caller has already been
  requested to stop.
\<close>

definition request_cancel_spawn :: "nat \<Rightarrow> (system, unit) act" where
  "request_cancel_spawn node =
     bindS (on_ws (request_cancel node)) (\<lambda>_.
     updS (\<lambda>s. s\<lparr>ws_tasks := ws_tasks s @ [node], ws_cancelled := node # ws_cancelled s\<rparr>))"

definition make_stop_callback :: "bool \<Rightarrow> (system, unit) act \<Rightarrow> (system, unit) act" where
  "make_stop_callback stop callback = (if stop then callback else returnS ())"

text \<open>
  \<open>node\<close> is the address of the local node, which is destroyed when the coroutine ends.
\<close>

definition construct_node :: "nat \<Rightarrow> (Event \<Rightarrow> bool res) \<Rightarrow> system \<Rightarrow> system" where
  "construct_node node m s =
     s\<lparr>ws_queue := (ws_queue s)\<lparr>fq_heap := (fq_heap (ws_queue s))(node \<mapsto> FilterNodeBase_new m)\<rparr>,
       ws_spawned := (node, m) # ws_spawned s\<rparr>"

definition destroy_node :: "nat \<Rightarrow> system \<Rightarrow> system" where
  "destroy_node node s =
     s\<lparr>ws_queue := (ws_queue s)\<lparr>fq_heap := (fq_heap (ws_queue s))(node := None)\<rparr>\<rparr>"

definition Bot_next_event_async ::
  "'a event_class \<Rightarrow> ('a \<Rightarrow> bool res) \<Rightarrow> nat \<Rightarrow> bool \<Rightarrow> 'a next_task" where
  "Bot_next_event_async E filt node stop =
     bindT (act_task (updS (construct_node node (NextEventNode_match_filter E filt)))) (\<lambda>_.
     finallyT
       (bindT (act_task (make_stop_callback stop (request_cancel_spawn node))) (\<lambda>_.
        NextEventNode_wait_async E node))
       (act_task (updS (destroy_node node))))"

text \<open>
  Without a filter, and with a deadline or a duration from \<open>now\<close>; as for
  \<open>timeout_as_optional\<close>, \<open>stop_when\<close> is the algorithm of the library.
\<close>

definition true_predicate :: "'a \<Rightarrow> bool res" where
  "true_predicate = (\<lambda>_. Inr True)"

definition Bot_next_event_async_any :: "'a event_class \<Rightarrow> nat \<Rightarrow> bool \<Rightarrow> 'a next_task" where
  "Bot_next_event_async_any E node stop = Bot_next_event_async E true_predicate node stop"

definition Bot_next_event_async_until ::
  "'w net \<Rightarrow> ('a next_task \<Rightarrow> ('t, unit) co \<Rightarrow> ('u, 'p, 'v, 'a) task) \<Rightarrow> 'a event_class \<Rightarrow>
   ('a \<Rightarrow> bool res) \<Rightarrow> nat \<Rightarrow> bool \<Rightarrow> nat \<Rightarrow> ('u, 'p, 'v, 'a option) task" where
  "Bot_next_event_async_until N stop_when E filt node stop tp =
     timeout_as_optional N stop_when (Bot_next_event_async E filt node stop) tp"

definition Bot_next_event_async_any_until ::
  "'w net \<Rightarrow> ('a next_task \<Rightarrow> ('t, unit) co \<Rightarrow> ('u, 'p, 'v, 'a) task) \<Rightarrow> 'a event_class \<Rightarrow>
   nat \<Rightarrow> bool \<Rightarrow> nat \<Rightarrow> ('u, 'p, 'v, 'a option) task" where
  "Bot_next_event_async_any_until N stop_when E node stop tp =
     timeout_as_optional N stop_when (Bot_next_event_async_any E node stop) tp"

definition Bot_next_event_async_for ::
  "'w net \<Rightarrow> ('a next_task \<Rightarrow> ('t, unit) co \<Rightarrow> ('u, 'p, 'v, 'a) task) \<Rightarrow> 'a event_class \<Rightarrow>
   ('a \<Rightarrow> bool res) \<Rightarrow> nat \<Rightarrow> bool \<Rightarrow> nat \<Rightarrow> nat \<Rightarrow> ('u, 'p, 'v, 'a option) task" where
  "Bot_next_event_async_for N stop_when E filt node stop now dur =
     timeout_as_optional N stop_when (Bot_next_event_async E filt node stop) (now + dur)"

definition Bot_next_event_async_any_for ::
  "'w net \<Rightarrow> ('a next_task \<Rightarrow> ('t, unit) co \<Rightarrow> ('u, 'p, 'v, 'a) task) \<Rightarrow> 'a event_class \<Rightarrow>
   nat \<Rightarrow> bool \<Rightarrow> nat \<Rightarrow> nat \<Rightarrow> ('u, 'p, 'v, 'a option) task" where
  "Bot_next_event_async_any_for N stop_when E node stop now dur =
     timeout_as_optional N stop_when (Bot_next_event_async_any E node stop) (now + dur)"

text \<open>What is left of a call once it has the mutex, and once it is resumed.\<close>

definition after_resume :: "'a event_class \<Rightarrow> nat \<Rightarrow> 'a next_task" where
  "after_resume E node =
     finallyT
       (bindT (act_task (on_ws (bindS (load node) (\<lambda>nd. liftS (NextEventNode_wait_result E nd))))) (\<lambda>res.
        case res of None \<Rightarrow> Finished (Inl Stopped) | Some ev \<Rightarrow> returnT ev))
       (act_task (updS (destroy_node node)))"

definition after_lock :: "'a event_class \<Rightarrow> nat \<Rightarrow> 'a next_task" where
  "after_lock E node =
     finallyT
       (bindT (act_task (on_ws lock)) (\<lambda>_.
        bindT (call_and_suspend node (on_ws (wait_suspended node))) (\<lambda>_.
        bindT (act_task (on_ws (bindS (load node) (\<lambda>nd. liftS (NextEventNode_wait_result E nd))))) (\<lambda>res.
        case res of None \<Rightarrow> Finished (Inl Stopped) | Some ev \<Rightarrow> returnT ev))))
       (act_task (updS (destroy_node node)))"

section \<open>A call among other actions\<close>

text \<open>
  The system acts between the steps of the call as it can, except that constructing the
  node, entering the queue and ending are the call's own doing.
\<close>

fun others :: "nat \<Rightarrow> action \<Rightarrow> bool" where
  "others node (Construct n m) = (n \<noteq> node)"
| "others node (Wait n) = (n \<noteq> node)"
| "others node (Finish n) = (n \<noteq> node)"
| "others node a = True"

inductive call_run ::
  "nat \<Rightarrow> 'a event_class \<Rightarrow> ('a \<Rightarrow> bool res) \<Rightarrow> nat \<Rightarrow> bool \<Rightarrow> 'a next_task \<Rightarrow> system \<Rightarrow> bool"
  for this E filt node stop where
  call_begins: "reachable this s \<Longrightarrow> node \<notin> fst ` set (ws_spawned s) \<Longrightarrow>
    advance (Bot_next_event_async E filt node stop) s = (t, s') \<Longrightarrow> call_run this E filt node stop t s'"
| call_locks: "call_run this E filt node stop (Await Async_lock k) s \<Longrightarrow>
    advance (k cp) s = (t, s') \<Longrightarrow> call_run this E filt node stop t s'"
| call_resumes: "call_run this E filt node stop (Await (Suspend_at n) k) s \<Longrightarrow>
    n \<in> fst ` set (fq_resumed (ws_queue s)) \<Longrightarrow> advance (k cp) s = (t, s') \<Longrightarrow>
    call_run this E filt node stop t s'"
| call_others: "call_run this E filt node stop t s \<Longrightarrow> enabled a s \<Longrightarrow> others node a \<Longrightarrow>
    perform a s = Inr s' \<Longrightarrow> call_run this E filt node stop t s'"

section \<open>The steps of the call\<close>

declare finallyT_simps [simp]

lemma call_begin:
  "advance (Bot_next_event_async E filt n False) s =
     (Await Async_lock (\<lambda>cp. after_lock E n), construct_node n (NextEventNode_match_filter E filt) s)"
  by (simp add: Bot_next_event_async_def NextEventNode_wait_async_def after_lock_def
      make_stop_callback_def act_task_def)

lemma call_begin_stopped:
  "advance (Bot_next_event_async E filt n True) s =
     (Finished (Inl Undefined_behaviour), construct_node n (NextEventNode_match_filter E filt) s)"
  by (simp add: Bot_next_event_async_def make_stop_callback_def act_task_def request_cancel_spawn_def
      bindS_def on_ws_def construct_node_def request_cancel_def load_def FilterNodeBase_new_def unwinds_def)

lemma call_lock:
  assumes "NextEventNode_wait n (ws_queue s) = (Inr (), q)"
  shows "advance (after_lock E n) s = (Await (Suspend_at n) (\<lambda>cp. after_resume E n), s\<lparr>ws_queue := q\<rparr>)"
proof -
  from assms have "wait_suspended n ((ws_queue s)\<lparr>fq_locked := True\<rparr>) = (Inr (), q)"
    by (simp add: NextEventNode_wait_def wait_suspended_def bindS_def lock_def modify_def)
  then show ?thesis
    by (simp add: after_lock_def after_resume_def act_task_def call_and_suspend_def returnT_def
        on_ws_def lock_def modify_def)
qed

lemma call_resume:
  assumes "fq_heap (ws_queue s) n = Some nd"
  shows "advance (after_resume E n) s =
    (case NextEventNode_wait_result E nd of
       Inr (Some e) \<Rightarrow> (Finished (Inr e), destroy_node n s)
     | Inr None \<Rightarrow> (Finished (Inl Stopped), destroy_node n s)
     | Inl f \<Rightarrow> (Finished (Inl f), if unwinds f then destroy_node n s else s))"
  using assms
  by (auto simp: after_resume_def act_task_def returnT_def on_ws_def bindS_def load_def unwinds_def
      split: sum.splits option.splits)

section \<open>What the other actions leave alone\<close>

text \<open>
  A node that is not yet in the queue is left alone, and where there is none none comes up;
  what was resumed, constructed or stopped stays so, and only a cancel task delivers nothing.
\<close>

definition leaves_alone :: "action \<Rightarrow> system \<Rightarrow> system \<Rightarrow> bool" where
  "leaves_alone a s s' \<longleftrightarrow>
     (\<forall>n nd. fq_heap (ws_queue s) n = Some nd \<longrightarrow> \<not> nd_handle nd \<longrightarrow> others n a \<longrightarrow>
        fq_heap (ws_queue s') n = Some nd) \<and>
     (\<forall>n. fq_heap (ws_queue s) n = None \<longrightarrow> others n a \<longrightarrow> fq_heap (ws_queue s') n = None) \<and>
     (\<forall>n. (n, None) \<in> set (delivered s') \<longrightarrow> (n, None) \<in> set (delivered s) \<or> n \<in> set (ws_tasks s)) \<and>
     set (fq_resumed (ws_queue s)) \<subseteq> set (fq_resumed (ws_queue s')) \<and>
     set (ws_spawned s) \<subseteq> set (ws_spawned s') \<and> set (ws_cancelled s) \<subseteq> set (ws_cancelled s')"

lemma new_node_apart:
  assumes "system_inv s xs" and "fq_heap (ws_queue s) n = Some nd" and "\<not> nd_handle nd"
  shows "n \<notin> set xs" "n \<notin> fst ` set (fq_posts (ws_queue s))" "n \<notin> set (ws_tasks s)" "nd_queue nd = None"
  using system_invD(7) [OF assms(1,2)] assms(3) by (auto simp: node_inv_def)

lemma effect_leaves_alone:
  assumes inv: "system_inv s xs" and "node_effect (ws_queue s) q m f (set xs)"
    and q: "ws_queue s' = q" "ws_spawned s' = ws_spawned s" "ws_cancelled s' = ws_cancelled s"
    and "m \<in> set xs \<or> \<not> others m a"
    and "\<And>n. (n, None) \<in> set (delivered s') \<Longrightarrow> (n, None) \<in> set (delivered s) \<or> n \<in> set (ws_tasks s)"
    and "set (fq_resumed (ws_queue s)) \<subseteq> set (fq_resumed q)"
  shows "leaves_alone a s s'"
proof -
  have "fq_heap q n = Some nd"
    if "fq_heap (ws_queue s) n = Some nd" "\<not> nd_handle nd" "others n a" for n nd
  proof -
    have "n \<notin> set xs" using new_node_apart(1) [OF inv] that by blast
    moreover from this have "n \<noteq> m" using assms(6) that(3) by auto
    ultimately show ?thesis using assms(2) that(1) by (simp add: node_effect_def)
  qed
  moreover have "fq_heap q n = None" if "fq_heap (ws_queue s) n = None" "others n a" for n
  proof -
    have "n \<noteq> m" using assms(6) that queue_rep_alive [OF system_invD(1) [OF inv], of m] by force
    with assms(2) that(1) show ?thesis by (auto simp: node_effect_def)
  qed
  ultimately show ?thesis using assms(3-) by (simp add: leaves_alone_def)
qed

lemma wait_leaves_alone:
  assumes inv: "system_inv s xs" and "enabled (Wait n) s" and "perform (Wait n) s = Inr s'"
  shows "leaves_alone (Wait n) s s'"
proof -
  note I = system_invD [OF inv]
  from assms(2) obtain nd where nd: "fq_heap (ws_queue s) n = Some nd" "\<not> nd_handle nd"
    by (auto split: option.splits)
  from I(7) [OF nd(1)] nd(2) have new: "nd_prev nd = None" "nd_next nd = None" "nd_active nd" "n \<notin> set xs"
    by (auto simp: node_inv_def)
  from wait_enqueues [OF I(1) new(4) nd(1) new(1-3)] obtain q where
    q: "NextEventNode_wait n (ws_queue s) = (Inr (), q)" "fq_posts q = fq_posts (ws_queue s)"
    "fq_resumed q = fq_resumed (ws_queue s)"
    "node_effect (ws_queue s) q n (\<lambda>nd. nd\<lparr>nd_handle := True, nd_queue := Some (fq_this (ws_queue s))\<rparr>) (set xs)"
    by blast
  with assms(3) have s': "s' = s\<lparr>ws_queue := q\<rparr>" by (simp add: on_queue_def)
  show ?thesis by (rule effect_leaves_alone [OF inv q(4)]) (use q s' in \<open>auto simp: delivered_def\<close>)
qed

lemma cancel_leaves_alone:
  assumes inv: "system_inv s xs" and "enabled (Cancel_task n) s" and "perform (Cancel_task n) s = Inr s'"
  shows "leaves_alone (Cancel_task n) s s'"
proof (cases "n \<in> set xs")
  case True
  from cancel_task_active [OF system_invD(1) [OF inv] True] obtain q where
    q: "cancel_task n (ws_queue s) = (Inr (), q)" "fq_posts q = fq_posts (ws_queue s)"
    "fq_resumed q = fq_resumed (ws_queue s) @ [(n, None)]"
    "node_effect (ws_queue s) q n (\<lambda>nd. nd\<lparr>nd_res := None\<rparr>) (set xs)" by blast
  with assms(3) have s': "s' = s\<lparr>ws_queue := q, ws_tasks := remove1 n (ws_tasks s)\<rparr>"
    by (simp add: on_queue_def)
  show ?thesis
    by (rule effect_leaves_alone [OF inv q(4)]) (use q s' True assms(2) in \<open>auto simp: delivered_def\<close>)
next
  case False
  note I = system_invD [OF inv]
  from assms(3) obtain nd where nd: "fq_heap (ws_queue s) n = Some nd" "nd_queue nd \<noteq> None"
    by (auto simp: on_queue_def cancel_task_def bindS_def load_def split: option.splits)
  from I(7) [OF nd(1)] nd(2) False assms(2) have "\<not> nd_active nd"
    by (auto simp: node_inv_def split: if_splits)
  then have "cancel_task n (ws_queue s) = (Inr (), ws_queue s)"
    using cancel_task_inactive [OF nd] I(2) by simp
  with assms(3) show ?thesis by (auto simp: on_queue_def leaves_alone_def delivered_def)
qed

lemma arrive_leaves_alone:
  assumes inv: "system_inv s xs" and "perform (Arrive ev) s = Inr s'"
  shows "leaves_alone (Arrive ev) s s'"
proof -
  note I = system_invD [OF inv]
  note fuel = enough_filter_fuel [OF inv]
  consider e where "first_match (\<lambda>p. node_matches ev p (ws_queue s)) xs = Inl e"
    | "first_match (\<lambda>p. node_matches ev p (ws_queue s)) xs = Inr None"
    | n where "first_match (\<lambda>p. node_matches ev p (ws_queue s)) xs = Inr (Some n)"
    by (metis old.sum.exhaust option.exhaust)
  then show ?thesis
  proof cases
    case (1 e)
    from filter_event_throws [OF I(1) fuel 1] assms(2) I(2) have "s' = s"
      by (auto simp: on_queue_def split: failure.splits)
    then show ?thesis by (simp add: leaves_alone_def)
  next
    case 2
    from filter_event_none [OF I(1) fuel 2] assms(2) I(2) have "s' = s"
      by (simp add: on_queue_def)
    then show ?thesis by (simp add: leaves_alone_def)
  next
    case (3 n)
    then have n: "n \<in> set xs" by (auto simp: first_match_Some)
    from filter_event_found [OF I(1) fuel 3] obtain q where
      q: "filter_event (filter_fuel s) ev (ws_queue s) = (Inr True, q)"
      "fq_posts q = fq_posts (ws_queue s) @ [(n, Some ev)]" "fq_resumed q = fq_resumed (ws_queue s)"
      "node_effect (ws_queue s) q n (\<lambda>nd. nd\<lparr>nd_active := False\<rparr>) (set xs)" by blast
    with assms(2) have s': "s' = s\<lparr>ws_queue := q\<rparr>" by (simp add: on_queue_def)
    show ?thesis by (rule effect_leaves_alone [OF inv q(4)]) (use q s' n in \<open>auto simp: delivered_def\<close>)
  qed
qed

lemma post_leaves_alone:
  assumes inv: "system_inv s xs" and "enabled (Run_post n r) s" and "perform (Run_post n r) s = Inr s'"
  shows "leaves_alone (Run_post n r) s s'"
proof -
  from assms(2) have post: "(n, r) \<in> set (fq_posts (ws_queue s))" by simp
  from system_invD(8) [OF inv post] obtain nd where nd: "fq_heap (ws_queue s) n = Some nd" "nd_handle nd" by blast
  with assms(3) have s': "s' = s\<lparr>ws_queue := (ws_queue s)\<lparr>fq_heap := (fq_heap (ws_queue s))(n \<mapsto> nd\<lparr>nd_res := r\<rparr>),
      fq_resumed := fq_resumed (ws_queue s) @ [(n, r)],
      fq_posts := remove1 (n, r) (fq_posts (ws_queue s))\<rparr>\<rparr>"
    by (simp add: on_queue_def resume_with_def bindS_def store_def load_def modify_def)
  show ?thesis
    using nd s' post by (auto simp: leaves_alone_def delivered_def dest: set_remove1_subset [THEN subsetD])
qed

lemma perform_leaves_alone:
  assumes inv: "system_inv s xs" and "enabled a s" and "perform a s = Inr s'"
  shows "leaves_alone a s s'"
proof (cases a)
  case (Stop n)
  with assms(3) obtain nd where "s' = s\<lparr>ws_tasks := ws_tasks s @ [n], ws_cancelled := n # ws_cancelled s\<rparr>"
    by (auto simp: on_queue_def request_cancel_def bindS_def load_def split: option.splits)
  with Stop show ?thesis by (auto simp: leaves_alone_def delivered_def)
next
  case (Wait n)
  with wait_leaves_alone [OF inv] assms show ?thesis by blast
next
  case (Cancel_task n)
  with cancel_leaves_alone [OF inv] assms show ?thesis by blast
next
  case (Arrive ev)
  with arrive_leaves_alone [OF inv] assms show ?thesis by blast
next
  case (Run_post n r)
  with post_leaves_alone [OF inv] assms show ?thesis by blast
qed (use assms in \<open>auto simp: leaves_alone_def delivered_def\<close>)

lemma nothing_when_stopped:
  "reachable this s \<Longrightarrow> (n, None) \<in> set (delivered s) \<Longrightarrow> n \<in> set (ws_cancelled s)"
proof (induction rule: reachable.induct)
  case start
  then show ?case by (simp add: system_init_def FilterQueue_init_def delivered_def)
next
  case (step s a s')
  from reachable_inv [OF step.hyps(1)] obtain xs where inv: "system_inv s xs" ..
  from perform_leaves_alone [OF inv step.hyps(2,3)] step.prems step.IH system_invD(11) [OF inv]
  show ?case unfolding leaves_alone_def by blast
qed

text \<open>
  A node whose coroutine is suspended is in the queue, or its resumption is posted or made.
\<close>

lemma newly_handled:
  assumes inv: "system_inv s xs" and "enabled a s" and "perform a s = Inr s'"
    and "handled (ws_queue s') n" and "\<not> handled (ws_queue s) n"
  shows "a = Wait n"
proof (cases "others n a")
  case True
  with perform_leaves_alone [OF assms(1-3), unfolded leaves_alone_def] assms(4,5)
  show ?thesis unfolding handled_def by (metis not_None_eq option.inject)
next
  case False
  with assms(3,4) show ?thesis
    by (cases a) (auto simp: handled_def FilterNodeBase_new_def)
qed

lemma handled_in_room:
  "reachable this s \<Longrightarrow>
   \<exists>r. implements_room s r \<and> (\<forall>n. handled (ws_queue s) n \<longrightarrow> n \<in> room_members r)"
proof (induction rule: reachable.induct)
  case start
  show ?case
    using room_start [of this] by (auto simp: handled_def system_init_def FilterQueue_init_def)
next
  case (step s a s')
  then obtain r where r: "implements_room s r" "\<And>n. handled (ws_queue s) n \<Longrightarrow> n \<in> room_members r" by blast
  then have inv: "system_inv s (wr_waiting r)" by (simp add: implements_room_def)
  have "n \<in> room_members (room_step a r)" if "handled (ws_queue s') n" for n
  proof (cases "handled (ws_queue s) n")
    case True
    with r(2) room_members_step show ?thesis by blast
  next
    case False
    from newly_handled [OF inv step.hyps(2,3) that False] show ?thesis by (simp add: room_members_def)
  qed
  with room_simulates [OF r(1) step.hyps(2,3)] show ?case by blast
qed

lemma handled_somewhere:
  assumes "reachable this s" and "handled (ws_queue s) n"
  shows "\<exists>xs. queue_rep (ws_queue s) xs \<and>
    (n \<in> set xs \<or> n \<in> fst ` set (fq_posts (ws_queue s)) \<or> n \<in> fst ` set (fq_resumed (ws_queue s)))"
proof -
  from handled_in_room [OF assms(1)] assms(2) obtain r where
    "implements_room s r" "n \<in> room_members r" by blast
  then show ?thesis
    by (auto simp: implements_room_def room_members_def delivered_def dest: system_invD(1))
qed

section \<open>What a call completes with\<close>

definition suspended :: "'a event_class \<Rightarrow> ('a \<Rightarrow> bool res) \<Rightarrow> nat \<Rightarrow> 'a next_task \<Rightarrow> system \<Rightarrow> bool" where
  "suspended E filt n t s \<longleftrightarrow>
     t = Await Async_lock (\<lambda>cp. after_lock E n) \<and> fq_heap (ws_queue s) n = Some (NextEventNode_new E filt) \<or>
     t = Await (Suspend_at n) (\<lambda>cp. after_resume E n) \<and> handled (ws_queue s) n"

definition completed :: "'a event_class \<Rightarrow> ('a \<Rightarrow> bool res) \<Rightarrow> nat \<Rightarrow> 'a next_task \<Rightarrow> system \<Rightarrow> bool" where
  "completed E filt n t s \<longleftrightarrow>
     fq_heap (ws_queue s) n = None \<and>
     ((\<exists>e ev. t = Finished (Inr e) \<and> (n, Some ev) \<in> set (fq_resumed (ws_queue s)) \<and>
         Event_get_if E ev = Some e \<and> filt e = Inr True) \<or>
      t = Finished (Inl Stopped) \<and> n \<in> set (ws_cancelled s))"

definition call_inv ::
  "nat \<Rightarrow> 'a event_class \<Rightarrow> ('a \<Rightarrow> bool res) \<Rightarrow> nat \<Rightarrow> bool \<Rightarrow> 'a next_task \<Rightarrow> system \<Rightarrow> bool" where
  "call_inv this E filt n stop t s \<longleftrightarrow>
     reachable this s \<and> (n, NextEventNode_match_filter E filt) \<in> set (ws_spawned s) \<and>
     (if stop then t = Finished (Inl Undefined_behaviour) else suspended E filt n t s \<or> completed E filt n t s)"

lemma call_begin_inv:
  assumes "reachable this s" and "n \<notin> fst ` set (ws_spawned s)"
    and "advance (Bot_next_event_async E filt n stop) s = (t, s')"
  shows "call_inv this E filt n stop t s'"
proof -
  let ?m = "NextEventNode_match_filter E filt"
  have s': "s' = construct_node n ?m s"
    using assms(3) by (cases stop) (simp_all add: call_begin call_begin_stopped)
  then have "perform (Construct n ?m) s = Inr s'" by (simp add: construct_node_def)
  moreover have "enabled (Construct n ?m) s" using assms(2) by simp
  ultimately have "reachable this s'" using assms(1) by (blast intro: reachable.step)
  with assms(3) s' show ?thesis
    by (cases stop) (auto simp: call_begin call_begin_stopped call_inv_def suspended_def
        construct_node_def NextEventNode_new_def)
qed

lemma call_lock_inv:
  assumes "call_inv this E filt n stop (Await Async_lock k) s" and "advance (k cp) s = (t, s')"
  shows "call_inv this E filt n stop t s'"
proof -
  from assms(1) have s: "\<not> stop" "k = (\<lambda>cp. after_lock E n)" "reachable this s"
    "fq_heap (ws_queue s) n = Some (NextEventNode_new E filt)"
    "(n, NextEventNode_match_filter E filt) \<in> set (ws_spawned s)"
    by (auto simp: call_inv_def suspended_def completed_def split: if_splits)
  from reachable_inv [OF s(3)] obtain xs where inv: "system_inv s xs" ..
  have en: "enabled (Wait n) s" using s(4) by (simp add: NextEventNode_new_def FilterNodeBase_new_def)
  have new: "\<not> nd_handle (NextEventNode_new E filt)" "nd_prev (NextEventNode_new E filt) = None"
    "nd_next (NextEventNode_new E filt) = None" "nd_active (NextEventNode_new E filt)"
    by (simp_all add: NextEventNode_new_def FilterNodeBase_new_def)
  from wait_enqueues [OF system_invD(1) [OF inv] new_node_apart(1) [OF inv s(4) new(1)] s(4) new(2-4)]
  obtain q where q: "NextEventNode_wait n (ws_queue s) = (Inr (), q)"
    "node_effect (ws_queue s) q n (\<lambda>nd. nd\<lparr>nd_handle := True, nd_queue := Some (fq_this (ws_queue s))\<rparr>) (set xs)"
    by blast
  from call_lock [OF q(1), of E] assms(2) s(2)
  have t: "t = Await (Suspend_at n) (\<lambda>cp. after_resume E n)" "s' = s\<lparr>ws_queue := q\<rparr>" by auto
  from q(1) t(2) have "perform (Wait n) s = Inr s'" by (simp add: on_queue_def)
  with s(3) en have "reachable this s'" by (rule reachable.step)
  moreover have "handled (ws_queue s') n"
    using q(2) s(4) t(2) by (auto simp: node_effect_def handled_def same_core_def)
  ultimately show ?thesis using s t by (simp add: call_inv_def suspended_def)
qed

lemma delivered_result:
  assumes "reachable this s" and "(n, NextEventNode_match_filter E filt) \<in> set (ws_spawned s)"
    and "(n, r) \<in> set (fq_resumed (ws_queue s))" and "fq_heap (ws_queue s) n = Some nd"
  shows "case r of
      None \<Rightarrow> NextEventNode_wait_result E nd = Inr None
    | Some ev \<Rightarrow> (\<exists>e. NextEventNode_wait_result E nd = Inr (Some e) \<and> Event_get_if E ev = Some e \<and> filt e = Inr True)"
proof (cases r)
  case None
  from reachable_inv [OF assms(1)] obtain xs where inv: "system_inv s xs" ..
  from system_invD(7) [OF inv assms(4)] assms(3) None have "nd_res nd = None" by (auto simp: node_inv_def)
  with None show ?thesis by (simp add: NextEventNode_wait_result_def)
next
  case (Some ev)
  with delivered_event_accepted [OF assms(1,2) _ assms(4), of ev] assms(3) show ?thesis by simp
qed

lemma call_resume_inv:
  assumes "call_inv this E filt n stop (Await (Suspend_at m) k) s"
    and "m \<in> fst ` set (fq_resumed (ws_queue s))" and "advance (k cp) s = (t, s')"
  shows "call_inv this E filt n stop t s'"
proof -
  from assms(1) have s: "\<not> stop" "m = n" "k = (\<lambda>cp. after_resume E n)" "reachable this s"
    "handled (ws_queue s) n" "(n, NextEventNode_match_filter E filt) \<in> set (ws_spawned s)"
    by (auto simp: call_inv_def suspended_def completed_def split: if_splits)
  then obtain nd where nd: "fq_heap (ws_queue s) n = Some nd" by (auto simp: handled_def)
  from assms(2) s(2) obtain r where r: "(n, r) \<in> set (fq_resumed (ws_queue s))" by force
  note res = delivered_result [OF s(4,6) r nd]
  have adv: "advance (after_resume E n) s = (t, s')" using assms(3) s(3) by simp
  have s': "s' = destroy_node n s"
    using res adv by (cases r) (auto simp: call_resume [OF nd])
  have "perform (Finish n) s = Inr s'" by (simp add: s' destroy_node_def)
  moreover have "enabled (Finish n) s" using r nd by force
  ultimately have "reachable this s'" using s(4) by (blast intro: reachable.step)
  moreover have "completed E filt n t s'"
  proof (cases r)
    case None
    then have "n \<in> set (ws_cancelled s)" using nothing_when_stopped [OF s(4)] r by (simp add: delivered_def)
    with None res adv s' show ?thesis by (auto simp: completed_def call_resume [OF nd] destroy_node_def)
  next
    case (Some ev)
    with res adv s' r show ?thesis by (auto simp: completed_def call_resume [OF nd] destroy_node_def)
  qed
  ultimately show ?thesis using s s' by (simp add: call_inv_def destroy_node_def)
qed

lemma call_others_inv:
  assumes "call_inv this E filt n stop t s" and "enabled a s" "others n a" "perform a s = Inr s'"
  shows "call_inv this E filt n stop t s'"
proof -
  from assms(1) have s: "reachable this s" "(n, NextEventNode_match_filter E filt) \<in> set (ws_spawned s)"
    by (auto simp: call_inv_def)
  from reachable_inv [OF s(1)] obtain xs where inv: "system_inv s xs" ..
  note alone = perform_leaves_alone [OF inv assms(2,4), unfolded leaves_alone_def]
  have "reachable this s'" using s(1) assms(2,4) by (rule reachable.step)
  moreover have "suspended E filt n t s'" if "suspended E filt n t s"
  proof -
    have "handled (ws_queue s') n" if "handled (ws_queue s) n"
    proof (cases "\<exists>m k. a = Construct m k")
      case True
      with assms(3,4) that show ?thesis by (auto simp: handled_def)
    next
      case False
      with perform_keeps [OF assms(4)] assms(3) that show ?thesis by (cases a) auto
    qed
    moreover have "\<not> nd_handle (NextEventNode_new E filt)"
      by (simp add: NextEventNode_new_def FilterNodeBase_new_def)
    ultimately show ?thesis using that alone assms(3) unfolding suspended_def by blast
  qed
  moreover have "completed E filt n t s'" if "completed E filt n t s"
    using that alone assms(3) unfolding completed_def by blast
  ultimately show ?thesis using assms(1) alone unfolding call_inv_def by (auto split: if_splits)
qed

lemma call_run_inv: "call_run this E filt n stop t s \<Longrightarrow> call_inv this E filt n stop t s"
proof (induction rule: call_run.induct)
  case (call_begins s t s')
  then show ?case by (rule call_begin_inv)
next
  case (call_locks k s cp t s')
  then show ?case using call_lock_inv by blast
next
  case (call_resumes m k s cp t s')
  then show ?case using call_resume_inv by blast
next
  case (call_others t s a s')
  then show ?case using call_others_inv by blast
qed

text \<open>
  C4: as long as no step of the program has failed, whatever the order
  of events, stop requests, cancel tasks, resumptions and other calls, a call of
  \<open>next_event_async\<close> that was not requested to stop before it began is in one of four
  situations.  It waits for the mutex, its node is not in the queue, and a stop request now
  would follow a null pointer; it is suspended and its node is in the queue, or its
  resumption is posted or made; it has returned an event of its type that its filter
  accepted and with which it was resumed; or it was stopped, after a stop request.  When it
  has completed its node is gone.  A call that is already requested to stop when it begins
  follows a null pointer.\<close>

theorem next_event_outcome:
  assumes "call_run this E filt n stop t s"
  shows "case t of
      Finished (Inr e) \<Rightarrow> \<not> stop \<and> fq_heap (ws_queue s) n = None \<and>
        (\<exists>ev. (n, Some ev) \<in> set (fq_resumed (ws_queue s)) \<and> Event_get_if E ev = Some e \<and> filt e = Inr True)
    | Finished (Inl f) \<Rightarrow> if stop then f = Undefined_behaviour
        else f = Stopped \<and> n \<in> set (ws_cancelled s) \<and> fq_heap (ws_queue s) n = None
    | Await q k \<Rightarrow> \<not> stop \<and>
        (q = Async_lock \<and> fq_heap (ws_queue s) n = Some (NextEventNode_new E filt) \<and>
           (\<exists>xs. queue_rep (ws_queue s) xs \<and> n \<notin> set xs) \<and> perform (Stop n) s = Inl Undefined_behaviour \<or>
         q = Suspend_at n \<and> handled (ws_queue s) n \<and>
           (\<exists>xs. queue_rep (ws_queue s) xs \<and>
              (n \<in> set xs \<or> n \<in> fst ` set (fq_posts (ws_queue s)) \<or> n \<in> fst ` set (fq_resumed (ws_queue s)))))
    | Local u k \<Rightarrow> False"
proof -
  from call_run_inv [OF assms] have inv: "call_inv this E filt n stop t s" .
  then have r: "reachable this s" by (simp add: call_inv_def)
  from reachable_inv [OF r] obtain xs where xs: "system_inv s xs" ..
  have lock: "(\<exists>xs. queue_rep (ws_queue s) xs \<and> n \<notin> set xs) \<and> perform (Stop n) s = Inl Undefined_behaviour"
    if new: "fq_heap (ws_queue s) n = Some (NextEventNode_new E filt)"
  proof -
    have "\<not> nd_handle (NextEventNode_new E filt)" by (simp add: NextEventNode_new_def FilterNodeBase_new_def)
    from new_node_apart [OF xs new this] system_invD(1) [OF xs] new show ?thesis
      by (auto simp: on_queue_def request_cancel_def bindS_def load_def)
  qed
  show ?thesis
    using inv lock handled_somewhere [OF r, of n]
    by (auto simp: call_inv_def suspended_def completed_def split: if_splits)
qed

section \<open>Calls are answered\<close>

lemma suspended_call:
  assumes "call_run this E filt n stop (Await (Suspend_at n) k) s"
  shows "\<not> stop" "k = (\<lambda>cp. after_resume E n)" "reachable this s"
    "(n, NextEventNode_match_filter E filt) \<in> set (ws_spawned s)"
  using call_run_inv [OF assms] by (auto simp: call_inv_def suspended_def completed_def split: if_splits)

lemma resumed_with_event:
  assumes "reachable this s" and "(n, NextEventNode_match_filter E filt) \<in> set (ws_spawned s)"
    and "(n, Some ev) \<in> set (fq_posts (ws_queue s))"
  shows "\<exists>e s'. Event_get_if E ev = Some e \<and> filt e = Inr True \<and> perform (Run_post n (Some ev)) s = Inr s' \<and>
    n \<in> fst ` set (fq_resumed (ws_queue s')) \<and> advance (after_resume E n) s' = (Finished (Inr e), destroy_node n s')"
proof -
  from reachable_inv [OF assms(1)] obtain xs where inv: "system_inv s xs" ..
  have en: "enabled (Run_post n (Some ev)) s" using assms(3) by simp
  from post_inv [OF inv en] obtain s' where s': "perform (Run_post n (Some ev)) s = Inr s'"
    "ws_spawned s' = ws_spawned s" "fq_heap (ws_queue s') n = None \<longleftrightarrow> fq_heap (ws_queue s) n = None"
    by (rule post_inv [OF inv en]) blast
  from system_invD(8) [OF inv assms(3)] s'(3) obtain nd where nd: "fq_heap (ws_queue s') n = Some nd"
    by (metis not_None_eq)
  have res: "(n, Some ev) \<in> set (fq_resumed (ws_queue s'))"
    using s'(1) by (auto simp: on_queue_def resume_with_def bindS_def store_def load_def modify_def
        split: option.splits if_splits)
  have "reachable this s'" using assms(1) en s'(1) by (rule reachable.step)
  from delivered_result [OF this _ res nd, of E filt] assms(2) s'(2) obtain e where
    e: "NextEventNode_wait_result E nd = Inr (Some e)" "Event_get_if E ev = Some e" "filt e = Inr True" by auto
  from call_resume [OF nd, of E] e(1) have "advance (after_resume E n) s' = (Finished (Inr e), destroy_node n s')"
    by simp
  moreover have "n \<in> fst ` set (fq_resumed (ws_queue s'))" using res by force
  ultimately show ?thesis using s'(1) e(2,3) by blast
qed

lemma answered_by_event:
  assumes "reachable this s" and "(n, NextEventNode_match_filter E filt) \<in> set (ws_spawned s)"
    and "system_inv s xs" and "first_match (\<lambda>p. node_matches ev p (ws_queue s)) xs = Inr (Some n)"
  shows "\<exists>e s1 s2. Event_get_if E ev = Some e \<and> perform (Arrive ev) s = Inr s1 \<and>
    enabled (Run_post n (Some ev)) s1 \<and> perform (Run_post n (Some ev)) s1 = Inr s2 \<and>
    n \<in> fst ` set (fq_resumed (ws_queue s2)) \<and>
    advance (after_resume E n) s2 = (Finished (Inr e), destroy_node n s2)"
proof -
  from filter_event_found [OF system_invD(1) [OF assms(3)] enough_filter_fuel [OF assms(3)] assms(4)]
  obtain q where q: "filter_event (filter_fuel s) ev (ws_queue s) = (Inr True, q)"
    "fq_posts q = fq_posts (ws_queue s) @ [(n, Some ev)]" by blast
  let ?s1 = "s\<lparr>ws_queue := q\<rparr>"
  have s1: "perform (Arrive ev) s = Inr ?s1" using q(1) by (simp add: on_queue_def)
  have "reachable this ?s1" using assms(1) _ s1 by (rule reachable.step) simp
  from resumed_with_event [OF this, of n E filt ev] assms(2) q(2) obtain e s2 where
    "Event_get_if E ev = Some e" "perform (Run_post n (Some ev)) ?s1 = Inr s2"
    "n \<in> fst ` set (fq_resumed (ws_queue s2))"
    "advance (after_resume E n) s2 = (Finished (Inr e), destroy_node n s2)" by auto
  moreover have "enabled (Run_post n (Some ev)) ?s1" using q(2) by simp
  ultimately show ?thesis using s1 by blast
qed

lemma answered_by_stop:
  assumes inv: "system_inv s xs" and n: "n \<in> set xs" and c: "n \<notin> set (ws_cancelled s)"
  shows "\<exists>s1 s2. enabled (Stop n) s \<and> perform (Stop n) s = Inr s1 \<and>
    enabled (Cancel_task n) s1 \<and> perform (Cancel_task n) s1 = Inr s2 \<and>
    n \<in> fst ` set (fq_resumed (ws_queue s2)) \<and>
    advance (after_resume E n) s2 = (Finished (Inl Stopped), destroy_node n s2)"
proof -
  note I = system_invD [OF inv]
  from I(1) n obtain nd where nd: "fq_heap (ws_queue s) n = Some nd" "nd_queue nd = Some (fq_this (ws_queue s))"
    by (rule queue_rep_alive)
  let ?s1 = "s\<lparr>ws_tasks := ws_tasks s @ [n], ws_cancelled := n # ws_cancelled s\<rparr>"
  have s1: "enabled (Stop n) s" "perform (Stop n) s = Inr ?s1"
    using nd c by (simp_all add: on_queue_def request_cancel_def bindS_def load_def)
  from cancel_task_active [OF I(1) n] obtain q where
    q: "cancel_task n (ws_queue s) = (Inr (), q)" "fq_resumed q = fq_resumed (ws_queue s) @ [(n, None)]"
    "node_effect (ws_queue s) q n (\<lambda>nd. nd\<lparr>nd_res := None\<rparr>) (set xs)" by blast
  let ?s2 = "?s1\<lparr>ws_queue := q, ws_tasks := remove1 n (ws_tasks s @ [n])\<rparr>"
  have s2: "enabled (Cancel_task n) ?s1" "perform (Cancel_task n) ?s1 = Inr ?s2"
    using q(1) by (simp_all add: on_queue_def)
  from q(3) nd(1) obtain nd' where nd': "fq_heap (ws_queue ?s2) n = Some nd'" "nd_res nd' = None"
    by (auto simp: node_effect_def same_core_def)
  have "advance (after_resume E n) ?s2 = (Finished (Inl Stopped), destroy_node n ?s2)"
    using call_resume [OF nd'(1), of E] nd'(2) by (simp add: NextEventNode_wait_result_def)
  moreover have "n \<in> fst ` set (fq_resumed (ws_queue ?s2))" using q(2) by simp
  ultimately show ?thesis using s1 s2 by blast
qed

text \<open>
  C5: a call that waits in the queue is answered.  If an event arrives that
  its filter accepts and that of no older waiter does, then the resumption that is posted
  makes the call return the event; if it is requested to stop, then the cancel task makes
  it stop.\<close>

theorem next_event_answered:
  assumes "call_run this E filt n stop (Await (Suspend_at n) k) s" and "queue_rep (ws_queue s) xs"
  shows "(first_match (\<lambda>p. node_matches ev p (ws_queue s)) xs = Inr (Some n) \<longrightarrow>
      (\<exists>e s1 s2. Event_get_if E ev = Some e \<and> perform (Arrive ev) s = Inr s1 \<and>
         enabled (Run_post n (Some ev)) s1 \<and> perform (Run_post n (Some ev)) s1 = Inr s2 \<and>
         n \<in> fst ` set (fq_resumed (ws_queue s2)) \<and>
         advance (k cp) s2 = (Finished (Inr e), destroy_node n s2))) \<and>
    (n \<in> set xs \<longrightarrow> n \<notin> set (ws_cancelled s) \<longrightarrow>
      (\<exists>s1 s2. enabled (Stop n) s \<and> perform (Stop n) s = Inr s1 \<and>
         enabled (Cancel_task n) s1 \<and> perform (Cancel_task n) s1 = Inr s2 \<and>
         n \<in> fst ` set (fq_resumed (ws_queue s2)) \<and>
         advance (k cp) s2 = (Finished (Inl Stopped), destroy_node n s2)))"
proof -
  note call = suspended_call [OF assms(1)]
  from reachable_inv [OF call(3)] assms(2) have inv: "system_inv s xs" using system_inv_list by blast
  show ?thesis
    unfolding call(2) using answered_by_event [OF call(3,4) inv] answered_by_stop [OF inv] by blast
qed

section \<open>Example\<close>

text \<open>A call that waits for the bot of the example to come online.\<close>

definition example_filter :: "BotOnlineEvent \<Rightarrow> bool res" where
  "example_filter e = Inr (bon_id e = UserId 3)"

definition waiting_system :: "bool \<Rightarrow> system" where
  "waiting_system queued =
     \<lparr>ws_queue = (FilterQueue_init 5)
        \<lparr>fq_head := if queued then Some 20 else None, fq_tail := if queued then Some 20 else None,
         fq_heap := [20 \<mapsto> (NextEventNode_new BotOnlineEvent_class example_filter)
           \<lparr>nd_handle := queued, nd_queue := if queued then Some 5 else None\<rparr>]\<rparr>,
      ws_tasks = [], ws_cancelled = [],
      ws_spawned = [(20, NextEventNode_match_filter BotOnlineEvent_class example_filter)]\<rparr>"

lemma example_call_waits:
  "call_run 5 BotOnlineEvent_class example_filter 20 False
     (Await (Suspend_at 20) (\<lambda>cp. after_resume BotOnlineEvent_class 20)) (waiting_system True)"
proof (rule call_locks)
  show "call_run 5 BotOnlineEvent_class example_filter 20 False
      (Await Async_lock (\<lambda>cp. after_lock BotOnlineEvent_class 20)) (waiting_system False)"
    by (rule call_begins [OF reachable.start])
      (simp_all add: call_begin construct_node_def system_init_def waiting_system_def FilterQueue_init_def
        NextEventNode_new_def FilterNodeBase_new_def)
  show "advance (after_lock BotOnlineEvent_class 20) (waiting_system False) =
      (Await (Suspend_at 20) (\<lambda>cp. after_resume BotOnlineEvent_class 20), waiting_system True)"
    by (subst call_lock)
      (simp_all add: waiting_system_def waiter_ops NextEventNode_new_def fun_eq_iff)
qed

definition example_bon :: BotOnlineEvent where
  "example_bon = \<lparr>ev_bot = Some 1, bon_subtype = Online_login, bon_id = UserId 3\<rparr>"

lemma example_online_bon: "Event_get_if BotOnlineEvent_class example_online = Some example_bon"
  by (simp add: example_online_def example_bon_def Event_get_if_def BotOnlineEvent_class_def)

lemma waiting_system_queue: "queue_rep (ws_queue (waiting_system True)) [20]"
  by (simp add: waiting_system_def queue_rep_def waiting_def FilterQueue_init_def NextEventNode_new_def
      FilterNodeBase_new_def)

lemma waiting_system_match:
  "first_match (\<lambda>p. node_matches example_online p (ws_queue (waiting_system True))) [20] = Inr (Some 20)"
  by (simp add: waiting_system_def node_matches_def load_def NextEventNode_new_def FilterNodeBase_new_def
      NextEventNode_match_filter_def example_online_bon example_filter_def example_bon_def)

lemma example_call_returns:
  "\<exists>s. call_run 5 BotOnlineEvent_class example_filter 20 False (Finished (Inr example_bon)) s"
proof -
  note waits = example_call_waits
  note call = suspended_call [OF waits]
  from reachable_inv [OF call(3)] have inv: "system_inv (waiting_system True) [20]"
    using system_inv_list waiting_system_queue by blast
  from answered_by_event [OF call(3,4) inv waiting_system_match] obtain s1 s2 where
    s: "perform (Arrive example_online) (waiting_system True) = Inr s1"
    "enabled (Run_post 20 (Some example_online)) s1" "perform (Run_post 20 (Some example_online)) s1 = Inr s2"
    "20 \<in> fst ` set (fq_resumed (ws_queue s2))"
    "advance (after_resume BotOnlineEvent_class 20) s2 = (Finished (Inr example_bon), destroy_node 20 s2)"
    by (auto simp: example_online_bon)
  from call_others [OF waits _ _ s(1)] have
    "call_run 5 BotOnlineEvent_class example_filter 20 False
      (Await (Suspend_at 20) (\<lambda>cp. after_resume BotOnlineEvent_class 20)) s1" by simp
  from call_resumes [OF call_others [OF this s(2) _ s(3)] s(4)] s(5) show ?thesis by auto
qed

theorem next_event_outcome_witness:
  "\<exists>s :: system. fq_heap (ws_queue s) 20 = None \<and>
     (\<exists>ev. (20, Some ev) \<in> set (fq_resumed (ws_queue s)) \<and>
        Event_get_if BotOnlineEvent_class ev = Some example_bon \<and> example_filter example_bon = Inr True)"
proof -
  from example_call_returns obtain s where
    "call_run 5 BotOnlineEvent_class example_filter 20 False (Finished (Inr example_bon)) s" ..
  from next_event_outcome [OF this] show ?thesis by auto
qed

theorem next_event_answered_witness:
  "(\<exists>e s1 s2. Event_get_if BotOnlineEvent_class example_online = Some e \<and>
      perform (Arrive example_online) (waiting_system True) = Inr s1 \<and>
      perform (Run_post 20 (Some example_online)) s1 = Inr s2 \<and>
      advance (after_resume BotOnlineEvent_class 20) s2 = (Finished (Inr e), destroy_node 20 s2)) \<and>
   (\<exists>s1 s2. perform (Stop 20) (waiting_system True) = Inr s1 \<and> perform (Cancel_task 20) s1 = Inr s2 \<and>
      advance (after_resume BotOnlineEvent_class 20) s2 = (Finished (Inl Stopped), destroy_node 20 s2))"
proof -
  have "20 \<notin> set (ws_cancelled (waiting_system True))" by (simp add: waiting_system_def)
  with next_event_answered [OF example_call_waits waiting_system_queue, of example_online]
    waiting_system_match show ?thesis by fastforce
qed

end
