(* ===== verification/Playground.thy ===== *)
theory Playground
  imports Event_Actions Next_Event
begin

text \<open>
  The callback of \<open>examples/playground.cpp\<close>: a conversation with a friend over the
  bot's operations, its filter queue and a timer.
\<close>

section \<open>The callback\<close>

record 'w conversation =
  cv_bot :: "'w Bot"
  cv_waiters :: system

text \<open>Tasks of the bot among those that also wait for the filter queue.\<close>

type_synonym ('w, 'a) talk = "('w conversation, job + next_job, completion, 'a) task"

definition on_cv_bot :: "('w Bot, 'a) co \<Rightarrow> ('w, 'a) talk" where
  "on_cv_bot t = focusT cv_bot (\<lambda>b s. s\<lparr>cv_bot := b\<rparr>) (map_jobs Inl t)"

text \<open>A literal as a message.\<close>

definition text_message :: "string \<Rightarrow> Message" where
  "text_message text = Message_of_segments [SegPlain \<lparr>pl_text = text\<rparr>]"

definition stop_from :: "Friend \<Rightarrow> FriendMessageEvent \<Rightarrow> bool res" where
  "stop_from friend e =
     Inr (Friend_eq (fme_sender e) friend \<and> Message_eq_text (MessageEventBase_content e) ''stop'')"

definition own_bot :: "'w Bot \<Rightarrow> Event \<Rightarrow> unit res" where
  "own_bot b ev =
     bindE (Event_bot ev) (\<lambda>a. if a = b_addr b then Inr () else Inl Undefined_behaviour)"

text \<open>
  \<open>seconds\<close> is the number of ticks of the clock in a second, \<open>now\<close> the time
  at which it is asked to wait, \<open>node\<close> the address of the node of the wait.
\<close>

definition playground_test ::
  "'j deps \<Rightarrow> 'w net \<Rightarrow> (FriendMessageEvent next_task \<Rightarrow> ('w conversation, unit) co \<Rightarrow> ('w, FriendMessageEvent) talk) \<Rightarrow>
   nat \<Rightarrow> bool \<Rightarrow> nat \<Rightarrow> nat \<Rightarrow> Event \<Rightarrow> ('w, unit) talk" where
  "playground_test D N stop_when node stop now seconds ev =
     (case Event_get_if FriendMessageEvent_class ev of
        Some ptr \<Rightarrow>
          if Message_eq_text (MessageEventBase_content ptr) ''start'' then
            bindT (on_cv_bot (FriendMessageEvent_quote_reply_async D N ptr
                     (text_message ''ok, please send stop''))) (\<lambda>_.
            bindT (Local id (\<lambda>s. Finished (own_bot (cv_bot s) ev))) (\<lambda>_.
            bindT (Bot_next_event_async_for N stop_when FriendMessageEvent_class (stop_from (fme_sender ptr))
                     node stop now (5 * seconds)) (\<lambda>res.
            bindT (case res of
                Some e \<Rightarrow> on_cv_bot (FriendMessageEvent_quote_reply_async D N e (text_message ''ok''))
              | None \<Rightarrow> on_cv_bot (FriendMessageEvent_send_message_async D N ptr
                          (text_message ''y u so slow?'') None)) (\<lambda>_.
            Finished (Inl Stopped)))))
          else returnT ()
      | None \<Rightarrow> returnT ())"

section \<open>What it does\<close>

lemma playground_ignores:
  assumes "\<And>e. ev = Ev_friend_message e \<Longrightarrow> \<not> Message_eq_text (MessageEventBase_content e) ''start''"
  shows "playground_test D N stop_when node stop now seconds ev = returnT ()"
  using assms
  by (cases ev) (simp_all add: playground_test_def Event_get_if_def FriendMessageEvent_class_def)

text \<open>
  It never returns after a message \<open>start\<close>: it stops, which makes the event loop
  close the session, or one of its operations throws.
\<close>

lemma playground_stops:
  assumes "Message_eq_text (MessageEventBase_content e) ''start''"
  shows "fst (run_task d (playground_test D N stop_when node stop now seconds (Ev_friend_message e)) s) \<noteq> Inr ()"
  using assms
  by (auto simp: playground_test_def Event_get_if_def FriendMessageEvent_class_def run_bindT bindS_def
      split: prod.splits sum.splits)

end
